(* ===== verification/Prelude.thy ===== *)
theory Prelude
  imports Complex_Main "HOL-Library.State_Monad" "HOL-Library.Multiset"
begin

text \<open>
  Shared vocabulary of the development: machine integers at the width the Rust code gives them,
  the string operations of the standard library the code calls, decimal printing as \<^verbatim>\<open>format!\<close>
  does it, and the calculus of effects used for every handler.  Handlers are state transformers of
  \<^theory_text>\<open>HOL-Library.State_Monad\<close>; what a handler may change is stated with
  \<open>state_io_rel R m\<close> and proved rule by rule in the locale \<open>effect_order\<close>.
\<close>

named_theorems effect_intros \<open>introduction rules for effects of handlers\<close>

abbreviation return :: "'a \<Rightarrow> ('s, 'a) state" where
  "return \<equiv> State_Monad.return"

section \<open>Machine integers\<close>

text \<open>
  Rust's \<^verbatim>\<open>i64\<close> arithmetic wraps in release builds.  Values are kept as \<open>int\<close>; every
  arithmetic operation of the source on \<^verbatim>\<open>i64\<close> goes through \<open>wrap_i64\<close>.
\<close>

definition wrap_i64 :: "int \<Rightarrow> int" where
  "wrap_i64 x = (x + 2 ^ 63) mod 2 ^ 64 - 2 ^ 63"

definition wrap_u64 :: "int \<Rightarrow> int" where
  "wrap_u64 x = x mod 2 ^ 64"

definition in_i64 :: "int \<Rightarrow> bool" where
  "in_i64 x \<longleftrightarrow> - (2 ^ 63) \<le> x \<and> x < 2 ^ 63"

lemma in_i64_wrap [simp]: "in_i64 (wrap_i64 x)"
  using pos_mod_bound [of "2 ^ 64" "x + 2 ^ 63"] pos_mod_sign [of "2 ^ 64" "x + 2 ^ 63"]
  by (simp add: in_i64_def wrap_i64_def)

lemma wrap_i64_id [simp]: "in_i64 x \<Longrightarrow> wrap_i64 x = x"
  by (simp add: in_i64_def wrap_i64_def)

lemma wrap_i64_add: "wrap_i64 (wrap_i64 a + b) = wrap_i64 (a + b)"
proof -
  have "(a + 2 ^ 63) mod 2 ^ 64 - 2 ^ 63 + b + 2 ^ 63 = (a + 2 ^ 63) mod 2 ^ 64 + b" for a :: int
    by simp
  then show ?thesis
    by (simp only: wrap_i64_def mod_add_left_eq) (simp add: algebra_simps)
qed

lemma in_i64_small: "0 \<le> x \<Longrightarrow> x \<le> 9000000000000000000 \<Longrightarrow> in_i64 x"
  by (simp add: in_i64_def)

section \<open>Options and lists\<close>

definition unwrap_or :: "'a option \<Rightarrow> 'a \<Rightarrow> 'a" where
  "unwrap_or x d = (case x of None \<Rightarrow> d | Some v \<Rightarrow> v)"

lemma unwrap_or_simps [simp]: "unwrap_or None d = d" "unwrap_or (Some v) d = v"
  by (simp_all add: unwrap_or_def)

lemma find_None_set: "List.find P xs = None \<longleftrightarrow> (\<forall>x \<in> set xs. \<not> P x)"
  by (auto simp: find_None_iff)

lemma find_Some_in: "List.find P xs = Some x \<Longrightarrow> x \<in> set xs \<and> P x"
  by (auto simp: find_Some_iff)

lemma find_unique:
  assumes "distinct (map k xs)" and "x \<in> set xs"
  shows "List.find (\<lambda>y. k y = k x) xs = Some x"
  using assms
proof (induction xs)
  case Nil
  then show ?case by simp
next
  case (Cons y ys)
  then show ?case by (auto simp: rev_image_eqI)
qed

lemma find_append:
  "List.find P (xs @ ys) = (case List.find P xs of None \<Rightarrow> List.find P ys | Some x \<Rightarrow> Some x)"
  by (induction xs) auto

lemma find_map:
  "List.find P (map f xs) = map_option f (List.find (\<lambda>x. P (f x)) xs)"
  by (induction xs) auto

text \<open>Sums over the rows of a table.\<close>

lemma sum_list_update_key:
  fixes F :: "'a \<Rightarrow> 'b::ab_group_add"
  assumes "distinct (map pk rs)" and "r \<in> set rs"
  shows "(\<Sum>x\<leftarrow>rs. F (if pk x = pk r then g x else x)) = (\<Sum>x\<leftarrow>rs. F x) - F r + F (g r)"
  using assms
proof (induction rs)
  case Nil
  then show ?case by simp
next
  case (Cons y ys)
  show ?case
  proof (cases "y = r")
    case True
    have e: "map (\<lambda>x. F (if pk x = pk r then g x else x)) ys = map F ys"
      using Cons.prems True by (intro map_cong) (auto simp: rev_image_eqI)
    show ?thesis by (simp only: list.map sum_list.Cons e True) simp
  next
    case False
    then have "pk y \<noteq> pk r" using Cons.prems by (auto simp: rev_image_eqI)
    then show ?thesis using Cons False by (simp add: algebra_simps)
  qed
qed

lemma sum_list_update_absent:
  "(\<And>x. x \<in> set rs \<Longrightarrow> pk x \<noteq> k) \<Longrightarrow> (\<Sum>x\<leftarrow>rs. F (if pk x = k then g x else x)) = (\<Sum>x\<leftarrow>rs. F x)"
  by (intro arg_cong [where f = sum_list] map_cong) auto

text \<open>Stable insertion sort by an integer key, the contract of Rust's \<^verbatim>\<open>sort_by_key\<close>.\<close>

lemma sort_key_take_le:
  fixes f :: "'a \<Rightarrow> int"
  assumes "x \<in> set (take n (sort_key f xs))" and "y \<in> set (drop n (sort_key f xs))"
  shows "f x \<le> f y"
proof -
  have "sorted (map f (take n (sort_key f xs)) @ map f (drop n (sort_key f xs)))"
    by (metis append_take_drop_id map_append sorted_sort_key)
  then show ?thesis
    using assms by (auto simp: sorted_append)
qed

section \<open>Strings\<close>

text \<open>
  A \<^verbatim>\<open>String\<close> is its UTF-8 bytes.  \<^verbatim>\<open>trim\<close> removes the ASCII white space; the multi-byte
  white space characters of Unicode are kept.
\<close>

definition starts_with :: "string \<Rightarrow> string \<Rightarrow> bool" where
  "starts_with p s \<longleftrightarrow> take (length p) s = p"

definition is_space :: "char \<Rightarrow> bool" where
  "is_space c \<longleftrightarrow> (let n = of_char c :: nat in n = 32 \<or> (9 \<le> n \<and> n \<le> 13))"

definition trim :: "string \<Rightarrow> string" where
  "trim s = rev (dropWhile is_space (rev (dropWhile is_space s)))"

definition trim_end_slash :: "string \<Rightarrow> string" where
  "trim_end_slash s = rev (dropWhile (\<lambda>c. c = CHR ''/'') (rev s))"

definition trim_start_slash :: "string \<Rightarrow> string" where
  "trim_start_slash s = dropWhile (\<lambda>c. c = CHR ''/'') s"

text \<open>The text before the first occurrence of a character: \<^verbatim>\<open>s.split(c).next()\<close>.\<close>

definition split_first :: "char \<Rightarrow> string \<Rightarrow> string" where
  "split_first c s = takeWhile (\<lambda>d. d \<noteq> c) s"

definition to_ascii_lowercase :: "char \<Rightarrow> char" where
  "to_ascii_lowercase c =
     (let n = of_char c :: nat in if 65 \<le> n \<and> n \<le> 90 then char_of (n + 32) else c)"

definition eq_ignore_ascii_case :: "string \<Rightarrow> string \<Rightarrow> bool" where
  "eq_ignore_ascii_case a b \<longleftrightarrow> map to_ascii_lowercase a = map to_ascii_lowercase b"

text \<open>\<^verbatim>\<open>xs.join(sep)\<close>.\<close>

definition join :: "string \<Rightarrow> string list \<Rightarrow> string" where
  "join sep xs = (case xs of [] \<Rightarrow> '''' | y # ys \<Rightarrow> y @ concat (map (\<lambda>z. sep @ z) ys))"

lemma starts_with_append [simp]: "starts_with p (p @ s)"
  by (simp add: starts_with_def)

lemma starts_with_drop: "starts_with p s \<Longrightarrow> s = p @ drop (length p) s"
  by (metis append_take_drop_id starts_with_def)

lemma trim_end_slash_no_slash:
  "trim_end_slash s \<noteq> [] \<Longrightarrow> last (trim_end_slash s) \<noteq> CHR ''/''"
  unfolding trim_end_slash_def
  by (metis (mono_tags, lifting) hd_dropWhile last_rev rev_is_Nil_conv)

text \<open>Decimal printing of integers, as \<^verbatim>\<open>format!("{}", n)\<close>.\<close>

definition digit_char :: "nat \<Rightarrow> char" where
  "digit_char d = char_of (48 + d)"

fun show_nat :: "nat \<Rightarrow> string" where
  "show_nat n = (if n < 10 then [digit_char n] else show_nat (n div 10) @ [digit_char (n mod 10)])"

declare show_nat.simps [simp del]

definition show_int :: "int \<Rightarrow> string" where
  "show_int i = (if i < 0 then ''-'' @ show_nat (nat (- i)) else show_nat (nat i))"

definition parse_digits :: "string \<Rightarrow> nat" where
  "parse_digits s = foldl (\<lambda>n c. 10 * n + (of_char c - 48)) 0 s"

lemma of_char_digit_char: "d < 10 \<Longrightarrow> (of_char (digit_char d) :: nat) = 48 + d"
  by (simp add: digit_char_def of_char_of)

lemma parse_show_nat: "parse_digits (show_nat n) = n"
proof (induction n rule: show_nat.induct)
  case (1 n)
  show ?case
  proof (cases "n < 10")
    case True
    then show ?thesis
      by (simp add: show_nat.simps [of n] parse_digits_def of_char_digit_char)
  next
    case False
    then have "parse_digits (show_nat n) = 10 * parse_digits (show_nat (n div 10)) + n mod 10"
      by (simp add: show_nat.simps [of n] parse_digits_def of_char_digit_char)
    with 1 [OF False] show ?thesis by simp
  qed
qed

text \<open>\<^verbatim>\<open>s.parse::<i64>()\<close>: an optional sign, digits, in range.\<close>

definition is_digit :: "char \<Rightarrow> bool" where
  "is_digit c \<longleftrightarrow> (let n = of_char c :: nat in 48 \<le> n \<and> n \<le> 57)"

definition sign_of :: "string \<Rightarrow> bool \<times> string" where
  "sign_of s =
     (case s of
        [] \<Rightarrow> (False, [])
      | c # cs \<Rightarrow> if c = CHR ''-'' then (True, cs) else if c = CHR ''+'' then (False, cs) else (False, s))"

definition parse_i64 :: "string \<Rightarrow> int option" where
  "parse_i64 s =
     (case sign_of s of (neg, ds) \<Rightarrow>
        if ds = [] \<or> \<not> list_all is_digit ds then None
        else
          let i = (if neg then - int (parse_digits ds) else int (parse_digits ds)) in
          if in_i64 i then Some i else None)"

text \<open>Whether \<^verbatim>\<open>s.parse::<f64>()\<close> accepts: a number in decimal or scientific
  notation, an infinity, or not a number.\<close>

definition is_exponent :: "string \<Rightarrow> bool" where
  "is_exponent s \<longleftrightarrow>
     (case s of
        [] \<Rightarrow> True
      | c # cs \<Rightarrow> (c = CHR ''e'' \<or> c = CHR ''E'') \<and> snd (sign_of cs) \<noteq> [] \<and>
          list_all is_digit (snd (sign_of cs)))"

definition is_float_number :: "string \<Rightarrow> bool" where
  "is_float_number s \<longleftrightarrow>
     (let whole = takeWhile is_digit s; rest = dropWhile is_digit s in
      case rest of
        [] \<Rightarrow> whole \<noteq> []
      | c # cs \<Rightarrow>
          if c = CHR ''.'' then
            (whole \<noteq> [] \<or> takeWhile is_digit cs \<noteq> []) \<and> is_exponent (dropWhile is_digit cs)
          else whole \<noteq> [] \<and> is_exponent rest)"

definition parses_as_f64 :: "string \<Rightarrow> bool" where
  "parses_as_f64 s \<longleftrightarrow>
     (let t = snd (sign_of s) in
      is_float_number t \<or>
      list_ex (eq_ignore_ascii_case t) [''inf'', ''infinity'', ''nan''])"

lemma show_nat_all_digits: "list_all is_digit (show_nat n) \<and> show_nat n \<noteq> []"
proof (induction n rule: show_nat.induct)
  case (1 n)
  have "is_digit (digit_char d)" if "d < 10" for d
    using that by (simp add: is_digit_def of_char_digit_char)
  with 1 show ?case
    by (cases "n < 10") (simp_all add: show_nat.simps [of n])
qed

lemma sign_of_digits:
  assumes "list_all is_digit ds" and "ds \<noteq> []"
  shows "sign_of ds = (False, ds)"
  using assms by (cases ds) (auto simp: sign_of_def is_digit_def)

lemma parse_show_int [simp]: "in_i64 i \<Longrightarrow> parse_i64 (show_int i) = Some i"
proof -
  assume i: "in_i64 i"
  have "sign_of (show_int i) = (i < 0, show_nat (nat \<bar>i\<bar>))"
    using sign_of_digits [of "show_nat (nat i)"] show_nat_all_digits
    by (auto simp: show_int_def) (simp add: sign_of_def)
  then show ?thesis
    using i show_nat_all_digits by (auto simp: parse_i64_def parse_show_nat)
qed

lemma show_nat_inject [simp]: "show_nat m = show_nat n \<longleftrightarrow> m = n"
  by (metis parse_show_nat)

lemma show_nat_digits: "c \<in> set (show_nat n) \<Longrightarrow> \<exists>d < 10. c = digit_char d"
proof (induction n rule: show_nat.induct)
  case (1 n)
  show ?case
  proof (cases "n < 10")
    case True
    with "1.prems" show ?thesis by (auto simp: show_nat.simps [of n])
  next
    case False
    with "1.prems" consider "c \<in> set (show_nat (n div 10))" | "c = digit_char (n mod 10)"
      by (auto simp: show_nat.simps [of n])
    then show ?thesis
    proof cases
      case 1
      then show ?thesis by (rule "1.IH" [OF False])
    next
      case 2
      then show ?thesis by (intro exI [of _ "n mod 10"]) simp
    qed
  qed
qed

lemma digit_char_not [simp]:
  assumes "d < 10"
  shows "digit_char d \<noteq> CHR ''-''" and "digit_char d \<noteq> CHR '':''"
proof -
  have "(of_char (digit_char d) :: nat) = 48 + d" by (rule of_char_digit_char [OF assms])
  moreover have "(of_char CHR ''-'' :: nat) = 45" and "(of_char CHR '':'' :: nat) = 58" by simp_all
  ultimately show "digit_char d \<noteq> CHR ''-''" and "digit_char d \<noteq> CHR '':''"
    using assms by force+
qed

lemma show_nat_no_dash: "show_nat n \<noteq> CHR ''-'' # s"
proof
  assume "show_nat n = CHR ''-'' # s"
  then have "CHR ''-'' \<in> set (show_nat n)" by simp
  then obtain d where "d < 10" and "CHR ''-'' = digit_char d"
    using show_nat_digits by blast
  then show False using digit_char_not(1) [of d] by simp
qed

lemma show_int_inject [simp]: "show_int i = show_int j \<longleftrightarrow> i = j"
proof -
  have "show_int i = show_int j \<Longrightarrow> i = j"
    by (auto simp: show_int_def show_nat_no_dash show_nat_no_dash [symmetric] split: if_splits)
  then show ?thesis by auto
qed

lemma show_nat_no_colon: "CHR '':'' \<notin> set (show_nat n)"
proof
  assume "CHR '':'' \<in> set (show_nat n)"
  then obtain d where "d < 10" and "CHR '':'' = digit_char d"
    using show_nat_digits by blast
  then show False using digit_char_not(2) [of d] by simp
qed

lemma show_int_no_colon: "CHR '':'' \<notin> set (show_int i)"
  using show_nat_no_colon by (simp add: show_int_def)

section \<open>Effects of handlers\<close>

text \<open>
  \<open>state_io_rel R m\<close> says that whatever state \<open>m\<close> starts in, the state it ends in is related to
  it by \<open>R\<close>.  For a reflexive and transitive \<open>R\<close> it is compositional; the rules below are the
  calculus every frame property and every invariant of a handler is proved with.
\<close>

locale effect_order =
  fixes R :: "'s \<Rightarrow> 's \<Rightarrow> bool"
  assumes R_refl: "R s s"
    and R_trans: "R s t \<Longrightarrow> R t u \<Longrightarrow> R s u"
begin

lemma eff_return: "state_io_rel R (return x)"
  by (auto simp: state_io_rel_def R_refl)

lemma eff_get: "state_io_rel R State_Monad.get"
  by (auto simp: state_io_rel_def R_refl)

lemma eff_bind:
  assumes "state_io_rel R m" and "\<And>x. state_io_rel R (f x)"
  shows "state_io_rel R (State_Monad.bind m f)"
  using assms by (auto simp: state_io_rel_def split: prod.splits) (metis R_trans snd_conv)

lemma eff_if:
  "(b \<Longrightarrow> state_io_rel R m) \<Longrightarrow> (\<not> b \<Longrightarrow> state_io_rel R n) \<Longrightarrow> state_io_rel R (if b then m else n)"
  by simp

lemma eff_case_option:
  "(x = None \<Longrightarrow> state_io_rel R m) \<Longrightarrow> (\<And>v. x = Some v \<Longrightarrow> state_io_rel R (f v)) \<Longrightarrow>
   state_io_rel R (case x of None \<Rightarrow> m | Some v \<Rightarrow> f v)"
  by (cases x) auto

lemma eff_case_sum:
  "(\<And>e. x = Inl e \<Longrightarrow> state_io_rel R (g e)) \<Longrightarrow> (\<And>v. x = Inr v \<Longrightarrow> state_io_rel R (f v)) \<Longrightarrow>
   state_io_rel R (case x of Inl e \<Rightarrow> g e | Inr v \<Rightarrow> f v)"
  by (cases x) auto

lemma eff_case_prod:
  "(\<And>a b. x = (a, b) \<Longrightarrow> state_io_rel R (f a b)) \<Longrightarrow> state_io_rel R (case x of (a, b) \<Rightarrow> f a b)"
  by (cases x) auto

lemma eff_let: "state_io_rel R (f x) \<Longrightarrow> state_io_rel R (Let x f)"
  by simp

lemma eff_run: "state_io_rel R m \<Longrightarrow> run_state m s = (a, t) \<Longrightarrow> R s t"
  by (auto simp: state_io_rel_def) (metis snd_conv)

lemmas eff_rules = eff_return eff_get eff_bind eff_if eff_case_option eff_case_sum eff_case_prod
  eff_let

end

text \<open>An invariant is the effect order \<open>P s \<longrightarrow> P t\<close>; keeping a projection of the state is the
  effect order \<open>f s = f t\<close>.\<close>

interpretation keeps: effect_order "\<lambda>s t. P s \<longrightarrow> P t" for P :: "'s \<Rightarrow> bool"
  by unfold_locales auto

interpretation frames: effect_order "\<lambda>s t. f t = f s" for f :: "'s \<Rightarrow> 'b"
  by unfold_locales auto

section \<open>Weakest preconditions\<close>

text \<open>
  \<open>wp m Q s\<close>: run from \<open>s\<close>, the handler \<open>m\<close> ends with a result and a state that satisfy
  \<open>Q\<close>.  Every handler returns, so this is total correctness.  The equations push \<open>wp\<close> through the
  monad; the components add introduction rules for their calls to \<open>wp_intros\<close>.
\<close>

named_theorems wp_intros \<open>introduction rules for the calls of a handler\<close>

definition wp :: "('s, 'a) state \<Rightarrow> ('a \<Rightarrow> 's \<Rightarrow> bool) \<Rightarrow> 's \<Rightarrow> bool" where
  "wp m Q s = (case run_state m s of (a, t) \<Rightarrow> Q a t)"

lemma wp_return [simp]: "wp (return x) Q = Q x"
  by (rule ext) (simp add: wp_def State_Monad.return_def)

lemma wp_bind [simp]: "wp (State_Monad.bind m f) Q = wp m (\<lambda>x. wp (f x) Q)"
  by (rule ext) (simp add: wp_def State_Monad.bind_def split: prod.splits)

lemma wp_get [simp]: "wp State_Monad.get Q = (\<lambda>s. Q s s)"
  by (rule ext) (simp add: wp_def State_Monad.get_def)

lemma wp_set [simp]: "wp (State_Monad.set t) Q = (\<lambda>_. Q () t)"
  by (rule ext) (simp add: wp_def State_Monad.set_def)

lemma wp_update [simp]: "wp (State_Monad.update f) Q = (\<lambda>s. Q () (f s))"
  by (rule ext) (simp add: wp_def State_Monad.update_def)

lemma wp_mono: "wp m Q s \<Longrightarrow> (\<And>a t. Q a t \<Longrightarrow> Q' a t) \<Longrightarrow> wp m Q' s"
  by (auto simp: wp_def split: prod.splits)

lemma wp_conj: "wp m Q s \<Longrightarrow> wp m Q' s \<Longrightarrow> wp m (\<lambda>a t. Q a t \<and> Q' a t) s"
  by (auto simp: wp_def split: prod.splits)

lemma wp_run: "wp m Q s \<Longrightarrow> run_state m s = (a, t) \<Longrightarrow> Q a t"
  by (simp add: wp_def)

lemma wp_run_state: "wp m Q s \<longleftrightarrow> Q (fst (run_state m s)) (snd (run_state m s))"
  by (simp add: wp_def split: prod.splits)

lemma wp_exact: "(\<And>Q. wp m Q s = Q a t) \<Longrightarrow> run_state m s = (a, t)"
  using wp_run_state [of m "\<lambda>x y. x = a \<and> y = t" s] by (simp add: prod_eq_iff)

lemma wp_eff: "state_io_rel R m \<longleftrightarrow> (\<forall>s. wp m (\<lambda>_. R s) s)"
  by (simp add: state_io_rel_def wp_run_state)

lemma wp_if [wp_intros]:
  "(b \<Longrightarrow> wp m Q s) \<Longrightarrow> (\<not> b \<Longrightarrow> wp n Q s) \<Longrightarrow> wp (if b then m else n) Q s"
  by simp

lemma wp_case_option [wp_intros]:
  "(x = None \<Longrightarrow> wp m Q s) \<Longrightarrow> (\<And>v. x = Some v \<Longrightarrow> wp (f v) Q s) \<Longrightarrow>
   wp (case x of None \<Rightarrow> m | Some v \<Rightarrow> f v) Q s"
  by (cases x) auto

lemma wp_case_sum [wp_intros]:
  "(\<And>e. x = Inl e \<Longrightarrow> wp (g e) Q s) \<Longrightarrow> (\<And>v. x = Inr v \<Longrightarrow> wp (f v) Q s) \<Longrightarrow>
   wp (case x of Inl e \<Rightarrow> g e | Inr v \<Rightarrow> f v) Q s"
  by (cases x) auto

lemma wp_case_prod [wp_intros]:
  "(\<And>a b. x = (a, b) \<Longrightarrow> wp (f a b) Q s) \<Longrightarrow> wp (case x of (a, b) \<Rightarrow> f a b) Q s"
  by (cases x) auto

end
