(* ===== verification/Models.thy ===== *)
theory Models
  imports Prelude
begin

text \<open>
  The data of the program, record by record and field by field as \<^verbatim>\<open>models/*.rs\<close>,
  \<^verbatim>\<open>db/{files,responses,batches}.rs\<close> declare them.  Field names carry a prefix per record because record fields
  share one name space.  Times (\<^verbatim>\<open>NaiveDateTime\<close>) are microseconds; \<^verbatim>\<open>BigDecimal\<close>, an exact
  decimal number, is a rational.
\<close>

type_synonym decimal = rat
type_synonym timestamp = int

section \<open>JSON values\<close>

text \<open>
  \<^verbatim>\<open>serde_json::Value\<close>.  \<open>JDec\<close> is a decimal number as the \<^verbatim>\<open>bigdecimal\<close> crate
  serialises it.
\<close>

datatype json =
    JNull
  | JBool bool
  | JInt int
  | JDec decimal
  | JStr string
  | JArr "json list"
  | JObj "(string \<times> json) list"

fun json_get :: "json \<Rightarrow> string \<Rightarrow> json option" where
  "json_get (JObj kvs) k = map_of kvs k"
| "json_get _ k = None"

fun as_str :: "json \<Rightarrow> string option" where
  "as_str (JStr s) = Some s"
| "as_str _ = None"

fun as_int :: "json \<Rightarrow> int option" where
  "as_int (JInt i) = Some i"
| "as_int _ = None"

fun as_dec :: "json \<Rightarrow> decimal option" where
  "as_dec (JDec d) = Some d"
| "as_dec _ = None"

text \<open>\<^verbatim>\<open>obj.insert(k, v)\<close> on a JSON object; other values are left alone, as in
  \<^verbatim>\<open>if let Some(obj) = value.as_object_mut()\<close>.\<close>

fun json_set :: "string \<Rightarrow> json \<Rightarrow> json \<Rightarrow> json" where
  "json_set k v (JObj kvs) = JObj ((k, v) # filter (\<lambda>(k', _). k' \<noteq> k) kvs)"
| "json_set k v j = j"

lemma json_get_set [simp]:
  "json_get (json_set k v (JObj kvs)) k' = (if k' = k then Some v else json_get (JObj kvs) k')"
  by (induction kvs) auto

section \<open>Accounts and API credentials\<close>

record account =
  acc_id :: int
  acc_name :: string
  acc_is_active :: bool
  acc_created_at :: timestamp
  acc_updated_at :: timestamp

record new_account =
  na_name :: string

record update_account =
  ua_name :: "string option"
  ua_is_active :: "bool option"

record api_credential =
  cred_id :: int
  cred_account_id :: "int option"
  cred_encrypted_api_key :: string
  cred_ellipsed_api_key :: string
  cred_api_key_hash :: string
  cred_apikey :: string
  cred_label :: string
  cred_is_active :: bool
  cred_expires_at :: "timestamp option"
  cred_created_at :: timestamp
  cred_updated_at :: timestamp

record new_api_credential =
  nc_account_id :: "int option"
  nc_apikey :: string
  nc_label :: string
  nc_expires_at :: "timestamp option"

section \<open>Upstreams and models\<close>

definition VALID_PROVIDERS :: "string list" where
  "VALID_PROVIDERS = [''openai'', ''azure'', ''cohere'', ''anthropic'', ''vllm'', ''ollama'']"

record llm_upstream =
  up_id :: int
  up_name :: string
  up_api_base :: string
  up_encrypted_api_key :: string
  up_ellipsed_api_key :: string
  up_api_key :: string
  up_provider :: string
  up_tags :: "string list"
  up_proxies :: "string list"
  up_status :: string
  up_description :: string
  up_created_at :: timestamp
  up_updated_at :: timestamp

record new_llm_upstream =
  nu_name :: string
  nu_api_base :: string
  nu_api_key :: string
  nu_provider :: string
  nu_tags :: "string list"
  nu_proxies :: "string list"
  nu_status :: string
  nu_description :: string

record llm_model =
  mdl_id :: int
  mdl_upstream_id :: int
  mdl_fullname :: string
  mdl_cname :: string
  mdl_is_active :: bool
  mdl_features :: "string list"
  mdl_max_tokens :: int
  mdl_input_token_price :: decimal
  mdl_output_token_price :: decimal
  mdl_batch_input_token_price :: decimal
  mdl_batch_output_token_price :: decimal
  mdl_description :: string
  mdl_created_at :: timestamp
  mdl_updated_at :: timestamp

record new_llm_model =
  nm_upstream_id :: int
  nm_fullname :: string
  nm_features :: "string list"
  nm_max_tokens :: int
  nm_input_token_price :: decimal
  nm_output_token_price :: decimal
  nm_batch_input_token_price :: decimal
  nm_batch_output_token_price :: decimal

record update_llm_model =
  um_fullname :: "string option"
  um_is_active :: "bool option"
  um_features :: "string list option"
  um_max_tokens :: "int option"
  um_input_token_price :: "decimal option"
  um_output_token_price :: "decimal option"
  um_batch_input_token_price :: "decimal option"
  um_batch_output_token_price :: "decimal option"
  um_description :: "string option"
  um_updated_at :: "timestamp option"

record update_llm_upstream =
  uu_name :: "string option"
  uu_api_base :: "string option"
  uu_api_key :: "string option"
  uu_provider :: "string option"
  uu_tags :: "string list option"
  uu_proxies :: "string list option"
  uu_status :: "string option"
  uu_description :: "string option"
  uu_updated_at :: "timestamp option"

section \<open>Session events, wallets, balance changes\<close>

record session_event =
  se_id :: int
  se_session_id :: string
  se_session_index :: int
  se_account_id :: int
  se_model_id :: int
  se_api_key_id :: int
  se_input_token_price :: decimal
  se_input_tokens :: int
  se_output_token_price :: decimal
  se_output_tokens :: int
  se_event_data :: json
  se_created_at :: timestamp

record new_session_event =
  nse_session_id :: string
  nse_session_index :: int
  nse_account_id :: int
  nse_model_id :: int
  nse_api_key_id :: int
  nse_input_token_price :: decimal
  nse_input_tokens :: int
  nse_output_token_price :: decimal
  nse_output_tokens :: int
  nse_event_data :: json

record wallet =
  wal_id :: int
  wal_account_id :: int
  wal_balance :: decimal
  wal_created_at :: timestamp
  wal_updated_at :: timestamp

record new_wallet =
  nw_account_id :: int
  nw_balance :: decimal

record update_wallet =
  uw_balance :: "decimal option"
  uw_updated_at :: "timestamp option"

record spend_token =
  st_input_tokens :: int
  st_input_token_price :: decimal
  st_input_spend_amount :: decimal
  st_output_tokens :: int
  st_output_token_price :: decimal
  st_output_spend_amount :: decimal
  st_total_tokens :: int
  st_event_id :: int

datatype balance_change_content =
    SpendToken spend_token
  | Deposit decimal
  | Withdraw decimal
  | AddCredit decimal

record balance_change =
  bc_id :: int
  bc_account_id :: int
  bc_unique_request_id :: string
  bc_content :: json
  bc_is_applied :: bool
  bc_subscription_id :: int
  bc_created_at :: timestamp

record new_balance_change =
  nbc_account_id :: int
  nbc_unique_request_id :: string
  nbc_content :: json

section \<open>Subscriptions\<close>

record subscription_plan =
  plan_id :: int
  plan_status :: string
  plan_description :: string
  plan_total_token_limit :: int
  plan_time_span :: int
  plan_money_limit :: decimal
  plan_sort_order :: int
  plan_created_at :: timestamp
  plan_updated_at :: timestamp

record subscription =
  sub_id :: int
  sub_account_id :: int
  sub_plan_id :: int
  sub_status :: string
  sub_start_at :: "timestamp option"
  sub_end_at :: "timestamp option"
  sub_used_total_tokens :: int
  sub_total_token_limit :: int
  sub_sort_order :: int
  sub_used_money :: decimal
  sub_created_at :: timestamp
  sub_updated_at :: timestamp

section \<open>Identifier mappings of files, responses and batches\<close>

record file_meta =
  fm_id :: int
  fm_file_id :: string
  fm_original_file_id :: string
  fm_purpose :: string
  fm_upstream_id :: int
  fm_deleted :: bool
  fm_created_at :: timestamp
  fm_updated_at :: timestamp

record response_meta =
  rm_id :: int
  rm_response_id :: string
  rm_original_response_id :: string
  rm_upstream_id :: int
  rm_deleted :: bool
  rm_created_at :: timestamp

record batch_meta =
  bm_id :: int
  bm_batch_id :: string
  bm_original_batch_id :: string
  bm_upstream_id :: int
  bm_status :: string
  bm_provider :: string
  bm_created_at :: timestamp

end
