(* ===== verification/Events.thy ===== *)
theory Events
  imports Models
begin

text \<open>
  The messages of the deferred task queues (\<^verbatim>\<open>defer/mod.rs\<close>) and the request and response
  types the proxies handle.  Types of the \<^verbatim>\<open>async_openai\<close> and \<^verbatim>\<open>anthropic_sdk\<close> crates are
  records of the fields this program reads or replaces; the rest of such a value is an opaque
  \<open>json\<close> component.  The types of \<^verbatim>\<open>anthropic/proxy_views/client.rs\<close> are the program's own and
  are complete.
\<close>

section \<open>OpenAI payloads\<close>

record chat_request =
  ccr_model :: string
  ccr_stream :: "bool option"
  ccr_rest :: json

record completion_usage =
  cu_prompt_tokens :: int
  cu_completion_tokens :: int
  cu_total_tokens :: int

text \<open>A whole chat completion and one chunk of a streamed one carry usage the same way.\<close>

record chat_response =
  chat_usage :: "completion_usage option"
  chat_rest :: json

record embedding_request =
  emr_model :: string
  emr_rest :: json

record embedding_usage =
  eu_prompt_tokens :: int
  eu_total_tokens :: int

record embedding_response =
  emb_usage :: embedding_usage
  emb_rest :: json

text \<open>Usage as the image, batch and responses APIs report it.\<close>

record io_usage =
  iu_input_tokens :: int
  iu_output_tokens :: int
  iu_total_tokens :: int

datatype image_model =
  GptImage1 | GptImage1dot5 | GptImage1Mini | DallE2 | DallE3 | OtherImageModel string

record image_request =
  imr_model :: "image_model option"
  imr_rest :: json

record images_response =
  img_usage :: "io_usage option"
  img_rest :: json

record batch_request =
  br_input_file_id :: string
  br_rest :: json

record batch =
  bat_id :: string
  bat_status :: string
  bat_output_file_id :: "string option"
  bat_usage :: "io_usage option"
  bat_rest :: json

record create_response =
  crq_model :: "string option"
  crq_previous_response_id :: "string option"
  crq_rest :: json

record response =
  rsp_id :: string
  rsp_previous_response_id :: "string option"
  rsp_usage :: "io_usage option"
  rsp_rest :: json

datatype openai_event_data =
    CreateChatCompletionRequest chat_request
  | CreateChatCompletionStreamResponse chat_response
  | CreateChatCompletionResponse chat_response
  | CreateChatCompletionStreamResponseDone
  | CreateImageRequest image_request
  | ImagesResponse images_response
  | CreateEmbeddingRequest embedding_request
  | CreateEmbeddingResponse embedding_response
  | BatchRequest batch_request
  | Batch batch
  | ResponsesRequest create_response
  | ResponsesResponse response
  | ResponsesStreamDone

record openai_event_task =
  oet_session_id :: string
  oet_session_index :: int
  oet_account_id :: int
  oet_model_id :: int
  oet_api_key_id :: int
  oet_event_data :: openai_event_data

section \<open>Anthropic payloads\<close>

datatype content_block = Text string | Block json

record message_param =
  mp_role :: string
  mp_content :: content_block

record usage =
  us_input_tokens :: int
  us_output_tokens :: int
  us_cache_creation_input_tokens :: "int option"
  us_cache_read_input_tokens :: "int option"

text \<open>The sampling parameters are \<^verbatim>\<open>f32\<close> values the program only copies.\<close>

record create_message_params =
  cmp_model :: string
  cmp_messages :: "message_param list"
  cmp_max_tokens :: int
  cmp_system :: "json option"
  cmp_stream :: "bool option"
  cmp_temperature :: "decimal option"
  cmp_top_p :: "decimal option"
  cmp_top_k :: "int option"
  cmp_stop_sequences :: "string list option"
  cmp_tools :: "json option"
  cmp_tool_choice :: "json option"
  cmp_metadata :: "json option"

record message =
  msg_id :: string
  msg_type :: string
  msg_role :: string
  msg_content :: "json list"
  msg_model :: string
  msg_stop_reason :: "string option"
  msg_stop_sequence :: "string option"
  msg_usage :: usage

record batch_request_item =
  bri_custom_id :: string
  bri_params :: create_message_params

record create_message_batch_params =
  cmb_requests :: "batch_request_item list"

record batch_request_counts =
  brc_processing :: int
  brc_succeeded :: int
  brc_errored :: int
  brc_canceled :: int
  brc_expired :: int

record message_batch =
  mb_id :: string
  mb_type :: string
  mb_processing_status :: string
  mb_request_counts :: batch_request_counts
  mb_ended_at :: "string option"
  mb_created_at :: string
  mb_expires_at :: string
  mb_cancel_initiated_at :: "string option"
  mb_results_url :: "string option"

datatype anthropic_event_data =
    CreateMessageRequest create_message_params
  | CreateMessageResponse message
  | CreateMessageStreamRequest create_message_params
  | CreateMessageStreamResponseDone int int
  | CreateMessageBatchRequest create_message_batch_params
  | CreateMessageBatchResponse message_batch

record anthropic_event_task =
  aet_session_id :: string
  aet_session_index :: int
  aet_account_id :: int
  aet_model_id :: int
  aet_api_key_id :: int
  aet_event_data :: anthropic_event_data

record balance_change_task =
  bct_balance_change_id :: int

section \<open>Usage carried by an event\<close>

text \<open>
  \<^verbatim>\<open>UsageInfo\<close> and \<^verbatim>\<open>extract_usage\<close> of the two event handlers.  Token counts of
  OpenAI payloads are \<^verbatim>\<open>u32\<close>, so the casts to \<^verbatim>\<open>i64\<close> are exact; those of Anthropic are
  \<^verbatim>\<open>u64\<close>: the sum and the casts wrap.
\<close>

record usage_info =
  ui_input_tokens :: int
  ui_output_tokens :: int
  ui_total_tokens :: int
  ui_is_batch :: bool

definition chat_usage_info :: "completion_usage \<Rightarrow> usage_info" where
  "chat_usage_info u =
     \<lparr>ui_input_tokens = cu_prompt_tokens u, ui_output_tokens = cu_completion_tokens u,
      ui_total_tokens = cu_total_tokens u, ui_is_batch = False\<rparr>"

definition io_usage_info :: "bool \<Rightarrow> io_usage \<Rightarrow> usage_info" where
  "io_usage_info is_batch u =
     \<lparr>ui_input_tokens = iu_input_tokens u, ui_output_tokens = iu_output_tokens u,
      ui_total_tokens = iu_total_tokens u, ui_is_batch = is_batch\<rparr>"

fun extract_openai_usage :: "openai_event_data \<Rightarrow> usage_info option" where
  "extract_openai_usage (CreateChatCompletionResponse resp) =
     map_option chat_usage_info (chat_usage resp)"
| "extract_openai_usage (CreateChatCompletionStreamResponse resp) =
     map_option chat_usage_info (chat_usage resp)"
| "extract_openai_usage (CreateEmbeddingResponse resp) =
     Some \<lparr>ui_input_tokens = eu_prompt_tokens (emb_usage resp), ui_output_tokens = 0,
           ui_total_tokens = eu_total_tokens (emb_usage resp), ui_is_batch = False\<rparr>"
| "extract_openai_usage (ImagesResponse resp) = map_option (io_usage_info False) (img_usage resp)"
| "extract_openai_usage (Batch b) = map_option (io_usage_info True) (bat_usage b)"
| "extract_openai_usage (ResponsesResponse resp) =
     map_option (io_usage_info False) (rsp_usage resp)"
| "extract_openai_usage _ = None"

definition u64_usage_info :: "int \<Rightarrow> int \<Rightarrow> usage_info" where
  "u64_usage_info i out =
     \<lparr>ui_input_tokens = wrap_i64 i, ui_output_tokens = wrap_i64 out,
      ui_total_tokens = wrap_i64 (wrap_u64 (i + out)), ui_is_batch = False\<rparr>"

fun extract_anthropic_usage :: "anthropic_event_data \<Rightarrow> usage_info option" where
  "extract_anthropic_usage (CreateMessageResponse msg) =
     Some (u64_usage_info (us_input_tokens (msg_usage msg)) (us_output_tokens (msg_usage msg)))"
| "extract_anthropic_usage (CreateMessageStreamResponseDone i out) = Some (u64_usage_info i out)"
| "extract_anthropic_usage (CreateMessageBatchResponse b) = None"
| "extract_anthropic_usage _ = None"

lemma extract_anthropic_usage_not_batch:
  "extract_anthropic_usage d = Some u \<Longrightarrow> \<not> ui_is_batch u"
  by (cases d) (auto simp: u64_usage_info_def)

lemma u64_usage_info_exact:
  assumes "0 \<le> i" and "0 \<le> out" and "in_i64 (i + out)"
  shows "ui_input_tokens (u64_usage_info i out) = i"
    and "ui_output_tokens (u64_usage_info i out) = out"
    and "ui_total_tokens (u64_usage_info i out) = i + out"
  using assms by (simp_all add: u64_usage_info_def wrap_u64_def in_i64_def wrap_i64_def)

end
