(* ===== verification/World.thy ===== *)
theory World
  imports Events
begin

text \<open>
  The database: a PostgreSQL table is the list of its rows, in the order a query without
  \<^verbatim>\<open>ORDER BY\<close> returns them, with the last value of its \<^verbatim>\<open>BIGSERIAL\<close> sequence.
  Columns, uniqueness and foreign keys are those of \<^verbatim>\<open>migrations/\<close>.
\<close>

section \<open>Tables\<close>

record 'r table =
  t_rows :: "'r list"
  t_seq :: int

definition insert_row :: "(int \<Rightarrow> 'r) \<Rightarrow> 'r table \<Rightarrow> 'r \<times> 'r table" where
  "insert_row mk t =
     (let i = t_seq t + 1; r = mk i in (r, t\<lparr>t_rows := t_rows t @ [r], t_seq := i\<rparr>))"

definition select_rows :: "('r \<Rightarrow> bool) \<Rightarrow> 'r table \<Rightarrow> 'r list" where
  "select_rows P t = filter P (t_rows t)"

text \<open>\<^verbatim>\<open>UPDATE ... WHERE P RETURNING *\<close>: the new versions of the rows that matched.\<close>

definition update_rows :: "('r \<Rightarrow> bool) \<Rightarrow> ('r \<Rightarrow> 'r) \<Rightarrow> 'r table \<Rightarrow> 'r list \<times> 'r table" where
  "update_rows P f t =
     (map f (filter P (t_rows t)), t\<lparr>t_rows := map (\<lambda>r. if P r then f r else r) (t_rows t)\<rparr>)"

definition delete_rows :: "('r \<Rightarrow> bool) \<Rightarrow> 'r table \<Rightarrow> int \<times> 'r table" where
  "delete_rows P t =
     (int (length (filter P (t_rows t))), t\<lparr>t_rows := filter (\<lambda>r. \<not> P r) (t_rows t)\<rparr>)"

text \<open>\<^verbatim>\<open>ORDER BY key ... LIMIT limit OFFSET offset\<close>; a negative limit or offset is an error of
  PostgreSQL, which the callers below turn into a database error.\<close>

definition limit_offset :: "int \<Rightarrow> int \<Rightarrow> 'r list \<Rightarrow> 'r list" where
  "limit_offset limit offset rs = take (nat limit) (drop (nat offset) rs)"

text \<open>What every table keeps: distinct identifiers, none above the sequence.\<close>

definition ids_ok :: "('r \<Rightarrow> int) \<Rightarrow> 'r table \<Rightarrow> bool" where
  "ids_ok pk t \<longleftrightarrow> distinct (map pk (t_rows t)) \<and> (\<forall>r \<in> set (t_rows t). pk r \<le> t_seq t)"

lemma ids_ok_insert:
  assumes "ids_ok pk t" and "\<And>i. pk (mk i) = i"
  shows "ids_ok pk (snd (insert_row mk t))"
  using assms by (force simp: ids_ok_def insert_row_def Let_def)

lemma ids_ok_update:
  assumes "ids_ok pk t" and "\<And>r. pk (f r) = pk r"
  shows "ids_ok pk (snd (update_rows P f t))"
proof -
  have "map pk (map (\<lambda>r. if P r then f r else r) (t_rows t)) = map pk (t_rows t)"
    using assms(2) by simp
  then show ?thesis using assms by (auto simp: ids_ok_def update_rows_def simp del: map_map)
qed

lemma ids_ok_delete: "ids_ok pk t \<Longrightarrow> ids_ok pk (snd (delete_rows P t))"
  by (auto simp: ids_ok_def delete_rows_def distinct_map inj_on_def)

lemma ids_ok_find:
  "ids_ok pk t \<Longrightarrow> r \<in> set (t_rows t) \<Longrightarrow> List.find (\<lambda>x. pk x = pk r) (t_rows t) = Some r"
  unfolding ids_ok_def by (blast intro: find_unique)

lemma ids_ok_unique:
  "ids_ok pk t \<Longrightarrow> r \<in> set (t_rows t) \<Longrightarrow> s \<in> set (t_rows t) \<Longrightarrow> pk r = pk s \<Longrightarrow> r = s"
  by (auto simp: ids_ok_def distinct_map inj_on_def)

lemma filter_key:
  "distinct (map key xs) \<Longrightarrow> r \<in> set xs \<Longrightarrow> key r = k \<Longrightarrow> filter (\<lambda>x. key x = k) xs = [r]"
proof (induction xs)
  case Nil
  then show ?case by simp
next
  case (Cons x xs)
  then show ?case by (auto simp: filter_empty_conv) (metis image_eqI)
qed

lemma ids_ok_filter_pk:
  "ids_ok pk t \<Longrightarrow> r \<in> set (t_rows t) \<Longrightarrow> filter (\<lambda>x. pk x = pk r) (t_rows t) = [r]"
  by (simp add: ids_ok_def filter_key)

lemma t_rows_insert: "t_rows (snd (insert_row mk t)) = t_rows t @ [fst (insert_row mk t)]"
  by (simp add: insert_row_def Let_def)

lemma t_rows_update: "t_rows (snd (update_rows P f t)) = map (\<lambda>r. if P r then f r else r) (t_rows t)"
  by (simp add: update_rows_def)

lemma fst_update_rows: "fst (update_rows P f t) = map f (select_rows P t)"
  by (simp add: update_rows_def select_rows_def)

lemma update_rows_cong:
  "(\<And>r. r \<in> set (t_rows t) \<Longrightarrow> P r \<Longrightarrow> f r = g r) \<Longrightarrow> update_rows P f t = update_rows P g t"
  by (simp add: update_rows_def)

record db =
  accounts :: "account table"
  api_credentials :: "api_credential table"
  llm_upstreams :: "llm_upstream table"
  llm_models :: "llm_model table"
  session_events :: "session_event table"
  wallets :: "wallet table"
  file_metas :: "file_meta table"
  response_metas :: "response_meta table"
  batch_metas :: "batch_meta table"
  balance_changes :: "balance_change table"
  subscription_plans :: "subscription_plan table"
  subscriptions :: "subscription table"

text \<open>The interface of a table of the database: a view of it and an update through the view.\<close>

locale table_view =
  fixes tab :: "db \<Rightarrow> 'r table"
    and upd :: "('r table \<Rightarrow> 'r table) \<Rightarrow> db \<Rightarrow> db"
    and pk :: "'r \<Rightarrow> int"
  assumes tab_upd: "tab (upd f d) = f (tab d)"
begin

lemma insert_ids_ok:
  "ids_ok pk (tab d) \<Longrightarrow> (\<And>i. pk (mk i) = i) \<Longrightarrow> ids_ok pk (tab (upd (\<lambda>t. snd (insert_row mk t)) d))"
  by (simp add: tab_upd ids_ok_insert)

lemma update_ids_ok:
  "ids_ok pk (tab d) \<Longrightarrow> (\<And>r. pk (f r) = pk r) \<Longrightarrow>
   ids_ok pk (tab (upd (\<lambda>t. snd (update_rows P f t)) d))"
  by (simp add: tab_upd ids_ok_update)

lemma insert_find:
  assumes "ids_ok pk (tab d)" and "\<And>i. pk (mk i) = i"
  shows "select_rows (\<lambda>r. pk r = t_seq (tab d) + 1) (tab (upd (\<lambda>t. snd (insert_row mk t)) d))
           = [mk (t_seq (tab d) + 1)]"
  using assms by (force simp: tab_upd select_rows_def insert_row_def Let_def ids_ok_def filter_empty_conv)

lemma insert_keeps:
  assumes "i \<noteq> t_seq (tab d) + 1" and "\<And>i. pk (mk i) = i"
  shows "select_rows (\<lambda>r. pk r = i) (tab (upd (\<lambda>t. snd (insert_row mk t)) d))
           = select_rows (\<lambda>r. pk r = i) (tab d)"
  using assms by (simp add: tab_upd select_rows_def insert_row_def Let_def)

end

interpretation accounts_tab: table_view accounts accounts_update acc_id
  by unfold_locales simp

interpretation credentials_tab: table_view api_credentials api_credentials_update cred_id
  by unfold_locales simp

interpretation upstreams_tab: table_view llm_upstreams llm_upstreams_update up_id
  by unfold_locales simp

interpretation models_tab: table_view llm_models llm_models_update mdl_id
  by unfold_locales simp

interpretation wallets_tab: table_view wallets wallets_update wal_id
  by unfold_locales simp

interpretation changes_tab: table_view balance_changes balance_changes_update bc_id
  by unfold_locales simp

interpretation events_tab: table_view session_events session_events_update se_id
  by unfold_locales simp

interpretation plans_tab: table_view subscription_plans subscription_plans_update plan_id
  by unfold_locales simp

interpretation subscriptions_tab: table_view subscriptions subscriptions_update sub_id
  by unfold_locales simp

interpretation files_tab: table_view file_metas file_metas_update fm_id
  by unfold_locales simp

interpretation responses_tab: table_view response_metas response_metas_update rm_id
  by unfold_locales simp

interpretation batches_tab: table_view batch_metas batch_metas_update bm_id
  by unfold_locales simp

end
