(* ===== verification/Effects.thy ===== *)
theory Effects
  imports World
begin

text \<open>
  The state of the running system and the external calls that act on it.

  \<open>world\<close> holds the database, the Redis key space (typed values with expiry times), the three task
  queues, the upstreams that spawned tasks are about to mark offline (\<open>w_spawned\<close>), the clock, and
  \<open>w_faults\<close>, the schedule of failing external calls: every SQL statement,
  Redis command, connection request and queue push takes the next entry, \<open>True\<close> makes it fail
  without effect, and calls after the end of the schedule succeed.  A theorem for every world is
  therefore a theorem for every schedule of failures.

  A transaction works on \<open>w_db\<close> and keeps in \<open>w_tx\<close> the database it started from and whether a
  statement failed: from then on PostgreSQL refuses every statement of the transaction, and
  \<^verbatim>\<open>COMMIT\<close> rolls back.  \<open>tx_scope\<close> is the scope of the Rust value: leaving it without a
  commit, as every early return of the source does, rolls back.

  Not modelled: a commit that takes effect although its acknowledgement is lost, gaps in the
  sequences after a rollback, time passing inside one handler.
\<close>

section \<open>Redis\<close>

record apikey_info =
  aki_id :: int
  aki_account_id :: "int option"
  aki_api_key_hash :: string
  aki_label :: string
  aki_is_active :: bool
  aki_account_is_active :: bool

datatype redis_value =
    R_ApiKey apikey_info
  | R_Account account
  | R_Wallet wallet
  | R_Int int
  | R_ZSet "(string \<times> int) list"

record redis_entry =
  re_value :: redis_value
  re_expires :: "timestamp option"

type_synonym redis = "string \<Rightarrow> redis_entry option"

definition seconds :: "int \<Rightarrow> timestamp" where
  "seconds n = n * 1000000"

definition live :: "timestamp \<Rightarrow> redis_entry \<Rightarrow> bool" where
  "live now e \<longleftrightarrow> (case re_expires e of None \<Rightarrow> True | Some t \<Rightarrow> now < t)"

text \<open>What a command at time \<open>now\<close> finds under a key.\<close>

definition lookup_live :: "timestamp \<Rightarrow> redis \<Rightarrow> string \<Rightarrow> redis_entry option" where
  "lookup_live now r k =
     (case r k of None \<Rightarrow> None | Some e \<Rightarrow> if live now e then Some e else None)"

section \<open>The world\<close>

record world =
  w_db :: db
  w_tx :: "(db \<times> bool) option"
  w_redis :: redis
  w_openai_q :: "openai_event_task list"
  w_anthropic_q :: "anthropic_event_task list"
  w_balance_q :: "balance_change_task list"
  w_spawned :: "int list"
  w_now :: timestamp
  w_faults :: "bool list"

type_synonym 'a io = "(world, 'a) state"

text \<open>\<^verbatim>\<open>sqlx::Error\<close>: the cases the source tells apart.  \<open>Database\<close> carries the name of the
  violated constraint, where there is one.  \<open>Panicked\<close> stands for a Rust panic inside the function
  whose result this is; it travels like an error to the boundary of the handler.\<close>

datatype sqlx_error =
  RowNotFound | Database "string option" | Protocol string | Io | Panicked string

text \<open>The outcome of an external call that the schedule of failures decides.\<close>

definition next_ok :: "bool io" where
  "next_ok = do {
     w \<leftarrow> State_Monad.get;
     (case w_faults w of
        [] \<Rightarrow> return True
      | f # fs \<Rightarrow> do { State_Monad.set (w\<lparr>w_faults := fs\<rparr>); return (\<not> f) })
   }"

lemma wp_next_ok [wp_intros]:
  "(\<And>ok fs. (w_faults w = [] \<Longrightarrow> ok \<and> fs = []) \<Longrightarrow> Q ok (w\<lparr>w_faults := fs\<rparr>)) \<Longrightarrow> wp next_ok Q w"
  by (cases w; cases "w_faults w") (auto simp: next_ok_def)

lemma run_next_ok [simp]: "w_faults w = [] \<Longrightarrow> run_state next_ok w = (True, w)"
  by (simp add: next_ok_def State_Monad.get_def State_Monad.bind_def State_Monad.return_def)

section \<open>SQL statements\<close>

text \<open>
  A statement reads the clock (\<^verbatim>\<open>NOW()\<close>) and the database and either fails with a constraint
  violation or returns a value and the new database.  \<open>db_stmt\<close> runs it on a connection of the
  pool, \<open>tx_stmt\<close> inside the open transaction.
\<close>

type_synonym 'a stmt = "timestamp \<Rightarrow> db \<Rightarrow> sqlx_error + ('a \<times> db)"

definition db_stmt :: "'a stmt \<Rightarrow> (sqlx_error + 'a) io" where
  "db_stmt f = do {
     ok \<leftarrow> next_ok;
     w \<leftarrow> State_Monad.get;
     if ok then
       (case f (w_now w) (w_db w) of
          Inl e \<Rightarrow> return (Inl e)
        | Inr (a, d) \<Rightarrow> do { State_Monad.set (w\<lparr>w_db := d\<rparr>); return (Inr a) })
     else return (Inl Io)
   }"

definition tx_begin :: "(sqlx_error + unit) io" where
  "tx_begin = do {
     ok \<leftarrow> next_ok;
     w \<leftarrow> State_Monad.get;
     if ok then do { State_Monad.set (w\<lparr>w_tx := Some (w_db w, False)\<rparr>); return (Inr ()) }
     else return (Inl Io)
   }"

definition tx_abort :: "world \<Rightarrow> world" where
  "tx_abort w = w\<lparr>w_tx := map_option (\<lambda>(d, _). (d, True)) (w_tx w)\<rparr>"

definition tx_aborted :: "world \<Rightarrow> bool" where
  "tx_aborted w \<longleftrightarrow> (case w_tx w of None \<Rightarrow> False | Some (_, a) \<Rightarrow> a)"

definition tx_stmt :: "'a stmt \<Rightarrow> (sqlx_error + 'a) io" where
  "tx_stmt f = do {
     ok \<leftarrow> next_ok;
     w \<leftarrow> State_Monad.get;
     if ok \<and> \<not> tx_aborted w then
       (case f (w_now w) (w_db w) of
          Inl e \<Rightarrow> do { State_Monad.set (tx_abort w); return (Inl e) }
        | Inr (a, d) \<Rightarrow> do { State_Monad.set (w\<lparr>w_db := d\<rparr>); return (Inr a) })
     else do { State_Monad.set (tx_abort w); return (Inl Io) }
   }"

definition tx_rollback :: "world \<Rightarrow> world" where
  "tx_rollback w = (case w_tx w of None \<Rightarrow> w | Some (d, _) \<Rightarrow> w\<lparr>w_db := d, w_tx := None\<rparr>)"

definition tx_commit :: "(sqlx_error + unit) io" where
  "tx_commit = do {
     ok \<leftarrow> next_ok;
     w \<leftarrow> State_Monad.get;
     if \<not> ok then do { State_Monad.set (tx_rollback w); return (Inl Io) }
     else if tx_aborted w then do { State_Monad.set (tx_rollback w); return (Inr ()) }
     else do { State_Monad.set (w\<lparr>w_tx := None\<rparr>); return (Inr ()) }
   }"

definition tx_scope :: "'a io \<Rightarrow> 'a io" where
  "tx_scope m = do {
     r \<leftarrow> m;
     State_Monad.update tx_rollback;
     return r
   }"

definition first_row :: "'a list \<Rightarrow> 'a option" where
  "first_row xs = (case xs of [] \<Rightarrow> None | x # _ \<Rightarrow> Some x)"

text \<open>
  Rules for running a handler under every schedule of failures: a call fails without effect, or
  the statement rejects, or it takes effect.
\<close>

lemma wp_db_stmt:
  assumes "\<And>fs. w_faults w \<noteq> [] \<Longrightarrow> Q (Inl Io) (w\<lparr>w_faults := fs\<rparr>)"
    and "\<And>e fs. (w_faults w = [] \<Longrightarrow> fs = []) \<Longrightarrow> f (w_now w) (w_db w) = Inl e \<Longrightarrow> Q (Inl e) (w\<lparr>w_faults := fs\<rparr>)"
    and "\<And>a d fs. (w_faults w = [] \<Longrightarrow> fs = []) \<Longrightarrow> f (w_now w) (w_db w) = Inr (a, d) \<Longrightarrow> Q (Inr a) (w\<lparr>w_faults := fs, w_db := d\<rparr>)"
  shows "wp (db_stmt f) Q w"
  unfolding db_stmt_def wp_bind
  by (rule wp_next_ok) (auto intro!: wp_intros assms)

lemma wp_tx_begin:
  assumes "\<And>fs. w_faults w \<noteq> [] \<Longrightarrow> Q (Inl Io) (w\<lparr>w_faults := fs\<rparr>)"
    and "\<And>fs. (w_faults w = [] \<Longrightarrow> fs = []) \<Longrightarrow> Q (Inr ()) (w\<lparr>w_faults := fs, w_tx := Some (w_db w, False)\<rparr>)"
  shows "wp tx_begin Q w"
  unfolding tx_begin_def wp_bind
  by (rule wp_next_ok) (auto intro!: wp_intros assms)

lemma wp_tx_stmt:
  assumes "w_tx w = Some (d0, ab)"
    and "\<And>fs. ab \<or> w_faults w \<noteq> [] \<Longrightarrow> (w_faults w = [] \<Longrightarrow> fs = []) \<Longrightarrow> 
           Q (Inl Io) (w\<lparr>w_faults := fs, w_tx := Some (d0, True)\<rparr>)"
    and "\<And>e fs. (w_faults w = [] \<Longrightarrow> fs = []) \<Longrightarrow> \<not> ab \<Longrightarrow> f (w_now w) (w_db w) = Inl e \<Longrightarrow>
           Q (Inl e) (w\<lparr>w_faults := fs, w_tx := Some (d0, True)\<rparr>)"
    and "\<And>a d fs. (w_faults w = [] \<Longrightarrow> fs = []) \<Longrightarrow> \<not> ab \<Longrightarrow> f (w_now w) (w_db w) = Inr (a, d) \<Longrightarrow>
           Q (Inr a) (w\<lparr>w_faults := fs, w_db := d\<rparr>)"
  shows "wp (tx_stmt f) Q w"
  unfolding tx_stmt_def wp_bind
proof (rule wp_next_ok, goal_cases)
  case (1 ok fs)
  then show ?case
    by (auto intro!: wp_intros assms(2-4) simp: tx_abort_def tx_aborted_def assms(1))
qed

lemma wp_tx_commit:
  assumes "w_tx w = Some (d0, ab)"
    and "\<And>fs. w_faults w \<noteq> [] \<Longrightarrow> Q (Inl Io) (w\<lparr>w_faults := fs, w_db := d0, w_tx := None\<rparr>)"
    and "\<And>fs. (w_faults w = [] \<Longrightarrow> fs = []) \<Longrightarrow> ab \<Longrightarrow> Q (Inr ()) (w\<lparr>w_faults := fs, w_db := d0, w_tx := None\<rparr>)"
    and "\<And>fs. (w_faults w = [] \<Longrightarrow> fs = []) \<Longrightarrow> \<not> ab \<Longrightarrow> Q (Inr ()) (w\<lparr>w_faults := fs, w_tx := None\<rparr>)"
  shows "wp tx_commit Q w"
  unfolding tx_commit_def wp_bind
  by (rule wp_next_ok)
    (auto intro!: wp_intros simp: tx_rollback_def tx_aborted_def assms(1) intro: assms(2-4))

lemma wp_tx_scope: "wp (tx_scope m) Q w \<longleftrightarrow> wp m (\<lambda>a t. Q a (tx_rollback t)) w"
  by (simp add: tx_scope_def)

text \<open>Without failures a call is the statement it runs.\<close>

lemma wp_db_stmt_ok:
  "w_faults w = [] \<Longrightarrow>
   wp (db_stmt f) Q w =
     (case f (w_now w) (w_db w) of
        Inl e \<Rightarrow> Q (Inl e) w
      | Inr (a, d) \<Rightarrow> Q (Inr a) (w\<lparr>w_db := d\<rparr>))"
  by (auto simp: db_stmt_def wp_run_state [of next_ok] split: sum.splits)

lemma wp_tx_begin_ok:
  "w_faults w = [] \<Longrightarrow> wp tx_begin Q w = Q (Inr ()) (w\<lparr>w_tx := Some (w_db w, False)\<rparr>)"
  by (auto simp: tx_begin_def wp_run_state [of next_ok])

lemma wp_tx_stmt_ok:
  "w_faults w = [] \<Longrightarrow> w_tx w = Some (d0, False) \<Longrightarrow>
   wp (tx_stmt f) Q w =
     (case f (w_now w) (w_db w) of
        Inl e \<Rightarrow> Q (Inl e) (w\<lparr>w_tx := Some (d0, True)\<rparr>)
      | Inr (a, d) \<Rightarrow> Q (Inr a) (w\<lparr>w_db := d\<rparr>))"
  by (auto simp: tx_stmt_def wp_run_state [of next_ok] tx_aborted_def tx_abort_def
      split: sum.splits)

lemma wp_tx_commit_ok:
  "w_faults w = [] \<Longrightarrow> w_tx w = Some (d0, False) \<Longrightarrow>
   wp tx_commit Q w = Q (Inr ()) (w\<lparr>w_tx := None\<rparr>)"
  by (auto simp: tx_commit_def wp_run_state [of next_ok] tx_aborted_def)

section \<open>Redis commands and the task queues\<close>

definition redis_conn :: "bool io" where
  "redis_conn = next_ok"

text \<open>A command on the key space at the current time; \<open>None\<close> is a failed command.\<close>

definition redis_cmd :: "(timestamp \<Rightarrow> redis \<Rightarrow> ('a \<times> redis) option) \<Rightarrow> 'a option io" where
  "redis_cmd f = do {
     ok \<leftarrow> next_ok;
     w \<leftarrow> State_Monad.get;
     if ok then
       (case f (w_now w) (w_redis w) of
          None \<Rightarrow> return None
        | Some (a, r) \<Rightarrow> do { State_Monad.set (w\<lparr>w_redis := r\<rparr>); return (Some a) })
     else return None
   }"

definition redis_get :: "string \<Rightarrow> redis_value option option io" where
  "redis_get k = redis_cmd (\<lambda>now r. Some (map_option re_value (lookup_live now r k), r))"

definition redis_set_ex :: "string \<Rightarrow> redis_value \<Rightarrow> int \<Rightarrow> unit option io" where
  "redis_set_ex k v ttl =
     redis_cmd (\<lambda>now r. Some ((), r(k \<mapsto> \<lparr>re_value = v, re_expires = Some (now + seconds ttl)\<rparr>)))"

definition redis_del :: "string \<Rightarrow> unit option io" where
  "redis_del k = redis_cmd (\<lambda>now r. Some ((), r(k := None)))"

definition redis_expire :: "string \<Rightarrow> int \<Rightarrow> bool option io" where
  "redis_expire k ttl =
     redis_cmd (\<lambda>now r.
       (case lookup_live now r k of
          None \<Rightarrow> Some (False, r)
        | Some e \<Rightarrow> Some (True, r(k \<mapsto> e\<lparr>re_expires := Some (now + seconds ttl)\<rparr>))))"

text \<open>\<^verbatim>\<open>INCRBY\<close>: refuses a value that is not an integer and an overflow, keeps the expiry.\<close>

definition redis_incr :: "string \<Rightarrow> int \<Rightarrow> int option io" where
  "redis_incr k n =
     redis_cmd (\<lambda>now r.
       (case lookup_live now r k of
          None \<Rightarrow> Some (n, r(k \<mapsto> \<lparr>re_value = R_Int n, re_expires = None\<rparr>))
        | Some e \<Rightarrow>
            (case re_value e of
               R_Int i \<Rightarrow>
                 if in_i64 (i + n) then Some (i + n, r(k \<mapsto> e\<lparr>re_value := R_Int (i + n)\<rparr>)) else None
             | _ \<Rightarrow> None)))"

definition redis_mget :: "string list \<Rightarrow> redis_value option list option io" where
  "redis_mget ks = redis_cmd (\<lambda>now r. Some (map (\<lambda>k. map_option re_value (lookup_live now r k)) ks, r))"

definition push_queue :: "(world \<Rightarrow> world) \<Rightarrow> bool io" where
  "push_queue upd = do {
     ok \<leftarrow> next_ok;
     if ok then do { State_Monad.update upd; return True } else return False
   }"

definition push_openai :: "openai_event_task \<Rightarrow> bool io" where
  "push_openai t = push_queue (w_openai_q_update (\<lambda>q. q @ [t]))"

definition push_anthropic :: "anthropic_event_task \<Rightarrow> bool io" where
  "push_anthropic t = push_queue (w_anthropic_q_update (\<lambda>q. q @ [t]))"

definition push_balance :: "balance_change_task \<Rightarrow> bool io" where
  "push_balance t = push_queue (w_balance_q_update (\<lambda>q. q @ [t]))"

lemma wp_redis_cmd:
  assumes "\<And>fs. (w_faults w = [] \<Longrightarrow> fs = []) \<Longrightarrow> Q None (w\<lparr>w_faults := fs\<rparr>)"
    and "\<And>a r fs. (w_faults w = [] \<Longrightarrow> fs = []) \<Longrightarrow> f (w_now w) (w_redis w) = Some (a, r) \<Longrightarrow>
           Q (Some a) (w\<lparr>w_faults := fs, w_redis := r\<rparr>)"
  shows "wp (redis_cmd f) Q w"
  unfolding redis_cmd_def wp_bind
  by (rule wp_next_ok) (auto intro!: wp_intros assms)

lemma wp_redis_conn:
  "(\<And>ok fs. (w_faults w = [] \<Longrightarrow> ok \<and> fs = []) \<Longrightarrow> Q ok (w\<lparr>w_faults := fs\<rparr>)) \<Longrightarrow> wp redis_conn Q w"
  unfolding redis_conn_def by (rule wp_next_ok) blast

lemma wp_push_queue:
  "(\<And>fs. w_faults w \<noteq> [] \<Longrightarrow> Q False (w\<lparr>w_faults := fs\<rparr>)) \<Longrightarrow> (\<And>fs. (w_faults w = [] \<Longrightarrow> fs = []) \<Longrightarrow> Q True (upd (w\<lparr>w_faults := fs\<rparr>))) \<Longrightarrow>
   wp (push_queue upd) Q w"
  unfolding push_queue_def wp_bind
  by (rule wp_next_ok) (auto intro!: wp_intros)

lemma wp_redis_cmd_ok:
  "w_faults w = [] \<Longrightarrow>
   wp (redis_cmd f) Q w =
     (case f (w_now w) (w_redis w) of
        None \<Rightarrow> Q None w | Some (a, r) \<Rightarrow> Q (Some a) (w\<lparr>w_redis := r\<rparr>))"
  by (auto simp: redis_cmd_def wp_run_state [of next_ok] split: option.splits)

lemma wp_redis_conn_ok: "w_faults w = [] \<Longrightarrow> wp redis_conn Q w = Q True w"
  by (simp add: redis_conn_def wp_run_state)

lemma wp_push_queue_ok: "w_faults w = [] \<Longrightarrow> wp (push_queue upd) Q w = Q True (upd w)"
  by (simp add: push_queue_def wp_run_state [of next_ok])

lemmas no_fault_calls =
  wp_db_stmt_ok wp_tx_begin_ok wp_tx_stmt_ok wp_tx_commit_ok wp_redis_cmd_ok wp_redis_conn_ok wp_push_queue_ok

end
