(* ===== verification/Sql.thy ===== *)
theory Sql
  imports Effects
begin

text \<open>
  The shapes of SQL statement the \<^verbatim>\<open>db/\<close> modules use, as statements that return the rows of
  their \<^verbatim>\<open>RETURNING\<close> clause or their result set, and the \<^verbatim>\<open>sqlx\<close> calls that run
  them: \<^verbatim>\<open>fetch_one\<close>, \<^verbatim>\<open>fetch_optional\<close>, \<^verbatim>\<open>fetch_all\<close>
  (\<open>db_stmt\<close> itself) and \<^verbatim>\<open>execute\<close>, on the pool or inside the open transaction.
\<close>

named_theorems sql_defs \<open>statements, unfolded\<close>

section \<open>Statements\<close>

definition rows_stmt :: "(timestamp \<Rightarrow> db \<Rightarrow> 'r list) \<Rightarrow> 'r list stmt" where
  [sql_defs]: "rows_stmt f = (\<lambda>now d. Inr (f now d, d))"

definition count_stmt :: "(db \<Rightarrow> 'r list) \<Rightarrow> int stmt" where
  [sql_defs]: "count_stmt f = (\<lambda>now d. Inr (int (length (f d)), d))"

text \<open>\<^verbatim>\<open>LIMIT\<close> and \<^verbatim>\<open>OFFSET\<close> must not be negative.\<close>

definition page_stmt :: "int \<Rightarrow> int \<Rightarrow> (db \<Rightarrow> 'r list) \<Rightarrow> 'r list stmt" where
  [sql_defs]: "page_stmt limit offset f =
     (\<lambda>now d. if limit < 0 \<or> offset < 0 then Inl (Database None)
              else Inr (limit_offset limit offset (f d), d))"

definition insert_stmt ::
    "(db \<Rightarrow> 'r table) \<Rightarrow> (('r table \<Rightarrow> 'r table) \<Rightarrow> db \<Rightarrow> db) \<Rightarrow>
     (timestamp \<Rightarrow> int \<Rightarrow> 'r) \<Rightarrow> 'r list stmt" where
  [sql_defs]: "insert_stmt tab upd mk =
     (\<lambda>now d. let x = insert_row (mk now) (tab d) in Inr ([fst x], upd (\<lambda>_. snd x) d))"

definition update_stmt ::
    "(db \<Rightarrow> 'r table) \<Rightarrow> (('r table \<Rightarrow> 'r table) \<Rightarrow> db \<Rightarrow> db) \<Rightarrow>
     ('r \<Rightarrow> bool) \<Rightarrow> (timestamp \<Rightarrow> 'r \<Rightarrow> 'r) \<Rightarrow> 'r list stmt" where
  [sql_defs]: "update_stmt tab upd P f =
     (\<lambda>now d. let x = update_rows P (f now) (tab d) in Inr (fst x, upd (\<lambda>_. snd x) d))"

definition delete_stmt ::
    "(db \<Rightarrow> 'r table) \<Rightarrow> (('r table \<Rightarrow> 'r table) \<Rightarrow> db \<Rightarrow> db) \<Rightarrow> ('r \<Rightarrow> bool) \<Rightarrow> int stmt" where
  [sql_defs]: "delete_stmt tab upd P =
     (\<lambda>now d. let x = delete_rows P (tab d) in Inr (fst x, upd (\<lambda>_. snd x) d))"

text \<open>A constraint of the schema: the name of the constraint the statement would violate.\<close>

definition guard_stmt :: "(db \<Rightarrow> string option) \<Rightarrow> 'a stmt \<Rightarrow> 'a stmt" where
  [sql_defs]: "guard_stmt chk f =
     (\<lambda>now d. case chk d of Some c \<Rightarrow> Inl (Database (Some c)) | None \<Rightarrow> f now d)"

definition violates :: "bool \<Rightarrow> string \<Rightarrow> string option" where
  "violates b name = (if b then Some name else None)"

section \<open>Running a statement\<close>

definition one_row :: "sqlx_error + 'r list \<Rightarrow> sqlx_error + 'r" where
  "one_row r =
     (case r of
        Inl e \<Rightarrow> Inl e
      | Inr rs \<Rightarrow> (case rs of [] \<Rightarrow> Inl RowNotFound | x # _ \<Rightarrow> Inr x))"

definition optional_row :: "sqlx_error + 'r list \<Rightarrow> sqlx_error + 'r option" where
  "optional_row r = (case r of Inl e \<Rightarrow> Inl e | Inr rs \<Rightarrow> Inr (first_row rs))"

definition fetch_one :: "'r list stmt \<Rightarrow> (sqlx_error + 'r) io" where
  "fetch_one f = do { r \<leftarrow> db_stmt f; return (one_row r) }"

definition fetch_optional :: "'r list stmt \<Rightarrow> (sqlx_error + 'r option) io" where
  "fetch_optional f = do { r \<leftarrow> db_stmt f; return (optional_row r) }"

definition tx_fetch_one :: "'r list stmt \<Rightarrow> (sqlx_error + 'r) io" where
  "tx_fetch_one f = do { r \<leftarrow> tx_stmt f; return (one_row r) }"

definition tx_fetch_optional :: "'r list stmt \<Rightarrow> (sqlx_error + 'r option) io" where
  "tx_fetch_optional f = do { r \<leftarrow> tx_stmt f; return (optional_row r) }"

text \<open>\<^verbatim>\<open>execute\<close> discards the rows; its value is the number of rows affected.\<close>

definition affected :: "'r list stmt \<Rightarrow> int stmt" where
  [sql_defs]: "affected f =
     (\<lambda>now d. case f now d of Inl e \<Rightarrow> Inl e | Inr (rs, d') \<Rightarrow> Inr (int (length rs), d'))"

text \<open>The \<^verbatim>\<open>?\<close> operator on the results of two calls.\<close>

definition bind_ok :: "('e + 'a) io \<Rightarrow> ('a \<Rightarrow> ('e + 'b) io) \<Rightarrow> ('e + 'b) io" where
  "bind_ok m f = do { r \<leftarrow> m; (case r of Inl e \<Rightarrow> return (Inl e) | Inr x \<Rightarrow> f x) }"

lemma one_row_simps [simp]:
  "one_row (Inl e) = Inl e" "one_row (Inr []) = Inl RowNotFound" "one_row (Inr (x # xs)) = Inr x"
  by (simp_all add: one_row_def)

lemma optional_row_simps [simp]:
  "optional_row (Inl e) = Inl e" "optional_row (Inr rs) = Inr (first_row rs)"
  by (simp_all add: optional_row_def)

lemma first_row_simps [simp]: "first_row [] = None" "first_row (x # xs) = Some x"
  by (simp_all add: first_row_def)

lemma first_row_Some: "first_row xs = Some x \<longleftrightarrow> (\<exists>ys. xs = x # ys)"
  by (cases xs) auto

lemma first_row_None [simp]: "first_row xs = None \<longleftrightarrow> xs = []"
  by (cases xs) auto

lemma first_row_mem: "first_row xs = Some x \<Longrightarrow> x \<in> set xs"
  by (cases xs) auto

lemma one_row_Inr: "one_row r = Inr x \<longleftrightarrow> (\<exists>xs. r = Inr (x # xs))"
  by (auto simp: one_row_def split: sum.splits list.splits)

lemma wp_fetch [simp]:
  "wp (fetch_one f) Q = wp (db_stmt f) (\<lambda>r. Q (one_row r))"
  "wp (fetch_optional f) Q' = wp (db_stmt f) (\<lambda>r. Q' (optional_row r))"
  "wp (tx_fetch_one f) Q = wp (tx_stmt f) (\<lambda>r. Q (one_row r))"
  "wp (tx_fetch_optional f) Q' = wp (tx_stmt f) (\<lambda>r. Q' (optional_row r))"
  by (simp_all add: fetch_one_def fetch_optional_def tx_fetch_one_def tx_fetch_optional_def)

lemma wp_bind_ok [simp]:
  "wp (bind_ok m f) Q =
     wp m (\<lambda>r w. (\<forall>e. r = Inl e \<longrightarrow> Q (Inl e) w) \<and> (\<forall>x. r = Inr x \<longrightarrow> wp (f x) Q w))"
proof -
  have "(\<lambda>r. wp (case r of Inl e \<Rightarrow> return (Inl e) | Inr x \<Rightarrow> f x) Q) =
        (\<lambda>r w. (\<forall>e. r = Inl e \<longrightarrow> Q (Inl e) w) \<and> (\<forall>x. r = Inr x \<longrightarrow> wp (f x) Q w))"
    by (intro ext) (auto split: sum.split)
  then show ?thesis by (simp add: bind_ok_def)
qed

section \<open>Invariants of the database\<close>

text \<open>
  An invariant of the database is kept by a handler when every statement it runs keeps it; inside a
  transaction the state to roll back to satisfies it too.  A frame property (this table is not
  touched) is the invariant \<open>tab d = T\<close>.  The rules in \<open>effect_intros\<close> follow the syntax of the
  handler.
\<close>

definition stmt_keeps :: "(db \<Rightarrow> bool) \<Rightarrow> 'a stmt \<Rightarrow> bool" where
  "stmt_keeps P f \<longleftrightarrow> (\<forall>now d a d'. P d \<longrightarrow> f now d = Inr (a, d') \<longrightarrow> P d')"

definition db_inv :: "(db \<Rightarrow> bool) \<Rightarrow> world \<Rightarrow> bool" where
  "db_inv P w \<longleftrightarrow> P (w_db w) \<and> (case w_tx w of None \<Rightarrow> True | Some (d, _) \<Rightarrow> P d)"

abbreviation keeps_db :: "(db \<Rightarrow> bool) \<Rightarrow> 'a io \<Rightarrow> bool" where
  "keeps_db P m \<equiv> state_io_rel (\<lambda>s t. db_inv P s \<longrightarrow> db_inv P t) m"

lemma stmt_keepsI: "(\<And>now d a d'. P d \<Longrightarrow> f now d = Inr (a, d') \<Longrightarrow> P d') \<Longrightarrow> stmt_keeps P f"
  by (auto simp: stmt_keeps_def)

lemma stmt_keepsD: "stmt_keeps P f \<Longrightarrow> P d \<Longrightarrow> f now d = Inr (a, d') \<Longrightarrow> P d'"
  by (auto simp: stmt_keeps_def)

lemma stmt_keeps_read [effect_intros]:
  "stmt_keeps P (rows_stmt r)" "stmt_keeps P (count_stmt c)" "stmt_keeps P (page_stmt l off g)"
  by (auto simp: stmt_keeps_def sql_defs split: if_splits)

lemma stmt_keeps_guard [effect_intros]:
  "stmt_keeps P f \<Longrightarrow> stmt_keeps P (guard_stmt chk f)"
  "stmt_keeps P f' \<Longrightarrow> stmt_keeps P (affected f')"
  by (auto simp: stmt_keeps_def sql_defs split: option.splits sum.splits prod.splits)

lemma stmt_keeps_write:
  "(\<And>d now. P d \<Longrightarrow> P (upd (\<lambda>_. snd (insert_row (mk now) (tab d))) d)) \<Longrightarrow>
   stmt_keeps P (insert_stmt tab upd mk)"
  "(\<And>d now. P d \<Longrightarrow> P (upd' (\<lambda>_. snd (update_rows R (g now) (tab' d))) d)) \<Longrightarrow>
   stmt_keeps P (update_stmt tab' upd' R g)"
  "(\<And>d. P d \<Longrightarrow> P (upd'' (\<lambda>_. snd (delete_rows R' (tab'' d))) d)) \<Longrightarrow>
   stmt_keeps P (delete_stmt tab'' upd'' R')"
  by (auto simp: stmt_keeps_def sql_defs Let_def)

lemma db_inv_no_tx [simp]: "w_tx w = None \<Longrightarrow> db_inv P w \<longleftrightarrow> P (w_db w)"
  by (simp add: db_inv_def)

lemma db_inv_faults [simp]:
  "db_inv P (w\<lparr>w_faults := fs\<rparr>) = db_inv P w"
  "db_inv P (w\<lparr>w_redis := r\<rparr>) = db_inv P w"
  "db_inv P (w\<lparr>w_balance_q := q\<rparr>) = db_inv P w"
  "db_inv P (w\<lparr>w_openai_q := oq\<rparr>) = db_inv P w"
  "db_inv P (w\<lparr>w_anthropic_q := aq\<rparr>) = db_inv P w"
  by (simp_all add: db_inv_def)

lemma keeps_db_next_ok [effect_intros]: "keeps_db P next_ok"
  by (auto simp: wp_eff intro!: wp_next_ok)

lemma keeps_db_stmt [effect_intros]:
  "stmt_keeps P f \<Longrightarrow> keeps_db P (db_stmt f)"
  by (auto simp: wp_eff db_inv_def intro!: wp_db_stmt dest: stmt_keepsD)

lemma keeps_tx_begin [effect_intros]: "keeps_db P tx_begin"
  by (auto simp: wp_eff db_inv_def intro!: wp_tx_begin)

lemma keeps_tx_stmt [effect_intros]:
  "stmt_keeps P f \<Longrightarrow> keeps_db P (tx_stmt f)"
  unfolding wp_eff tx_stmt_def wp_bind
  by (auto simp: db_inv_def tx_abort_def intro!: wp_next_ok wp_intros dest: stmt_keepsD
      split: option.splits)

lemma keeps_tx_commit [effect_intros]: "keeps_db P tx_commit"
  unfolding wp_eff tx_commit_def wp_bind
  by (auto simp: db_inv_def tx_rollback_def intro!: wp_next_ok wp_intros split: option.splits)

lemma db_inv_rollback: "db_inv P t \<Longrightarrow> db_inv P (tx_rollback t)"
  by (auto simp: db_inv_def tx_rollback_def split: option.splits)

lemma keeps_tx_scope [effect_intros]: "keeps_db P m \<Longrightarrow> keeps_db P (tx_scope m)"
  unfolding wp_eff wp_tx_scope unfolding wp_run_state by (simp add: db_inv_rollback)

lemma keeps_redis [effect_intros]:
  "keeps_db P (redis_cmd f)" "keeps_db P redis_conn"
  by (auto simp: wp_eff intro!: wp_redis_cmd wp_redis_conn)

lemma keeps_push [effect_intros]:
  "keeps_db P (push_openai t)" "keeps_db P (push_anthropic a)" "keeps_db P (push_balance b)"
  by (auto simp: wp_eff push_openai_def push_anthropic_def push_balance_def intro!: wp_push_queue)
    (simp_all add: db_inv_def)

lemma keeps_redis_cmds [effect_intros]:
  "keeps_db P (redis_get k)" "keeps_db P (redis_set_ex k v ttl)" "keeps_db P (redis_del k)"
  "keeps_db P (redis_incr k n)" "keeps_db P (redis_expire k ttl)" "keeps_db P (redis_mget ks)"
  by (auto simp: redis_get_def redis_set_ex_def redis_del_def redis_incr_def redis_expire_def
      redis_mget_def intro: keeps_redis)

lemmas [effect_intros] = keeps.eff_return keeps.eff_get keeps.eff_bind keeps.eff_case_option
  keeps.eff_case_sum keeps.eff_case_prod keeps.eff_let keeps.eff_if

lemma keeps_db_fetch [effect_intros]:
  "stmt_keeps P f \<Longrightarrow> keeps_db P (fetch_one f)"
  "stmt_keeps P f \<Longrightarrow> keeps_db P (fetch_optional f)"
  "stmt_keeps P f \<Longrightarrow> keeps_db P (tx_fetch_one f)"
  "stmt_keeps P f \<Longrightarrow> keeps_db P (tx_fetch_optional f)"
  unfolding fetch_one_def fetch_optional_def tx_fetch_one_def tx_fetch_optional_def
  by (intro effect_intros; assumption)+

lemma keeps_db_bind_ok [effect_intros]:
  "keeps_db P m \<Longrightarrow> (\<And>x. keeps_db P (f x)) \<Longrightarrow> keeps_db P (bind_ok m f)"
  unfolding bind_ok_def by (intro effect_intros)

lemma keeps_db_run:
  "keeps_db P m \<Longrightarrow> run_state m w = (a, w') \<Longrightarrow> w_tx w = None \<Longrightarrow> P (w_db w) \<Longrightarrow> P (w_db w')"
  by (drule (1) keeps.eff_run) (simp add: db_inv_def)

text \<open>Handlers that run no transaction of their own.\<close>

abbreviation keeps_tx :: "'a io \<Rightarrow> bool" where
  "keeps_tx m \<equiv> state_io_rel (\<lambda>s t. w_tx t = w_tx s) m"

lemmas [effect_intros] = frames.eff_return frames.eff_get frames.eff_bind frames.eff_case_option
  frames.eff_case_sum frames.eff_case_prod frames.eff_let frames.eff_if

lemma keeps_tx_calls [effect_intros]:
  "keeps_tx next_ok" "keeps_tx (db_stmt f)" "keeps_tx redis_conn" "keeps_tx (redis_cmd g)"
  by (auto simp: wp_eff intro!: wp_next_ok wp_db_stmt wp_redis_conn wp_redis_cmd)

lemma keeps_tx_fetch [effect_intros]: "keeps_tx (fetch_one f)" "keeps_tx (fetch_optional f)"
  unfolding fetch_one_def fetch_optional_def by (intro effect_intros)+

lemma keeps_tx_bind_ok [effect_intros]:
  "keeps_tx m \<Longrightarrow> (\<And>x. keeps_tx (f x)) \<Longrightarrow> keeps_tx (bind_ok m f)"
  unfolding bind_ok_def by (intro effect_intros)

lemma keeps_tx_push [effect_intros]:
  "keeps_tx (push_openai t)" "keeps_tx (push_anthropic a)" "keeps_tx (push_balance b)"
  by (auto simp: wp_eff push_openai_def push_anthropic_def push_balance_def intro!: wp_push_queue)

lemma keeps_tx_redis_cmds [effect_intros]:
  "keeps_tx (redis_get k)" "keeps_tx (redis_set_ex k v ttl)" "keeps_tx (redis_del k)"
  "keeps_tx (redis_incr k n)" "keeps_tx (redis_expire k ttl)" "keeps_tx (redis_mget ks)"
  unfolding redis_get_def redis_set_ex_def redis_del_def redis_incr_def redis_expire_def redis_mget_def
  by (rule keeps_tx_calls)+

end
