(* ===== verification/Transactions.thy ===== *)
theory Transactions
  imports Sql
begin

text \<open>
  Reasoning about the body of a transaction.  \<open>tx_triple now d m P E\<close>: run inside an open
  transaction at time \<open>now\<close> on database \<open>d\<close>, the handler \<open>m\<close> either returns a value and a
  database related by \<open>P\<close>, the transaction still healthy, or returns an error; it changes nothing
  but the database and the transaction, keeps the state to roll back to, and with no failing calls
  ahead an error satisfies \<open>E\<close>.
\<close>

named_theorems tx_intros \<open>rules for the body of a transaction\<close>

definition same_outside :: "world \<Rightarrow> world \<Rightarrow> bool" where
  "same_outside w t \<longleftrightarrow>
     w_now t = w_now w \<and> w_redis t = w_redis w \<and> w_balance_q t = w_balance_q w \<and>
     w_openai_q t = w_openai_q w \<and> w_anthropic_q t = w_anthropic_q w \<and>
     (w_faults w = [] \<longrightarrow> w_faults t = [])"

definition tx_post ::
    "db \<Rightarrow> world \<Rightarrow> ('a \<Rightarrow> db \<Rightarrow> bool) \<Rightarrow> (sqlx_error \<Rightarrow> bool) \<Rightarrow> sqlx_error + 'a \<Rightarrow> world \<Rightarrow> bool" where
  "tx_post d0 w P E r t \<longleftrightarrow> same_outside w t \<and>
     (case r of
        Inl e \<Rightarrow> (\<exists>b. w_tx t = Some (d0, b)) \<and> (w_faults w = [] \<longrightarrow> E e)
      | Inr x \<Rightarrow> w_tx t = Some (d0, False) \<and> P x (w_db t))"

definition tx_triple ::
    "timestamp \<Rightarrow> db \<Rightarrow> (sqlx_error + 'a) io \<Rightarrow> ('a \<Rightarrow> db \<Rightarrow> bool) \<Rightarrow> (sqlx_error \<Rightarrow> bool) \<Rightarrow> bool" where
  "tx_triple now d m P E \<longleftrightarrow>
     (\<forall>w d0. w_tx w = Some (d0, False) \<longrightarrow> w_now w = now \<longrightarrow> w_db w = d \<longrightarrow>
        wp m (tx_post d0 w P E) w)"

lemma same_outside_refl [simp]: "same_outside w w"
  by (simp add: same_outside_def)

lemma same_outside_trans: "same_outside w t \<Longrightarrow> same_outside t u \<Longrightarrow> same_outside w u"
  by (simp add: same_outside_def)

lemma same_outside_fields:
  "same_outside w t \<Longrightarrow> w_now t = w_now w"
  "same_outside w t \<Longrightarrow> w_redis t = w_redis w"
  "same_outside w t \<Longrightarrow> w_balance_q t = w_balance_q w"
  "same_outside w t \<Longrightarrow> w_openai_q t = w_openai_q w"
  "same_outside w t \<Longrightarrow> w_anthropic_q t = w_anthropic_q w"
  "same_outside w t \<Longrightarrow> w_faults w = [] \<Longrightarrow> w_faults t = []"
  by (auto simp: same_outside_def)

lemma tx_triple_return [tx_intros]: "P x d \<Longrightarrow> tx_triple now d (return (Inr x)) P E"
  by (simp add: tx_triple_def tx_post_def)

lemma tx_triple_bind:
  assumes "tx_triple now d m P E" and "\<And>x d'. P x d' \<Longrightarrow> tx_triple now d' (f x) R E"
  shows "tx_triple now d (bind_ok m f) R E"
  unfolding tx_triple_def wp_bind_ok
proof (intro allI impI)
  fix w :: world and d0
  assume w: "w_tx w = Some (d0, False)" "w_now w = now" "w_db w = d"
  show "wp m (\<lambda>r t. (\<forall>e. r = Inl e \<longrightarrow> tx_post d0 w R E (Inl e) t) \<and>
                    (\<forall>x. r = Inr x \<longrightarrow> wp (f x) (tx_post d0 w R E) t)) w"
  proof (rule wp_mono [where Q = "tx_post d0 w P E"], goal_cases)
    case 1
    show ?case using assms(1) w by (simp add: tx_triple_def)
  next
    case (2 r t)
    show ?case
    proof (intro conjI allI impI)
      fix e assume "r = Inl e"
      with 2 show "tx_post d0 w R E (Inl e) t" by (simp add: tx_post_def)
    next
      fix x assume r: "r = Inr x"
      with 2 have t: "same_outside w t" "w_tx t = Some (d0, False)" "P x (w_db t)"
        by (simp_all add: tx_post_def)
      then have "wp (f x) (tx_post d0 t R E) t"
        using assms(2) w by (simp add: tx_triple_def same_outside_fields)
      then show "wp (f x) (tx_post d0 w R E) t"
        by (rule wp_mono)
          (use t(1) in \<open>auto simp: tx_post_def same_outside_fields intro: same_outside_trans
             split: sum.splits\<close>)
    qed
  qed
qed

lemma tx_triple_stmt:
  assumes "\<And>a d'. f now d = Inr (a, d') \<Longrightarrow> P a d'" and "\<And>e. f now d = Inl e \<Longrightarrow> E e"
  shows "tx_triple now d (tx_stmt f) P E"
  unfolding tx_triple_def tx_stmt_def wp_bind
  by (intro allI impI, rule wp_next_ok)
    (auto intro!: wp_intros simp: tx_post_def tx_abort_def tx_aborted_def same_outside_def
      intro: assms)

lemma tx_triple_fetch_one:
  assumes "\<And>x xs d'. f now d = Inr (x # xs, d') \<Longrightarrow> P x d'"
    and "\<And>e. f now d = Inl e \<Longrightarrow> E e" and "\<And>d'. f now d = Inr ([], d') \<Longrightarrow> E RowNotFound"
  shows "tx_triple now d (tx_fetch_one f) P E"
  unfolding tx_triple_def wp_fetch
proof (intro allI impI)
  fix w :: world and d0
  assume "w_tx w = Some (d0, False)" "w_now w = now" "w_db w = d"
  then have "wp (tx_stmt f) (tx_post d0 w (\<lambda>rs d'. f now d = Inr (rs, d')) (\<lambda>e. f now d = Inl e)) w"
    using tx_triple_stmt [of f now d "\<lambda>rs d'. f now d = Inr (rs, d')" "\<lambda>e. f now d = Inl e"]
    by (simp add: tx_triple_def)
  then show "wp (tx_stmt f) (\<lambda>r. tx_post d0 w P E (one_row r)) w"
    by (rule wp_mono)
      (auto simp: tx_post_def one_row_def split: sum.splits list.splits intro: assms)
qed

lemma tx_triple_fetch_optional:
  assumes "\<And>xs d'. f now d = Inr (xs, d') \<Longrightarrow> P (first_row xs) d'"
    and "\<And>e. f now d = Inl e \<Longrightarrow> E e"
  shows "tx_triple now d (tx_fetch_optional f) P E"
  unfolding tx_triple_def wp_fetch
proof (intro allI impI)
  fix w :: world and d0
  assume "w_tx w = Some (d0, False)" "w_now w = now" "w_db w = d"
  then have "wp (tx_stmt f) (tx_post d0 w (\<lambda>rs d'. f now d = Inr (rs, d')) (\<lambda>e. f now d = Inl e)) w"
    using tx_triple_stmt [of f now d "\<lambda>rs d'. f now d = Inr (rs, d')" "\<lambda>e. f now d = Inl e"]
    by (simp add: tx_triple_def)
  then show "wp (tx_stmt f) (\<lambda>r. tx_post d0 w P E (optional_row r)) w"
    by (rule wp_mono) (auto simp: tx_post_def optional_row_def split: sum.splits intro: assms)
qed

lemma tx_triple_if [tx_intros]:
  "(b \<Longrightarrow> tx_triple now d m P E) \<Longrightarrow> (\<not> b \<Longrightarrow> tx_triple now d n P E) \<Longrightarrow>
   tx_triple now d (if b then m else n) P E"
  by simp

lemma tx_triple_case_option [tx_intros]:
  "(x = None \<Longrightarrow> tx_triple now d m P E) \<Longrightarrow> (\<And>v. x = Some v \<Longrightarrow> tx_triple now d (f v) P E) \<Longrightarrow>
   tx_triple now d (case x of None \<Rightarrow> m | Some v \<Rightarrow> f v) P E"
  by (cases x) auto

lemma tx_triple_case_prod [tx_intros]:
  "(\<And>a b. x = (a, b) \<Longrightarrow> tx_triple now d (f a b) P E) \<Longrightarrow>
   tx_triple now d (case x of (a, b) \<Rightarrow> f a b) P E"
  by (cases x) auto

lemma tx_triple_weaken:
  "tx_triple now d m P E \<Longrightarrow> (\<And>x d'. P x d' \<Longrightarrow> P' x d') \<Longrightarrow> (\<And>e. E e \<Longrightarrow> E' e) \<Longrightarrow>
   tx_triple now d m P' E'"
  unfolding tx_triple_def
  by (intro allI impI, elim allE impE, assumption+, erule wp_mono)
    (auto simp: tx_post_def split: sum.splits)

lemma tx_tripleD:
  "tx_triple now d m P E \<Longrightarrow> w_tx w = Some (d0, False) \<Longrightarrow> w_now w = now \<Longrightarrow> w_db w = d \<Longrightarrow>
   wp m (tx_post d0 w P E) w"
  by (simp add: tx_triple_def)

text \<open>A call inside a transaction, as one step of a handler.\<close>

lemma wp_tx_call:
  assumes "tx_triple now d m P E" and "w_tx w = Some (snap, False)" and "w_now w = now" and "w_db w = d"
    and "\<And>e t b. w_tx t = Some (snap, b) \<Longrightarrow> same_outside w t \<Longrightarrow> (w_faults w = [] \<Longrightarrow> E e) \<Longrightarrow> Q (Inl e) t"
    and "\<And>x t. w_tx t = Some (snap, False) \<Longrightarrow> same_outside w t \<Longrightarrow> P x (w_db t) \<Longrightarrow> Q (Inr x) t"
  shows "wp m Q w"
  using tx_tripleD [OF assms(1-4)]
proof (rule wp_mono)
  fix r t assume "tx_post snap w P E r t"
  then show "Q r t" using assms(5,6) by (auto simp: tx_post_def split: sum.splits)
qed

end
