(* ===== verification/Subscriptions.thy ===== *)
theory Subscriptions
  imports Transactions
begin

text \<open>
  Subscription plans and subscriptions, \<^verbatim>\<open>db/subscription.rs\<close>: creation, listing, update and
  cancellation, the choice of the subscription a usage is charged to, and the charge itself.
\<close>

section \<open>Plans\<close>

definition fresh_plan ::
    "string \<Rightarrow> int \<Rightarrow> int \<Rightarrow> decimal \<Rightarrow> int \<Rightarrow> timestamp \<Rightarrow> int \<Rightarrow> subscription_plan" where
  "fresh_plan description total_token_limit time_span money_limit sort_order now i =
     \<lparr>plan_id = i, plan_status = ''active'', plan_description = description,
      plan_total_token_limit = total_token_limit, plan_time_span = time_span,
      plan_money_limit = money_limit, plan_sort_order = sort_order,
      plan_created_at = now, plan_updated_at = now\<rparr>"

text \<open>The column \<^verbatim>\<open>time_span\<close> is a 32-bit integer.\<close>

definition in_i32 :: "int \<Rightarrow> bool" where
  "in_i32 x \<longleftrightarrow> - (2 ^ 31) \<le> x \<and> x < 2 ^ 31"

definition range_stmt :: "bool \<Rightarrow> 'a stmt \<Rightarrow> 'a stmt" where
  [sql_defs]: "range_stmt ok f = (\<lambda>now d. if ok then f now d else Inl (Database None))"

definition create_subscription_plan ::
    "string \<Rightarrow> int \<Rightarrow> int \<Rightarrow> decimal \<Rightarrow> int \<Rightarrow> (sqlx_error + subscription_plan) io" where
  "create_subscription_plan description total_token_limit time_span money_limit sort_order =
     fetch_one (range_stmt (in_i32 time_span)
       (insert_stmt subscription_plans subscription_plans_update
         (fresh_plan description total_token_limit time_span money_limit sort_order)))"

definition get_subscription_plan_by_id :: "int \<Rightarrow> (sqlx_error + subscription_plan option) io" where
  "get_subscription_plan_by_id i =
     fetch_optional (rows_stmt (\<lambda>_ d. select_rows (\<lambda>p. plan_id p = i) (subscription_plans d)))"

definition count_subscription_plans :: "(sqlx_error + int) io" where
  "count_subscription_plans = db_stmt (count_stmt (\<lambda>d. t_rows (subscription_plans d)))"

definition list_subscription_plans_paginated ::
    "int \<Rightarrow> int \<Rightarrow> (sqlx_error + subscription_plan list) io" where
  "list_subscription_plans_paginated offset limit =
     db_stmt (page_stmt limit offset (\<lambda>d.
       sort_key (\<lambda>p. - plan_sort_order p) (sort_key plan_id (t_rows (subscription_plans d)))))"

definition update_subscription_plan ::
    "int \<Rightarrow> string option \<Rightarrow> int option \<Rightarrow> int option \<Rightarrow> decimal option \<Rightarrow> int option \<Rightarrow>
     string option \<Rightarrow> (sqlx_error + subscription_plan) io" where
  "update_subscription_plan i description total_token_limit time_span money_limit sort_order status =
     fetch_one (range_stmt (case time_span of None \<Rightarrow> True | Some t \<Rightarrow> in_i32 t)
       (update_stmt subscription_plans subscription_plans_update (\<lambda>p. plan_id p = i) (\<lambda>now p. p\<lparr>
         plan_description := unwrap_or description (plan_description p),
         plan_total_token_limit := unwrap_or total_token_limit (plan_total_token_limit p),
         plan_time_span := unwrap_or time_span (plan_time_span p),
         plan_money_limit := unwrap_or money_limit (plan_money_limit p),
         plan_sort_order := unwrap_or sort_order (plan_sort_order p),
         plan_status := unwrap_or status (plan_status p),
         plan_updated_at := now\<rparr>)))"

definition cancel_subscription_plan :: "int \<Rightarrow> (sqlx_error + subscription_plan) io" where
  "cancel_subscription_plan i =
     fetch_one (update_stmt subscription_plans subscription_plans_update (\<lambda>p. plan_id p = i)
       (\<lambda>now p. p\<lparr>plan_status := ''deactive'', plan_updated_at := now\<rparr>))"

section \<open>Subscriptions\<close>

definition fresh_subscription :: "int \<Rightarrow> int \<Rightarrow> timestamp \<Rightarrow> int \<Rightarrow> subscription" where
  "fresh_subscription account_id p now i =
     \<lparr>sub_id = i, sub_account_id = account_id, sub_plan_id = p, sub_status = ''pending'',
      sub_start_at = None, sub_end_at = None, sub_used_total_tokens = 0,
      sub_total_token_limit = 0, sub_sort_order = 0, sub_used_money = 0,
      sub_created_at = now, sub_updated_at = now\<rparr>"

definition create_subscription :: "int \<Rightarrow> int \<Rightarrow> (sqlx_error + subscription) io" where
  "create_subscription account_id p =
     fetch_one
       (guard_stmt (\<lambda>d. violates (\<forall>a \<in> set (t_rows (accounts d)). acc_id a \<noteq> account_id)
                          ''subscriptions_account_id_fkey'')
       (guard_stmt (\<lambda>d. violates (\<forall>q \<in> set (t_rows (subscription_plans d)). plan_id q \<noteq> p)
                          ''subscriptions_plan_id_fkey'')
       (insert_stmt subscriptions subscriptions_update (fresh_subscription account_id p))))"

definition get_subscription_by_id :: "int \<Rightarrow> (sqlx_error + subscription option) io" where
  "get_subscription_by_id i =
     fetch_optional (rows_stmt (\<lambda>_ d. select_rows (\<lambda>s. sub_id s = i) (subscriptions d)))"

definition subscription_filter :: "int option \<Rightarrow> string option \<Rightarrow> subscription \<Rightarrow> bool" where
  "subscription_filter account_id status s \<longleftrightarrow>
     (case account_id of None \<Rightarrow> True | Some a \<Rightarrow> sub_account_id s = a) \<and>
     (case status of None \<Rightarrow> True | Some t \<Rightarrow> sub_status s = t)"

definition count_subscriptions :: "int option \<Rightarrow> string option \<Rightarrow> (sqlx_error + int) io" where
  "count_subscriptions account_id status =
     db_stmt (count_stmt (\<lambda>d. select_rows (subscription_filter account_id status) (subscriptions d)))"

definition list_subscriptions_paginated ::
    "int option \<Rightarrow> string option \<Rightarrow> int \<Rightarrow> int \<Rightarrow> (sqlx_error + subscription list) io" where
  "list_subscriptions_paginated account_id status offset limit =
     db_stmt (page_stmt limit offset (\<lambda>d.
       sort_key (\<lambda>s. - sub_sort_order s) (sort_key (\<lambda>s. - sub_id s)
         (select_rows (subscription_filter account_id status) (subscriptions d)))))"

definition update_subscription_status :: "int \<Rightarrow> string \<Rightarrow> (sqlx_error + subscription) io" where
  "update_subscription_status i status =
     fetch_one (update_stmt subscriptions subscriptions_update (\<lambda>s. sub_id s = i)
       (\<lambda>now s. s\<lparr>sub_status := status, sub_updated_at := now\<rparr>))"

definition cancel_subscription :: "int \<Rightarrow> (sqlx_error + subscription) io" where
  "cancel_subscription i =
     fetch_one (update_stmt subscriptions subscriptions_update (\<lambda>s. sub_id s = i)
       (\<lambda>now s. s\<lparr>sub_status := ''deactive'', sub_updated_at := now\<rparr>))"

section \<open>The current subscription\<close>

text \<open>
  The \<^verbatim>\<open>WHERE\<close> clause: a comparison with a missing \<^verbatim>\<open>start_at\<close> or \<^verbatim>\<open>end_at\<close> is
  not true.  \<^verbatim>\<open>used_total_tokens + $2\<close> is computed in 64 bits and fails on overflow.
\<close>

definition in_force :: "timestamp \<Rightarrow> int \<Rightarrow> subscription \<Rightarrow> bool" where
  "in_force now account_id s \<longleftrightarrow>
     sub_account_id s = account_id \<and> sub_status s = ''active'' \<and>
     (case sub_start_at s of None \<Rightarrow> False | Some t \<Rightarrow> t \<le> now) \<and>
     (case sub_end_at s of None \<Rightarrow> False | Some t \<Rightarrow> now < t)"

definition has_quota :: "int \<Rightarrow> subscription \<Rightarrow> bool" where
  "has_quota consumed_tokens s \<longleftrightarrow>
     sub_used_total_tokens s + consumed_tokens \<le> sub_total_token_limit s"

definition current_subscription_sql :: "int \<Rightarrow> int \<Rightarrow> subscription list stmt" where
  "current_subscription_sql account_id consumed_tokens = (\<lambda>now d.
     let cands = select_rows (in_force now account_id) (subscriptions d) in
     if \<exists>s \<in> set cands. \<not> in_i64 (sub_used_total_tokens s + consumed_tokens)
     then Inl (Database None)
     else Inr (take 1 (sort_key (\<lambda>s. - sub_sort_order s) (filter (has_quota consumed_tokens) cands)), d))"

definition get_current_subscription :: "int \<Rightarrow> int \<Rightarrow> (sqlx_error + subscription option) io" where
  "get_current_subscription account_id consumed_tokens =
     fetch_optional (current_subscription_sql account_id consumed_tokens)"

definition get_current_subscription_with_tx ::
    "int \<Rightarrow> int \<Rightarrow> (sqlx_error + subscription option) io" where
  "get_current_subscription_with_tx account_id consumed_tokens =
     tx_fetch_optional (current_subscription_sql account_id consumed_tokens)"

definition charge_subscription_sql :: "subscription \<Rightarrow> int \<Rightarrow> decimal \<Rightarrow> subscription list stmt" where
  "charge_subscription_sql s total_tokens total_spend_amount =
     (let new_used_total_tokens = wrap_i64 (sub_used_total_tokens s + total_tokens);
          new_used_money = sub_used_money s + total_spend_amount
      in update_stmt subscriptions subscriptions_update (\<lambda>r. sub_id r = sub_id s)
           (\<lambda>now r. r\<lparr>sub_used_total_tokens := new_used_total_tokens,
                       sub_used_money := new_used_money, sub_updated_at := now\<rparr>))"

definition increment_subscription_usage_with_tx ::
    "subscription \<Rightarrow> int \<Rightarrow> decimal \<Rightarrow> (sqlx_error + unit) io" where
  "increment_subscription_usage_with_tx s total_tokens total_spend_amount =
     bind_ok (tx_stmt (affected (charge_subscription_sql s total_tokens total_spend_amount)))
       (\<lambda>_. return (Inr ()))"

end
