(* ===== verification/Wallets.thy ===== *)
theory Wallets
  imports Subscriptions
begin

text \<open>
  Session events, balance changes and wallets: \<^verbatim>\<open>models/wallet.rs\<close> (the content of a balance
  change and its JSON form), \<^verbatim>\<open>db/session_event.rs\<close> and \<^verbatim>\<open>db/wallet.rs\<close>.
\<close>

section \<open>The content of a balance change\<close>

text \<open>
  \<^verbatim>\<open>#[serde(tag = "type")]\<close>: one object with the variant's name under \<^verbatim>\<open>type\<close>.
  Reading ignores unknown members; an amount may also be a JSON integer.
\<close>

fun content_to_json :: "balance_change_content \<Rightarrow> json" where
  "content_to_json (SpendToken s) = JObj
     [(''type'', JStr ''SpendToken''),
      (''input_tokens'', JInt (st_input_tokens s)),
      (''input_token_price'', JDec (st_input_token_price s)),
      (''input_spend_amount'', JDec (st_input_spend_amount s)),
      (''output_tokens'', JInt (st_output_tokens s)),
      (''output_token_price'', JDec (st_output_token_price s)),
      (''output_spend_amount'', JDec (st_output_spend_amount s)),
      (''total_tokens'', JInt (st_total_tokens s)),
      (''event_id'', JInt (st_event_id s))]"
| "content_to_json (Deposit amount) = JObj [(''type'', JStr ''Deposit''), (''amount'', JDec amount)]"
| "content_to_json (Withdraw amount) = JObj [(''type'', JStr ''Withdraw''), (''amount'', JDec amount)]"
| "content_to_json (AddCredit amount) = JObj [(''type'', JStr ''AddCredit''), (''amount'', JDec amount)]"

definition int_field :: "json \<Rightarrow> string \<Rightarrow> int option" where
  "int_field j k =
     (case json_get j k of
        Some (JInt i) \<Rightarrow> if in_i64 i then Some i else None
      | _ \<Rightarrow> None)"

definition dec_field :: "json \<Rightarrow> string \<Rightarrow> decimal option" where
  "dec_field j k =
     (case json_get j k of
        Some (JDec x) \<Rightarrow> Some x
      | Some (JInt i) \<Rightarrow> Some (of_int i)
      | _ \<Rightarrow> None)"

definition spend_token_of_json :: "json \<Rightarrow> spend_token option" where
  "spend_token_of_json j =
     (case (int_field j ''input_tokens'', dec_field j ''input_token_price'',
            dec_field j ''input_spend_amount'', int_field j ''output_tokens'',
            dec_field j ''output_token_price'', dec_field j ''output_spend_amount'',
            int_field j ''total_tokens'', int_field j ''event_id'') of
        (Some it, Some itp, Some isa, Some ot, Some otp, Some osa, Some tt, Some ev) \<Rightarrow>
          Some \<lparr>st_input_tokens = it, st_input_token_price = itp, st_input_spend_amount = isa,
                st_output_tokens = ot, st_output_token_price = otp, st_output_spend_amount = osa,
                st_total_tokens = tt, st_event_id = ev\<rparr>
      | _ \<Rightarrow> None)"

definition content_of_json :: "json \<Rightarrow> balance_change_content option" where
  "content_of_json j =
     (case json_get j ''type'' of
        Some (JStr t) \<Rightarrow>
          if t = ''SpendToken'' then map_option SpendToken (spend_token_of_json j)
          else if t = ''Deposit'' then map_option Deposit (dec_field j ''amount'')
          else if t = ''Withdraw'' then map_option Withdraw (dec_field j ''amount'')
          else if t = ''AddCredit'' then map_option AddCredit (dec_field j ''amount'')
          else None
      | _ \<Rightarrow> None)"

text \<open>The integers of a content are \<^verbatim>\<open>i64\<close> values.\<close>

fun content_in_range :: "balance_change_content \<Rightarrow> bool" where
  "content_in_range (SpendToken s) \<longleftrightarrow>
     in_i64 (st_input_tokens s) \<and> in_i64 (st_output_tokens s) \<and> in_i64 (st_total_tokens s) \<and>
     in_i64 (st_event_id s)"
| "content_in_range _ \<longleftrightarrow> True"

lemma content_of_to_json: "content_in_range c \<Longrightarrow> content_of_json (content_to_json c) = Some c"
  by (cases c)
    (auto simp: content_of_json_def spend_token_of_json_def int_field_def dec_field_def
      intro: spend_token.equality)

declare content_to_json.simps [simp del]

definition from_content :: "int \<Rightarrow> string \<Rightarrow> balance_change_content \<Rightarrow> new_balance_change" where
  "from_content account_id unique_request_id content =
     \<lparr>nbc_account_id = account_id, nbc_unique_request_id = unique_request_id,
      nbc_content = content_to_json content\<rparr>"

section \<open>Session events\<close>

definition fresh_event :: "new_session_event \<Rightarrow> timestamp \<Rightarrow> int \<Rightarrow> session_event" where
  "fresh_event n now i =
     \<lparr>se_id = i, se_session_id = nse_session_id n, se_session_index = nse_session_index n,
      se_account_id = nse_account_id n, se_model_id = nse_model_id n,
      se_api_key_id = nse_api_key_id n, se_input_token_price = nse_input_token_price n,
      se_input_tokens = nse_input_tokens n, se_output_token_price = nse_output_token_price n,
      se_output_tokens = nse_output_tokens n, se_event_data = nse_event_data n,
      se_created_at = now\<rparr>"

definition same_event_key :: "new_session_event \<Rightarrow> session_event \<Rightarrow> bool" where
  "same_event_key n e \<longleftrightarrow>
     se_session_id e = nse_session_id n \<and> se_session_index e = nse_session_index n"

definition overwrite_event :: "new_session_event \<Rightarrow> session_event \<Rightarrow> session_event" where
  "overwrite_event n e = e\<lparr>
     se_event_data := nse_event_data n, se_input_token_price := nse_input_token_price n,
     se_input_tokens := nse_input_tokens n, se_output_token_price := nse_output_token_price n,
     se_output_tokens := nse_output_tokens n\<rparr>"

text \<open>\<^verbatim>\<open>INSERT ... ON CONFLICT (session_id, session_index) DO UPDATE\<close>.\<close>

definition upsert_event_sql :: "new_session_event \<Rightarrow> session_event list stmt" where
  "upsert_event_sql n = (\<lambda>now d.
     if \<exists>e \<in> set (t_rows (session_events d)). same_event_key n e
     then update_stmt session_events session_events_update (same_event_key n)
            (\<lambda>_. overwrite_event n) now d
     else insert_stmt session_events session_events_update (fresh_event n) now d)"

definition create_session_event :: "new_session_event \<Rightarrow> (sqlx_error + session_event) io" where
  "create_session_event n = fetch_one (upsert_event_sql n)"

definition create_session_event_with_tx :: "new_session_event \<Rightarrow> (sqlx_error + session_event) io" where
  "create_session_event_with_tx n = tx_fetch_one (upsert_event_sql n)"

definition get_session_event_by_id :: "int \<Rightarrow> (sqlx_error + session_event option) io" where
  "get_session_event_by_id i =
     fetch_optional (rows_stmt (\<lambda>_ d. select_rows (\<lambda>e. se_id e = i) (session_events d)))"

definition list_session_events_cursor ::
    "string option \<Rightarrow> int \<Rightarrow> int \<Rightarrow> (sqlx_error + session_event list) io" where
  "list_session_events_cursor session_id start cnt =
     (case session_id of
        Some sid \<Rightarrow>
          db_stmt (page_stmt (wrap_i64 (cnt + 1)) 0 (\<lambda>d. sort_key se_id
            (select_rows (\<lambda>e. se_session_id e = sid \<and> se_id e > start) (session_events d))))
      | None \<Rightarrow>
          db_stmt (page_stmt (wrap_i64 (cnt + 1)) 0 (\<lambda>d. sort_key se_id
            (select_rows (\<lambda>e. se_id e > start) (session_events d)))))"

section \<open>Balance changes\<close>

definition fresh_change :: "new_balance_change \<Rightarrow> timestamp \<Rightarrow> int \<Rightarrow> balance_change" where
  "fresh_change n now i =
     \<lparr>bc_id = i, bc_account_id = nbc_account_id n, bc_unique_request_id = nbc_unique_request_id n,
      bc_content = nbc_content n, bc_is_applied = False, bc_subscription_id = 0,
      bc_created_at = now\<rparr>"

definition insert_change_sql :: "new_balance_change \<Rightarrow> balance_change list stmt" where
  "insert_change_sql n =
     guard_stmt (\<lambda>d. violates
         (\<exists>b \<in> set (t_rows (balance_changes d)). bc_unique_request_id b = nbc_unique_request_id n)
         ''idx_balance_changes_unique_request_id'')
     (guard_stmt (\<lambda>d. violates (\<forall>a \<in> set (t_rows (accounts d)). acc_id a \<noteq> nbc_account_id n)
         ''balance_changes_account_id_fkey'')
     (insert_stmt balance_changes balance_changes_update (fresh_change n)))"

definition find_change_sql :: "int \<Rightarrow> balance_change list stmt" where
  "find_change_sql i =
     rows_stmt (\<lambda>_ d. select_rows (\<lambda>b. bc_id b = i) (balance_changes d))"

definition find_balance_change_by_id :: "int \<Rightarrow> (sqlx_error + balance_change option) io" where
  "find_balance_change_by_id i = fetch_optional (find_change_sql i)"

definition find_balance_change_by_id_with_tx :: "int \<Rightarrow> (sqlx_error + balance_change option) io" where
  "find_balance_change_by_id_with_tx i = tx_fetch_optional (find_change_sql i)"

definition create_balance_change :: "new_balance_change \<Rightarrow> (sqlx_error + balance_change) io" where
  "create_balance_change n = fetch_one (insert_change_sql n)"

definition create_balance_change_with_tx :: "new_balance_change \<Rightarrow> (sqlx_error + balance_change) io" where
  "create_balance_change_with_tx n = tx_fetch_one (insert_change_sql n)"

section \<open>Wallets\<close>

definition find_wallet_sql :: "int \<Rightarrow> wallet list stmt" where
  "find_wallet_sql account_id =
     rows_stmt (\<lambda>_ d. select_rows (\<lambda>w. wal_account_id w = account_id) (wallets d))"

definition find_account_wallet :: "int \<Rightarrow> (sqlx_error + wallet option) io" where
  "find_account_wallet account_id = fetch_optional (find_wallet_sql account_id)"

definition fresh_wallet :: "new_wallet \<Rightarrow> timestamp \<Rightarrow> int \<Rightarrow> wallet" where
  "fresh_wallet n now i =
     \<lparr>wal_id = i, wal_account_id = nw_account_id n, wal_balance = nw_balance n,
      wal_created_at = now, wal_updated_at = now\<rparr>"

definition insert_wallet_sql :: "new_wallet \<Rightarrow> wallet list stmt" where
  "insert_wallet_sql n =
     guard_stmt (\<lambda>d. violates (\<exists>w \<in> set (t_rows (wallets d)). wal_account_id w = nw_account_id n)
         ''idx_wallets_account_id'')
     (guard_stmt (\<lambda>d. violates (\<forall>a \<in> set (t_rows (accounts d)). acc_id a \<noteq> nw_account_id n)
         ''wallets_account_id_fkey'')
     (insert_stmt wallets wallets_update (fresh_wallet n)))"

definition set_balance_sql :: "int \<Rightarrow> decimal \<Rightarrow> wallet list stmt" where
  "set_balance_sql i balance =
     update_stmt wallets wallets_update (\<lambda>w. wal_id w = i)
       (\<lambda>now w. w\<lparr>wal_balance := balance, wal_updated_at := now\<rparr>)"

definition mark_applied_sql :: "int \<Rightarrow> int \<Rightarrow> balance_change list stmt" where
  "mark_applied_sql i subscription_id =
     update_stmt balance_changes balance_changes_update (\<lambda>b. bc_id b = i)
       (\<lambda>_ b. b\<lparr>bc_is_applied := True, bc_subscription_id := subscription_id\<rparr>)"

definition mark_balance_change_applied_with_tx :: "int \<Rightarrow> int \<Rightarrow> (sqlx_error + unit) io" where
  "mark_balance_change_applied_with_tx i subscription_id =
     bind_ok (tx_stmt (affected (mark_applied_sql i subscription_id))) (\<lambda>_. return (Inr ()))"

text \<open>
  The new balance, and the identifier of the subscription a usage was charged to (0 for none), as
  \<^verbatim>\<open>match content\<close> computes them.
\<close>

definition new_balance_of ::
    "int \<Rightarrow> decimal \<Rightarrow> balance_change_content \<Rightarrow> (sqlx_error + (decimal \<times> int)) io" where
  "new_balance_of account_id balance content =
     (case content of
        SpendToken spend \<Rightarrow>
          let total_tokens = wrap_i64 (st_input_tokens spend + st_output_tokens spend);
              spend_amount = st_input_spend_amount spend + st_output_spend_amount spend
          in bind_ok (get_current_subscription_with_tx account_id total_tokens) (\<lambda>cur.
               case cur of
                 Some s \<Rightarrow>
                   bind_ok (increment_subscription_usage_with_tx s total_tokens spend_amount)
                     (\<lambda>_. return (Inr (balance, sub_id s)))
               | None \<Rightarrow> return (Inr (balance - spend_amount, 0)))
      | Deposit amount \<Rightarrow> return (Inr (balance + amount, 0))
      | AddCredit amount \<Rightarrow> return (Inr (balance + amount, 0))
      | Withdraw amount \<Rightarrow> return (Inr (balance - amount, 0)))"

definition find_or_create_wallet :: "int \<Rightarrow> (sqlx_error + wallet) io" where
  "find_or_create_wallet account_id =
     bind_ok (tx_fetch_optional (find_wallet_sql account_id)) (\<lambda>found.
       case found of
         Some uf \<Rightarrow> return (Inr uf)
       | None \<Rightarrow> tx_fetch_one (insert_wallet_sql \<lparr>nw_account_id = account_id, nw_balance = 0\<rparr>))"

definition apply_balance_change_with_tx ::
    "balance_change \<Rightarrow> balance_change_content \<Rightarrow> (sqlx_error + wallet) io" where
  "apply_balance_change_with_tx bc content =
     bind_ok (find_or_create_wallet (bc_account_id bc)) (\<lambda>account_wallet.
     bind_ok (new_balance_of (bc_account_id bc) (wal_balance account_wallet) content)
       (\<lambda>(new_balance, subscription_id).
     bind_ok (if new_balance \<noteq> wal_balance account_wallet
              then tx_fetch_one (set_balance_sql (wal_id account_wallet) new_balance)
              else return (Inr account_wallet)) (\<lambda>return_wallet.
     bind_ok (mark_balance_change_applied_with_tx (bc_id bc) subscription_id)
       (\<lambda>_. return (Inr return_wallet)))))"

definition apply_balance_change ::
    "balance_change \<Rightarrow> balance_change_content \<Rightarrow> (sqlx_error + wallet) io" where
  "apply_balance_change bc content = tx_scope (
     bind_ok tx_begin (\<lambda>_.
     bind_ok (apply_balance_change_with_tx bc content) (\<lambda>result.
     bind_ok tx_commit (\<lambda>_. return (Inr result)))))"

end
