(* ===== verification/Ledger.thy ===== *)
theory Ledger
  imports Wallets
begin

text \<open>
  What applying a balance change promises, stated without the statements that do it.
  \<open>settled_db\<close> is the reference: the account has a wallet, the amount is either charged to the
  account's current subscription or added to its balance, and the change is marked.  The lemma
  \<open>apply_settles\<close> shows that the statements of \<^verbatim>\<open>apply_balance_change_with_tx\<close>, which read
  balances, compute in Rust and write absolute values back, implement it.
\<close>

section \<open>Amounts\<close>

definition spent_money :: "spend_token \<Rightarrow> decimal" where
  "spent_money s = st_input_spend_amount s + st_output_spend_amount s"

fun delta :: "balance_change_content \<Rightarrow> decimal" where
  "delta (SpendToken s) = - spent_money s"
| "delta (Deposit amount) = amount"
| "delta (AddCredit amount) = amount"
| "delta (Withdraw amount) = - amount"

definition spent_tokens :: "spend_token \<Rightarrow> int" where
  "spent_tokens s = wrap_i64 (st_input_tokens s + st_output_tokens s)"

section \<open>The reference\<close>

definition ensure_wallet :: "timestamp \<Rightarrow> int \<Rightarrow> db \<Rightarrow> db" where
  "ensure_wallet now a d =
     (if \<exists>w \<in> set (t_rows (wallets d)). wal_account_id w = a then d
      else wallets_update (\<lambda>_. snd (insert_row
             (fresh_wallet \<lparr>nw_account_id = a, nw_balance = 0\<rparr> now) (wallets d))) d)"

definition add_balance :: "timestamp \<Rightarrow> int \<Rightarrow> decimal \<Rightarrow> db \<Rightarrow> db" where
  "add_balance now a x d =
     (if x = 0 then d
      else wallets_update (\<lambda>_. snd (update_rows (\<lambda>w. wal_account_id w = a)
             (\<lambda>w. w\<lparr>wal_balance := wal_balance w + x, wal_updated_at := now\<rparr>) (wallets d))) d)"

definition charge_subscription :: "timestamp \<Rightarrow> int \<Rightarrow> int \<Rightarrow> decimal \<Rightarrow> db \<Rightarrow> db" where
  "charge_subscription now i tokens money d =
     subscriptions_update (\<lambda>_. snd (update_rows (\<lambda>s. sub_id s = i)
       (\<lambda>s. s\<lparr>sub_used_total_tokens := sub_used_total_tokens s + tokens,
               sub_used_money := sub_used_money s + money, sub_updated_at := now\<rparr>)
       (subscriptions d))) d"

definition mark_applied :: "int \<Rightarrow> int \<Rightarrow> db \<Rightarrow> db" where
  "mark_applied i sid d =
     balance_changes_update (\<lambda>_. snd (update_rows (\<lambda>b. bc_id b = i)
       (\<lambda>b. b\<lparr>bc_is_applied := True, bc_subscription_id := sid\<rparr>) (balance_changes d))) d"

definition usable_subscription :: "timestamp \<Rightarrow> int \<Rightarrow> int \<Rightarrow> db \<Rightarrow> subscription option" where
  "usable_subscription now a tokens d =
     first_row (sort_key (\<lambda>s. - sub_sort_order s)
       (select_rows (\<lambda>s. in_force now a s \<and> has_quota tokens s) (subscriptions d)))"

definition paying_subscription ::
    "timestamp \<Rightarrow> int \<Rightarrow> balance_change_content \<Rightarrow> db \<Rightarrow> subscription option" where
  "paying_subscription now a c d =
     (case c of SpendToken s \<Rightarrow> usable_subscription now a (spent_tokens s) d | _ \<Rightarrow> None)"

definition settled_db :: "timestamp \<Rightarrow> balance_change \<Rightarrow> balance_change_content \<Rightarrow> db \<Rightarrow> db" where
  "settled_db now bc c d =
     (let a = bc_account_id bc; d1 = ensure_wallet now a d in
      case (c, paying_subscription now a c d) of
        (SpendToken s, Some sub) \<Rightarrow>
          mark_applied (bc_id bc) (sub_id sub)
            (charge_subscription now (sub_id sub) (spent_tokens s) (spent_money s) d1)
      | _ \<Rightarrow> mark_applied (bc_id bc) 0 (add_balance now a (delta c) d1))"

text \<open>What the reference relies on: the primary keys and unique indexes of the schema.\<close>

definition bill_wf :: "db \<Rightarrow> bool" where
  "bill_wf d \<longleftrightarrow>
     ids_ok wal_id (wallets d) \<and> distinct (map wal_account_id (t_rows (wallets d))) \<and>
     ids_ok bc_id (balance_changes d) \<and>
     distinct (map bc_unique_request_id (t_rows (balance_changes d))) \<and>
     ids_ok sub_id (subscriptions d)"

section \<open>The statements implement the reference\<close>

text \<open>The errors of a healthy database: a missing account, or an overflow of the token counts.\<close>

definition settle_error :: "timestamp \<Rightarrow> int \<Rightarrow> balance_change_content \<Rightarrow> db \<Rightarrow> sqlx_error \<Rightarrow> bool" where
  "settle_error now a c d e \<longleftrightarrow>
     e = Database (Some ''wallets_account_id_fkey'') \<and> (\<forall>x \<in> set (t_rows (accounts d)). acc_id x \<noteq> a) \<or>
     e = Database None \<and>
       (\<exists>s r. c = SpendToken s \<and> r \<in> set (t_rows (subscriptions d)) \<and> in_force now a r \<and>
          \<not> in_i64 (sub_used_total_tokens r + spent_tokens s))"

lemma first_row_take [simp]: "first_row (take (Suc 0) xs) = first_row xs"
  by (cases xs) auto

lemma sort_key_empty [simp]: "sort_key f xs = [] \<longleftrightarrow> xs = []"
  by (metis length_0_conv length_sort)

lemma first_row_least:
  fixes f :: "'a \<Rightarrow> 'k :: linorder"
  assumes "first_row (sort_key f xs) = Some x"
  shows "x \<in> set xs" and "y \<in> set xs \<Longrightarrow> f x \<le> f y"
proof -
  obtain ys where ys: "sort_key f xs = x # ys"
    using assms by (cases "sort_key f xs") (auto simp: first_row_def)
  then have "set xs = insert x (set ys)" by (metis list.simps(15) set_sort)
  moreover have "sorted (map f (x # ys))" by (metis sorted_sort_key ys)
  ultimately show "x \<in> set xs" and "y \<in> set xs \<Longrightarrow> f x \<le> f y" by auto
qed

lemma find_or_create_ensures:
  "tx_triple now d (find_or_create_wallet a)
     (\<lambda>w d'. d' = ensure_wallet now a d \<and> w \<in> set (t_rows (wallets d')) \<and> wal_account_id w = a)
     (settle_error now a c d)"
  unfolding find_or_create_wallet_def
proof (rule tx_triple_bind, rule tx_triple_fetch_optional)
  fix rs d' assume "find_wallet_sql a now d = Inr (rs, d')"
  then show "d' = d \<and> first_row rs = first_row (select_rows (\<lambda>w. wal_account_id w = a) (wallets d))"
    by (auto simp: find_wallet_sql_def sql_defs)
next
  fix e assume "find_wallet_sql a now d = Inl e"
  then show "settle_error now a c d e" by (simp add: find_wallet_sql_def sql_defs)
next
  fix r d'
  assume r: "d' = d \<and> r = first_row (select_rows (\<lambda>w. wal_account_id w = a) (wallets d))"
  show "tx_triple now d'
          (case r of None \<Rightarrow> tx_fetch_one (insert_wallet_sql \<lparr>nw_account_id = a, nw_balance = 0\<rparr>)
           | Some uf \<Rightarrow> return (Inr uf))
          (\<lambda>w d'. d' = ensure_wallet now a d \<and> w \<in> set (t_rows (wallets d')) \<and> wal_account_id w = a)
          (settle_error now a c d)"
  proof (rule tx_triple_case_option)
    assume "r = None"
    with r have no: "\<forall>w \<in> set (t_rows (wallets d)). wal_account_id w \<noteq> a" and [simp]: "d' = d"
      by (auto simp: select_rows_def filter_empty_conv eq_commute [of None])
    show "tx_triple now d' (tx_fetch_one (insert_wallet_sql \<lparr>nw_account_id = a, nw_balance = 0\<rparr>))
          (\<lambda>w d'. d' = ensure_wallet now a d \<and> w \<in> set (t_rows (wallets d')) \<and> wal_account_id w = a)
          (settle_error now a c d)"
      by (rule tx_triple_fetch_one)
        (use no in \<open>auto simp: insert_wallet_sql_def sql_defs violates_def insert_row_def Let_def
           fresh_wallet_def ensure_wallet_def settle_error_def
           intro!: db.equality split: if_splits\<close>)
  next
    fix v assume "r = Some v"
    with r have "v \<in> set (select_rows (\<lambda>w. wal_account_id w = a) (wallets d))" "d' = d"
      by (auto dest!: first_row_mem [OF sym])
    then show "tx_triple now d' (return (Inr v))
          (\<lambda>w d'. d' = ensure_wallet now a d \<and> w \<in> set (t_rows (wallets d')) \<and> wal_account_id w = a)
          (settle_error now a c d)"
      by (intro tx_triple_return) (auto simp: ensure_wallet_def select_rows_def)
  qed
qed

lemma current_subscription_sql_usable:
  assumes "current_subscription_sql a tokens now d = Inr (rs, d')"
  shows "d' = d" and "first_row rs = usable_subscription now a tokens d"
    and "s \<in> set rs \<Longrightarrow> in_i64 (sub_used_total_tokens s + tokens)"
  using assms
  by (auto simp: current_subscription_sql_def usable_subscription_def Let_def select_rows_def
      conj_commute split: if_splits dest!: in_set_takeD)

lemma usable_subscription_in:
  "usable_subscription now a tokens d = Some s \<Longrightarrow>
   s \<in> set (t_rows (subscriptions d)) \<and> in_force now a s \<and> has_quota tokens s"
  by (auto simp: usable_subscription_def select_rows_def dest!: first_row_mem)

lemma charge_sql_charges:
  assumes "ids_ok sub_id (subscriptions d)" and "s \<in> set (t_rows (subscriptions d))"
    and "in_i64 (sub_used_total_tokens s + tokens)"
  shows "\<exists>n. affected (charge_subscription_sql s tokens money) now d
           = Inr (n, charge_subscription now (sub_id s) tokens money d)"
proof -
  have uniq: "r = s" if "r \<in> set (t_rows (subscriptions d))" "sub_id r = sub_id s" for r
    by (rule ids_ok_unique [OF assms(1) that(1) assms(2) that(2)])
  have eq: "update_rows (\<lambda>r. sub_id r = sub_id s)
      (\<lambda>r. r\<lparr>sub_used_total_tokens := wrap_i64 (sub_used_total_tokens s + tokens),
              sub_used_money := sub_used_money s + money, sub_updated_at := now\<rparr>) (subscriptions d)
    = update_rows (\<lambda>r. sub_id r = sub_id s)
      (\<lambda>r. r\<lparr>sub_used_total_tokens := sub_used_total_tokens r + tokens,
              sub_used_money := sub_used_money r + money, sub_updated_at := now\<rparr>) (subscriptions d)"
    by (rule update_rows_cong) (drule (1) uniq, simp add: assms(3))
  show ?thesis
    unfolding charge_subscription_sql_def charge_subscription_def sql_defs Let_def eq by simp
qed

lemma new_balance_computes:
  assumes "ids_ok sub_id (subscriptions d)"
  shows "tx_triple now d (new_balance_of a balance c)
     (\<lambda>(nb, sid) d'. case (c, paying_subscription now a c d) of
         (SpendToken s, Some sub) \<Rightarrow>
           nb = balance \<and> sid = sub_id sub \<and>
           d' = charge_subscription now (sub_id sub) (spent_tokens s) (spent_money s) d
       | _ \<Rightarrow> nb = balance + delta c \<and> sid = 0 \<and> d' = d)
     (settle_error now a c d)"
proof (cases c)
  case (SpendToken s)
  let ?cur = "\<lambda>cur d'. d' = d \<and> cur = usable_subscription now a (spent_tokens s) d \<and>
                (\<forall>x. cur = Some x \<longrightarrow> in_i64 (sub_used_total_tokens x + spent_tokens s))"
  have cur: "tx_triple now d (get_current_subscription_with_tx a (spent_tokens s)) ?cur (settle_error now a c d)"
    unfolding get_current_subscription_with_tx_def
  proof (rule tx_triple_fetch_optional, goal_cases)
    case (1 xs d')
    then show ?case
      using current_subscription_sql_usable [OF 1] first_row_mem by metis
  next
    case (2 e)
    then show ?case
      by (auto simp: current_subscription_sql_def settle_error_def Let_def SpendToken select_rows_def
          split: if_splits)
  qed
  have charge: "tx_triple now d (increment_subscription_usage_with_tx x (spent_tokens s) m)
      (\<lambda>_ d'. d' = charge_subscription now (sub_id x) (spent_tokens s) m d) (settle_error now a c d)"
    if "usable_subscription now a (spent_tokens s) d = Some x"
      and "in_i64 (sub_used_total_tokens x + spent_tokens s)" for x m
  proof -
    have "x \<in> set (t_rows (subscriptions d))" using that usable_subscription_in by blast
    with charge_sql_charges [OF assms, of x "spent_tokens s" m now] that
    obtain n where "affected (charge_subscription_sql x (spent_tokens s) m) now d
        = Inr (n, charge_subscription now (sub_id x) (spent_tokens s) m d)" by blast
    then show ?thesis
      unfolding increment_subscription_usage_with_tx_def
      by (intro tx_triple_bind [OF tx_triple_stmt] tx_triple_return) auto
  qed
  show ?thesis
    unfolding new_balance_of_def SpendToken balance_change_content.case Let_def
      spent_tokens_def [symmetric] spent_money_def [symmetric]
  proof (rule tx_triple_bind [OF cur [unfolded SpendToken]], rule tx_triple_case_option, goal_cases)
    case (1 cur d')
    then show ?case
      by (intro tx_triple_return) (auto simp: paying_subscription_def)
  next
    case (2 cur d' x)
    then have x: "usable_subscription now a (spent_tokens s) d = Some x"
      "in_i64 (sub_used_total_tokens x + spent_tokens s)" and [simp]: "d' = d"
      by simp_all
    show ?case
      unfolding \<open>d' = d\<close>
      by (rule tx_triple_bind [OF charge [OF x, unfolded SpendToken]])
        (auto simp: paying_subscription_def x(1) add.commute intro!: tx_triple_return)
  qed
qed (auto simp: new_balance_of_def paying_subscription_def intro: tx_triple_return)

lemma ensure_wallet_simps [simp]:
  "accounts (ensure_wallet now a d) = accounts d"
  "subscriptions (ensure_wallet now a d) = subscriptions d"
  "balance_changes (ensure_wallet now a d) = balance_changes d"
  by (simp_all add: ensure_wallet_def)

lemma settle_error_ensure [simp]:
  "settle_error now a c (ensure_wallet now' b d) = settle_error now a c d"
  by (simp add: settle_error_def fun_eq_iff)

lemma usable_ensure [simp]:
  "paying_subscription now a c (ensure_wallet now b d) = paying_subscription now a c d"
  by (simp add: paying_subscription_def usable_subscription_def split: balance_change_content.split)

lemma ensure_wallet_wf:
  assumes "bill_wf d"
  shows "bill_wf (ensure_wallet now a d)"
  using assms
  by (auto simp: bill_wf_def ensure_wallet_def ids_ok_def insert_row_def Let_def fresh_wallet_def)

lemma set_balance_adds:
  assumes "bill_wf d" and "w \<in> set (t_rows (wallets d))" and "wal_account_id w = a" and "x \<noteq> 0"
  shows "\<exists>w'. set_balance_sql (wal_id w) (wal_balance w + x) now d = Inr ([w'], add_balance now a x d)
           \<and> wal_account_id w' = a"
proof -
  have same: "wal_id r = wal_id w \<longleftrightarrow> wal_account_id r = a" "wal_id r = wal_id w \<Longrightarrow> r = w"
    if "r \<in> set (t_rows (wallets d))" for r
    using assms that by (auto simp: bill_wf_def ids_ok_def distinct_map inj_on_def)
  have rows: "filter (\<lambda>r. wal_id r = wal_id w) (t_rows (wallets d)) = [w]"
    using assms(1) by (intro ids_ok_filter_pk assms(2)) (simp add: bill_wf_def)
  have eq: "snd (update_rows (\<lambda>r. wal_id r = wal_id w)
      (\<lambda>r. r\<lparr>wal_balance := wal_balance w + x, wal_updated_at := now\<rparr>) (wallets d))
    = snd (update_rows (\<lambda>r. wal_account_id r = a)
      (\<lambda>r. r\<lparr>wal_balance := wal_balance r + x, wal_updated_at := now\<rparr>) (wallets d))"
  proof -
    have "(if wal_id r = wal_id w
            then r\<lparr>wal_balance := wal_balance w + x, wal_updated_at := now\<rparr> else r)
        = (if wal_account_id r = a
            then r\<lparr>wal_balance := wal_balance r + x, wal_updated_at := now\<rparr> else r)"
      if r: "r \<in> set (t_rows (wallets d))" for r
    proof (cases "wal_id r = wal_id w")
      case True
      then have "r = w" by (rule same(2) [OF r])
      then show ?thesis by (simp add: assms(3))
    qed (simp add: same(1) [OF r])
    then show ?thesis by (simp add: update_rows_def)
  qed
  show ?thesis
    unfolding set_balance_sql_def add_balance_def sql_defs Let_def eq
    using assms(3,4) by (simp add: update_rows_def rows)
qed

lemma mark_applied_marks:
  "\<exists>n. affected (mark_applied_sql i sid) now d = Inr (n, mark_applied i sid d)"
  by (simp add: mark_applied_sql_def mark_applied_def sql_defs Let_def)

lemma mark_triple:
  "tx_triple now d (mark_balance_change_applied_with_tx i sid) (\<lambda>_ d'. d' = mark_applied i sid d) E"
  unfolding mark_balance_change_applied_with_tx_def
  using mark_applied_marks [of i sid now d]
  by (intro tx_triple_bind [OF tx_triple_stmt [where P = "\<lambda>_ d'. d' = mark_applied i sid d"]]
      tx_triple_return) auto

lemma charge_subscription_simps [simp]:
  "wallets (charge_subscription now i t m d) = wallets d"
  "balance_changes (charge_subscription now i t m d) = balance_changes d"
  by (simp_all add: charge_subscription_def)

lemma apply_settles:
  assumes "bill_wf d"
  shows "tx_triple now d (apply_balance_change_with_tx bc c)
     (\<lambda>w d'. d' = settled_db now bc c d \<and> wal_account_id w = bc_account_id bc)
     (settle_error now (bc_account_id bc) c d)"
  unfolding apply_balance_change_with_tx_def
proof (rule tx_triple_bind [OF find_or_create_ensures], elim conjE, goal_cases)
  case w: (1 w d1)
  then have wf: "bill_wf d1" using assms ensure_wallet_wf by blast
  then have "ids_ok sub_id (subscriptions d1)" by (simp add: bill_wf_def)
  note computes = new_balance_computes [OF this]
  have eq: "settle_error now a c d1 = settle_error now a c d" for now a c using w by simp
  note new = computes [unfolded eq]
  show ?case
  proof (rule tx_triple_bind [OF new], goal_cases)
    case (1 x d2)
    obtain nb sid where x: "x = (nb, sid)" by (cases x)
    note d2 = 1 [unfolded x prod.case]
    let ?final = "\<lambda>w' d'. d' = (if nb = wal_balance w then d2 else add_balance now (bc_account_id bc) (delta c) d1)
                    \<and> wal_account_id w' = bc_account_id bc"
    have row: "tx_triple now d2 (if nb \<noteq> wal_balance w then tx_fetch_one (set_balance_sql (wal_id w) nb)
                else return (Inr w)) ?final
        (settle_error now (bc_account_id bc) c d)"
    proof (rule tx_triple_if)
      assume "nb \<noteq> wal_balance w"
      with d2 have nb: "nb = wal_balance w + delta c" "delta c \<noteq> 0" "d2 = d1"
        by (auto split: balance_change_content.splits option.splits)
      from set_balance_adds [OF wf _ _ nb(2), of w "bc_account_id bc" now] w
      obtain w' where "set_balance_sql (wal_id w) nb now d1
          = Inr ([w'], add_balance now (bc_account_id bc) (delta c) d1)"
        and "wal_account_id w' = bc_account_id bc"
        unfolding nb by auto
      then show "tx_triple now d2 (tx_fetch_one (set_balance_sql (wal_id w) nb)) ?final
        (settle_error now (bc_account_id bc) c d)"
        by (intro tx_triple_fetch_one) (auto simp: nb)
    qed (auto intro: tx_triple_return simp: w)
    show ?case
      unfolding x prod.case
    proof (rule tx_triple_bind [OF row], elim conjE, goal_cases)
      case (1 w' d3)
      have "mark_applied (bc_id bc) sid d3 = settled_db now bc c d"
        using d2 1(1) w
        by (auto simp: settled_db_def Let_def add_balance_def
            split: balance_change_content.splits option.splits)
      with 1(2) show ?case
        by (intro tx_triple_bind [OF mark_triple] tx_triple_return) auto
    qed
  qed
qed

section \<open>The ledger\<close>

text \<open>
  The money of an account in four columns: what its wallet holds, what its subscriptions absorbed,
  and the sum of the amounts of its applied balance changes.  The books balance when the first two
  account for the third.
\<close>

definition balance_of :: "db \<Rightarrow> int \<Rightarrow> decimal" where
  "balance_of d a = (\<Sum>w\<leftarrow>t_rows (wallets d). if wal_account_id w = a then wal_balance w else 0)"

definition used_money_of :: "db \<Rightarrow> int \<Rightarrow> decimal" where
  "used_money_of d a =
     (\<Sum>s\<leftarrow>t_rows (subscriptions d). if sub_account_id s = a then sub_used_money s else 0)"

definition change_amount :: "balance_change \<Rightarrow> decimal" where
  "change_amount b = (case content_of_json (bc_content b) of None \<Rightarrow> 0 | Some c \<Rightarrow> delta c)"

definition applied_total :: "db \<Rightarrow> int \<Rightarrow> decimal" where
  "applied_total d a =
     (\<Sum>b\<leftarrow>t_rows (balance_changes d).
        if bc_account_id b = a \<and> bc_is_applied b then change_amount b else 0)"

definition ledger_ok :: "db \<Rightarrow> bool" where
  "ledger_ok d \<longleftrightarrow> (\<forall>a. balance_of d a - used_money_of d a = applied_total d a)"

text \<open>No subscription is used beyond its limit.\<close>

definition quota_ok :: "db \<Rightarrow> bool" where
  "quota_ok d \<longleftrightarrow>
     (\<forall>s \<in> set (t_rows (subscriptions d)). sub_used_total_tokens s \<le> sub_total_token_limit s)"

lemma add_balance_simps [simp]:
  "subscriptions (add_balance now a x d) = subscriptions d"
  "balance_changes (add_balance now a x d) = balance_changes d"
  by (simp_all add: add_balance_def)

lemma mark_applied_simps [simp]:
  "subscriptions (mark_applied i sid d) = subscriptions d"
  "wallets (mark_applied i sid d) = wallets d"
  by (simp_all add: mark_applied_def)

lemma ledger_columns_frame [simp]:
  "balance_of (mark_applied i sid d) a = balance_of d a"
  "balance_of (charge_subscription now j t m d) a = balance_of d a"
  "used_money_of (mark_applied i sid d) a = used_money_of d a"
  "used_money_of (add_balance now b x d) a = used_money_of d a"
  "used_money_of (ensure_wallet now b d) a = used_money_of d a"
  "applied_total (charge_subscription now j t m d) a = applied_total d a"
  "applied_total (add_balance now b x d) a = applied_total d a"
  "applied_total (ensure_wallet now b d) a = applied_total d a"
  by (simp_all add: balance_of_def used_money_of_def applied_total_def)

lemma balance_of_ensure [simp]: "balance_of (ensure_wallet now b d) a = balance_of d a"
  by (simp add: balance_of_def ensure_wallet_def insert_row_def Let_def fresh_wallet_def)

lemma balance_of_add:
  assumes "distinct (map wal_account_id (t_rows (wallets d)))"
    and "\<exists>w \<in> set (t_rows (wallets d)). wal_account_id w = b"
  shows "balance_of (add_balance now b x d) a = balance_of d a + (if a = b then x else 0)"
proof (cases "x = 0")
  case False
  from assms(2) obtain w where w: "w \<in> set (t_rows (wallets d))" "wal_account_id w = b" by blast
  let ?F = "\<lambda>w. if wal_account_id w = a then wal_balance w else 0"
  let ?g = "\<lambda>w. w\<lparr>wal_balance := wal_balance w + x, wal_updated_at := now\<rparr>"
  have "balance_of (add_balance now b x d) a
      = (\<Sum>r\<leftarrow>t_rows (wallets d). ?F (if wal_account_id r = wal_account_id w then ?g r else r))"
    unfolding w(2) [symmetric] using False
    by (simp add: add_balance_def balance_of_def t_rows_update comp_def)
  also have "\<dots> = (\<Sum>r\<leftarrow>t_rows (wallets d). ?F r) - ?F w + ?F (?g w)"
    by (rule sum_list_update_key [OF assms(1) w(1)])
  finally show ?thesis using w(2) by (simp add: balance_of_def)
qed (simp add: add_balance_def)

lemma used_money_of_charge:
  assumes "ids_ok sub_id (subscriptions d)" and "s \<in> set (t_rows (subscriptions d))"
  shows "used_money_of (charge_subscription now (sub_id s) t m d) a
           = used_money_of d a + (if sub_account_id s = a then m else 0)"
  using sum_list_update_key [of sub_id "t_rows (subscriptions d)" s
      "\<lambda>s. if sub_account_id s = a then sub_used_money s else 0"
      "\<lambda>s. s\<lparr>sub_used_total_tokens := sub_used_total_tokens s + t,
              sub_used_money := sub_used_money s + m, sub_updated_at := now\<rparr>"] assms
  by (simp add: charge_subscription_def used_money_of_def t_rows_update comp_def ids_ok_def)

lemma applied_total_mark:
  assumes "ids_ok bc_id (balance_changes d)" and "b \<in> set (t_rows (balance_changes d))"
    and "\<not> bc_is_applied b"
  shows "applied_total (mark_applied (bc_id b) sid d) a
           = applied_total d a + (if bc_account_id b = a then change_amount b else 0)"
  using sum_list_update_key [of bc_id "t_rows (balance_changes d)" b
      "\<lambda>b. if bc_account_id b = a \<and> bc_is_applied b then change_amount b else 0"
      "\<lambda>b. b\<lparr>bc_is_applied := True, bc_subscription_id := sid\<rparr>"] assms
  by (simp add: mark_applied_def applied_total_def t_rows_update comp_def ids_ok_def
      change_amount_def)

lemma ensure_wallet_has: "\<exists>w \<in> set (t_rows (wallets (ensure_wallet now a d))). wal_account_id w = a"
  by (auto simp: ensure_wallet_def insert_row_def Let_def fresh_wallet_def)

lemma paying_subscription_in:
  "paying_subscription now a c d = Some s \<Longrightarrow>
   \<exists>t. c = SpendToken t \<and> s \<in> set (t_rows (subscriptions d)) \<and> in_force now a s \<and>
       has_quota (spent_tokens t) s"
  by (auto simp: paying_subscription_def usable_subscription_in split: balance_change_content.splits)

lemma settled_cases:
  obtains (wallet) "paying_subscription now (bc_account_id bc) c d = None"
      "settled_db now bc c d = mark_applied (bc_id bc) 0
         (add_balance now (bc_account_id bc) (delta c) (ensure_wallet now (bc_account_id bc) d))"
  | (subscription) t s where "paying_subscription now (bc_account_id bc) c d = Some s"
      "c = SpendToken t" "s \<in> set (t_rows (subscriptions d))" "in_force now (bc_account_id bc) s"
      "has_quota (spent_tokens t) s"
      "settled_db now bc c d = mark_applied (bc_id bc) (sub_id s)
         (charge_subscription now (sub_id s) (spent_tokens t) (spent_money t)
           (ensure_wallet now (bc_account_id bc) d))"
proof (cases "paying_subscription now (bc_account_id bc) c d")
  case None
  then show ?thesis
    by (intro wallet) (auto simp: settled_db_def Let_def split: balance_change_content.split)
next
  case (Some s)
  with paying_subscription_in [OF Some] show ?thesis
    by (auto simp: settled_db_def intro: subscription)
qed

text \<open>Settling a change moves its amount, whoever pays.\<close>

lemma settled_net:
  assumes "bill_wf d"
  shows "balance_of (settled_db now bc c d) a - used_money_of (settled_db now bc c d) a
           = balance_of d a - used_money_of d a + (if a = bc_account_id bc then delta c else 0)"
proof -
  note wf = assms [THEN ensure_wallet_wf, of now "bc_account_id bc", unfolded bill_wf_def]
  show ?thesis
  proof (cases rule: settled_cases [of now bc c d])
    case wallet
    then show ?thesis using wf ensure_wallet_has by (simp add: balance_of_add)
  next
    case (subscription t s)
    then show ?thesis using wf by (simp add: used_money_of_charge in_force_def)
  qed
qed

lemma settled_applied_total:
  assumes "bill_wf d" and "bc \<in> set (t_rows (balance_changes d))" and "\<not> bc_is_applied bc"
    and "content_of_json (bc_content bc) = Some c"
  shows "applied_total (settled_db now bc c d) a
           = applied_total d a + (if a = bc_account_id bc then delta c else 0)"
  using assms
  by (cases rule: settled_cases [of now bc c d])
    (auto simp: applied_total_mark bill_wf_def change_amount_def)

lemma settled_ledger:
  assumes "bill_wf d" and "bc \<in> set (t_rows (balance_changes d))" and "\<not> bc_is_applied bc"
    and "content_of_json (bc_content bc) = Some c" and "ledger_ok d"
  shows "ledger_ok (settled_db now bc c d)"
  using assms(5) settled_net [OF assms(1)] settled_applied_total [OF assms(1-4)]
  by (simp add: ledger_ok_def)

lemma wf_parts:
  "bill_wf d \<Longrightarrow> bill_wf (mark_applied i sid d)"
  "bill_wf d \<Longrightarrow> bill_wf (charge_subscription now j t m d)"
  "bill_wf d \<Longrightarrow> bill_wf (add_balance now a x d)"
  by (auto simp: bill_wf_def mark_applied_def charge_subscription_def add_balance_def t_rows_update
      comp_def if_distrib [of wal_account_id] if_distrib [of bc_unique_request_id]
      intro: ids_ok_update cong: if_cong)

lemma settled_wf: "bill_wf d \<Longrightarrow> bill_wf (settled_db now bc c d)"
  by (cases rule: settled_cases [of now bc c d]) (simp_all add: wf_parts ensure_wallet_wf)

lemma settled_quota:
  assumes "bill_wf d" and "quota_ok d"
  shows "quota_ok (settled_db now bc c d)"
proof (cases rule: settled_cases [of now bc c d])
  case wallet
  then show ?thesis using assms by (simp add: quota_ok_def)
next
  case (subscription t s)
  then have uniq: "r = s" if "r \<in> set (t_rows (subscriptions d))" "sub_id r = sub_id s" for r
    using assms that ids_ok_unique [of sub_id "subscriptions d" r s] by (simp add: bill_wf_def)
  show ?thesis
    using subscription assms(2)
    by (auto simp: quota_ok_def charge_subscription_def t_rows_update has_quota_def)
      (drule (1) uniq, simp)
qed

end
