(* ===== verification/Crypto.thy ===== *)
theory Crypto
  imports Transactions
begin

text \<open>
  Encryption of API keys at rest, \<^verbatim>\<open>crypto.rs\<close>, and the two private helpers
  \<^verbatim>\<open>ellipse_api_key\<close> and \<^verbatim>\<open>hash_api_key\<close> of \<^verbatim>\<open>db/api.rs\<close> and
  \<^verbatim>\<open>db/llm.rs\<close>.  The crates (\<^verbatim>\<open>hex\<close>, \<^verbatim>\<open>base64\<close>, \<^verbatim>\<open>aes_gcm\<close>,
  \<^verbatim>\<open>sha2\<close>) are the fields of \<open>crypto_env\<close>; so is the configured key.  A string and its
  bytes are the same list.  The random nonce is an argument.
\<close>

type_synonym bytes = "char list"

record crypto_env =
  cy_encryption_key :: string
  cy_hex_decode :: "string \<Rightarrow> string + bytes"
  cy_b64_encode :: "bytes \<Rightarrow> string"
  cy_b64_decode :: "string \<Rightarrow> string + bytes"
  cy_seal :: "bytes \<Rightarrow> bytes \<Rightarrow> bytes \<Rightarrow> bytes option"
  cy_open :: "bytes \<Rightarrow> bytes \<Rightarrow> bytes \<Rightarrow> bytes option"
  cy_utf8 :: "bytes \<Rightarrow> bool"
  cy_sha256_hex :: "bytes \<Rightarrow> string"

datatype crypto_error =
    MissingKey
  | InvalidKey string
  | EncryptionFailed
  | DecryptionFailed
  | InvalidCiphertext
  | Base64DecodeFailed string

definition NONCE_SIZE :: nat where
  "NONCE_SIZE = 12"

definition get_encryption_key :: "crypto_env \<Rightarrow> crypto_error + bytes" where
  "get_encryption_key cy =
     (let hex_key = cy_encryption_key cy in
      if hex_key = [] then Inl MissingKey
      else
        (case cy_hex_decode cy hex_key of
           Inl e \<Rightarrow> Inl (InvalidKey (''not valid hex: '' @ e))
         | Inr key_bytes \<Rightarrow>
             if length key_bytes \<noteq> 32 then
               Inl (InvalidKey (''expected 32 bytes (64 hex chars), got '' @
                 show_nat (length key_bytes) @ '' bytes ('' @ show_nat (length hex_key) @
                 '' hex chars)''))
             else Inr key_bytes))"

definition encrypt :: "crypto_env \<Rightarrow> bytes \<Rightarrow> string \<Rightarrow> crypto_error + string" where
  "encrypt cy nonce plaintext =
     (case get_encryption_key cy of
        Inl e \<Rightarrow> Inl e
      | Inr key \<Rightarrow>
          (case cy_seal cy key nonce plaintext of
             None \<Rightarrow> Inl EncryptionFailed
           | Some ciphertext \<Rightarrow> Inr (cy_b64_encode cy (nonce @ ciphertext))))"

definition decrypt :: "crypto_env \<Rightarrow> string \<Rightarrow> crypto_error + string" where
  "decrypt cy encrypted =
     (case get_encryption_key cy of
        Inl e \<Rightarrow> Inl e
      | Inr key \<Rightarrow>
          (case cy_b64_decode cy encrypted of
             Inl e \<Rightarrow> Inl (Base64DecodeFailed e)
           | Inr combined \<Rightarrow>
               if length combined \<le> NONCE_SIZE then Inl InvalidCiphertext
               else
                 (case cy_open cy key (take NONCE_SIZE combined) (drop NONCE_SIZE combined) of
                    None \<Rightarrow> Inl DecryptionFailed
                  | Some plaintext \<Rightarrow>
                      if cy_utf8 cy plaintext then Inr plaintext else Inl DecryptionFailed)))"

definition is_encryption_configured :: "crypto_env \<Rightarrow> bool" where
  "is_encryption_configured cy \<longleftrightarrow> cy_encryption_key cy \<noteq> []"

definition encrypt_if_configured :: "crypto_env \<Rightarrow> bytes \<Rightarrow> string \<Rightarrow> crypto_error + string" where
  "encrypt_if_configured cy nonce plaintext =
     (if is_encryption_configured cy then encrypt cy nonce plaintext else Inr plaintext)"

definition decrypt_if_configured :: "crypto_env \<Rightarrow> string \<Rightarrow> crypto_error + string" where
  "decrypt_if_configured cy v = (if is_encryption_configured cy then decrypt cy v else Inr v)"

text \<open>\<^verbatim>\<open>Display\<close> of the errors.\<close>

fun show_crypto_error :: "crypto_error \<Rightarrow> string" where
  "show_crypto_error MissingKey =
     ''Encryption key is not configured. Set [security] encryption_key in config file.''"
| "show_crypto_error (InvalidKey msg) = ''Invalid encryption key: '' @ msg"
| "show_crypto_error EncryptionFailed = ''AES-256-GCM encryption failed''"
| "show_crypto_error DecryptionFailed =
     ''AES-256-GCM decryption failed (wrong key or corrupted data)''"
| "show_crypto_error InvalidCiphertext = ''Invalid ciphertext format''"
| "show_crypto_error (Base64DecodeFailed msg) = ''Base64 decode failed: '' @ msg"

section \<open>Helpers of the database modules\<close>

text \<open>
  \<^verbatim>\<open>&key[..6]\<close> panics unless the index is on a character boundary: the start, the end, or a
  byte that is not a UTF-8 continuation byte.
\<close>

definition is_char_boundary :: "string \<Rightarrow> nat \<Rightarrow> bool" where
  "is_char_boundary s i \<longleftrightarrow>
     i = 0 \<or> i = length s \<or>
     (i < length s \<and> (let b = of_char (s ! i) :: nat in b < 128 \<or> 192 \<le> b))"

definition ellipse_api_key :: "string \<Rightarrow> string option" where
  "ellipse_api_key key =
     (if length key \<le> 12 then Some key
      else if is_char_boundary key 6 \<and> is_char_boundary key (length key - 6) then
        Some (take 6 key @ ''...'' @ drop (length key - 6) key)
      else None)"

definition hash_api_key :: "crypto_env \<Rightarrow> string \<Rightarrow> string" where
  "hash_api_key cy apikey = cy_sha256_hex cy apikey"

definition encrypt_api_key :: "crypto_env \<Rightarrow> bytes \<Rightarrow> string \<Rightarrow> sqlx_error + string" where
  "encrypt_api_key cy nonce api_key =
     (case encrypt_if_configured cy nonce api_key of
        Inl e \<Rightarrow> Inl (Protocol (''Failed to encrypt api_key: '' @ show_crypto_error e))
      | Inr c \<Rightarrow> Inr c)"

text \<open>The plaintext of a stored key and its ellipsed form.\<close>

definition decrypt_api_key :: "crypto_env \<Rightarrow> string \<Rightarrow> sqlx_error + (string \<times> string)" where
  "decrypt_api_key cy encrypted =
     (case decrypt_if_configured cy encrypted of
        Inl e \<Rightarrow>
          Inl (Protocol (''Failed to decrypt encrypted_api_key: '' @ show_crypto_error e))
      | Inr plaintext \<Rightarrow>
          (case ellipse_api_key plaintext of
             None \<Rightarrow> Inl (Panicked ''byte index is not a char boundary'')
           | Some ellipsed \<Rightarrow> Inr (plaintext, ellipsed)))"

section \<open>Properties\<close>

text \<open>What the crates promise: decoding inverts encoding, opening inverts sealing, and a sealed
  text carries a tag.\<close>

definition crates_ok :: "crypto_env \<Rightarrow> bool" where
  "crates_ok cy \<longleftrightarrow>
     (\<forall>x. cy_b64_decode cy (cy_b64_encode cy x) = Inr x) \<and>
     (\<forall>k n p c. cy_seal cy k n p = Some c \<longrightarrow> c \<noteq> [] \<and> cy_open cy k n c = Some p)"

lemma decrypt_encrypt:
  assumes "crates_ok cy" and "length nonce = NONCE_SIZE" and "cy_utf8 cy p"
    and "encrypt cy nonce p = Inr c"
  shows "decrypt cy c = Inr p"
  using assms
  by (auto simp: encrypt_def decrypt_def crates_ok_def split: sum.splits option.splits)

lemma decrypt_encrypt_if_configured:
  assumes "crates_ok cy" and "length nonce = NONCE_SIZE" and "cy_utf8 cy p"
    and "encrypt_if_configured cy nonce p = Inr c"
  shows "decrypt_if_configured cy c = Inr p"
  using assms decrypt_encrypt
  by (auto simp: encrypt_if_configured_def decrypt_if_configured_def split: if_splits)

text \<open>An ASCII key never panics, and at most twelve of its characters are shown.\<close>

lemma ascii_boundary: "(\<And>c. c \<in> set s \<Longrightarrow> (of_char c :: nat) < 128) \<Longrightarrow> i \<le> length s \<Longrightarrow> is_char_boundary s i"
  by (auto simp: is_char_boundary_def Let_def)

lemma ellipse_ascii:
  assumes "\<And>c. c \<in> set key \<Longrightarrow> (of_char c :: nat) < 128"
  shows "ellipse_api_key key = Some (if length key \<le> 12 then key
           else take 6 key @ ''...'' @ drop (length key - 6) key)"
  using assms by (simp add: ellipse_api_key_def ascii_boundary)

lemma ellipse_length:
  "ellipse_api_key key = Some e \<Longrightarrow> length e \<le> 15 \<and> (12 < length key \<longrightarrow> length e = 15)"
  by (auto simp: ellipse_api_key_def split: if_splits)

end
