(* ===== verification/Catalog.thy ===== *)
theory Catalog
  imports Crypto
begin

text \<open>
  Upstreams and their models, \<^verbatim>\<open>db/llm.rs\<close>: keys encrypted on the way in and decrypted on the
  way out, models found by their short name and feature, the online/offline status, tags.
\<close>

section \<open>Names and keys\<close>

text \<open>The part after the first slash, or everything.\<close>

definition derive_cname :: "string \<Rightarrow> string" where
  "derive_cname fullname =
     (if CHR ''/'' \<in> set fullname then tl (dropWhile (\<lambda>c. c \<noteq> CHR ''/'') fullname) else fullname)"

definition decrypt_upstream :: "crypto_env \<Rightarrow> llm_upstream \<Rightarrow> sqlx_error + llm_upstream" where
  "decrypt_upstream cy u =
     (case decrypt_api_key cy (up_encrypted_api_key u) of
        Inl e \<Rightarrow> Inl e
      | Inr (plaintext, ellipsed) \<Rightarrow>
          Inr (u\<lparr>up_ellipsed_api_key := ellipsed, up_api_key := plaintext\<rparr>))"

text \<open>\<^verbatim>\<open>collect\<close> of results: the first error, or every value.\<close>

fun collect_results :: "('e + 'a) list \<Rightarrow> 'e + 'a list" where
  "collect_results [] = Inr []"
| "collect_results (Inl e # rs) = Inl e"
| "collect_results (Inr x # rs) =
     (case collect_results rs of Inl e \<Rightarrow> Inl e | Inr xs \<Rightarrow> Inr (x # xs))"

definition decrypt_all :: "crypto_env \<Rightarrow> llm_upstream list \<Rightarrow> sqlx_error + llm_upstream list" where
  "decrypt_all cy us = collect_results (map (decrypt_upstream cy) us)"

lemma collect_results_map_Inr [simp]: "collect_results (map Inr xs) = Inr xs"
  by (induction xs) simp_all

lemma collect_results_Inr: "collect_results rs = Inr xs \<longleftrightarrow> rs = map Inr xs"
proof -
  have "collect_results rs = Inr xs \<Longrightarrow> rs = map Inr xs"
    by (induction rs arbitrary: xs rule: collect_results.induct) (auto split: sum.splits)
  then show ?thesis by auto
qed

lemma collect_results_map:
  "collect_results (map f xs) = Inr ys \<longleftrightarrow> list_all2 (\<lambda>y x. f x = Inr y) ys xs"
  by (auto simp: collect_results_Inr list_all2_conv_all_nth list_eq_iff_nth_eq)

section \<open>Upstreams\<close>

definition fresh_upstream :: "new_llm_upstream \<Rightarrow> string \<Rightarrow> timestamp \<Rightarrow> int \<Rightarrow> llm_upstream" where
  "fresh_upstream n encrypted_key now i =
     \<lparr>up_id = i, up_name = nu_name n, up_api_base = nu_api_base n,
      up_encrypted_api_key = encrypted_key, up_ellipsed_api_key = '''', up_api_key = '''',
      up_provider = nu_provider n, up_tags = nu_tags n, up_proxies = nu_proxies n,
      up_status = nu_status n, up_description = nu_description n,
      up_created_at = now, up_updated_at = now\<rparr>"

definition create_upstream ::
    "crypto_env \<Rightarrow> bytes \<Rightarrow> new_llm_upstream \<Rightarrow> (sqlx_error + llm_upstream) io" where
  "create_upstream cy nonce n =
     (case encrypt_api_key cy nonce (nu_api_key n) of
        Inl e \<Rightarrow> return (Inl e)
      | Inr encrypted_key \<Rightarrow>
          bind_ok (fetch_one (insert_stmt llm_upstreams llm_upstreams_update
                     (fresh_upstream n encrypted_key)))
            (\<lambda>u. return (decrypt_upstream cy u)))"

text \<open>A query for upstreams, each decrypted.\<close>

definition query_upstreams ::
    "crypto_env \<Rightarrow> llm_upstream list stmt \<Rightarrow> (sqlx_error + llm_upstream list) io" where
  "query_upstreams cy f = bind_ok (db_stmt f) (\<lambda>us. return (decrypt_all cy us))"

definition query_upstream :: "crypto_env \<Rightarrow> llm_upstream list stmt \<Rightarrow> (sqlx_error + llm_upstream) io" where
  "query_upstream cy f = bind_ok (fetch_one f) (\<lambda>u. return (decrypt_upstream cy u))"

definition select_upstreams :: "(llm_upstream \<Rightarrow> bool) \<Rightarrow> llm_upstream list stmt" where
  "select_upstreams P = rows_stmt (\<lambda>_ d. select_rows P (llm_upstreams d))"

definition list_upstreams :: "crypto_env \<Rightarrow> (sqlx_error + llm_upstream list) io" where
  "list_upstreams cy = query_upstreams cy (select_upstreams (\<lambda>_. True))"

definition count_upstreams :: "(sqlx_error + int) io" where
  "count_upstreams = db_stmt (count_stmt (\<lambda>d. t_rows (llm_upstreams d)))"

definition list_upstreams_paginated ::
    "crypto_env \<Rightarrow> int \<Rightarrow> int \<Rightarrow> (sqlx_error + llm_upstream list) io" where
  "list_upstreams_paginated cy offset limit =
     query_upstreams cy (page_stmt limit offset (\<lambda>d. sort_key up_id (t_rows (llm_upstreams d))))"

definition get_upstream :: "crypto_env \<Rightarrow> int \<Rightarrow> (sqlx_error + llm_upstream) io" where
  "get_upstream cy i = query_upstream cy (select_upstreams (\<lambda>u. up_id u = i))"

definition get_upstream_by_name :: "crypto_env \<Rightarrow> string \<Rightarrow> (sqlx_error + llm_upstream) io" where
  "get_upstream_by_name cy name = query_upstream cy (select_upstreams (\<lambda>u. up_name u = name))"

definition get_upstream_by_api_base :: "crypto_env \<Rightarrow> string \<Rightarrow> (sqlx_error + llm_upstream) io" where
  "get_upstream_by_api_base cy api_base =
     query_upstream cy (select_upstreams (\<lambda>u. up_api_base u = api_base))"

definition update_upstream ::
    "crypto_env \<Rightarrow> bytes \<Rightarrow> int \<Rightarrow> update_llm_upstream \<Rightarrow> (sqlx_error + llm_upstream) io" where
  "update_upstream cy nonce i upd =
     bind_ok (get_upstream cy i) (\<lambda>current.
       let plaintext_key = unwrap_or (uu_api_key upd) (up_api_key current)
       in (case encrypt_api_key cy nonce plaintext_key of
             Inl e \<Rightarrow> return (Inl e)
           | Inr encrypted_key \<Rightarrow>
               query_upstream cy (update_stmt llm_upstreams llm_upstreams_update (\<lambda>u. up_id u = i)
                 (\<lambda>_ u. u\<lparr>
                    up_name := unwrap_or (uu_name upd) (up_name current),
                    up_api_base := unwrap_or (uu_api_base upd) (up_api_base current),
                    up_encrypted_api_key := encrypted_key,
                    up_provider := unwrap_or (uu_provider upd) (up_provider current),
                    up_tags := unwrap_or (uu_tags upd) (up_tags current),
                    up_proxies := unwrap_or (uu_proxies upd) (up_proxies current),
                    up_status := unwrap_or (uu_status upd) (up_status current),
                    up_description := unwrap_or (uu_description upd) (up_description current),
                    up_updated_at := unwrap_or (uu_updated_at upd) (up_updated_at current)\<rparr>))))"

definition set_status_sql :: "int \<Rightarrow> string \<Rightarrow> llm_upstream list stmt" where
  "set_status_sql i status =
     update_stmt llm_upstreams llm_upstreams_update (\<lambda>u. up_id u = i)
       (\<lambda>now u. u\<lparr>up_status := status, up_updated_at := now\<rparr>)"

definition mark_upstream_offline :: "int \<Rightarrow> (sqlx_error + unit) io" where
  "mark_upstream_offline i =
     bind_ok (db_stmt (affected (set_status_sql i ''offline''))) (\<lambda>_. return (Inr ()))"

definition mark_upstream_online :: "int \<Rightarrow> (sqlx_error + unit) io" where
  "mark_upstream_online i =
     bind_ok (db_stmt (affected (set_status_sql i ''online''))) (\<lambda>_. return (Inr ()))"

definition list_offline_upstreams :: "crypto_env \<Rightarrow> (sqlx_error + llm_upstream list) io" where
  "list_offline_upstreams cy = query_upstreams cy (select_upstreams (\<lambda>u. up_status u = ''offline''))"

text \<open>Deleting an upstream deletes its models (\<^verbatim>\<open>ON DELETE CASCADE\<close>).\<close>

definition delete_upstream_sql :: "int \<Rightarrow> int stmt" where
  "delete_upstream_sql i = (\<lambda>now d.
     case delete_stmt llm_upstreams llm_upstreams_update (\<lambda>u. up_id u = i) now d of
       Inl e \<Rightarrow> Inl e
     | Inr (n, d') \<Rightarrow>
         Inr (n, llm_models_update (\<lambda>_. snd (delete_rows (\<lambda>m. mdl_upstream_id m = i) (llm_models d'))) d'))"

definition delete_upstream :: "int \<Rightarrow> (sqlx_error + int) io" where
  "delete_upstream i = db_stmt (delete_upstream_sql i)"

section \<open>Models\<close>

definition fresh_model :: "new_llm_model \<Rightarrow> timestamp \<Rightarrow> int \<Rightarrow> llm_model" where
  "fresh_model n now i =
     \<lparr>mdl_id = i, mdl_upstream_id = nm_upstream_id n, mdl_fullname = nm_fullname n,
      mdl_cname = derive_cname (nm_fullname n), mdl_is_active = True, mdl_features = nm_features n,
      mdl_max_tokens = nm_max_tokens n, mdl_input_token_price = nm_input_token_price n,
      mdl_output_token_price = nm_output_token_price n,
      mdl_batch_input_token_price = nm_batch_input_token_price n,
      mdl_batch_output_token_price = nm_batch_output_token_price n,
      mdl_description = '''', mdl_created_at = now, mdl_updated_at = now\<rparr>"

definition model_taken :: "int \<Rightarrow> string \<Rightarrow> llm_model \<Rightarrow> bool" where
  "model_taken upstream_id fullname m \<longleftrightarrow>
     mdl_upstream_id m = upstream_id \<and> mdl_fullname m = fullname"

definition create_model :: "new_llm_model \<Rightarrow> (sqlx_error + llm_model) io" where
  "create_model n =
     fetch_one
       (guard_stmt (\<lambda>d. violates
           (\<exists>m \<in> set (t_rows (llm_models d)). model_taken (nm_upstream_id n) (nm_fullname n) m)
           ''idx_llm_models_upstream_model'')
       (guard_stmt (\<lambda>d. violates (\<forall>u \<in> set (t_rows (llm_upstreams d)). up_id u \<noteq> nm_upstream_id n)
           ''llm_models_upstream_id_fkey'')
       (insert_stmt llm_models llm_models_update (fresh_model n))))"

text \<open>\<^verbatim>\<open>llm_models m INNER JOIN llm_upstreams e ON m.upstream_id = e.id\<close>.\<close>

definition joined :: "db \<Rightarrow> (llm_model \<times> llm_upstream) list" where
  "joined d = concat (map (\<lambda>m.
     map (Pair m) (filter (\<lambda>e. up_id e = mdl_upstream_id m) (t_rows (llm_upstreams d))))
     (t_rows (llm_models d)))"

definition select_models :: "(llm_model \<Rightarrow> bool) \<Rightarrow> llm_model list stmt" where
  "select_models P = rows_stmt (\<lambda>_ d. select_rows P (llm_models d))"

definition select_joined :: "(llm_model \<Rightarrow> llm_upstream \<Rightarrow> bool) \<Rightarrow> llm_model list stmt" where
  "select_joined P = rows_stmt (\<lambda>_ d. map fst (filter (\<lambda>(m, e). P m e) (joined d)))"

definition list_models :: "string \<Rightarrow> string option \<Rightarrow> (sqlx_error + llm_model list) io" where
  "list_models provider feature =
     (case (provider = [], feature) of
        (True, None) \<Rightarrow> db_stmt (select_models (\<lambda>_. True))
      | (True, Some feat) \<Rightarrow> db_stmt (select_models (\<lambda>m. feat \<in> set (mdl_features m)))
      | (False, None) \<Rightarrow> db_stmt (select_joined (\<lambda>m e. up_provider e = provider))
      | (False, Some feat) \<Rightarrow>
          db_stmt (select_joined (\<lambda>m e. up_provider e = provider \<and> feat \<in> set (mdl_features m))))"

definition list_models_by_upstream :: "int \<Rightarrow> (sqlx_error + llm_model list) io" where
  "list_models_by_upstream upstream_id =
     db_stmt (select_models (\<lambda>m. mdl_upstream_id m = upstream_id))"

definition get_model :: "int \<Rightarrow> (sqlx_error + llm_model) io" where
  "get_model i = fetch_one (select_models (\<lambda>m. mdl_id m = i))"

definition get_model_with_tx :: "int \<Rightarrow> (sqlx_error + llm_model) io" where
  "get_model_with_tx i = tx_fetch_one (select_models (\<lambda>m. mdl_id m = i))"

definition find_model_by_upstream_and_model_id :: "int \<Rightarrow> string \<Rightarrow> (sqlx_error + llm_model) io" where
  "find_model_by_upstream_and_model_id upstream_id fullname =
     fetch_one (select_models (model_taken upstream_id fullname))"

definition find_model_by_upstream_name_and_model_id ::
    "string \<Rightarrow> string \<Rightarrow> (sqlx_error + llm_model option) io" where
  "find_model_by_upstream_name_and_model_id upstream_name fullname =
     fetch_optional (select_joined (\<lambda>m e. up_name e = upstream_name \<and> mdl_fullname m = fullname))"

definition update_model :: "int \<Rightarrow> update_llm_model \<Rightarrow> (sqlx_error + llm_model) io" where
  "update_model i upd =
     bind_ok (get_model i) (\<lambda>current.
       let (fullname, cname) =
             (case um_fullname upd of
                Some new_fullname \<Rightarrow> (new_fullname, derive_cname new_fullname)
              | None \<Rightarrow> (mdl_fullname current, mdl_cname current))
       in fetch_one
         (guard_stmt (\<lambda>d. violates
             (\<exists>m \<in> set (t_rows (llm_models d)). mdl_id m \<noteq> i \<and> mdl_fullname m = fullname \<and>
                (\<exists>c \<in> set (t_rows (llm_models d)). mdl_id c = i \<and> mdl_upstream_id c = mdl_upstream_id m))
             ''idx_llm_models_upstream_model'')
         (update_stmt llm_models llm_models_update (\<lambda>m. mdl_id m = i)
           (\<lambda>_ m. m\<lparr>
              mdl_fullname := fullname, mdl_cname := cname,
              mdl_is_active := unwrap_or (um_is_active upd) (mdl_is_active current),
              mdl_features := unwrap_or (um_features upd) (mdl_features current),
              mdl_max_tokens := unwrap_or (um_max_tokens upd) (mdl_max_tokens current),
              mdl_input_token_price :=
                unwrap_or (um_input_token_price upd) (mdl_input_token_price current),
              mdl_output_token_price :=
                unwrap_or (um_output_token_price upd) (mdl_output_token_price current),
              mdl_batch_input_token_price :=
                unwrap_or (um_batch_input_token_price upd) (mdl_batch_input_token_price current),
              mdl_batch_output_token_price :=
                unwrap_or (um_batch_output_token_price upd) (mdl_batch_output_token_price current),
              mdl_description := unwrap_or (um_description upd) (mdl_description current),
              mdl_updated_at := unwrap_or (um_updated_at upd) (mdl_updated_at current)\<rparr>))))"

definition update_model_features :: "int \<Rightarrow> string list \<Rightarrow> (sqlx_error + llm_model) io" where
  "update_model_features i features =
     fetch_one (update_stmt llm_models llm_models_update (\<lambda>m. mdl_id m = i)
       (\<lambda>now m. m\<lparr>mdl_features := features, mdl_updated_at := now\<rparr>))"

definition find_first_model_by_name :: "string \<Rightarrow> (sqlx_error + llm_model) io" where
  "find_first_model_by_name name =
     fetch_one (rows_stmt (\<lambda>_ d. take 1 (select_rows (\<lambda>m. mdl_cname m = name) (llm_models d))))"

record list_models_filter =
  lmf_upstream_id :: "int option"
  lmf_upstream_name :: "string option"
  lmf_name :: "string option"
  lmf_is_active :: "bool option"

definition matches_opt :: "'a option \<Rightarrow> 'a \<Rightarrow> bool" where
  "matches_opt x v \<longleftrightarrow> (case x of None \<Rightarrow> True | Some w \<Rightarrow> v = w)"

definition model_matches :: "list_models_filter \<Rightarrow> llm_model \<times> llm_upstream \<Rightarrow> bool" where
  "model_matches f = (\<lambda>(m, e).
     matches_opt (lmf_upstream_id f) (mdl_upstream_id m) \<and>
     matches_opt (lmf_upstream_name f) (up_name e) \<and>
     matches_opt (lmf_name f) (mdl_cname m) \<and>
     matches_opt (lmf_is_active f) (mdl_is_active m))"

definition count_models_filtered :: "list_models_filter \<Rightarrow> (sqlx_error + int) io" where
  "count_models_filtered f = db_stmt (count_stmt (\<lambda>d. filter (model_matches f) (joined d)))"

definition list_models_filtered_paginated ::
    "list_models_filter \<Rightarrow> int \<Rightarrow> int \<Rightarrow> (sqlx_error + llm_model list) io" where
  "list_models_filtered_paginated f offset limit =
     db_stmt (page_stmt limit offset (\<lambda>d.
       sort_key mdl_id (map fst (filter (model_matches f) (joined d)))))"

definition delete_model :: "int \<Rightarrow> (sqlx_error + int) io" where
  "delete_model i = db_stmt (delete_stmt llm_models llm_models_update (\<lambda>m. mdl_id m = i))"

definition get_upstream_with_models ::
    "crypto_env \<Rightarrow> int \<Rightarrow> (sqlx_error + (llm_upstream \<times> llm_model list)) io" where
  "get_upstream_with_models cy i =
     bind_ok (get_upstream cy i) (\<lambda>u.
     bind_ok (list_models_by_upstream i) (\<lambda>ms. return (Inr (u, ms))))"

section \<open>Tags\<close>

definition get_upstream_tags :: "int \<Rightarrow> (sqlx_error + string list) io" where
  "get_upstream_tags i =
     bind_ok (fetch_one (select_upstreams (\<lambda>u. up_id u = i))) (\<lambda>u. return (Inr (up_tags u)))"

definition add_upstream_tag :: "crypto_env \<Rightarrow> int \<Rightarrow> string \<Rightarrow> (sqlx_error + llm_upstream) io" where
  "add_upstream_tag cy i tag =
     query_upstream cy (update_stmt llm_upstreams llm_upstreams_update (\<lambda>u. up_id u = i)
       (\<lambda>now u. u\<lparr>up_tags := (if tag \<in> set (up_tags u) then up_tags u else up_tags u @ [tag]),
                   up_updated_at := now\<rparr>))"

definition remove_upstream_tag :: "crypto_env \<Rightarrow> int \<Rightarrow> string \<Rightarrow> (sqlx_error + llm_upstream) io" where
  "remove_upstream_tag cy i tag =
     query_upstream cy (update_stmt llm_upstreams llm_upstreams_update (\<lambda>u. up_id u = i)
       (\<lambda>now u. u\<lparr>up_tags := filter (\<lambda>t. t \<noteq> tag) (up_tags u), up_updated_at := now\<rparr>))"

definition find_upstreams_by_tag :: "crypto_env \<Rightarrow> string \<Rightarrow> (sqlx_error + llm_upstream list) io" where
  "find_upstreams_by_tag cy tag = query_upstreams cy (select_upstreams (\<lambda>u. tag \<in> set (up_tags u)))"

section \<open>Models able to serve a request\<close>

definition capable :: "string \<Rightarrow> string \<Rightarrow> string \<Rightarrow> llm_model \<times> llm_upstream \<Rightarrow> bool" where
  "capable model_name provider feature = (\<lambda>(m, e).
     mdl_cname m = model_name \<and> up_provider e = provider \<and> up_status e = ''online'' \<and>
     mdl_is_active m \<and> feature \<in> set (mdl_features m))"

text \<open>\<^verbatim>\<open>ModelUpstreamRow::into_tuple\<close>.\<close>

definition into_tuple ::
    "crypto_env \<Rightarrow> llm_model \<times> llm_upstream \<Rightarrow> sqlx_error + (llm_model \<times> llm_upstream)" where
  "into_tuple cy row =
     (case decrypt_upstream cy ((snd row)\<lparr>up_ellipsed_api_key := '''', up_api_key := ''''\<rparr>) of
        Inl e \<Rightarrow> Inl e
      | Inr u \<Rightarrow> Inr (fst row, u))"

definition find_models_by_name_and_capacity ::
    "crypto_env \<Rightarrow> string \<Rightarrow> string \<Rightarrow> string \<Rightarrow> (sqlx_error + (llm_model \<times> llm_upstream) list) io" where
  "find_models_by_name_and_capacity cy model_name provider feature =
     bind_ok (db_stmt (rows_stmt (\<lambda>_ d. filter (capable model_name provider feature) (joined d))))
       (\<lambda>rows. return (collect_results (map (into_tuple cy) rows)))"

end
