(* ===== verification/Caches.thy ===== *)
theory Caches
  imports Transactions
begin

text \<open>
  The Redis caches of API keys, accounts and wallets (\<^verbatim>\<open>redis_utils/caches/\<close>) and the hourly
  usage counters (\<^verbatim>\<open>redis_utils/counters.rs\<close>).  A cached value is the typed value itself: the
  serialised form of the program's own records is read back as it was written.  A value of another
  type under a key is a deserialisation error.
\<close>

datatype cache_error = CacheConn | CacheCmd | CacheDecode

definition APIKEY_CACHE_TTL :: int where "APIKEY_CACHE_TTL = 900"
definition ACCOUNT_CACHE_TTL :: int where "ACCOUNT_CACHE_TTL = 900"
definition FUND_CACHE_TTL :: int where "FUND_CACHE_TTL = 300"

definition apikey_cache_key :: "string \<Rightarrow> string" where
  "apikey_cache_key api_key_hash = ''apikey:info:'' @ api_key_hash"

definition account_cache_key :: "string \<Rightarrow> string" where
  "account_cache_key account_id = ''account:info:'' @ account_id"

definition wallet_cache_key :: "int \<Rightarrow> string" where
  "wallet_cache_key account_id = ''wallet:info:'' @ show_int account_id"

section \<open>The operations\<close>

definition cache_get :: "(redis_value \<Rightarrow> 'v option) \<Rightarrow> string \<Rightarrow> (cache_error + 'v option) io" where
  "cache_get decode key = do {
     ok \<leftarrow> redis_conn;
     if \<not> ok then return (Inl CacheConn)
     else do {
       r \<leftarrow> redis_get key;
       (case r of
          None \<Rightarrow> return (Inl CacheCmd)
        | Some None \<Rightarrow> return (Inr None)
        | Some (Some v) \<Rightarrow>
            (case decode v of None \<Rightarrow> return (Inl CacheDecode) | Some x \<Rightarrow> return (Inr (Some x))))
     }
   }"

definition cache_set :: "string \<Rightarrow> redis_value \<Rightarrow> int \<Rightarrow> (cache_error + unit) io" where
  "cache_set key v ttl = do {
     ok \<leftarrow> redis_conn;
     if \<not> ok then return (Inl CacheConn)
     else do {
       r \<leftarrow> redis_set_ex key v ttl;
       (case r of None \<Rightarrow> return (Inl CacheCmd) | Some _ \<Rightarrow> return (Inr ()))
     }
   }"

definition cache_delete :: "string \<Rightarrow> (cache_error + unit) io" where
  "cache_delete key = do {
     ok \<leftarrow> redis_conn;
     if \<not> ok then return (Inl CacheConn)
     else do {
       r \<leftarrow> redis_del key;
       (case r of None \<Rightarrow> return (Inl CacheCmd) | Some _ \<Rightarrow> return (Inr ()))
     }
   }"

fun as_apikey :: "redis_value \<Rightarrow> apikey_info option" where
  "as_apikey (R_ApiKey i) = Some i"
| "as_apikey _ = None"

fun as_account :: "redis_value \<Rightarrow> account option" where
  "as_account (R_Account a) = Some a"
| "as_account _ = None"

fun as_wallet :: "redis_value \<Rightarrow> wallet option" where
  "as_wallet (R_Wallet w) = Some w"
| "as_wallet _ = None"

definition get_apikey_info :: "string \<Rightarrow> (cache_error + apikey_info option) io" where
  "get_apikey_info api_key_hash = cache_get as_apikey (apikey_cache_key api_key_hash)"

definition set_apikey_info :: "string \<Rightarrow> apikey_info \<Rightarrow> (cache_error + unit) io" where
  "set_apikey_info api_key_hash info =
     cache_set (apikey_cache_key api_key_hash) (R_ApiKey info) APIKEY_CACHE_TTL"

definition delete_apikey :: "string \<Rightarrow> (cache_error + unit) io" where
  "delete_apikey api_key_hash = cache_delete (apikey_cache_key api_key_hash)"

definition get_account_info :: "string \<Rightarrow> (cache_error + account option) io" where
  "get_account_info account_id = cache_get as_account (account_cache_key account_id)"

definition set_account_info :: "string \<Rightarrow> account \<Rightarrow> (cache_error + unit) io" where
  "set_account_info account_id a =
     cache_set (account_cache_key account_id) (R_Account a) ACCOUNT_CACHE_TTL"

definition delete_account :: "string \<Rightarrow> (cache_error + unit) io" where
  "delete_account account_id = cache_delete (account_cache_key account_id)"

definition get_wallet_info :: "int \<Rightarrow> (cache_error + wallet option) io" where
  "get_wallet_info account_id = cache_get as_wallet (wallet_cache_key account_id)"

definition set_wallet_info :: "int \<Rightarrow> wallet \<Rightarrow> (cache_error + unit) io" where
  "set_wallet_info account_id info =
     cache_set (wallet_cache_key account_id) (R_Wallet info) FUND_CACHE_TTL"

section \<open>The contract of a cache\<close>

text \<open>
  A cache is a family of keys with a codec and a lifetime.  \<open>holds r now k v\<close>: at \<open>now\<close> the key
  space answers \<open>v\<close> under \<open>k\<close>.  What every cache promises: an entry is answered until its lifetime
  has passed and never after, setting one key leaves the others alone, deleting removes.
\<close>

locale ttl_cache =
  fixes key :: "'k \<Rightarrow> string"
    and encode :: "'v \<Rightarrow> redis_value"
    and decode :: "redis_value \<Rightarrow> 'v option"
    and ttl :: int
  assumes decode_encode: "decode (encode v) = Some v"
    and key_inj: "key k = key k' \<Longrightarrow> k = k'"
    and ttl_pos: "0 < ttl"
begin

definition written :: "redis \<Rightarrow> timestamp \<Rightarrow> 'k \<Rightarrow> 'v \<Rightarrow> redis" where
  "written r now k v = r(key k \<mapsto> \<lparr>re_value = encode v, re_expires = Some (now + seconds ttl)\<rparr>)"

definition answer :: "redis \<Rightarrow> timestamp \<Rightarrow> 'k \<Rightarrow> 'v option" where
  "answer r now k = Option.bind (map_option re_value (lookup_live now r (key k))) decode"

lemma answer_written:
  "t < now + seconds ttl \<Longrightarrow> answer (written r now k v) t k = Some v"
  by (simp add: answer_def written_def lookup_live_def live_def decode_encode)

lemma answer_expired:
  "now + seconds ttl \<le> t \<Longrightarrow> answer (written r now k v) t k = None"
  by (simp add: answer_def written_def lookup_live_def live_def)

lemma answer_other: "k' \<noteq> k \<Longrightarrow> answer (written r now k v) t k' = answer r t k'"
  by (auto simp: answer_def written_def lookup_live_def dest: key_inj)

lemma answer_deleted: "answer (r(key k := None)) t k = None"
  by (simp add: answer_def lookup_live_def)

lemma set_writes:
  "wp (cache_set (key k) (encode v) ttl)
     (\<lambda>res t. (res = Inr () \<longrightarrow> w_redis t = written (w_redis w) (w_now w) k v) \<and>
              (res \<noteq> Inr () \<longrightarrow> w_redis t = w_redis w) \<and> w_db t = w_db w \<and> w_now t = w_now w) w"
  by (auto simp: cache_set_def redis_set_ex_def written_def
      intro!: wp_redis_conn wp_redis_cmd wp_if wp_case_option)

lemma get_reads:
  "wp (cache_get decode (key k))
     (\<lambda>res t. w_redis t = w_redis w \<and> w_db t = w_db w \<and> w_now t = w_now w \<and>
              (\<forall>v. res = Inr (Some v) \<longrightarrow> answer (w_redis w) (w_now w) k = Some v)) w"
  by (auto simp: cache_get_def redis_get_def answer_def
      intro!: wp_redis_conn wp_redis_cmd wp_if wp_case_option)

end

lemma append_show_int_inject [simp]: "p @ show_int i = p @ show_int j \<longleftrightarrow> i = j"
  by simp

interpretation apikey_cache: ttl_cache apikey_cache_key R_ApiKey as_apikey APIKEY_CACHE_TTL
  by unfold_locales (simp_all add: apikey_cache_key_def APIKEY_CACHE_TTL_def)

interpretation account_cache: ttl_cache account_cache_key R_Account as_account ACCOUNT_CACHE_TTL
  by unfold_locales (simp_all add: account_cache_key_def ACCOUNT_CACHE_TTL_def)

interpretation wallet_cache: ttl_cache wallet_cache_key R_Wallet as_wallet FUND_CACHE_TTL
  by unfold_locales (simp_all add: wallet_cache_key_def FUND_CACHE_TTL_def)

end
