(* ===== verification/Counters.thy ===== *)
theory Counters
  imports Caches
begin

text \<open>
  Hourly token counters, \<^verbatim>\<open>redis_utils/counters.rs\<close>.  The text of an hour
  (\<^verbatim>\<open>format("%Y%m%d%H")\<close> of the \<^verbatim>\<open>chrono\<close> crate) is the argument \<open>hour\<close>.
  \<open>conv\<close> is what the \<^verbatim>\<open>redis\<close> crate makes of the replies for a list of keys when it
  converts them to \<^verbatim>\<open>Vec<Option<i64>>\<close>; \<open>None\<close> is a conversion error.
\<close>

definition input_usage_key :: "int \<Rightarrow> string \<Rightarrow> string" where
  "input_usage_key model_id hour = ''tokenusage:input:'' @ show_int model_id @ '':'' @ hour"

definition output_usage_key :: "int \<Rightarrow> string \<Rightarrow> string" where
  "output_usage_key model_id hour = ''tokenusage:output:'' @ show_int model_id @ '':'' @ hour"

definition get_output_token_usage_batch ::
    "(timestamp \<Rightarrow> string) \<Rightarrow> (redis_value option list \<Rightarrow> int option list option) \<Rightarrow> int list \<Rightarrow> int list io" where
  "get_output_token_usage_batch hour conv model_ids =
     (if model_ids = [] then return []
      else do {
        ok \<leftarrow> redis_conn;
        if \<not> ok then return (replicate (length model_ids) 0)
        else do {
          w \<leftarrow> State_Monad.get;
          r \<leftarrow> redis_mget (map (\<lambda>i. output_usage_key i (hour (w_now w))) model_ids);
          (case Option.bind r conv of
             None \<Rightarrow> return (replicate (length model_ids) 0)
           | Some vs \<Rightarrow> return (map (\<lambda>v. unwrap_or v 0) vs))
        }
      })"

text \<open>\<^verbatim>\<open>INCRBY\<close>, then a fresh expiry of one hour when it succeeded.\<close>

definition bump :: "string \<Rightarrow> int \<Rightarrow> unit io" where
  "bump key tokens =
     (if tokens > 0 then do {
        r \<leftarrow> redis_incr key tokens;
        (case r of
           None \<Rightarrow> return ()
         | Some _ \<Rightarrow> do { _ \<leftarrow> redis_expire key 3600; return () })
      }
      else return ())"

definition increment_token_usage :: "(timestamp \<Rightarrow> string) \<Rightarrow> int \<Rightarrow> int \<Rightarrow> int \<Rightarrow> unit io" where
  "increment_token_usage hour model_id input_tokens output_tokens = do {
     ok \<leftarrow> redis_conn;
     if \<not> ok then return ()
     else do {
       w \<leftarrow> State_Monad.get;
       _ \<leftarrow> bump (input_usage_key model_id (hour (w_now w))) input_tokens;
       bump (output_usage_key model_id (hour (w_now w))) output_tokens
     }
   }"

text \<open>The count a model has reached, as the router reads it.\<close>

definition usage_count :: "redis \<Rightarrow> timestamp \<Rightarrow> string \<Rightarrow> int" where
  "usage_count r now k =
     (case lookup_live now r k of
        Some e \<Rightarrow> (case re_value e of R_Int i \<Rightarrow> i | _ \<Rightarrow> 0)
      | None \<Rightarrow> 0)"

lemma keeps_increment [effect_intros]: "keeps_db P (increment_token_usage hour m i out)"
  unfolding increment_token_usage_def bump_def by (intro effect_intros)

lemma wp_bump_outside:
  "(\<And>t. w_db t = w_db w \<Longrightarrow> w_tx t = w_tx w \<Longrightarrow> w_now t = w_now w \<Longrightarrow> w_balance_q t = w_balance_q w \<Longrightarrow>
     (w_faults w = [] \<Longrightarrow> w_faults t = []) \<Longrightarrow> Q () t) \<Longrightarrow> wp (bump k n) Q w"
  unfolding bump_def redis_incr_def redis_expire_def redis_cmd_def
  by (auto intro!: wp_intros wp_next_ok)

lemma wp_increment_outside:
  assumes "\<And>t. w_db t = w_db w \<Longrightarrow> w_tx t = w_tx w \<Longrightarrow> w_now t = w_now w \<Longrightarrow>
     w_balance_q t = w_balance_q w \<Longrightarrow> (w_faults w = [] \<Longrightarrow> w_faults t = []) \<Longrightarrow> Q () t"
  shows "wp (increment_token_usage hour m i out) Q w"
  unfolding increment_token_usage_def redis_conn_def
  by (auto intro!: wp_intros wp_next_ok wp_bump_outside assms)

text \<open>Without failures, and below the limit of 64 bits, the counter grows by the tokens.\<close>

lemma bump_adds:
  assumes "w_faults w = []" and "0 < n" and "in_i64 (usage_count (w_redis w) (w_now w) k + n)"
    and "in_i64 n"
    and "\<And>e. lookup_live (w_now w) (w_redis w) k = Some e \<Longrightarrow> \<exists>i. re_value e = R_Int i"
  shows "wp (bump k n) (\<lambda>_ t.
           usage_count (w_redis t) (w_now t) k = usage_count (w_redis w) (w_now w) k + n \<and>
           (\<forall>k'. k' \<noteq> k \<longrightarrow> w_redis t k' = w_redis w k') \<and> w_faults t = [] \<and> w_now t = w_now w) w"
proof (cases "lookup_live (w_now w) (w_redis w) k")
  case None
  then show ?thesis
    using assms
    by (simp add: bump_def redis_incr_def redis_expire_def no_fault_calls usage_count_def
        lookup_live_def live_def seconds_def)
next
  case (Some e)
  with assms(5) obtain i where "re_value e = R_Int i" by blast
  with Some assms(1-3) show ?thesis
    by (auto simp: bump_def redis_incr_def redis_expire_def no_fault_calls usage_count_def
        lookup_live_def live_def seconds_def split: option.splits if_splits)
qed

end
