(* ===== verification/Billing.thy ===== *)
theory Billing
  imports Ledger Catalog Counters
begin

text \<open>
  The workers of the deferred queues, \<^verbatim>\<open>defer/tasks/\<close>: an event of a session is recorded and,
  when it carries usage, turned into a balance change that is queued for settlement; the settlement
  applies it to the account.  Serialising an event to JSON is the argument \<open>ser\<close>.
\<close>

section \<open>Recording an event\<close>

definition spend_token_of :: "llm_model \<Rightarrow> usage_info \<Rightarrow> int \<Rightarrow> spend_token" where
  "spend_token_of m u event_id =
     (let (input_price, output_price) =
            (if ui_is_batch u
             then (mdl_batch_input_token_price m, mdl_batch_output_token_price m)
             else (mdl_input_token_price m, mdl_output_token_price m))
      in \<lparr>st_input_tokens = ui_input_tokens u, st_input_token_price = input_price,
          st_input_spend_amount = input_price * of_int (ui_input_tokens u),
          st_output_tokens = ui_output_tokens u, st_output_token_price = output_price,
          st_output_spend_amount = output_price * of_int (ui_output_tokens u),
          st_total_tokens = ui_total_tokens u, st_event_id = event_id\<rparr>)"

definition session_event_of ::
    "string \<Rightarrow> int \<Rightarrow> int \<Rightarrow> int \<Rightarrow> int \<Rightarrow> json \<Rightarrow> usage_info option \<Rightarrow> llm_model option \<Rightarrow> new_session_event" where
  "session_event_of session_id session_index account_id model_id api_key_id event_data usage model =
     (let (input_price, output_price) =
            (case model of Some m \<Rightarrow> (mdl_input_token_price m, mdl_output_token_price m)
             | None \<Rightarrow> (0, 0));
          (input_tokens, output_tokens) =
            (case usage of Some u \<Rightarrow> (ui_input_tokens u, ui_output_tokens u) | None \<Rightarrow> (0, 0))
      in \<lparr>nse_session_id = session_id, nse_session_index = session_index,
          nse_account_id = account_id, nse_model_id = model_id, nse_api_key_id = api_key_id,
          nse_input_token_price = input_price, nse_input_tokens = input_tokens,
          nse_output_token_price = output_price, nse_output_tokens = output_tokens,
          nse_event_data = event_data\<rparr>)"

definition request_id :: "string \<Rightarrow> string \<Rightarrow> int \<Rightarrow> string" where
  "request_id prefix session_id session_index =
     prefix @ session_id @ ''-'' @ show_int session_index"

text \<open>
  The body the OpenAI and the Anthropic handlers share, statement by statement; they differ in the
  usage they extract and in the prefix of the request identifier.  \<open>record_event\<close> is the part
  after the model has been looked up.
\<close>

definition record_event ::
    "string \<Rightarrow> new_session_event \<Rightarrow> usage_info option \<Rightarrow> llm_model option \<Rightarrow> unit io" where
  "record_event prefix new_event usage model = do {
     created \<leftarrow> create_session_event_with_tx new_event;
     (case created of
        Inl _ \<Rightarrow> return ()
      | Inr event \<Rightarrow>
          (case (usage, model) of
             (Some u, Some m) \<Rightarrow> do {
               change \<leftarrow> create_balance_change_with_tx
                 (from_content (nse_account_id new_event)
                   (request_id prefix (se_session_id event) (se_session_index event))
                   (SpendToken (spend_token_of m u (se_id event))));
               (case change of
                  Inl _ \<Rightarrow> return ()
                | Inr bc \<Rightarrow> do {
                    committed \<leftarrow> tx_commit;
                    (case committed of
                       Inl _ \<Rightarrow> return ()
                     | Inr _ \<Rightarrow> do {
                         _ \<leftarrow> push_balance \<lparr>bct_balance_change_id = bc_id bc\<rparr>;
                         return () }) }) }
           | _ \<Rightarrow> do { _ \<leftarrow> tx_commit; return () })) }"

definition handle_event ::
    "(timestamp \<Rightarrow> string) \<Rightarrow> string \<Rightarrow> string \<Rightarrow> int \<Rightarrow> int \<Rightarrow> int \<Rightarrow> int \<Rightarrow> json \<Rightarrow>
     usage_info option \<Rightarrow> unit io" where
  "handle_event hour prefix session_id session_index account_id model_id api_key_id event_data usage = do {
     _ \<leftarrow> (case usage of
            Some u \<Rightarrow> increment_token_usage hour model_id (ui_input_tokens u) (ui_output_tokens u)
          | None \<Rightarrow> return ());
     tx_scope (do {
       tx \<leftarrow> tx_begin;
       (case tx of
          Inl _ \<Rightarrow> return ()
        | Inr _ \<Rightarrow> do {
            found \<leftarrow> get_model_with_tx model_id;
            let model = (case found of Inl _ \<Rightarrow> None | Inr m \<Rightarrow> Some m);
            record_event prefix
              (session_event_of session_id session_index account_id model_id api_key_id event_data
                usage model) usage model }) }) }"

definition handle_openai_event ::
    "(timestamp \<Rightarrow> string) \<Rightarrow> (openai_event_data \<Rightarrow> json option) \<Rightarrow> openai_event_task \<Rightarrow> unit io" where
  "handle_openai_event hour ser event =
     handle_event hour ''spendtoken-'' (oet_session_id event) (oet_session_index event)
       (oet_account_id event) (oet_model_id event) (oet_api_key_id event)
       (unwrap_or (ser (oet_event_data event)) JNull)
       (extract_openai_usage (oet_event_data event))"

definition handle_anthropic_event ::
    "(timestamp \<Rightarrow> string) \<Rightarrow> (anthropic_event_data \<Rightarrow> json option) \<Rightarrow> anthropic_event_task \<Rightarrow> unit io" where
  "handle_anthropic_event hour ser event =
     handle_event hour ''anthropic-spendtoken-'' (aet_session_id event) (aet_session_index event)
       (aet_account_id event) (aet_model_id event) (aet_api_key_id event)
       (unwrap_or (ser (aet_event_data event)) JNull)
       (extract_anthropic_usage (aet_event_data event))"

section \<open>Settling a balance change\<close>

definition settle_balance_change :: "balance_change_task \<Rightarrow> unit io" where
  "settle_balance_change entry = tx_scope (do {
     tx \<leftarrow> tx_begin;
     (case tx of
        Inl _ \<Rightarrow> return ()
      | Inr _ \<Rightarrow> do {
          found \<leftarrow> find_balance_change_by_id_with_tx (bct_balance_change_id entry);
          (case found of
             Inl _ \<Rightarrow> return ()
           | Inr None \<Rightarrow> return ()
           | Inr (Some balance_change) \<Rightarrow>
               if bc_is_applied balance_change then return ()
               else
                 (case content_of_json (bc_content balance_change) of
                    None \<Rightarrow> return ()
                  | Some content \<Rightarrow> do {
                      applied \<leftarrow> apply_balance_change_with_tx balance_change content;
                      (case applied of
                         Inl _ \<Rightarrow> return ()
                       | Inr updated_wallet \<Rightarrow> do {
                           committed \<leftarrow> tx_commit;
                           (case committed of
                              Inl _ \<Rightarrow> return ()
                            | Inr _ \<Rightarrow> do {
                                _ \<leftarrow> set_wallet_info (wal_account_id updated_wallet) updated_wallet;
                                return () }) }) })) }) })"

section \<open>What a settlement does\<close>

text \<open>The outcome of a settlement of change \<open>i\<close>: nothing, or exactly the reference applied to an
  unapplied change with that identifier.\<close>

definition settles_to :: "timestamp \<Rightarrow> int \<Rightarrow> db \<Rightarrow> db \<Rightarrow> bool" where
  "settles_to now i d d' \<longleftrightarrow>
     (\<exists>bc c. bc \<in> set (t_rows (balance_changes d)) \<and> bc_id bc = i \<and> \<not> bc_is_applied bc \<and>
        content_of_json (bc_content bc) = Some c \<and> d' = settled_db now bc c d)"

text \<open>Change \<open>i\<close> can be settled: it exists, is unapplied and well formed, and no statement of its
  settlement is rejected.\<close>

definition settleable :: "timestamp \<Rightarrow> int \<Rightarrow> db \<Rightarrow> bool" where
  "settleable now i d \<longleftrightarrow>
     (\<exists>bc c. bc \<in> set (t_rows (balance_changes d)) \<and> bc_id bc = i \<and> \<not> bc_is_applied bc \<and>
        content_of_json (bc_content bc) = Some c \<and>
        (\<forall>e. \<not> settle_error now (bc_account_id bc) c d e))"

lemma find_change_triple:
  "tx_triple now d (find_balance_change_by_id_with_tx i)
     (\<lambda>r d'. d' = d \<and> r = first_row (select_rows (\<lambda>b. bc_id b = i) (balance_changes d))) (\<lambda>_. False)"
  unfolding find_balance_change_by_id_with_tx_def
  by (rule tx_triple_fetch_optional) (auto simp: find_change_sql_def sql_defs)

lemma wp_set_wallet_info_db:
  "(\<And>r t. w_db t = w_db w \<Longrightarrow> w_tx t = w_tx w \<Longrightarrow> w_now t = w_now w \<Longrightarrow> w_balance_q t = w_balance_q w \<Longrightarrow> Q r t) \<Longrightarrow>
   wp (set_wallet_info a v) Q w"
  unfolding set_wallet_info_def cache_set_def redis_set_ex_def
  by (auto intro!: wp_redis_conn wp_redis_cmd wp_intros)

lemma settleable_row:
  assumes "bill_wf d" and "bc \<in> set (t_rows (balance_changes d))" and "settleable now (bc_id bc) d"
  shows "\<not> bc_is_applied bc"
    and "\<exists>c. content_of_json (bc_content bc) = Some c \<and> (\<forall>e. \<not> settle_error now (bc_account_id bc) c d e)"
proof -
  from assms(3) obtain b c where b: "b \<in> set (t_rows (balance_changes d))" "bc_id b = bc_id bc"
      "\<not> bc_is_applied b" "content_of_json (bc_content b) = Some c"
      "\<forall>e. \<not> settle_error now (bc_account_id b) c d e"
    unfolding settleable_def by blast
  with assms(1,2) have "b = bc" by (auto simp: bill_wf_def intro: ids_ok_unique)
  with b show "\<not> bc_is_applied bc"
    and "\<exists>c. content_of_json (bc_content bc) = Some c \<and> (\<forall>e. \<not> settle_error now (bc_account_id bc) c d e)"
    by auto
qed

lemma settle_outcome:
  assumes "w_tx w = None" and wf: "bill_wf (w_db w)"
  shows "wp (settle_balance_change task)
     (\<lambda>_ t. w_tx t = None \<and> w_now t = w_now w \<and> w_balance_q t = w_balance_q w \<and>
        (w_db t = w_db w \<and>
           \<not> (w_faults w = [] \<and> settleable (w_now w) (bct_balance_change_id task) (w_db w)) \<or>
         settles_to (w_now w) (bct_balance_change_id task) (w_db w) (w_db t))) w"
  unfolding settle_balance_change_def wp_tx_scope wp_bind
proof (rule wp_tx_begin, goal_cases)
  case (1 fs)
  then show ?case using assms by (simp add: tx_rollback_def)
next
  case (2 fs)
  show ?case
    unfolding sum.case wp_bind
  proof (rule wp_tx_call [where snap = "w_db w", OF find_change_triple _ refl refl], goal_cases)
    case 1
    then show ?case by simp
  next
    case (2 e t b)
    then show ?case using assms \<open>w_faults w = [] \<Longrightarrow> fs = []\<close>
      by (auto simp: tx_rollback_def same_outside_fields)
  next
    case (3 x t)
    then have t: "w_tx t = Some (w_db w, False)" "w_now t = w_now w" "w_db t = w_db w"
      "w_balance_q t = w_balance_q w" "w_faults w = [] \<Longrightarrow> w_faults t = []"
      "x = first_row (select_rows (\<lambda>b. bc_id b = bct_balance_change_id task) (balance_changes (w_db w)))"
      using 2 by (simp_all add: same_outside_fields)
    show ?case
    proof (cases x)
      case None
      with t(6) have "\<not> settleable (w_now w) (bct_balance_change_id task) (w_db w)"
        by (auto simp: settleable_def select_rows_def filter_empty_conv eq_commute [of None])
      with None t show ?thesis by (simp add: tx_rollback_def)
    next
      case (Some bc)
      with t have bc: "bc \<in> set (t_rows (balance_changes (w_db w)))"
        "bct_balance_change_id task = bc_id bc"
        by (auto simp: select_rows_def dest!: first_row_mem [OF sym])
      note row = settleable_row [OF wf bc(1)]
      show ?thesis
        unfolding Some sum.case option.case bc(2)
      proof (intro wp_if wp_case_option, goal_cases)
        case (3 c)
        show ?case
          unfolding wp_bind
        proof (rule wp_tx_call [where snap = "w_db w", OF apply_settles _ refl refl], goal_cases)
          case (3 e u b)
          then show ?case
            using t row \<open>content_of_json (bc_content bc) = Some c\<close>
            by (auto simp: tx_rollback_def same_outside_fields)
        next
          case (4 v u)
          then have u: "w_tx u = Some (w_db w, False)" "w_now u = w_now w" "w_balance_q u = w_balance_q w"
            "settles_to (w_now w) (bc_id bc) (w_db w) (w_db u)" "w_faults w = [] \<Longrightarrow> w_faults u = []"
            using t 3 bc by (auto simp: same_outside_fields settles_to_def)
          show ?case
            unfolding sum.case wp_bind
            by (rule wp_tx_commit [OF u(1)])
              (use u assms in \<open>auto simp: tx_rollback_def intro!: wp_set_wallet_info_db\<close>)
        qed (use t assms in auto)
      qed (use t row in \<open>auto simp: tx_rollback_def\<close>)
    qed
  qed
qed

section \<open>What recording an event does\<close>

definition event_model :: "int \<Rightarrow> db \<Rightarrow> llm_model option" where
  "event_model i d = first_row (select_rows (\<lambda>m. mdl_id m = i) (llm_models d))"

definition records :: "timestamp \<Rightarrow> new_session_event \<Rightarrow> db \<Rightarrow> session_event \<Rightarrow> db \<Rightarrow> bool" where
  "records now n d ev d' \<longleftrightarrow> (\<exists>rest. upsert_event_sql n now d = Inr (ev # rest, d'))"

definition charges :: "timestamp \<Rightarrow> new_balance_change \<Rightarrow> db \<Rightarrow> balance_change \<Rightarrow> db \<Rightarrow> bool" where
  "charges now n d bc d' \<longleftrightarrow> (\<exists>rest. insert_change_sql n now d = Inr (bc # rest, d'))"

text \<open>
  The outcome of handling an event: nothing; or the event alone is recorded, when it has no usage or
  its model is gone; or the event and one balance change, which is then queued.
\<close>

definition event_outcome ::
    "timestamp \<Rightarrow> string \<Rightarrow> new_session_event \<Rightarrow> usage_info option \<Rightarrow> bool \<Rightarrow> db \<Rightarrow> balance_change_task list \<Rightarrow>
     db \<Rightarrow> balance_change_task list \<Rightarrow> bool" where
  "event_outcome now prefix n usage healthy d q d' q' \<longleftrightarrow>
     (let a = nse_account_id n; model = event_model (nse_model_id n) d;
          rid = request_id prefix (nse_session_id n) (nse_session_index n) in
      d' = d \<and> q' = q \<and>
        (healthy \<longrightarrow> usage \<noteq> None \<and> model \<noteq> None \<and>
          ((\<exists>b \<in> set (t_rows (balance_changes d)). bc_unique_request_id b = rid) \<or>
           (\<forall>x \<in> set (t_rows (accounts d)). acc_id x \<noteq> a))) \<or>
      (usage = None \<or> model = None) \<and> (\<exists>ev. records now n d ev d') \<and> q' = q \<or>
      (\<exists>u m ev d1 bc. usage = Some u \<and> model = Some m \<and> records now n d ev d1 \<and>
         charges now (from_content a rid (SpendToken (spend_token_of m u (se_id ev)))) d1 bc d' \<and>
         (q' = q \<and> \<not> healthy \<or> q' = q @ [\<lparr>bct_balance_change_id = bc_id bc\<rparr>])))"

lemma upsert_not_Inl: "upsert_event_sql n now d \<noteq> Inl e"
  by (simp add: upsert_event_sql_def sql_defs Let_def)

lemma upsert_not_empty: "upsert_event_sql n now d \<noteq> Inr ([], d')"
  by (auto simp: upsert_event_sql_def sql_defs Let_def update_rows_def filter_empty_conv)

lemma records_row:
  assumes "records now n d ev d'"
  shows "se_session_id ev = nse_session_id n" and "se_session_index ev = nse_session_index n"
    and "accounts d' = accounts d" and "balance_changes d' = balance_changes d"
    and "wallets d' = wallets d" and "subscriptions d' = subscriptions d"
    and "llm_models d' = llm_models d"
proof -
  have first: "P z" if "filter P xs = z # zs" for P and z :: session_event and xs zs
    using that filter_eq_ConsD by fastforce
  show "se_session_id ev = nse_session_id n" and "se_session_index ev = nse_session_index n"
    using assms
    by (auto simp: records_def upsert_event_sql_def sql_defs Let_def insert_row_def fresh_event_def
        update_rows_def overwrite_event_def dest!: first split: if_splits)
      (auto simp: same_event_key_def)
  show "accounts d' = accounts d" and "balance_changes d' = balance_changes d"
    and "wallets d' = wallets d" and "subscriptions d' = subscriptions d"
    and "llm_models d' = llm_models d"
    using assms by (auto simp: records_def upsert_event_sql_def sql_defs Let_def split: if_splits)
qed

lemma charges_cases:
  assumes "charges now n d bc d'"
  shows "bc = fresh_change n now (t_seq (balance_changes d) + 1)"
    and "t_rows (balance_changes d') = t_rows (balance_changes d) @ [bc]"
    and "d' = balance_changes_update (\<lambda>_. snd (insert_row (fresh_change n now) (balance_changes d))) d"
    and "\<forall>b \<in> set (t_rows (balance_changes d)). bc_unique_request_id b \<noteq> nbc_unique_request_id n"
  using assms
  by (auto simp: charges_def insert_change_sql_def sql_defs violates_def insert_row_def Let_def
      split: if_splits)

lemma create_event_triple:
  "tx_triple now d (create_session_event_with_tx n) (\<lambda>ev d'. records now n d ev d') (\<lambda>_. False)"
  unfolding create_session_event_with_tx_def
  by (rule tx_triple_fetch_one) (auto simp: records_def upsert_not_Inl upsert_not_empty)

lemma create_change_triple:
  "tx_triple now d (create_balance_change_with_tx n) (\<lambda>bc d'. charges now n d bc d')
     (\<lambda>_. (\<exists>b \<in> set (t_rows (balance_changes d)). bc_unique_request_id b = nbc_unique_request_id n) \<or>
          (\<forall>a \<in> set (t_rows (accounts d)). acc_id a \<noteq> nbc_account_id n))"
  unfolding create_balance_change_with_tx_def
  by (rule tx_triple_fetch_one)
    (auto simp: charges_def insert_change_sql_def sql_defs violates_def insert_row_def Let_def
      split: if_splits)

text \<open>In an aborted transaction every statement fails.\<close>

lemma wp_tx_fetch_one_aborted:
  assumes "w_tx w = Some (d0, True)" and "\<And>fs. Q (Inl Io) (w\<lparr>w_faults := fs, w_tx := Some (d0, True)\<rparr>)"
  shows "wp (tx_fetch_one f) Q w"
  unfolding wp_fetch by (rule wp_tx_stmt [OF assms(1)]) (use assms(2) in auto)

text \<open>The part of the handler after the model has been looked up.\<close>

lemma wp_push_balance:
  assumes "\<And>fs. w_faults w \<noteq> [] \<Longrightarrow> Q False (w\<lparr>w_faults := fs\<rparr>)"
    and "\<And>fs. Q True (w_balance_q_update (\<lambda>q. q @ [t]) (w\<lparr>w_faults := fs\<rparr>))"
  shows "wp (push_balance t) Q w"
  unfolding push_balance_def by (rule wp_push_queue) (use assms in auto)

lemma wp_get_model_with_tx:
  assumes "w_tx w = Some (d0, False)"
    and "\<And>e t. w_tx t = Some (d0, True) \<Longrightarrow> same_outside w t \<Longrightarrow> w_faults w \<noteq> [] \<Longrightarrow> Q (Inl e) t"
    and "\<And>t. w_tx t = Some (d0, False) \<Longrightarrow> w_db t = w_db w \<Longrightarrow> same_outside w t \<Longrightarrow>
           event_model i (w_db w) = None \<Longrightarrow> Q (Inl RowNotFound) t"
    and "\<And>m t. w_tx t = Some (d0, False) \<Longrightarrow> w_db t = w_db w \<Longrightarrow> same_outside w t \<Longrightarrow>
           event_model i (w_db w) = Some m \<Longrightarrow> Q (Inr m) t"
  shows "wp (get_model_with_tx i) Q w"
  unfolding get_model_with_tx_def wp_fetch
proof (rule wp_tx_stmt [OF assms(1)], goal_cases)
  case (1 fs)
  then have "w_faults w \<noteq> []" by simp
  then show ?case unfolding one_row_simps
    by (intro assms(2)) (simp_all add: same_outside_def)
next
  case (2 e fs)
  then show ?case by (simp add: select_models_def sql_defs)
next
  case (3 rs d fs)
  then show ?case
    using assms(1,3,4) by (cases rs) (auto simp: select_models_def sql_defs event_model_def same_outside_def)
qed

lemma event_outcome_intros:
  "\<not> healthy \<Longrightarrow> event_outcome now prefix n usage healthy d q d q"
  "usage \<noteq> None \<Longrightarrow> event_model (nse_model_id n) d \<noteq> None \<Longrightarrow>
   (\<exists>b \<in> set (t_rows (balance_changes d)).
      bc_unique_request_id b = request_id prefix (nse_session_id n) (nse_session_index n)) \<or>
   (\<forall>x \<in> set (t_rows (accounts d)). acc_id x \<noteq> nse_account_id n) \<Longrightarrow>
   event_outcome now prefix n usage healthy d q d q"
  "usage = None \<or> event_model (nse_model_id n) d = None \<Longrightarrow> records now n d ev d1 \<Longrightarrow>
   event_outcome now prefix n usage healthy d q d1 q"
  "usage = Some u \<Longrightarrow> event_model (nse_model_id n) d = Some m \<Longrightarrow> records now n d ev d1 \<Longrightarrow>
   charges now (from_content (nse_account_id n)
      (request_id prefix (nse_session_id n) (nse_session_index n))
      (SpendToken (spend_token_of m u (se_id ev)))) d1 bc d2 \<Longrightarrow>
   q' = q \<and> \<not> healthy \<or> q' = q @ [\<lparr>bct_balance_change_id = bc_id bc\<rparr>] \<Longrightarrow>
   event_outcome now prefix n usage healthy d q d2 q'"
  by (auto simp: event_outcome_def Let_def)

abbreviation event_post :: "world \<Rightarrow> string \<Rightarrow> new_session_event \<Rightarrow> usage_info option \<Rightarrow> bool \<Rightarrow> world \<Rightarrow> bool" where
  "event_post w prefix n usage healthy s \<equiv>
     w_tx (tx_rollback s) = None \<and> w_now (tx_rollback s) = w_now w \<and>
     event_outcome (w_now w) prefix n usage healthy (w_db w) (w_balance_q w)
       (w_db (tx_rollback s)) (w_balance_q (tx_rollback s))"

lemma wp_record_event:
  assumes tx: "w_tx w = Some (w_db w, False)" and model: "model = event_model (nse_model_id n) (w_db w)"
    and healthy: "healthy \<Longrightarrow> w_faults w = []"
  shows "wp (record_event prefix n usage model) (\<lambda>_. event_post w prefix n usage healthy) w"
  unfolding record_event_def wp_bind
proof (rule wp_tx_call [where snap = "w_db w", OF create_event_triple tx refl refl], goal_cases)
  case (1 e t b)
  then show ?case
    using healthy by (auto simp: tx_rollback_def same_outside_fields intro: event_outcome_intros)
next
  case (2 ev t)
  then have t: "w_tx t = Some (w_db w, False)" "w_now t = w_now w" "w_balance_q t = w_balance_q w"
    "records (w_now w) n (w_db w) ev (w_db t)" "healthy \<Longrightarrow> w_faults t = []"
    using healthy by (auto simp: same_outside_fields)
  note ev = records_row [OF t(4)]
  show ?case
  proof (cases "usage = None \<or> model = None")
    case True
    then have "wp (tx_commit \<bind> (\<lambda>_. return ())) (\<lambda>_. event_post w prefix n usage healthy) t"
      unfolding wp_bind using t healthy model
      by (intro wp_tx_commit [OF t(1)]) (auto simp: tx_rollback_def intro: event_outcome_intros)
    with True show ?thesis by (cases usage; cases model) auto
  next
    case False
    then obtain u m where um: "usage = Some u" "model = Some m" by auto
    show ?thesis
      unfolding um sum.case option.case prod.case wp_bind ev(1,2)
    proof (rule wp_tx_call [where snap = "w_db w", OF create_change_triple t(1) refl refl], goal_cases)
      case (1 e s b)
      then have "event_outcome (w_now w) prefix n usage healthy (w_db w) (w_balance_q w) (w_db w) (w_balance_q w)"
        using t(5) um model ev(3,4)
        by (cases healthy) (auto simp: from_content_def intro: event_outcome_intros)
      with 1 t um show ?case by (auto simp: tx_rollback_def same_outside_fields)
    next
      case (2 bc s)
      then have s: "w_tx s = Some (w_db w, False)" "w_now s = w_now w" "w_balance_q s = w_balance_q w"
        "healthy \<Longrightarrow> w_faults s = []"
        using t by (auto simp: same_outside_fields)
      have charged: "event_outcome (w_now w) prefix n usage healthy (w_db w) (w_balance_q w) (w_db s) q'"
        if "q' = w_balance_q w \<and> \<not> healthy \<or> q' = w_balance_q w @ [\<lparr>bct_balance_change_id = bc_id bc\<rparr>]" for q'
        using 2 t(2,4) um model that by (intro event_outcome_intros(4)) auto
      show ?case
        unfolding sum.case wp_bind
        by (rule wp_tx_commit [OF s(1)])
          (use s in \<open>auto simp: tx_rollback_def intro!: wp_push_balance charged [unfolded um(1)]
             intro: event_outcome_intros(1)\<close>)
    qed
  qed
qed

lemma handle_event_outcome:
  fixes w :: world and sid :: string and idx a i key :: int and data :: json
    and usage :: "usage_info option"
  assumes "w_tx w = None"
  defines "n \<equiv> \<lambda>m. session_event_of sid idx a i key data usage m"
  shows "wp (handle_event hour prefix sid idx a i key data usage)
     (\<lambda>_ t. w_tx t = None \<and> w_now t = w_now w \<and>
        event_outcome (w_now w) prefix (n (event_model i (w_db w))) usage (w_faults w = [])
          (w_db w) (w_balance_q w) (w_db t) (w_balance_q t)) w"
  unfolding handle_event_def wp_bind wp_tx_scope
proof (rule wp_mono [where Q = "\<lambda>_ u. w_db u = w_db w \<and> w_tx u = None \<and> w_now u = w_now w \<and>
           w_balance_q u = w_balance_q w \<and> (w_faults w = [] \<longrightarrow> w_faults u = [])"], goal_cases)
  case 1
  show ?case
    by (rule wp_case_option) (use assms in \<open>auto intro!: wp_increment_outside\<close>)
next
  case (2 _ u)
  then have u: "w_db u = w_db w" "w_tx u = None" "w_now u = w_now w"
    "w_balance_q u = w_balance_q w" "w_faults w = [] \<Longrightarrow> w_faults u = []"
    by auto
  have n_id: "nse_model_id (n m) = i" for m
    by (simp add: n_def session_event_of_def split: prod.split)
  show ?case
  proof (rule wp_tx_begin, goal_cases)
    case (1 fs)
    then show ?case using u by (auto simp: tx_rollback_def intro: event_outcome_intros)
  next
    case (2 fs)
    then have fs: "w_faults w = [] \<Longrightarrow> fs = []" using u by auto
    show ?case
      unfolding sum.case wp_bind Let_def n_def [symmetric]
    proof (rule wp_get_model_with_tx [where ?d0.0 = "w_db u"], goal_cases)
      case 1
      then show ?case by simp
    next
      case (2 e t)
      then show ?case
        unfolding record_event_def wp_bind create_session_event_with_tx_def
        by (intro wp_tx_fetch_one_aborted [where ?d0.0 = "w_db w"])
          (use u fs in \<open>auto simp: tx_rollback_def same_outside_fields intro!: event_outcome_intros(1)\<close>)
    next
      case (3 t)
      then show ?case
        using u fs by (intro wp_mono [OF wp_record_event]) (auto simp: n_id same_outside_fields)
    next
      case (4 m t)
      then show ?case
        using u fs by (intro wp_mono [OF wp_record_event]) (auto simp: n_id same_outside_fields)
    qed
  qed
qed

end
