(* ===== verification/Accounts.thy ===== *)
theory Accounts
  imports Crypto
begin

text \<open>
  Accounts (\<^verbatim>\<open>db/account.rs\<close>) and API credentials (\<^verbatim>\<open>db/api.rs\<close>).  A credential is
  found by the SHA-256 hash of its key; the key itself is stored encrypted.
\<close>

section \<open>Accounts\<close>

definition fresh_account :: "new_account \<Rightarrow> timestamp \<Rightarrow> int \<Rightarrow> account" where
  "fresh_account n now i =
     \<lparr>acc_id = i, acc_name = na_name n, acc_is_active = True, acc_created_at = now,
      acc_updated_at = now\<rparr>"

definition create_account :: "new_account \<Rightarrow> (sqlx_error + account) io" where
  "create_account n =
     fetch_one
       (guard_stmt (\<lambda>d. violates (\<exists>a \<in> set (t_rows (accounts d)). acc_name a = na_name n)
           ''idx_accounts_name'')
       (insert_stmt accounts accounts_update (fresh_account n)))"

definition select_accounts :: "(account \<Rightarrow> bool) \<Rightarrow> account list stmt" where
  "select_accounts P = rows_stmt (\<lambda>_ d. select_rows P (accounts d))"

definition get_account_by_id :: "int \<Rightarrow> (sqlx_error + account option) io" where
  "get_account_by_id account_id = fetch_optional (select_accounts (\<lambda>a. acc_id a = account_id))"

definition get_account_by_name :: "string \<Rightarrow> (sqlx_error + account option) io" where
  "get_account_by_name name = fetch_optional (select_accounts (\<lambda>a. acc_name a = name))"

definition count_accounts :: "(sqlx_error + int) io" where
  "count_accounts = db_stmt (count_stmt (\<lambda>d. t_rows (accounts d)))"

definition list_accounts_paginated :: "int \<Rightarrow> int \<Rightarrow> (sqlx_error + account list) io" where
  "list_accounts_paginated offset limit =
     db_stmt (page_stmt limit offset (\<lambda>d. sort_key acc_id (t_rows (accounts d))))"

text \<open>A new name must be free, unless it is the account's own.\<close>

definition update_account :: "int \<Rightarrow> update_account \<Rightarrow> (sqlx_error + account) io" where
  "update_account account_id upd =
     fetch_one
       (guard_stmt (\<lambda>d. violates
           (case ua_name upd of
              None \<Rightarrow> False
            | Some name \<Rightarrow>
                (\<exists>a \<in> set (t_rows (accounts d)). acc_id a = account_id) \<and>
                (\<exists>a \<in> set (t_rows (accounts d)). acc_id a \<noteq> account_id \<and> acc_name a = name))
           ''idx_accounts_name'')
       (update_stmt accounts accounts_update (\<lambda>a. acc_id a = account_id)
         (\<lambda>now a. a\<lparr>acc_name := unwrap_or (ua_name upd) (acc_name a),
                     acc_is_active := unwrap_or (ua_is_active upd) (acc_is_active a),
                     acc_updated_at := now\<rparr>)))"

section \<open>API credentials\<close>

definition encrypt_apikey :: "crypto_env \<Rightarrow> bytes \<Rightarrow> string \<Rightarrow> sqlx_error + string" where
  "encrypt_apikey cy nonce apikey =
     (case encrypt_if_configured cy nonce apikey of
        Inl e \<Rightarrow> Inl (Protocol (''Failed to encrypt apikey: '' @ show_crypto_error e))
      | Inr c \<Rightarrow> Inr c)"

definition decrypt_credential :: "crypto_env \<Rightarrow> api_credential \<Rightarrow> sqlx_error + api_credential" where
  "decrypt_credential cy c =
     (case decrypt_api_key cy (cred_encrypted_api_key c) of
        Inl e \<Rightarrow> Inl e
      | Inr (plaintext, ellipsed) \<Rightarrow>
          Inr (c\<lparr>cred_ellipsed_api_key := ellipsed, cred_apikey := plaintext\<rparr>))"

text \<open>\<^verbatim>\<open>cred.map(decrypt_credential).transpose()\<close>.\<close>

definition decrypt_optional ::
    "crypto_env \<Rightarrow> api_credential option \<Rightarrow> sqlx_error + api_credential option" where
  "decrypt_optional cy c =
     (case c of
        None \<Rightarrow> Inr None
      | Some c' \<Rightarrow> (case decrypt_credential cy c' of Inl e \<Rightarrow> Inl e | Inr c'' \<Rightarrow> Inr (Some c'')))"

definition select_credentials :: "(api_credential \<Rightarrow> bool) \<Rightarrow> api_credential list stmt" where
  "select_credentials P = rows_stmt (\<lambda>_ d. select_rows P (api_credentials d))"

definition find_active_api_credential_by_api_key_hash ::
    "crypto_env \<Rightarrow> string \<Rightarrow> (sqlx_error + api_credential option) io" where
  "find_active_api_credential_by_api_key_hash cy api_key_hash =
     bind_ok (fetch_optional (select_credentials
        (\<lambda>c. cred_api_key_hash c = api_key_hash \<and> cred_is_active c)))
       (\<lambda>c. return (decrypt_optional cy c))"

definition find_active_api_credential_by_apikey ::
    "crypto_env \<Rightarrow> string \<Rightarrow> (sqlx_error + api_credential option) io" where
  "find_active_api_credential_by_apikey cy apikey =
     find_active_api_credential_by_api_key_hash cy (hash_api_key cy apikey)"

text \<open>The UUIDv7 in hexadecimal is an argument.\<close>

definition generate_api_credential :: "string \<Rightarrow> string" where
  "generate_api_credential uuid_hex = ''lpx-'' @ uuid_hex"

definition find_account_by_name :: "string \<Rightarrow> (sqlx_error + account option) io" where
  "find_account_by_name name = fetch_optional (select_accounts (\<lambda>a. acc_name a = name))"

definition count_api_credentials_by_account :: "int \<Rightarrow> (sqlx_error + int) io" where
  "count_api_credentials_by_account account_id =
     db_stmt (count_stmt (\<lambda>d.
       select_rows (\<lambda>c. cred_account_id c = Some account_id) (api_credentials d)))"

fun decrypt_credentials :: "crypto_env \<Rightarrow> api_credential list \<Rightarrow> sqlx_error + api_credential list" where
  "decrypt_credentials cy [] = Inr []"
| "decrypt_credentials cy (c # cs) =
     (case decrypt_credential cy c of
        Inl e \<Rightarrow> Inl e
      | Inr c' \<Rightarrow>
          (case decrypt_credentials cy cs of Inl e \<Rightarrow> Inl e | Inr cs' \<Rightarrow> Inr (c' # cs')))"

definition list_api_credentials_by_account_paginated ::
    "crypto_env \<Rightarrow> int \<Rightarrow> int \<Rightarrow> int \<Rightarrow> (sqlx_error + api_credential list) io" where
  "list_api_credentials_by_account_paginated cy account_id offset limit =
     bind_ok (db_stmt (page_stmt limit offset (\<lambda>d. sort_key cred_id
        (select_rows (\<lambda>c. cred_account_id c = Some account_id) (api_credentials d)))))
       (\<lambda>cs. return (decrypt_credentials cy cs))"

definition find_api_credential_by_apikey ::
    "crypto_env \<Rightarrow> string \<Rightarrow> (sqlx_error + api_credential option) io" where
  "find_api_credential_by_apikey cy apikey =
     bind_ok (fetch_optional (select_credentials
        (\<lambda>c. cred_api_key_hash c = hash_api_key cy apikey)))
       (\<lambda>c. return (decrypt_optional cy c))"

definition deactivate_api_credential ::
    "crypto_env \<Rightarrow> string \<Rightarrow> (sqlx_error + api_credential) io" where
  "deactivate_api_credential cy apikey =
     bind_ok (fetch_one (update_stmt api_credentials api_credentials_update
        (\<lambda>c. cred_api_key_hash c = hash_api_key cy apikey)
        (\<lambda>now c. c\<lparr>cred_is_active := False, cred_updated_at := now\<rparr>)))
       (\<lambda>c. return (decrypt_credential cy c))"

definition fresh_credential ::
    "new_api_credential \<Rightarrow> string \<Rightarrow> string \<Rightarrow> timestamp \<Rightarrow> int \<Rightarrow> api_credential" where
  "fresh_credential n encrypted_key key_hash now i =
     \<lparr>cred_id = i, cred_account_id = nc_account_id n, cred_encrypted_api_key = encrypted_key,
      cred_ellipsed_api_key = '''', cred_api_key_hash = key_hash, cred_apikey = '''',
      cred_label = nc_label n, cred_is_active = True, cred_expires_at = nc_expires_at n,
      cred_created_at = now, cred_updated_at = now\<rparr>"

definition create_api_credential_for_account ::
    "crypto_env \<Rightarrow> bytes \<Rightarrow> string \<Rightarrow> int \<Rightarrow> string \<Rightarrow> (sqlx_error + api_credential) io" where
  "create_api_credential_for_account cy nonce uuid_hex account_id label =
     (let plaintext = generate_api_credential uuid_hex in
      case encrypt_apikey cy nonce plaintext of
        Inl e \<Rightarrow> return (Inl e)
      | Inr encrypted_key \<Rightarrow>
          let key_hash = hash_api_key cy plaintext;
              new_key = \<lparr>nc_account_id = Some account_id, nc_apikey = plaintext, nc_label = label,
                         nc_expires_at = None\<rparr>
          in bind_ok (fetch_one
               (guard_stmt (\<lambda>d. violates
                   (\<exists>c \<in> set (t_rows (api_credentials d)). cred_api_key_hash c = key_hash)
                   ''idx_api_credentials_api_key_hash'')
               (guard_stmt (\<lambda>d. violates (\<forall>a \<in> set (t_rows (accounts d)). acc_id a \<noteq> account_id)
                   ''api_credentials_account_id_fkey'')
               (insert_stmt api_credentials api_credentials_update
                   (fresh_credential new_key encrypted_key key_hash)))))
             (\<lambda>c. return (decrypt_credential cy c)))"

end
