(* ===== verification/Pagination.thy ===== *)
theory Pagination
  imports Sql
begin

text \<open>
  Answers of the admin API and its two ways of listing: page by page and by cursor
  (\<^verbatim>\<open>views/admin_rest_api.rs\<close>).  The locale \<open>paged_list\<close> is the contract between a
  count query, a page query and the handler over them.
\<close>

section \<open>Answers\<close>

text \<open>A JSON body with a status, or the standard error body.\<close>

datatype 'b reply = Reply int 'b | ErrorReply int string string

definition ok_reply :: "'b \<Rightarrow> 'b reply" where
  "ok_reply b = Reply 200 b"

definition database_error :: "string \<Rightarrow> 'b reply" where
  "database_error msg = ErrorReply 500 ''database_error'' msg"

definition not_found :: "string \<Rightarrow> 'b reply" where
  "not_found msg = ErrorReply 404 ''not_found'' msg"

definition validation_error :: "string \<Rightarrow> 'b reply" where
  "validation_error msg = ErrorReply 400 ''validation_error'' msg"

section \<open>Pages\<close>

definition DEFAULT_PAGE_SIZE :: int where "DEFAULT_PAGE_SIZE = 20"
definition MAX_PAGE_SIZE :: int where "MAX_PAGE_SIZE = 100"

record pagination_params =
  pp_page :: int
  pp_page_size :: int

text \<open>Absent query parameters take their defaults.\<close>

definition pagination_params_of :: "int option \<Rightarrow> int option \<Rightarrow> pagination_params" where
  "pagination_params_of page page_size =
     \<lparr>pp_page = unwrap_or page 1, pp_page_size = unwrap_or page_size DEFAULT_PAGE_SIZE\<rparr>"

record pagination_info =
  pi_page :: int
  pi_page_size :: int
  pi_total :: int
  pi_total_pages :: int

record 'd paginated =
  pr_data :: "'d list"
  pr_pagination :: pagination_info

definition clamp :: "int \<Rightarrow> int \<Rightarrow> int \<Rightarrow> int" where
  "clamp x lo hi = (if x < lo then lo else if hi < x then hi else x)"

definition page_of :: "pagination_params \<Rightarrow> int" where
  "page_of p = (if pp_page p < 1 then 1 else pp_page p)"

definition page_size_of :: "pagination_params \<Rightarrow> int" where
  "page_size_of p = clamp (pp_page_size p) 1 MAX_PAGE_SIZE"

definition offset_of :: "pagination_params \<Rightarrow> int" where
  "offset_of p = wrap_i64 ((page_of p - 1) * page_size_of p)"

text \<open>Rust's division truncates toward zero.\<close>

definition rust_div :: "int \<Rightarrow> int \<Rightarrow> int" where
  "rust_div a b = (if a < 0 then - ((- a) div b) else a div b)"

definition total_pages_of :: "int \<Rightarrow> int \<Rightarrow> int" where
  "total_pages_of n page_size =
     (if n = 0 then 0 else rust_div (wrap_i64 (wrap_i64 (n + page_size) - 1)) page_size)"

text \<open>The body every paginated handler has: count, fetch a page, wrap the rows.\<close>

definition list_page ::
    "(sqlx_error + int) io \<Rightarrow> (int \<Rightarrow> int \<Rightarrow> (sqlx_error + 'r list) io) \<Rightarrow> ('r \<Rightarrow> 'd) \<Rightarrow> string \<Rightarrow>
     pagination_params \<Rightarrow> 'd paginated reply io" where
  "list_page cnt fetch dto msg params = do {
     let page = page_of params;
     let page_size = page_size_of params;
     counted \<leftarrow> cnt;
     (case counted of
        Inl _ \<Rightarrow> return (database_error msg)
      | Inr n \<Rightarrow> do {
          rows \<leftarrow> fetch (offset_of params) page_size;
          (case rows of
             Inl _ \<Rightarrow> return (database_error msg)
           | Inr rs \<Rightarrow>
               return (ok_reply \<lparr>pr_data = map dto rs,
                 pr_pagination = \<lparr>pi_page = page, pi_page_size = page_size, pi_total = n,
                   pi_total_pages = total_pages_of n page_size\<rparr>\<rparr>)) }) }"

lemma page_bounds: "1 \<le> page_of p" "1 \<le> page_size_of p" "page_size_of p \<le> 100"
  by (auto simp: page_of_def page_size_of_def clamp_def MAX_PAGE_SIZE_def)

text \<open>The pages of a list.\<close>

definition page_rows :: "'r list \<Rightarrow> nat \<Rightarrow> nat \<Rightarrow> 'r list" where
  "page_rows xs per k = take per (drop (k * per) xs)"

definition page_count :: "nat \<Rightarrow> nat \<Rightarrow> nat" where
  "page_count n per = (n + per - 1) div per"

lemma pages_concat: "concat (map (page_rows xs per) [0..<k]) = take (k * per) xs"
proof (induction k)
  case 0
  then show ?case by simp
next
  case (Suc k)
  have "take (per + k * per) xs = take (k * per) xs @ take per (drop (k * per) xs)"
    by (metis add.commute take_add)
  with Suc show ?case by (simp add: page_rows_def)
qed

lemma page_count_covers: "0 < per \<Longrightarrow> n \<le> page_count n per * per"
proof -
  assume "0 < per"
  then have "n + per - 1 < ((n + per - 1) div per + 1) * per"
    by (metis add.commute dividend_less_div_times mult.commute mult_Suc_right plus_1_eq_Suc)
  then show ?thesis by (simp add: page_count_def algebra_simps)
qed

lemma pages_cover: "0 < per \<Longrightarrow> concat (map (page_rows xs per) [0..<page_count (length xs) per]) = xs"
  by (simp add: pages_concat page_count_covers)

lemma page_count_least:
  assumes "0 < per" and "k < page_count (length xs) per"
  shows "page_rows xs per k \<noteq> []"
proof -
  have "page_count (length xs) per * per \<le> length xs + per - 1"
    by (simp add: page_count_def)
  moreover have "(k + 1) * per \<le> page_count (length xs) per * per"
    using assms(2) by (intro mult_le_mono1) simp
  ultimately have "k * per < length xs" using assms(1) by simp
  then show ?thesis using assms(1) by (simp add: page_rows_def)
qed

lemma total_pages_count:
  assumes "1 \<le> per" and "per \<le> 100" and "int n < 2 ^ 62"
  shows "total_pages_of (int n) per = int (page_count n (nat per))"
proof -
  have "in_i64 (int n + per)" and "in_i64 (int n + per - 1)"
    using assms by (simp_all add: in_i64_def)
  then show ?thesis
    using assms by (auto simp: total_pages_of_def rust_div_def page_count_def zdiv_int of_nat_diff
        nat_less_iff algebra_simps)
qed

section \<open>The contract of a paginated list\<close>

text \<open>
  The two queries behind a list promise the same rows: the count query their number, the page query
  the slice its limit and offset name.  The handler over them then partitions the rows into pages.
\<close>

locale paged_list =
  fixes cnt :: "(sqlx_error + int) io"
    and fetch :: "int \<Rightarrow> int \<Rightarrow> (sqlx_error + 'r list) io"
    and rows :: "db \<Rightarrow> 'r list"
  assumes cnt_counts:
      "w_faults w = [] \<Longrightarrow> wp cnt Q w = Q (Inr (int (length (rows (w_db w))))) w"
    and fetch_slices:
      "w_faults w = [] \<Longrightarrow> 0 \<le> off \<Longrightarrow> 0 \<le> k \<Longrightarrow>
       wp (fetch off k) Q' w = Q' (Inr (limit_offset k off (rows (w_db w)))) w"
begin

lemma list_page_answers:
  assumes "w_faults w = []" and "page_of p < 2 ^ 56"
  shows "wp (list_page cnt fetch dto msg p)
     (\<lambda>r t. t = w \<and> r = ok_reply \<lparr>pr_data =
          map dto (page_rows (rows (w_db w)) (nat (page_size_of p)) (nat (page_of p - 1))),
        pr_pagination = \<lparr>pi_page = page_of p, pi_page_size = page_size_of p,
          pi_total = int (length (rows (w_db w))),
          pi_total_pages = total_pages_of (int (length (rows (w_db w)))) (page_size_of p)\<rparr>\<rparr>) w"
proof -
  have le: "(page_of p - 1) * page_size_of p \<le> (2 ^ 56) * 100"
    using assms(2) page_bounds [of p] by (intro mult_mono) simp_all
  moreover have ge: "0 \<le> (page_of p - 1) * page_size_of p"
    using page_bounds [of p] by simp
  ultimately have off: "offset_of p = (page_of p - 1) * page_size_of p"
    by (simp add: offset_of_def wrap_i64_id in_i64_small)
  have "nat (offset_of p) = nat (page_of p - 1) * nat (page_size_of p)"
    unfolding off using page_bounds [of p] by (simp add: nat_mult_distrib)
  then show ?thesis
    using assms page_bounds [of p] ge
    by (simp add: list_page_def Let_def cnt_counts fetch_slices off limit_offset_def page_rows_def)
qed

lemma pages_partition:
  "0 < k \<Longrightarrow> concat (map (page_rows (rows d) k) [0..<page_count (length (rows d)) k]) = rows d"
  by (rule pages_cover)

end

section \<open>Cursors\<close>

definition DEFAULT_CURSOR_COUNT :: int where "DEFAULT_CURSOR_COUNT = 20"
definition MAX_CURSOR_COUNT :: int where "MAX_CURSOR_COUNT = 100"

record 'd cursor_response =
  cr_data :: "'d list"
  cr_next_id :: int
  cr_has_more :: bool

text \<open>The rows after the cursor, one more than asked for, cut into an answer.\<close>

definition cursor_answer :: "('r \<Rightarrow> int) \<Rightarrow> ('r \<Rightarrow> 'd) \<Rightarrow> int \<Rightarrow> int \<Rightarrow> 'r list \<Rightarrow> 'd cursor_response" where
  "cursor_answer pk dto start cnt fetched =
     (let has_more = int (length fetched) > cnt;
          events = (if has_more then take (nat cnt) fetched else fetched)
      in \<lparr>cr_data = map dto events,
          cr_next_id = (if events = [] then start else pk (last events)),
          cr_has_more = has_more\<rparr>)"

text \<open>Following the cursor: \<open>n\<close> requests, each from where the last one ended.\<close>

fun walk :: "('r \<Rightarrow> int) \<Rightarrow> 'r list \<Rightarrow> int \<Rightarrow> nat \<Rightarrow> int \<Rightarrow> 'r list \<times> bool" where
  "walk pk rows cnt 0 start = ([], True)"
| "walk pk rows cnt (Suc n) start =
     (let a = cursor_answer pk id start cnt (take (nat (cnt + 1)) (filter (\<lambda>r. pk r > start) rows))
      in if cr_has_more a
         then (let (rest, more) = walk pk rows cnt n (cr_next_id a) in (cr_data a @ rest, more))
         else (cr_data a, False))"

lemma filter_after_take:
  assumes "sorted_wrt (\<lambda>a b. pk a < pk b) rows" and "k < length rows" and "0 < k"
  shows "filter (\<lambda>r. pk r > (pk (rows ! (k - 1)) :: int)) rows = drop k rows"
proof -
  have take: "filter (\<lambda>r. pk r > pk (rows ! (k - 1))) (take k rows) = []"
  proof -
    have "pk r \<le> pk (rows ! (k - 1))" if "r \<in> set (take k rows)" for r
    proof -
      from that obtain i where i: "i < k" "i < length rows" "r = rows ! i"
        by (auto simp: in_set_conv_nth)
      then show ?thesis
        using assms(1,2) by (cases "i = k - 1") (auto simp: sorted_wrt_iff_nth_less less_imp_le)
    qed
    then show ?thesis by (force simp: filter_empty_conv)
  qed
  have drop: "filter (\<lambda>r. pk r > pk (rows ! (k - 1))) (drop k rows) = drop k rows"
  proof -
    have "pk (rows ! (k - 1)) < pk r" if "r \<in> set (drop k rows)" for r
    proof -
      from that obtain j where "j < length (drop k rows)" "r = drop k rows ! j"
        by (auto simp: in_set_conv_nth)
      then have "k + j < length rows" "r = rows ! (k + j)" using assms(2) by auto
      then show ?thesis using assms by (auto simp: sorted_wrt_iff_nth_less)
    qed
    then show ?thesis by (simp add: filter_id_conv)
  qed
  show ?thesis
    by (metis append_Nil append_take_drop_id drop filter_append take)
qed

text \<open>The walk over a table sorted by its key visits every row once and ends.\<close>

lemma walk_visits:
  assumes "sorted_wrt (\<lambda>a b. pk a < pk b) rows" and "0 < cnt" and "length (filter (\<lambda>r. pk r > start) rows) \<le> n"
  shows "walk pk rows cnt (Suc n) start = (filter (\<lambda>r. pk r > start) rows, False)"
  using assms(3)
proof (induction n arbitrary: start)
  case 0
  then have "filter (\<lambda>r. pk r > start) rows = []" by simp
  then show ?case using assms(2) by (simp only: walk.simps) (simp add: cursor_answer_def Let_def)
next
  case (Suc n)
  let ?xs = "filter (\<lambda>r. pk r > start) rows" and ?k = "nat cnt"
  show ?case
  proof (cases "length ?xs \<le> ?k")
    case True
    then have t: "take (nat (cnt + 1)) ?xs = ?xs" using assms(2) by simp
    have "\<not> cnt < int (length ?xs)" using True assms(2) by simp
    then show ?thesis
      unfolding walk.simps(2) [of pk rows cnt "Suc n" start] t
      by (simp add: cursor_answer_def Let_def)
  next
    case False
    have sorted: "sorted_wrt (\<lambda>a b. pk a < pk b) ?xs"
      using assms(1) by (simp add: sorted_wrt_filter)
    have next_id: "last (take ?k ?xs) = ?xs ! (?k - 1)"
    proof -
      have "?xs \<noteq> []" using False by (metis le0 list.size(3))
      then have "take ?k ?xs \<noteq> []" using assms(2) by simp
      then show ?thesis using False by (simp add: last_conv_nth min_def)
    qed
    have after: "filter (\<lambda>r. pk r > pk (?xs ! (?k - 1))) rows = drop ?k ?xs"
    proof -
      have "start < pk (?xs ! (?k - 1))"
        using False assms(2) nth_mem [of "?k - 1" ?xs] by auto
      then have "filter (\<lambda>r. pk r > pk (?xs ! (?k - 1))) rows
          = filter (\<lambda>r. pk r > pk (?xs ! (?k - 1))) ?xs"
        by (auto intro: filter_cong)
      with filter_after_take [OF sorted, of ?k] False assms(2) show ?thesis by simp
    qed
    have "walk pk rows cnt (Suc n) (pk (?xs ! (?k - 1))) = (drop ?k ?xs, False)"
      using Suc.IH [of "pk (?xs ! (?k - 1))", unfolded after] Suc.prems False assms(2)
      by (simp del: walk.simps)
    moreover have "take (nat (cnt + 1)) ?xs = take (Suc ?k) ?xs" using assms(2) by (simp add: nat_add_distrib)
    ultimately show ?thesis
      using False assms(2) next_id
      by (subst walk.simps) (auto simp: cursor_answer_def Let_def min_def simp del: walk.simps)
  qed
qed

end
