(* ===== verification/AdminApi.thy ===== *)
theory AdminApi
  imports Ledger Catalog Accounts Caches Pagination "HOL-Library.List_Lexorder" "HOL-Library.Char_ord"
begin

text \<open>
  The handlers of the admin REST API, \<^verbatim>\<open>views/admin_rest_api.rs\<close>, and the import of an
  upstream's models (\<^verbatim>\<open>list_and_save_without_detect\<close> of \<^verbatim>\<open>openai/features.rs\<close>).
  A handler returns its status and body.  How a time and a decimal are printed (crates
  \<^verbatim>\<open>chrono\<close> and \<^verbatim>\<open>bigdecimal\<close>) is the argument \<open>rn\<close>; the UUID and the nonce of a
  new credential, the model list of an upstream and the features a probe finds are arguments too.
\<close>

record renderers =
  rn_time :: "timestamp \<Rightarrow> string"
  rn_dec :: "decimal \<Rightarrow> string"

section \<open>Bodies\<close>

record upstream_response =
  ur_id :: int
  ur_name :: string
  ur_api_base :: string
  ur_provider :: string
  ur_tags :: "string list"
  ur_proxies :: "string list"
  ur_status :: string
  ur_description :: string
  ur_created_at :: string
  ur_updated_at :: string

definition upstream_response_of :: "renderers \<Rightarrow> llm_upstream \<Rightarrow> upstream_response" where
  "upstream_response_of rn u =
     \<lparr>ur_id = up_id u, ur_name = up_name u, ur_api_base = up_api_base u,
      ur_provider = up_provider u, ur_tags = up_tags u, ur_proxies = up_proxies u,
      ur_status = up_status u, ur_description = up_description u,
      ur_created_at = rn_time rn (up_created_at u), ur_updated_at = rn_time rn (up_updated_at u)\<rparr>"

record account_response =
  ar_id :: int
  ar_name :: string
  ar_is_active :: bool
  ar_created_at :: string
  ar_updated_at :: string

definition account_response_of :: "renderers \<Rightarrow> account \<Rightarrow> account_response" where
  "account_response_of rn a =
     \<lparr>ar_id = acc_id a, ar_name = acc_name a, ar_is_active = acc_is_active a,
      ar_created_at = rn_time rn (acc_created_at a), ar_updated_at = rn_time rn (acc_updated_at a)\<rparr>"

record wallet_response =
  wr_id :: int
  wr_account_id :: int
  wr_balance :: string
  wr_created_at :: string
  wr_updated_at :: string

definition wallet_response_of :: "renderers \<Rightarrow> wallet \<Rightarrow> wallet_response" where
  "wallet_response_of rn w =
     \<lparr>wr_id = wal_id w, wr_account_id = wal_account_id w, wr_balance = rn_dec rn (wal_balance w),
      wr_created_at = rn_time rn (wal_created_at w), wr_updated_at = rn_time rn (wal_updated_at w)\<rparr>"

record credential_response =
  kr_id :: int
  kr_account_id :: "int option"
  kr_apikey :: string
  kr_label :: string
  kr_is_active :: bool
  kr_expires_at :: "string option"
  kr_created_at :: string
  kr_updated_at :: string

definition credential_response_of :: "renderers \<Rightarrow> api_credential \<Rightarrow> credential_response" where
  "credential_response_of rn c =
     \<lparr>kr_id = cred_id c, kr_account_id = cred_account_id c, kr_apikey = cred_ellipsed_api_key c,
      kr_label = cred_label c, kr_is_active = cred_is_active c,
      kr_expires_at = map_option (rn_time rn) (cred_expires_at c),
      kr_created_at = rn_time rn (cred_created_at c), kr_updated_at = rn_time rn (cred_updated_at c)\<rparr>"

text \<open>The body of a creation alone carries the plaintext key as well.\<close>

record credential_created_response = credential_response +
  kr_ellipsed_apikey :: string

definition credential_created_response_of ::
    "renderers \<Rightarrow> api_credential \<Rightarrow> credential_created_response" where
  "credential_created_response_of rn c =
     \<lparr>kr_id = cred_id c, kr_account_id = cred_account_id c, kr_apikey = cred_apikey c,
      kr_label = cred_label c, kr_is_active = cred_is_active c,
      kr_expires_at = map_option (rn_time rn) (cred_expires_at c),
      kr_created_at = rn_time rn (cred_created_at c), kr_updated_at = rn_time rn (cred_updated_at c),
      kr_ellipsed_apikey = cred_ellipsed_api_key c\<rparr>"

record model_response =
  mr_id :: int
  mr_upstream_id :: int
  mr_fullname :: string
  mr_cname :: string
  mr_is_active :: bool
  mr_features :: "string list"
  mr_input_token_price :: string
  mr_output_token_price :: string
  mr_batch_input_token_price :: string
  mr_batch_output_token_price :: string
  mr_description :: string
  mr_created_at :: string
  mr_updated_at :: string

definition model_response_of :: "renderers \<Rightarrow> llm_model \<Rightarrow> model_response" where
  "model_response_of rn m =
     \<lparr>mr_id = mdl_id m, mr_upstream_id = mdl_upstream_id m, mr_fullname = mdl_fullname m,
      mr_cname = mdl_cname m, mr_is_active = mdl_is_active m, mr_features = mdl_features m,
      mr_input_token_price = rn_dec rn (mdl_input_token_price m),
      mr_output_token_price = rn_dec rn (mdl_output_token_price m),
      mr_batch_input_token_price = rn_dec rn (mdl_batch_input_token_price m),
      mr_batch_output_token_price = rn_dec rn (mdl_batch_output_token_price m),
      mr_description = mdl_description m, mr_created_at = rn_time rn (mdl_created_at m),
      mr_updated_at = rn_time rn (mdl_updated_at m)\<rparr>"

record balance_change_response =
  bcr_id :: int
  bcr_account_id :: int
  bcr_unique_request_id :: string
  bcr_content :: json
  bcr_is_applied :: bool
  bcr_created_at :: string

definition balance_change_response_of :: "renderers \<Rightarrow> balance_change \<Rightarrow> balance_change_response" where
  "balance_change_response_of rn b =
     \<lparr>bcr_id = bc_id b, bcr_account_id = bc_account_id b,
      bcr_unique_request_id = bc_unique_request_id b, bcr_content = bc_content b,
      bcr_is_applied = bc_is_applied b, bcr_created_at = rn_time rn (bc_created_at b)\<rparr>"

record session_event_response =
  ser_id :: int
  ser_session_id :: string
  ser_session_index :: int
  ser_account_id :: int
  ser_model_id :: int
  ser_api_key_id :: int
  ser_input_token_price :: string
  ser_input_tokens :: int
  ser_output_token_price :: string
  ser_output_tokens :: int
  ser_event_data :: json
  ser_created_at :: string

definition session_event_response_of :: "renderers \<Rightarrow> session_event \<Rightarrow> session_event_response" where
  "session_event_response_of rn e =
     \<lparr>ser_id = se_id e, ser_session_id = se_session_id e, ser_session_index = se_session_index e,
      ser_account_id = se_account_id e, ser_model_id = se_model_id e,
      ser_api_key_id = se_api_key_id e, ser_input_token_price = rn_dec rn (se_input_token_price e),
      ser_input_tokens = se_input_tokens e,
      ser_output_token_price = rn_dec rn (se_output_token_price e),
      ser_output_tokens = se_output_tokens e, ser_event_data = se_event_data e,
      ser_created_at = rn_time rn (se_created_at e)\<rparr>"

record subscription_plan_response =
  spr_id :: int
  spr_status :: string
  spr_description :: string
  spr_total_token_limit :: int
  spr_time_span :: int
  spr_money_limit :: string
  spr_sort_order :: int
  spr_created_at :: string
  spr_updated_at :: string

definition subscription_plan_response_of ::
    "renderers \<Rightarrow> subscription_plan \<Rightarrow> subscription_plan_response" where
  "subscription_plan_response_of rn p =
     \<lparr>spr_id = plan_id p, spr_status = plan_status p, spr_description = plan_description p,
      spr_total_token_limit = plan_total_token_limit p, spr_time_span = plan_time_span p,
      spr_money_limit = rn_dec rn (plan_money_limit p), spr_sort_order = plan_sort_order p,
      spr_created_at = rn_time rn (plan_created_at p), spr_updated_at = rn_time rn (plan_updated_at p)\<rparr>"

record subscription_response =
  sbr_id :: int
  sbr_account_id :: int
  sbr_plan_id :: int
  sbr_status :: string
  sbr_start_at :: "string option"
  sbr_end_at :: "string option"
  sbr_used_total_tokens :: int
  sbr_total_token_limit :: int
  sbr_sort_order :: int
  sbr_used_money :: string
  sbr_created_at :: string
  sbr_updated_at :: string

definition subscription_response_of :: "renderers \<Rightarrow> subscription \<Rightarrow> subscription_response" where
  "subscription_response_of rn s =
     \<lparr>sbr_id = sub_id s, sbr_account_id = sub_account_id s, sbr_plan_id = sub_plan_id s,
      sbr_status = sub_status s, sbr_start_at = map_option (rn_time rn) (sub_start_at s),
      sbr_end_at = map_option (rn_time rn) (sub_end_at s),
      sbr_used_total_tokens = sub_used_total_tokens s,
      sbr_total_token_limit = sub_total_token_limit s, sbr_sort_order = sub_sort_order s,
      sbr_used_money = rn_dec rn (sub_used_money s),
      sbr_created_at = rn_time rn (sub_created_at s), sbr_updated_at = rn_time rn (sub_updated_at s)\<rparr>"

section \<open>Shared shapes of a handler\<close>

text \<open>The three arms of a lookup that returns an optional row, and of an operation on one row.\<close>

definition reply_optional ::
    "sqlx_error + 'r option \<Rightarrow> ('r \<Rightarrow> 'd) \<Rightarrow> string \<Rightarrow> string \<Rightarrow> 'd reply" where
  "reply_optional r dto missing msg =
     (case r of
        Inl _ \<Rightarrow> database_error msg
      | Inr x \<Rightarrow> (case x of None \<Rightarrow> not_found missing | Some v \<Rightarrow> ok_reply (dto v)))"

definition reply_row :: "sqlx_error + 'r \<Rightarrow> ('r \<Rightarrow> 'd) \<Rightarrow> string \<Rightarrow> string \<Rightarrow> 'd reply" where
  "reply_row r dto missing msg =
     (case r of
        Inr v \<Rightarrow> ok_reply (dto v)
      | Inl e \<Rightarrow> if e = RowNotFound then not_found missing else database_error msg)"

definition account_missing :: "int \<Rightarrow> string" where
  "account_missing account_id = ''Account with id '' @ show_int account_id @ '' not found''"

text \<open>\<^verbatim>\<open>match get_account_by_id ... return\<close>, the check most handlers start with.\<close>

definition with_account :: "int \<Rightarrow> (account \<Rightarrow> 'd reply io) \<Rightarrow> 'd reply io" where
  "with_account account_id k = do {
     found \<leftarrow> get_account_by_id account_id;
     (case found of
        Inl _ \<Rightarrow> return (database_error ''Failed to query account'')
      | Inr a \<Rightarrow>
          (case a of
             None \<Rightarrow> return (not_found (account_missing account_id))
           | Some acc \<Rightarrow> k acc)) }"

section \<open>Accounts\<close>

definition list_accounts_handler ::
    "renderers \<Rightarrow> pagination_params \<Rightarrow> account_response paginated reply io" where
  "list_accounts_handler rn =
     list_page count_accounts list_accounts_paginated (account_response_of rn)
       ''Failed to query accounts''"

definition duplicate_account :: "'d reply" where
  "duplicate_account =
     ErrorReply 409 ''duplicate_error'' ''An account with this name already exists''"

definition create_account_handler :: "renderers \<Rightarrow> string \<Rightarrow> account_response reply io" where
  "create_account_handler rn name =
     (if trim name = [] then return (validation_error ''Name cannot be empty'')
      else do {
        created \<leftarrow> create_account \<lparr>na_name = trim name\<rparr>;
        (case created of
           Inr a \<Rightarrow> return (Reply 201 (account_response_of rn a))
         | Inl e \<Rightarrow>
             if e = Database (Some ''idx_accounts_name'') then return duplicate_account
             else return (database_error ''Failed to create account'')) })"

definition get_account_by_id_handler :: "renderers \<Rightarrow> int \<Rightarrow> account_response reply io" where
  "get_account_by_id_handler rn account_id = do {
     r \<leftarrow> get_account_by_id account_id;
     return (reply_optional r (account_response_of rn) (account_missing account_id)
       ''Failed to query account'') }"

text \<open>Updating an account invalidates its entry in the account cache, and only that.\<close>

definition update_account_by_id_handler ::
    "renderers \<Rightarrow> int \<Rightarrow> string option \<Rightarrow> bool option \<Rightarrow> account_response reply io" where
  "update_account_by_id_handler rn account_id name is_active =
     (if (case name of None \<Rightarrow> False | Some n \<Rightarrow> trim n = [])
      then return (validation_error ''Name cannot be empty'')
      else do {
        updated \<leftarrow> update_account account_id
          \<lparr>ua_name = map_option trim name, ua_is_active = is_active\<rparr>;
        (case updated of
           Inr a \<Rightarrow> do {
             _ \<leftarrow> delete_account (show_int account_id);
             return (ok_reply (account_response_of rn a)) }
         | Inl e \<Rightarrow>
             if e = RowNotFound then return (not_found (account_missing account_id))
             else if e = Database (Some ''idx_accounts_name'') then return duplicate_account
             else return (database_error ''Failed to update account'')) })"

definition get_account_by_name_handler :: "renderers \<Rightarrow> string \<Rightarrow> account_response reply io" where
  "get_account_by_name_handler rn name = do {
     r \<leftarrow> get_account_by_name name;
     return (reply_optional r (account_response_of rn)
       (''Account with name '' @ [CHR 0x27] @ name @ [CHR 0x27] @ '' not found'')
       ''Failed to query account'') }"

definition get_account_wallet_handler :: "renderers \<Rightarrow> int \<Rightarrow> wallet_response reply io" where
  "get_account_wallet_handler rn account_id = with_account account_id (\<lambda>_. do {
     found \<leftarrow> find_account_wallet account_id;
     (case found of
        Inl _ \<Rightarrow> return (database_error ''Failed to query account wallet'')
      | Inr w \<Rightarrow>
          (case w of
             Some v \<Rightarrow> return (ok_reply (wallet_response_of rn v))
           | None \<Rightarrow> return (ok_reply
               \<lparr>wr_id = 0, wr_account_id = account_id, wr_balance = ''0'', wr_created_at = '''',
                wr_updated_at = ''''\<rparr>))) })"

section \<open>API keys\<close>

definition list_account_apikeys_handler ::
    "crypto_env \<Rightarrow> renderers \<Rightarrow> int \<Rightarrow> pagination_params \<Rightarrow> credential_response paginated reply io" where
  "list_account_apikeys_handler cy rn account_id params = with_account account_id (\<lambda>_.
     list_page (count_api_credentials_by_account account_id)
       (list_api_credentials_by_account_paginated cy account_id) (credential_response_of rn)
       ''Failed to query API keys'' params)"

definition apikey_info_of :: "api_credential \<Rightarrow> bool \<Rightarrow> apikey_info" where
  "apikey_info_of key account_is_active =
     \<lparr>aki_id = cred_id key, aki_account_id = cred_account_id key,
      aki_api_key_hash = cred_api_key_hash key, aki_label = cred_label key,
      aki_is_active = cred_is_active key, aki_account_is_active = account_is_active\<rparr>"

definition create_account_apikey_handler ::
    "crypto_env \<Rightarrow> bytes \<Rightarrow> string \<Rightarrow> renderers \<Rightarrow> int \<Rightarrow> string \<Rightarrow> credential_created_response reply io" where
  "create_account_apikey_handler cy nonce uuid_hex rn account_id label = with_account account_id (\<lambda>a. do {
     created \<leftarrow> create_api_credential_for_account cy nonce uuid_hex account_id label;
     (case created of
        Inl _ \<Rightarrow> return (database_error ''Failed to create API key'')
      | Inr key \<Rightarrow> do {
          _ \<leftarrow> set_apikey_info (cred_api_key_hash key) (apikey_info_of key (acc_is_active a));
          return (Reply 201 (credential_created_response_of rn key)) }) })"

definition apikey_missing :: "string \<Rightarrow> string" where
  "apikey_missing apikey = ''API key '' @ [CHR 0x27] @ apikey @ [CHR 0x27] @ '' not found''"

definition get_apikey_handler ::
    "crypto_env \<Rightarrow> renderers \<Rightarrow> string \<Rightarrow> credential_response reply io" where
  "get_apikey_handler cy rn apikey = do {
     r \<leftarrow> find_api_credential_by_apikey cy apikey;
     return (reply_optional r (credential_response_of rn) (apikey_missing apikey)
       ''Failed to query API key'') }"

definition delete_apikey_handler ::
    "crypto_env \<Rightarrow> renderers \<Rightarrow> string \<Rightarrow> credential_response reply io" where
  "delete_apikey_handler cy rn apikey = do {
     r \<leftarrow> deactivate_api_credential cy apikey;
     (case r of
        Inr key \<Rightarrow> do {
          _ \<leftarrow> delete_apikey (cred_api_key_hash key);
          return (ok_reply (credential_response_of rn key)) }
      | Inl e \<Rightarrow>
          if e = RowNotFound then return (not_found (apikey_missing apikey))
          else return (database_error ''Failed to delete API key'')) }"

section \<open>Upstreams\<close>

definition list_upstreams_handler ::
    "crypto_env \<Rightarrow> renderers \<Rightarrow> pagination_params \<Rightarrow> upstream_response paginated reply io" where
  "list_upstreams_handler cy rn =
     list_page count_upstreams (list_upstreams_paginated cy) (upstream_response_of rn)
       ''Failed to query upstreams''"

text \<open>
  Importing: the upstream is found by its base URL and updated, or created; each listed model that
  is not there yet is created with default prices.  \<open>listed\<close> is the answer of the upstream's model
  list, \<open>None\<close> when the request failed.
\<close>

definition default_token_price :: decimal where
  "default_token_price = 1 / 1000000"

fun save_models :: "int \<Rightarrow> string list \<Rightarrow> (sqlx_error + unit) io" where
  "save_models upstream_id [] = return (Inr ())"
| "save_models upstream_id (m # ms) = do {
     found \<leftarrow> find_model_by_upstream_and_model_id upstream_id m;
     (case found of
        Inr _ \<Rightarrow> save_models upstream_id ms
      | Inl e \<Rightarrow>
          if e = RowNotFound then
            bind_ok (create_model \<lparr>nm_upstream_id = upstream_id, nm_fullname = m, nm_features = [],
                nm_max_tokens = 100000, nm_input_token_price = default_token_price,
                nm_output_token_price = default_token_price,
                nm_batch_input_token_price = default_token_price,
                nm_batch_output_token_price = default_token_price\<rparr>)
              (\<lambda>_. save_models upstream_id ms)
          else return (Inl e)) }"

definition save_upstream ::
    "crypto_env \<Rightarrow> bytes \<Rightarrow> string \<Rightarrow> string \<Rightarrow> string \<Rightarrow> (sqlx_error + llm_upstream) io" where
  "save_upstream cy nonce name api_key api_base = do {
     now \<leftarrow> State_Monad.get;
     existing \<leftarrow> get_upstream_by_api_base cy api_base;
     (case existing of
        Inr u \<Rightarrow> update_upstream cy nonce (up_id u)
          \<lparr>uu_name = Some name, uu_api_base = None, uu_api_key = Some api_key, uu_provider = None,
           uu_tags = None, uu_proxies = None, uu_status = None, uu_description = None,
           uu_updated_at = Some (w_now now)\<rparr>
      | Inl e \<Rightarrow>
          if e = RowNotFound then create_upstream cy nonce
            \<lparr>nu_name = name, nu_api_base = api_base, nu_api_key = api_key, nu_provider = ''openai'',
             nu_tags = [], nu_proxies = [], nu_status = ''online'', nu_description = ''''\<rparr>
          else return (Inl e)) }"

definition list_and_save_without_detect ::
    "crypto_env \<Rightarrow> bytes \<Rightarrow> string list option \<Rightarrow> string \<Rightarrow> string \<Rightarrow> string \<Rightarrow> (sqlx_error + unit) io" where
  "list_and_save_without_detect cy nonce listed name api_key api_base =
     (case listed of
        None \<Rightarrow> return (Inl Io)
      | Some models \<Rightarrow>
          bind_ok (save_upstream cy nonce name api_key api_base)
            (\<lambda>u. save_models (up_id u) (sort models)))"

record create_upstream_request =
  cur_name :: string
  cur_api_key :: string
  cur_api_base :: string
  cur_provider :: string
  cur_tags :: "string list"
  cur_proxies :: "string list"

record upstream_with_models_response =
  uwm_upstream :: upstream_response
  uwm_models :: "model_response list"

definition none_if_empty :: "'a list \<Rightarrow> 'a list option" where
  "none_if_empty xs = (if xs = [] then None else Some xs)"

text \<open>The second half of the creation: read the upstream back, set what the request adds, answer with
  its models.  A failing update is only logged.\<close>

definition finish_create_upstream ::
    "crypto_env \<Rightarrow> bytes \<Rightarrow> renderers \<Rightarrow> create_upstream_request \<Rightarrow> llm_upstream \<Rightarrow>
     upstream_with_models_response reply io" where
  "finish_create_upstream cy nonce rn payload u = do {
     u' \<leftarrow> (if cur_provider payload \<noteq> ''openai'' \<or> cur_tags payload \<noteq> [] \<or> cur_proxies payload \<noteq> []
           then do {
             updated \<leftarrow> update_upstream cy nonce (up_id u)
               \<lparr>uu_name = None, uu_api_base = None, uu_api_key = None,
                uu_provider = Some (cur_provider payload), uu_tags = none_if_empty (cur_tags payload),
                uu_proxies = none_if_empty (cur_proxies payload), uu_status = None,
                uu_description = None, uu_updated_at = None\<rparr>;
             return (case updated of Inr ep \<Rightarrow> ep | Inl _ \<Rightarrow> u) }
           else return u);
     models \<leftarrow> list_models_by_upstream (up_id u');
     (case models of
        Inl _ \<Rightarrow> return (database_error ''Upstream created but failed to retrieve models'')
      | Inr ms \<Rightarrow> return (Reply 201
          \<lparr>uwm_upstream = upstream_response_of rn u', uwm_models = map (model_response_of rn) ms\<rparr>)) }"

definition create_upstream_handler ::
    "crypto_env \<Rightarrow> bytes \<Rightarrow> bytes \<Rightarrow> string list option \<Rightarrow> (sqlx_error \<Rightarrow> string) \<Rightarrow> renderers \<Rightarrow>
     create_upstream_request \<Rightarrow> upstream_with_models_response reply io" where
  "create_upstream_handler cy nonce nonce' listed show_error rn payload =
     (if trim (cur_name payload) = [] then return (validation_error ''name cannot be empty'')
      else if trim (cur_api_key payload) = [] then
        return (validation_error ''api_key cannot be empty'')
      else if trim (cur_api_base payload) = [] then
        return (validation_error ''api_base cannot be empty'')
      else do {
        saved \<leftarrow> list_and_save_without_detect cy nonce listed (trim (cur_name payload))
          (trim (cur_api_key payload)) (trim (cur_api_base payload));
        (case saved of
           Inl e \<Rightarrow>
             return (ErrorReply 502 ''upstream_error'' (''Failed to save upstream: '' @ show_error e))
         | Inr _ \<Rightarrow> do {
             found \<leftarrow> get_upstream_by_api_base cy (trim (cur_api_base payload));
             (case found of
                Inl _ \<Rightarrow> return (database_error ''Upstream created but failed to retrieve it'')
              | Inr u \<Rightarrow> finish_create_upstream cy nonce' rn payload u) }) })"

definition VALID_ENDPOINT_STATUSES :: "string list" where
  "VALID_ENDPOINT_STATUSES = [''online'', ''offline'', ''maintenance'']"

definition invalid_status :: "string \<Rightarrow> string list \<Rightarrow> string" where
  "invalid_status status valid =
     ''Invalid status '' @ [CHR 0x27] @ status @ [CHR 0x27] @ ''. Must be one of: '' @
     concat (tl (concat (map (\<lambda>s. ['', '', s]) valid)))"

definition upstream_missing :: "int \<Rightarrow> string" where
  "upstream_missing i = ''Upstream with id '' @ show_int i @ '' not found''"

definition get_upstream_by_name_handler ::
    "crypto_env \<Rightarrow> renderers \<Rightarrow> string \<Rightarrow> upstream_response reply io" where
  "get_upstream_by_name_handler cy rn name = do {
     r \<leftarrow> get_upstream_by_name cy name;
     return (reply_row r (upstream_response_of rn)
       (''Upstream with name '' @ [CHR 0x27] @ name @ [CHR 0x27] @ '' not found'')
       ''Failed to query upstream'') }"

definition get_upstream_by_id_handler ::
    "crypto_env \<Rightarrow> renderers \<Rightarrow> int \<Rightarrow> upstream_response reply io" where
  "get_upstream_by_id_handler cy rn i = do {
     r \<leftarrow> get_upstream cy i;
     return (reply_row r (upstream_response_of rn) (upstream_missing i)
       ''Failed to query upstream'') }"

record update_upstream_request =
  uur_name :: "string option"
  uur_provider :: "string option"
  uur_tags :: "string list option"
  uur_proxies :: "string list option"
  uur_description :: "string option"
  uur_status :: "string option"

definition bad_status :: "string option \<Rightarrow> string list \<Rightarrow> string option" where
  "bad_status status valid =
     (case status of Some s \<Rightarrow> if s \<in> set valid then None else Some s | None \<Rightarrow> None)"

definition update_upstream_by_id_handler ::
    "crypto_env \<Rightarrow> bytes \<Rightarrow> renderers \<Rightarrow> int \<Rightarrow> update_upstream_request \<Rightarrow> upstream_response reply io" where
  "update_upstream_by_id_handler cy nonce rn i payload =
     (case bad_status (uur_status payload) VALID_ENDPOINT_STATUSES of
        Some status \<Rightarrow> return (validation_error (invalid_status status VALID_ENDPOINT_STATUSES))
      | None \<Rightarrow>
          if (case uur_name payload of None \<Rightarrow> False | Some n \<Rightarrow> trim n = [])
          then return (validation_error ''name cannot be empty'')
          else do {
            w \<leftarrow> State_Monad.get;
            r \<leftarrow> update_upstream cy nonce i
              \<lparr>uu_name = uur_name payload, uu_api_base = None, uu_api_key = None,
               uu_provider = uur_provider payload, uu_tags = uur_tags payload,
               uu_proxies = uur_proxies payload, uu_status = uur_status payload,
               uu_description = uur_description payload, uu_updated_at = Some (w_now w)\<rparr>;
            return (reply_row r (upstream_response_of rn) (upstream_missing i)
              ''Failed to update upstream'') })"

section \<open>Tags\<close>

record tags_response =
  tr_upstream_id :: int
  tr_tags :: "string list"

definition list_upstream_tags_handler :: "int \<Rightarrow> tags_response reply io" where
  "list_upstream_tags_handler i = do {
     r \<leftarrow> get_upstream_tags i;
     return (reply_row r (\<lambda>tags. \<lparr>tr_upstream_id = i, tr_tags = tags\<rparr>) (upstream_missing i)
       ''Failed to query upstream tags'') }"

definition add_upstream_tag_handler :: "crypto_env \<Rightarrow> int \<Rightarrow> string \<Rightarrow> tags_response reply io" where
  "add_upstream_tag_handler cy i tag =
     (if trim tag = [] then return (validation_error ''Tag cannot be empty'')
      else do {
        r \<leftarrow> add_upstream_tag cy i (trim tag);
        return (reply_row r (\<lambda>u. \<lparr>tr_upstream_id = i, tr_tags = up_tags u\<rparr>) (upstream_missing i)
          ''Failed to add tag to upstream'') })"

definition remove_upstream_tag_handler :: "crypto_env \<Rightarrow> int \<Rightarrow> string \<Rightarrow> tags_response reply io" where
  "remove_upstream_tag_handler cy i tag = do {
     r \<leftarrow> remove_upstream_tag cy i tag;
     return (reply_row r (\<lambda>u. \<lparr>tr_upstream_id = i, tr_tags = up_tags u\<rparr>) (upstream_missing i)
       ''Failed to remove tag from upstream'') }"

section \<open>Models\<close>

definition list_models_handler ::
    "renderers \<Rightarrow> list_models_filter \<Rightarrow> pagination_params \<Rightarrow> model_response paginated reply io" where
  "list_models_handler rn f =
     list_page (count_models_filtered f) (list_models_filtered_paginated f) (model_response_of rn)
       ''Failed to query models''"

definition get_model_by_upstream_and_name_handler ::
    "renderers \<Rightarrow> string \<Rightarrow> string \<Rightarrow> model_response reply io" where
  "get_model_by_upstream_and_name_handler rn upstream_name model_name = do {
     r \<leftarrow> find_model_by_upstream_name_and_model_id upstream_name model_name;
     return (reply_optional r (model_response_of rn)
       (''Model '' @ [CHR 0x27] @ model_name @ [CHR 0x27] @ '' not found in upstream '' @
        [CHR 0x27] @ upstream_name @ [CHR 0x27])
       ''Failed to query model'') }"

definition model_missing :: "int \<Rightarrow> string" where
  "model_missing i = ''Model with id '' @ show_int i @ '' not found''"

definition get_model_by_id_handler :: "renderers \<Rightarrow> int \<Rightarrow> model_response reply io" where
  "get_model_by_id_handler rn i = do {
     r \<leftarrow> get_model i;
     return (reply_row r (model_response_of rn) (model_missing i) ''Failed to query model'') }"

record update_model_request =
  umr_is_active :: "bool option"
  umr_description :: "string option"
  umr_input_token_price :: "decimal option"
  umr_output_token_price :: "decimal option"
  umr_batch_input_token_price :: "decimal option"
  umr_batch_output_token_price :: "decimal option"

definition negative :: "decimal option \<Rightarrow> bool" where
  "negative x \<longleftrightarrow> (case x of None \<Rightarrow> False | Some v \<Rightarrow> v < 0)"

definition update_model_by_id_handler ::
    "renderers \<Rightarrow> int \<Rightarrow> update_model_request \<Rightarrow> model_response reply io" where
  "update_model_by_id_handler rn i payload =
     (if negative (umr_input_token_price payload) then
        return (validation_error ''input_token_price must not be negative'')
      else if negative (umr_output_token_price payload) then
        return (validation_error ''output_token_price must not be negative'')
      else if negative (umr_batch_input_token_price payload) then
        return (validation_error ''batch_input_token_price must not be negative'')
      else if negative (umr_batch_output_token_price payload) then
        return (validation_error ''batch_output_token_price must not be negative'')
      else do {
        w \<leftarrow> State_Monad.get;
        r \<leftarrow> update_model i
          \<lparr>um_fullname = None, um_is_active = umr_is_active payload, um_features = None,
           um_max_tokens = None, um_input_token_price = umr_input_token_price payload,
           um_output_token_price = umr_output_token_price payload,
           um_batch_input_token_price = umr_batch_input_token_price payload,
           um_batch_output_token_price = umr_batch_output_token_price payload,
           um_description = umr_description payload, um_updated_at = Some (w_now w)\<rparr>;
        return (reply_row r (model_response_of rn) (model_missing i) ''Failed to update model'') })"

text \<open>The registered providers, \<^verbatim>\<open>provider/mod.rs\<close>; \<open>detect\<close> is what probing the upstream
  finds.\<close>

definition provider_names :: "string list" where
  "provider_names = [''openai'', ''anthropic'']"

definition get_provider :: "string \<Rightarrow> string option" where
  "get_provider name = List.find (\<lambda>p. p = name) provider_names"

record model_test_result =
  mt_model_id :: int
  mt_model :: "model_response option"
  mt_error :: "string option"

definition test_model_handler ::
    "crypto_env \<Rightarrow> (string \<Rightarrow> llm_model \<Rightarrow> llm_upstream \<Rightarrow> string list) \<Rightarrow> (sqlx_error \<Rightarrow> string) \<Rightarrow>
     renderers \<Rightarrow> int \<Rightarrow> model_test_result reply io" where
  "test_model_handler cy detect show_error rn i = do {
     found \<leftarrow> get_model i;
     (case found of
        Inl e \<Rightarrow>
          if e = RowNotFound then return (not_found (model_missing i))
          else return (database_error ''Failed to fetch model'')
      | Inr m \<Rightarrow> do {
          owner \<leftarrow> get_upstream cy (mdl_upstream_id m);
          (case owner of
             Inl e \<Rightarrow>
               if e = RowNotFound then return (not_found (upstream_missing (mdl_upstream_id m)))
               else return (database_error ''Failed to fetch upstream'')
           | Inr u \<Rightarrow>
               (case get_provider (up_provider u) of
                  None \<Rightarrow> return (ErrorReply 400 ''invalid_provider''
                    (''Unsupported provider '' @ [CHR 0x27] @ up_provider u @ [CHR 0x27]))
                | Some p \<Rightarrow> do {
                    r \<leftarrow> update_model_features i (detect p m u);
                    return (ok_reply (case r of
                      Inr m' \<Rightarrow> \<lparr>mt_model_id = i, mt_model = Some (model_response_of rn m'),
                                 mt_error = None\<rparr>
                    | Inl e \<Rightarrow> \<lparr>mt_model_id = i, mt_model = None,
                                 mt_error = Some (show_error e)\<rparr>)) })) }) }"

section \<open>Deposits, withdrawals, credits\<close>

record change_request =
  cq_account_id :: int
  cq_unique_request_id :: string
  cq_amount :: decimal

text \<open>The second half of the three handlers: record the change, queue its settlement, answer with it.
  \<open>what\<close> is the word of the messages.\<close>

definition submit_change ::
    "renderers \<Rightarrow> string \<Rightarrow> string \<Rightarrow> change_request \<Rightarrow> balance_change_content \<Rightarrow>
     balance_change_response reply io" where
  "submit_change rn what What payload content = do {
     created \<leftarrow> create_balance_change
       (from_content (cq_account_id payload) (cq_unique_request_id payload) content);
     (case created of
        Inl _ \<Rightarrow> return (database_error (''Failed to create '' @ what @ '' record''))
      | Inr bc \<Rightarrow> do {
          pushed \<leftarrow> push_balance \<lparr>bct_balance_change_id = bc_id bc\<rparr>;
          if \<not> pushed then return (ErrorReply 500 ''queue_error''
            (What @ '' record created but failed to enqueue processing task''))
          else return (Reply 201 (balance_change_response_of rn bc)) }) }"

definition create_deposit_handler ::
    "renderers \<Rightarrow> change_request \<Rightarrow> balance_change_response reply io" where
  "create_deposit_handler rn payload =
     (if cq_amount payload \<le> 0 then return (validation_error ''Amount must be positive'')
      else with_account (cq_account_id payload) (\<lambda>_.
        submit_change rn ''deposit'' ''Deposit'' payload (Deposit (cq_amount payload))))"

definition insufficient :: "renderers \<Rightarrow> string \<Rightarrow> decimal \<Rightarrow> 'd reply" where
  "insufficient rn available requested =
     ErrorReply 400 ''insufficient_wallets''
       (''Insufficient balance. Available: '' @ available @ '', requested: '' @ rn_dec rn requested)"

definition create_withdraw_handler ::
    "renderers \<Rightarrow> change_request \<Rightarrow> balance_change_response reply io" where
  "create_withdraw_handler rn payload =
     (if cq_amount payload \<le> 0 then return (validation_error ''Amount must be positive'')
      else with_account (cq_account_id payload) (\<lambda>_. do {
        found \<leftarrow> find_account_wallet (cq_account_id payload);
        (case found of
           Inl _ \<Rightarrow> return (database_error ''Failed to query account wallet'')
         | Inr w \<Rightarrow>
             (case w of
                None \<Rightarrow> return (insufficient rn ''0'' (cq_amount payload))
              | Some wal \<Rightarrow>
                  if wal_balance wal < cq_amount payload
                  then return (insufficient rn (rn_dec rn (wal_balance wal)) (cq_amount payload))
                  else submit_change rn ''withdrawal'' ''Withdrawal'' payload
                         (Withdraw (cq_amount payload)))) }))"

definition create_credit_handler ::
    "renderers \<Rightarrow> change_request \<Rightarrow> balance_change_response reply io" where
  "create_credit_handler rn payload =
     (if cq_amount payload \<le> 0 then return (validation_error ''Amount must be positive'')
      else with_account (cq_account_id payload) (\<lambda>_.
        submit_change rn ''credit'' ''Credit'' payload (AddCredit (cq_amount payload))))"

section \<open>Session events\<close>

record list_session_events_params =
  lse_session :: "string option"
  lse_start :: int
  lse_count :: int

definition get_session_event_by_id_handler :: "renderers \<Rightarrow> int \<Rightarrow> session_event_response reply io" where
  "get_session_event_by_id_handler rn i = do {
     r \<leftarrow> get_session_event_by_id i;
     return (reply_optional r (session_event_response_of rn)
       (''Session event with id '' @ show_int i @ '' not found'') ''Failed to query session event'') }"

definition list_session_events_handler ::
    "renderers \<Rightarrow> list_session_events_params \<Rightarrow> session_event_response cursor_response reply io" where
  "list_session_events_handler rn params = do {
     let start = (if lse_start params < 0 then 0 else lse_start params);
     let cnt = clamp (lse_count params) 1 MAX_CURSOR_COUNT;
     events \<leftarrow> list_session_events_cursor (lse_session params) start cnt;
     (case events of
        Inl _ \<Rightarrow> return (database_error ''Failed to query session events'')
      | Inr es \<Rightarrow>
          return (ok_reply (cursor_answer se_id (session_event_response_of rn) start cnt es))) }"

section \<open>Subscription plans\<close>

definition plan_missing :: "int \<Rightarrow> string" where
  "plan_missing i = ''Subscription plan with id '' @ show_int i @ '' not found''"

definition list_subscription_plans_handler ::
    "renderers \<Rightarrow> pagination_params \<Rightarrow> subscription_plan_response paginated reply io" where
  "list_subscription_plans_handler rn =
     list_page count_subscription_plans list_subscription_plans_paginated
       (subscription_plan_response_of rn) ''Failed to query subscription plans''"

definition get_subscription_plan_handler ::
    "renderers \<Rightarrow> int \<Rightarrow> subscription_plan_response reply io" where
  "get_subscription_plan_handler rn i = do {
     r \<leftarrow> get_subscription_plan_by_id i;
     return (reply_optional r (subscription_plan_response_of rn) (plan_missing i)
       ''Failed to query subscription plan'') }"

record create_plan_request =
  cpr_description :: string
  cpr_total_token_limit :: int
  cpr_time_span :: int
  cpr_money_limit :: decimal
  cpr_sort_order :: int

definition create_subscription_plan_handler ::
    "renderers \<Rightarrow> create_plan_request \<Rightarrow> subscription_plan_response reply io" where
  "create_subscription_plan_handler rn payload =
     (if cpr_money_limit payload < 0
      then return (validation_error ''money_limit must not be negative'')
      else do {
        r \<leftarrow> create_subscription_plan (cpr_description payload) (cpr_total_token_limit payload)
          (cpr_time_span payload) (cpr_money_limit payload) (cpr_sort_order payload);
        return (case r of
          Inr p \<Rightarrow> Reply 201 (subscription_plan_response_of rn p)
        | Inl _ \<Rightarrow> database_error ''Failed to create subscription plan'') })"

record update_plan_request =
  upr_description :: "string option"
  upr_total_token_limit :: "int option"
  upr_time_span :: "int option"
  upr_money_limit :: "decimal option"
  upr_sort_order :: "int option"
  upr_status :: "string option"

definition VALID_PLAN_STATUSES :: "string list" where
  "VALID_PLAN_STATUSES = [''active'', ''deactive'']"

definition update_subscription_plan_handler ::
    "renderers \<Rightarrow> int \<Rightarrow> update_plan_request \<Rightarrow> subscription_plan_response reply io" where
  "update_subscription_plan_handler rn i payload =
     (case bad_status (upr_status payload) VALID_PLAN_STATUSES of
        Some status \<Rightarrow> return (validation_error (invalid_status status VALID_PLAN_STATUSES))
      | None \<Rightarrow>
          if negative (upr_money_limit payload)
          then return (validation_error ''money_limit must not be negative'')
          else do {
            r \<leftarrow> update_subscription_plan i (upr_description payload) (upr_total_token_limit payload)
              (upr_time_span payload) (upr_money_limit payload) (upr_sort_order payload)
              (upr_status payload);
            return (reply_row r (subscription_plan_response_of rn) (plan_missing i)
              ''Failed to update subscription plan'') })"

definition cancel_subscription_plan_handler ::
    "renderers \<Rightarrow> int \<Rightarrow> subscription_plan_response reply io" where
  "cancel_subscription_plan_handler rn i = do {
     r \<leftarrow> cancel_subscription_plan i;
     return (reply_row r (subscription_plan_response_of rn) (plan_missing i)
       ''Failed to cancel subscription plan'') }"

section \<open>Subscriptions\<close>

definition subscription_missing :: "int \<Rightarrow> string" where
  "subscription_missing i = ''Subscription with id '' @ show_int i @ '' not found''"

definition list_subscriptions_handler ::
    "renderers \<Rightarrow> int option \<Rightarrow> string option \<Rightarrow> pagination_params \<Rightarrow>
     subscription_response paginated reply io" where
  "list_subscriptions_handler rn account_id status =
     list_page (count_subscriptions account_id status)
       (list_subscriptions_paginated account_id status) (subscription_response_of rn)
       ''Failed to query subscriptions''"

definition get_subscription_handler :: "renderers \<Rightarrow> int \<Rightarrow> subscription_response reply io" where
  "get_subscription_handler rn i = do {
     r \<leftarrow> get_subscription_by_id i;
     return (reply_optional r (subscription_response_of rn) (subscription_missing i)
       ''Failed to query subscription'') }"

definition create_subscription_handler ::
    "renderers \<Rightarrow> int \<Rightarrow> int \<Rightarrow> subscription_response reply io" where
  "create_subscription_handler rn account_id i = with_account account_id (\<lambda>_. do {
     plan \<leftarrow> get_subscription_plan_by_id i;
     (case plan of
        Inl _ \<Rightarrow> return (database_error ''Failed to query subscription plan'')
      | Inr p \<Rightarrow>
          (case p of
             None \<Rightarrow> return (not_found (plan_missing i))
           | Some _ \<Rightarrow> do {
               r \<leftarrow> create_subscription account_id i;
               return (case r of
                 Inr s \<Rightarrow> Reply 201 (subscription_response_of rn s)
               | Inl _ \<Rightarrow> database_error ''Failed to create subscription'') })) })"

definition VALID_SUBSCRIPTION_STATUSES :: "string list" where
  "VALID_SUBSCRIPTION_STATUSES = [''active'', ''deactive'']"

definition update_subscription_handler ::
    "renderers \<Rightarrow> int \<Rightarrow> string \<Rightarrow> subscription_response reply io" where
  "update_subscription_handler rn i status =
     (if status \<notin> set VALID_SUBSCRIPTION_STATUSES
      then return (validation_error (invalid_status status VALID_SUBSCRIPTION_STATUSES))
      else do {
        r \<leftarrow> update_subscription_status i status;
        return (reply_row r (subscription_response_of rn) (subscription_missing i)
          ''Failed to update subscription'') })"

definition cancel_subscription_handler :: "renderers \<Rightarrow> int \<Rightarrow> subscription_response reply io" where
  "cancel_subscription_handler rn i = do {
     r \<leftarrow> cancel_subscription i;
     return (reply_row r (subscription_response_of rn) (subscription_missing i)
       ''Failed to cancel subscription'') }"

end
