(* ===== verification/BillingSystem.thy ===== *)
theory BillingSystem
  imports Billing AdminApi
begin

text \<open>
  The billing part of the running system as a transition relation: every operation of the program
  that writes wallets, balance changes or subscriptions is a step, under every schedule of failing
  calls; any other activity is a step that leaves these three tables alone.  Tasks are delivered at
  least once and in any order, so a settlement or an event may be run with any task at any time.
\<close>

definition billing_tables :: "db \<Rightarrow> wallet table \<times> balance_change table \<times> subscription table" where
  "billing_tables d = (wallets d, balance_changes d, subscriptions d)"

inductive billing_step :: "world \<Rightarrow> world \<Rightarrow> bool" where
  settle: "run_state (settle_balance_change task) w = (r, w') \<Longrightarrow> billing_step w w'"
| openai: "run_state (handle_openai_event hour ser task) w = (r, w') \<Longrightarrow> billing_step w w'"
| anthropic: "run_state (handle_anthropic_event hour ser task) w = (r, w') \<Longrightarrow> billing_step w w'"
| deposit: "run_state (create_deposit_handler rn payload) w = (r, w') \<Longrightarrow> billing_step w w'"
| withdraw: "run_state (create_withdraw_handler rn payload) w = (r, w') \<Longrightarrow> billing_step w w'"
| credit: "run_state (create_credit_handler rn payload) w = (r, w') \<Longrightarrow> billing_step w w'"
| subscribe: "run_state (create_subscription_handler rn a i) w = (r, w') \<Longrightarrow> billing_step w w'"
| set_subscription: "run_state (update_subscription_handler rn i status) w = (r, w') \<Longrightarrow> billing_step w w'"
| cancel: "run_state (cancel_subscription_handler rn i) w = (r, w') \<Longrightarrow> billing_step w w'"
| background: "billing_tables (w_db w') = billing_tables (w_db w) \<Longrightarrow> w_tx w' = None \<Longrightarrow> billing_step w w'"

inductive billing_reach :: "world \<Rightarrow> world \<Rightarrow> bool" for w0 where
  start: "billing_reach w0 w0"
| step: "billing_reach w0 w \<Longrightarrow> billing_step w w' \<Longrightarrow> billing_reach w0 w'"

text \<open>The empty system.\<close>

definition no_billing :: "world \<Rightarrow> bool" where
  "no_billing w \<longleftrightarrow> w_tx w = None \<and> t_rows (wallets (w_db w)) = [] \<and>
     t_rows (balance_changes (w_db w)) = [] \<and> t_rows (subscriptions (w_db w)) = []"

section \<open>An invariant of the three tables\<close>

text \<open>
  \<open>keeps_billing J\<close>: an invariant \<open>J\<close> of the billing tables survives what the operations do to
  them: inserting an unapplied change, settling one, inserting a fresh subscription, changing the
  status of one.
\<close>

locale billing_invariant =
  fixes J :: "db \<Rightarrow> bool"
  assumes J_tables: "J d \<Longrightarrow> billing_tables d' = billing_tables d \<Longrightarrow> J d'"
    and J_change: "bill_wf d \<Longrightarrow> J d \<Longrightarrow>
      J (balance_changes_update (\<lambda>_. snd (insert_row (fresh_change n now) (balance_changes d))) d)"
    and J_settled: "bill_wf d \<Longrightarrow> J d \<Longrightarrow> bc \<in> set (t_rows (balance_changes d)) \<Longrightarrow> \<not> bc_is_applied bc \<Longrightarrow>
      content_of_json (bc_content bc) = Some c \<Longrightarrow> J (settled_db now bc c d)"
    and J_subscribe: "bill_wf d \<Longrightarrow> J d \<Longrightarrow>
      J (subscriptions_update (\<lambda>_. snd (insert_row (fresh_subscription a p now) (subscriptions d))) d)"
    and J_status: "bill_wf d \<Longrightarrow> J d \<Longrightarrow>
      J (subscriptions_update (\<lambda>_. snd (update_rows (\<lambda>s. sub_id s = i)
           (\<lambda>s. s\<lparr>sub_status := status, sub_updated_at := now\<rparr>) (subscriptions d))) d)"
begin

abbreviation I :: "db \<Rightarrow> bool" where
  "I d \<equiv> bill_wf d \<and> J d"

lemma wf_tables: "bill_wf d \<Longrightarrow> billing_tables d' = billing_tables d \<Longrightarrow> bill_wf d'"
  by (simp add: bill_wf_def billing_tables_def)

lemma wf_change:
  assumes "bill_wf d"
    and "\<forall>b \<in> set (t_rows (balance_changes d)). bc_unique_request_id b \<noteq> nbc_unique_request_id n"
  shows "bill_wf (balance_changes_update (\<lambda>_. snd (insert_row (fresh_change n now) (balance_changes d))) d)"
  using assms
  by (auto simp: bill_wf_def ids_ok_def insert_row_def Let_def fresh_change_def)

lemma insert_change_keeps: "stmt_keeps I (insert_change_sql n)"
  unfolding stmt_keeps_def
proof (intro allI impI)
  fix now d rs d'
  assume I: "I d" and ins: "insert_change_sql n now d = Inr (rs, d')"
  then obtain bc rest where "charges now n d bc d'"
    by (auto simp: charges_def insert_change_sql_def sql_defs violates_def Let_def split: if_splits)
  note ch = charges_cases [OF this]
  show "I d'" unfolding ch(3) using I ch(4) J_change wf_change by blast
qed

lemma subscribe_keeps: "stmt_keeps I (insert_stmt subscriptions subscriptions_update (fresh_subscription a p))"
  by (rule stmt_keeps_write)
    (auto simp: J_subscribe, auto simp: bill_wf_def ids_ok_insert fresh_subscription_def)

lemma status_keeps:
  "stmt_keeps I (update_stmt subscriptions subscriptions_update (\<lambda>s. sub_id s = i)
     (\<lambda>now s. s\<lparr>sub_status := status, sub_updated_at := now\<rparr>))"
  by (rule stmt_keeps_write)
    (auto simp: J_status, auto simp: bill_wf_def intro: ids_ok_update)

lemma upsert_keeps: "stmt_keeps I (upsert_event_sql n)"
proof (rule stmt_keepsI)
  fix now d rs d'
  assume "I d" and "upsert_event_sql n now d = Inr (rs, d')"
  then show "I d'"
    using J_tables wf_tables
    by (auto simp: upsert_event_sql_def sql_defs Let_def billing_tables_def split: if_splits)
qed

lemma handle_event_keeps: "keeps_db I (handle_event hour prefix sid idx a i key data usage)"
  unfolding handle_event_def record_event_def get_model_with_tx_def select_models_def
    create_session_event_with_tx_def create_balance_change_with_tx_def
  by (intro effect_intros upsert_keeps insert_change_keeps)

lemma with_account_keeps: "(\<And>x. keeps_db I (k x)) \<Longrightarrow> keeps_db I (with_account a k)"
  unfolding with_account_def get_account_by_id_def select_accounts_def by (intro effect_intros)

lemma submit_keeps: "keeps_db I (submit_change rn what What payload c)"
  unfolding submit_change_def create_balance_change_def
  by (intro effect_intros insert_change_keeps)

lemma settle_keeps:
  assumes "w_tx w = None" and "I (w_db w)" and "run_state (settle_balance_change task) w = (r, w')"
  shows "w_tx w' = None \<and> I (w_db w')"
  using wp_run [OF settle_outcome [OF assms(1)] assms(3)] assms(2) settled_wf J_settled
  by (auto simp: settles_to_def)

end

section \<open>Reachable states\<close>

lemma keeps_tx_handlers:
  "keeps_tx (create_deposit_handler rn payload)"
  "keeps_tx (create_withdraw_handler rn payload)"
  "keeps_tx (create_credit_handler rn payload)"
  "keeps_tx (create_subscription_handler rn a i)"
  "keeps_tx (update_subscription_handler rn i status)"
  "keeps_tx (cancel_subscription_handler rn i)"
  unfolding create_deposit_handler_def create_withdraw_handler_def create_credit_handler_def
    create_subscription_handler_def update_subscription_handler_def cancel_subscription_handler_def
    submit_change_def with_account_def get_account_by_id_def find_account_wallet_def
    create_balance_change_def get_subscription_plan_by_id_def create_subscription_def
    update_subscription_status_def cancel_subscription_def
  by (intro effect_intros)+

context billing_invariant begin

lemma handlers_keep:
  "keeps_db I (create_deposit_handler rn payload)"
  "keeps_db I (create_withdraw_handler rn payload)"
  "keeps_db I (create_credit_handler rn payload)"
  "keeps_db I (create_subscription_handler rn a i)"
  "keeps_db I (update_subscription_handler rn i status)"
  "keeps_db I (cancel_subscription_handler rn i)"
  unfolding create_deposit_handler_def create_withdraw_handler_def create_credit_handler_def
    create_subscription_handler_def update_subscription_handler_def cancel_subscription_handler_def
    find_account_wallet_def find_wallet_sql_def get_subscription_plan_by_id_def create_subscription_def
    update_subscription_status_def cancel_subscription_def
  by (intro effect_intros with_account_keeps submit_keeps subscribe_keeps status_keeps)+

lemma handler_step:
  assumes "keeps_db I m" and "keeps_tx m" and "run_state m w = (r, w')" and "w_tx w = None" and "I (w_db w)"
  shows "w_tx w' = None \<and> I (w_db w')"
  using keeps_db_run [OF assms(1,3,4,5)] frames.eff_run [OF assms(2,3)] assms(4) by simp

lemma event_step:
  assumes "run_state (handle_event hour prefix sid idx a i key data usage) w = (r, w')"
    and "w_tx w = None" and "I (w_db w)"
  shows "w_tx w' = None \<and> I (w_db w')"
  using keeps_db_run [OF handle_event_keeps assms] wp_run [OF handle_event_outcome [OF assms(2)] assms(1)]
  by blast

lemma step_keeps:
  assumes "billing_step w w'" and "w_tx w = None" and "I (w_db w)"
  shows "w_tx w' = None \<and> I (w_db w')"
  using assms
proof (cases rule: billing_step.cases)
  case (settle task r)
  then show ?thesis using assms settle_keeps by blast
next
  case (openai hour ser task r)
  then show ?thesis using assms event_step unfolding handle_openai_event_def by blast
next
  case (anthropic hour ser task r)
  then show ?thesis using assms event_step unfolding handle_anthropic_event_def by blast
next
  case background
  then show ?thesis using assms J_tables wf_tables by blast
next
  case (deposit rn payload r)
  from handler_step [OF handlers_keep(1) keeps_tx_handlers(1) this assms(2,3)] show ?thesis .
next
  case (withdraw rn payload r)
  from handler_step [OF handlers_keep(2) keeps_tx_handlers(2) this assms(2,3)] show ?thesis .
next
  case (credit rn payload r)
  from handler_step [OF handlers_keep(3) keeps_tx_handlers(3) this assms(2,3)] show ?thesis .
next
  case (subscribe rn a i r)
  from handler_step [OF handlers_keep(4) keeps_tx_handlers(4) this assms(2,3)] show ?thesis .
next
  case (set_subscription rn i status r)
  from handler_step [OF handlers_keep(5) keeps_tx_handlers(5) this assms(2,3)] show ?thesis .
next
  case (cancel rn i r)
  from handler_step [OF handlers_keep(6) keeps_tx_handlers(6) this assms(2,3)] show ?thesis .
qed

lemma reach_keeps:
  "billing_reach w0 w \<Longrightarrow> w_tx w0 = None \<Longrightarrow> I (w_db w0) \<Longrightarrow> w_tx w = None \<and> I (w_db w)"
proof (induction rule: billing_reach.induct)
  case (step w w')
  then show ?case using step_keeps by blast
qed blast

end

lemma no_billing_wf: "no_billing w \<Longrightarrow> w_tx w = None \<and> bill_wf (w_db w)"
  by (simp add: no_billing_def bill_wf_def ids_ok_def)

section \<open>The invariants\<close>

lemma change_amount_fresh [simp]: "bc_is_applied (fresh_change n now i) = False"
  by (simp add: fresh_change_def)

lemma applied_total_insert:
  "applied_total (balance_changes_update (\<lambda>_. snd (insert_row (fresh_change n now) (balance_changes d))) d) a
     = applied_total d a"
  by (simp add: applied_total_def t_rows_insert insert_row_def Let_def)

lemma used_money_status:
  "used_money_of (subscriptions_update (\<lambda>_. snd (update_rows (\<lambda>s. sub_id s = i)
       (\<lambda>s. s\<lparr>sub_status := status, sub_updated_at := now\<rparr>) (subscriptions d))) d) a = used_money_of d a"
  by (simp add: used_money_of_def t_rows_update comp_def if_distrib [of sub_account_id]
      if_distrib [of sub_used_money] cong: if_cong)

lemma used_money_subscribe:
  "used_money_of (subscriptions_update (\<lambda>_. snd (insert_row (fresh_subscription b p now) (subscriptions d))) d) a
     = used_money_of d a"
  by (simp add: used_money_of_def t_rows_insert insert_row_def Let_def fresh_subscription_def)

interpretation books: billing_invariant ledger_ok
proof unfold_locales
  show "ledger_ok d \<Longrightarrow> billing_tables d' = billing_tables d \<Longrightarrow> ledger_ok d'" for d d'
    by (simp add: ledger_ok_def balance_of_def used_money_of_def applied_total_def billing_tables_def)
  show "bill_wf d \<Longrightarrow> ledger_ok d \<Longrightarrow>
      ledger_ok (balance_changes_update (\<lambda>_. snd (insert_row (fresh_change n now) (balance_changes d))) d)"
    for d n now
    by (simp add: ledger_ok_def applied_total_insert) (simp add: balance_of_def used_money_of_def)
  show "bill_wf d \<Longrightarrow> ledger_ok d \<Longrightarrow> bc \<in> set (t_rows (balance_changes d)) \<Longrightarrow> \<not> bc_is_applied bc \<Longrightarrow>
      content_of_json (bc_content bc) = Some c \<Longrightarrow> ledger_ok (settled_db now bc c d)" for d bc c now
    by (rule settled_ledger)
  show "bill_wf d \<Longrightarrow> ledger_ok d \<Longrightarrow>
      ledger_ok (subscriptions_update (\<lambda>_. snd (insert_row (fresh_subscription a p now) (subscriptions d))) d)"
    for d a p now
    by (simp add: ledger_ok_def used_money_subscribe) (simp add: balance_of_def applied_total_def)
  show "bill_wf d \<Longrightarrow> ledger_ok d \<Longrightarrow>
      ledger_ok (subscriptions_update (\<lambda>_. snd (update_rows (\<lambda>s. sub_id s = i)
        (\<lambda>s. s\<lparr>sub_status := status, sub_updated_at := now\<rparr>) (subscriptions d))) d)" for d i status now
    by (simp add: ledger_ok_def used_money_status) (simp add: balance_of_def applied_total_def)
qed

interpretation limits: billing_invariant quota_ok
proof unfold_locales
  show "bill_wf d \<Longrightarrow> quota_ok d \<Longrightarrow> bc \<in> set (t_rows (balance_changes d)) \<Longrightarrow> \<not> bc_is_applied bc \<Longrightarrow>
      content_of_json (bc_content bc) = Some c \<Longrightarrow> quota_ok (settled_db now bc c d)" for d bc c now
    by (rule settled_quota)
qed (auto simp: quota_ok_def billing_tables_def t_rows_update insert_row_def Let_def fresh_subscription_def)

text \<open>The shape of the tables alone.\<close>

interpretation shape: billing_invariant "\<lambda>_. True"
  by unfold_locales simp_all

definition no_start :: "db \<Rightarrow> bool" where
  "no_start d \<longleftrightarrow> (\<forall>s \<in> set (t_rows (subscriptions d)). sub_start_at s = None)"

interpretation starts: billing_invariant no_start
proof unfold_locales
  show "no_start (settled_db now bc c d)" if "no_start d" for d bc c now
    using that
    by (cases rule: settled_cases [of now bc c d])
      (auto simp: no_start_def charge_subscription_def t_rows_update)
qed (auto simp: no_start_def billing_tables_def t_rows_update insert_row_def Let_def fresh_subscription_def)

end
