(* ===== verification/Demo.thy ===== *)
theory Demo
  imports Ledger
begin

text \<open>
  A small concrete system, which the witnesses of the properties run on, and the final state of a
  handler.
\<close>

section \<open>A concrete system\<close>

definition empty_table :: "'r table" where
  "empty_table = \<lparr>t_rows = [], t_seq = 0\<rparr>"

definition demo_account :: account where
  "demo_account = \<lparr>acc_id = 1, acc_name = ''acme'', acc_is_active = True, acc_created_at = 0,
     acc_updated_at = 0\<rparr>"

definition demo_model :: llm_model where
  "demo_model = \<lparr>mdl_id = 1, mdl_upstream_id = 1, mdl_fullname = ''org/m'', mdl_cname = ''m'',
     mdl_is_active = True, mdl_features = [''chat/completions''], mdl_max_tokens = 100000,
     mdl_input_token_price = 1 / 1000, mdl_output_token_price = 2 / 1000,
     mdl_batch_input_token_price = 1 / 2000, mdl_batch_output_token_price = 1 / 1000,
     mdl_description = '''', mdl_created_at = 0, mdl_updated_at = 0\<rparr>"

definition demo_change :: balance_change where
  "demo_change = \<lparr>bc_id = 1, bc_account_id = 1, bc_unique_request_id = ''r1'',
     bc_content = content_to_json (Deposit 10), bc_is_applied = False, bc_subscription_id = 0,
     bc_created_at = 0\<rparr>"

definition demo_plan :: subscription_plan where
  "demo_plan = \<lparr>plan_id = 1, plan_status = ''active'', plan_description = '''',
     plan_total_token_limit = 1000, plan_time_span = 30, plan_money_limit = 5, plan_sort_order = 0,
     plan_created_at = 0, plan_updated_at = 0\<rparr>"

definition empty_db :: db where
  "empty_db = \<lparr>accounts = \<lparr>t_rows = [demo_account], t_seq = 1\<rparr>, api_credentials = empty_table,
     llm_upstreams = empty_table, llm_models = \<lparr>t_rows = [demo_model], t_seq = 1\<rparr>,
     session_events = empty_table, wallets = empty_table, file_metas = empty_table,
     response_metas = empty_table, batch_metas = empty_table, balance_changes = empty_table,
     subscription_plans = \<lparr>t_rows = [demo_plan], t_seq = 1\<rparr>, subscriptions = empty_table\<rparr>"

definition demo_db :: db where
  "demo_db = empty_db\<lparr>balance_changes := \<lparr>t_rows = [demo_change], t_seq = 1\<rparr>\<rparr>"

definition world_of :: "db \<Rightarrow> world" where
  "world_of d = \<lparr>w_db = d, w_tx = None, w_redis = Map.empty, w_openai_q = [], w_anthropic_q = [],
     w_balance_q = [], w_spawned = [], w_now = 0, w_faults = []\<rparr>"

lemma world_of_simps [simp]:
  "w_db (world_of d) = d" "w_tx (world_of d) = None" "w_faults (world_of d) = []"
  "w_balance_q (world_of d) = []" "w_now (world_of d) = 0" "w_redis (world_of d) = Map.empty"
  by (simp_all add: world_of_def)

lemmas demo_defs = empty_table_def demo_account_def demo_model_def demo_change_def demo_plan_def empty_db_def
  demo_db_def

abbreviation final :: "'a io \<Rightarrow> world \<Rightarrow> world" where
  "final m w \<equiv> snd (run_state m w)"

end
