(* ===== verification/BillingClaims.thy ===== *)
theory BillingClaims
  imports BillingSystem Demo
begin

text \<open>
  The properties of billing, over the transition system of \<open>BillingSystem\<close> and the handlers of
  \<open>Billing\<close>.
\<close>

lemma demo_wf: "bill_wf empty_db" "bill_wf demo_db"
  by (simp_all add: bill_wf_def ids_ok_def demo_defs)

section \<open>Settlement\<close>

text \<open>After a settlement the change is applied, and no second one is possible.\<close>

lemma settled_is_applied:
  assumes "b \<in> set (t_rows (balance_changes (settled_db now bc c d)))" and "bc_id b = bc_id bc"
  shows "bc_is_applied b"
  using assms
  by (cases rule: settled_cases [of now bc c d])
    (auto simp: mark_applied_def t_rows_update split: if_splits)

lemma settles_to_changes: "settles_to now i d d' \<Longrightarrow> d' \<noteq> d"
  unfolding settles_to_def using settled_is_applied by metis

text \<open>C1: whatever external calls fail, a settlement either leaves the database as it was or turns it
  into exactly what the reference says: the wallet exists, the amount is charged to the current
  subscription or added to the balance, and the change is marked applied, all at once.  When no call
  fails and the change can be settled, it is settled.\<close>

theorem settle_atomic:
  assumes "w_tx w = None" and "bill_wf (w_db w)"
  shows "w_db (final (settle_balance_change task) w) = w_db w \<and>
           \<not> (w_faults w = [] \<and> settleable (w_now w) (bct_balance_change_id task) (w_db w)) \<or>
         settles_to (w_now w) (bct_balance_change_id task) (w_db w)
           (w_db (final (settle_balance_change task) w))"
  using settle_outcome [OF assms] by (simp add: wp_run_state)

lemma demo_content [simp]: "content_of_json (bc_content demo_change) = Some (Deposit 10)"
  by (simp add: demo_change_def content_of_to_json)

lemma demo_settleable: "settleable 0 1 demo_db"
proof -
  have "demo_change \<in> set (t_rows (balance_changes demo_db))" by (simp add: demo_db_def)
  moreover have "bc_id demo_change = 1" "\<not> bc_is_applied demo_change"
    by (simp_all add: demo_change_def)
  moreover have "\<forall>e. \<not> settle_error 0 (bc_account_id demo_change) (Deposit 10) demo_db e"
    by (simp add: settle_error_def demo_defs)
  ultimately show ?thesis using demo_content unfolding settleable_def by blast
qed

theorem settle_atomic_witness:
  "settles_to 0 1 demo_db (w_db (final (settle_balance_change \<lparr>bct_balance_change_id = 1\<rparr>) (world_of demo_db)))"
  using settle_atomic [of "world_of demo_db" "\<lparr>bct_balance_change_id = 1\<rparr>"] demo_wf demo_settleable
  by simp


lemma demo_settles:
  "settles_to 0 1 demo_db
     (w_db (final (settle_balance_change \<lparr>bct_balance_change_id = 1\<rparr>) (world_of demo_db)))"
  using settle_outcome [of "world_of demo_db" "\<lparr>bct_balance_change_id = 1\<rparr>"] demo_wf demo_settleable
  by (simp add: wp_run_state)


section \<open>The books of a running system\<close>

text \<open>C3: in every state the system can reach from one without billing data, whatever calls fail and in
  whatever order requests, events and settlements (repeated ones too) come, every account's balance
  is what its applied balance changes add up to, plus what its subscriptions paid.\<close>

theorem ledger_balances:
  assumes "no_billing w0" and "billing_reach w0 w"
  shows "balance_of (w_db w) a = applied_total (w_db w) a + used_money_of (w_db w) a"
proof -
  have "ledger_ok (w_db w0)"
    using assms(1)
    by (simp add: no_billing_def ledger_ok_def balance_of_def used_money_of_def applied_total_def)
  with books.reach_keeps [OF assms(2)] no_billing_wf [OF assms(1)] show ?thesis
    by (auto simp: ledger_ok_def algebra_simps)
qed

definition demo_deposit :: change_request where
  "demo_deposit = \<lparr>cq_account_id = 1, cq_unique_request_id = ''d1'', cq_amount = 10\<rparr>"

definition demo_rn :: renderers where
  "demo_rn = \<lparr>rn_time = \<lambda>_. ''t'', rn_dec = \<lambda>_. ''10''\<rparr>"

lemma demo_start: "no_billing (world_of empty_db)"
  by (simp add: no_billing_def empty_db_def empty_table_def)

text \<open>A deposit, its settlement, and the delivery of the same settlement again.\<close>

abbreviation demo_world :: world where
  "demo_world \<equiv>
     final (settle_balance_change \<lparr>bct_balance_change_id = 1\<rparr>)
       (final (settle_balance_change \<lparr>bct_balance_change_id = 1\<rparr>)
         (final (create_deposit_handler demo_rn demo_deposit) (world_of empty_db)))"

lemma reach_final:
  "billing_reach w0 w \<Longrightarrow> (\<And>r w'. run_state m w = (r, w') \<Longrightarrow> billing_step w w') \<Longrightarrow>
   billing_reach w0 (final m w)"
  by (cases "run_state m w") (auto intro: billing_reach.step)

lemma demo_reach: "billing_reach (world_of empty_db) demo_world"
  by (intro reach_final billing_reach.start) (auto intro: billing_step.intros)

theorem ledger_balances_witness:
  "balance_of (w_db demo_world) 1
     = applied_total (w_db demo_world) 1 + used_money_of (w_db demo_world) 1"
  by (rule ledger_balances [OF demo_start demo_reach])

text \<open>No subscription is ever used beyond its token limit, in every reachable state.\<close>

theorem quota_respected:
  assumes "no_billing w0" and "billing_reach w0 w" and "s \<in> set (t_rows (subscriptions (w_db w)))"
  shows "sub_used_total_tokens s \<le> sub_total_token_limit s"
proof -
  have "quota_ok (w_db w0)" using assms(1) by (simp add: no_billing_def quota_ok_def)
  with limits.reach_keeps [OF assms(2)] no_billing_wf [OF assms(1)] assms(3) show ?thesis
    by (auto simp: quota_ok_def)
qed

abbreviation subscribed_world :: world where
  "subscribed_world \<equiv> final (create_subscription_handler demo_rn 1 1) (world_of empty_db)"

lemma subscribed_rows:
  "t_rows (subscriptions (w_db subscribed_world)) = [fresh_subscription 1 1 0 1]"
proof -
  have "wp (create_subscription_handler demo_rn 1 1)
      (\<lambda>_ t. t_rows (subscriptions (w_db t)) = [fresh_subscription 1 1 0 1]) (world_of empty_db)"
    by (simp add: create_subscription_handler_def with_account_def get_account_by_id_def
        select_accounts_def get_subscription_plan_by_id_def create_subscription_def no_fault_calls
        sql_defs violates_def insert_row_def select_rows_def Let_def demo_defs)
  then show ?thesis by (simp add: wp_run_state)
qed

theorem quota_respected_witness:
  "sub_used_total_tokens (fresh_subscription 1 1 0 1)
     \<le> sub_total_token_limit (fresh_subscription 1 1 0 1)"
proof (rule quota_respected [OF demo_start])
  show "billing_reach (world_of empty_db) subscribed_world"
    by (intro reach_final billing_reach.start) (auto intro: billing_step.intros)
qed (simp add: subscribed_rows)

section \<open>From an event to the balance\<close>

definition usage_cost :: "llm_model \<Rightarrow> usage_info \<Rightarrow> decimal" where
  "usage_cost m u =
     (if ui_is_batch u
      then mdl_batch_input_token_price m * of_int (ui_input_tokens u)
         + mdl_batch_output_token_price m * of_int (ui_output_tokens u)
      else mdl_input_token_price m * of_int (ui_input_tokens u)
         + mdl_output_token_price m * of_int (ui_output_tokens u))"

lemma spent_money_cost [simp]: "spent_money (spend_token_of m u i) = usage_cost m u"
  by (simp add: spent_money_def spend_token_of_def usage_cost_def)

lemma session_event_fields [simp]:
  "nse_session_id (session_event_of sid idx a i key data usage m) = sid"
  "nse_session_index (session_event_of sid idx a i key data usage m) = idx"
  "nse_account_id (session_event_of sid idx a i key data usage m) = a"
  "nse_model_id (session_event_of sid idx a i key data usage m) = i"
  by (simp_all add: session_event_of_def split: prod.split)

text \<open>The event identifiers, a \<^verbatim>\<open>BIGSERIAL\<close>, are 64-bit and not exhausted.\<close>

definition serial_ok :: "db \<Rightarrow> bool" where
  "serial_ok d \<longleftrightarrow> in_i64 (t_seq (session_events d) + 1) \<and>
     (\<forall>e \<in> set (t_rows (session_events d)). in_i64 (se_id e))"

lemma records_in_i64: "records now n d ev d' \<Longrightarrow> serial_ok d \<Longrightarrow> in_i64 (se_id ev)"
proof (cases "\<exists>e \<in> set (t_rows (session_events d)). same_event_key n e")
  case True
  assume "records now n d ev d'" and s: "serial_ok d"
  then obtain xs e where "filter (same_event_key n) (t_rows (session_events d)) = e # xs"
      and "ev = overwrite_event n e"
    using True by (auto simp: records_def upsert_event_sql_def sql_defs Let_def update_rows_def)
  moreover from this(1) have "e \<in> set (t_rows (session_events d))"
    by (metis filter_is_subset list.set_intros(1) subsetD)
  ultimately show ?thesis using s by (simp add: serial_ok_def overwrite_event_def)
qed (auto simp: records_def upsert_event_sql_def sql_defs Let_def insert_row_def fresh_event_def serial_ok_def)

text \<open>An event with usage, on a healthy system that knows its model and account, becomes one unapplied
  change, at the end of the table and of the queue; everything else of the billing state stays.\<close>

definition billed ::
    "string \<Rightarrow> int \<Rightarrow> llm_model \<Rightarrow> usage_info \<Rightarrow> world \<Rightarrow> balance_change \<Rightarrow> world \<Rightarrow> bool" where
  "billed rid a m u w bc w' \<longleftrightarrow>
     t_rows (balance_changes (w_db w')) = t_rows (balance_changes (w_db w)) @ [bc] \<and>
     w_balance_q w' = w_balance_q w @ [\<lparr>bct_balance_change_id = bc_id bc\<rparr>] \<and>
     bc_account_id bc = a \<and> bc_unique_request_id bc = rid \<and> \<not> bc_is_applied bc \<and>
     (\<exists>i. bc_content bc = content_to_json (SpendToken (spend_token_of m u i)) \<and>
        (serial_ok (w_db w) \<longrightarrow> in_i64 i)) \<and>
     accounts (w_db w') = accounts (w_db w) \<and>
     wallets (w_db w') = wallets (w_db w) \<and> subscriptions (w_db w') = subscriptions (w_db w)"

lemma handle_event_bills:
  assumes "w_tx w = None" and "w_faults w = []" and "event_model i (w_db w) = Some m"
    and "\<exists>x \<in> set (t_rows (accounts (w_db w))). acc_id x = a"
    and "\<forall>b \<in> set (t_rows (balance_changes (w_db w))).
           bc_unique_request_id b \<noteq> request_id prefix sid idx"
  shows "\<exists>bc. billed (request_id prefix sid idx) a m u w bc
           (final (handle_event hour prefix sid idx a i key data (Some u)) w)"
proof -
  let ?n = "session_event_of sid idx a i key data (Some u) (Some m)"
  let ?w' = "final (handle_event hour prefix sid idx a i key data (Some u)) w"
  have "event_outcome (w_now w) prefix ?n (Some u) True (w_db w) (w_balance_q w) (w_db ?w') (w_balance_q ?w')"
    using handle_event_outcome [OF assms(1), of hour prefix sid idx a i key data "Some u"] assms(2,3)
    by (simp add: wp_run_state)
  then obtain ev d1 bc where ev: "records (w_now w) ?n (w_db w) ev d1"
    and bc: "charges (w_now w) (from_content a (request_id prefix sid idx)
           (SpendToken (spend_token_of m u (se_id ev)))) d1 bc (w_db ?w')"
    and q: "w_balance_q ?w' = w_balance_q w @ [\<lparr>bct_balance_change_id = bc_id bc\<rparr>]"
    using assms(3-5) by (auto simp: event_outcome_def Let_def)
  have "accounts (w_db ?w') = accounts d1" "wallets (w_db ?w') = wallets d1"
    "subscriptions (w_db ?w') = subscriptions d1"
    by (simp_all add: charges_cases(3) [OF bc])
  moreover have "bc_account_id bc = a \<and> bc_unique_request_id bc = request_id prefix sid idx \<and>
      \<not> bc_is_applied bc \<and> bc_content bc = content_to_json (SpendToken (spend_token_of m u (se_id ev)))"
    by (simp add: charges_cases(1) [OF bc] fresh_change_def from_content_def)
  ultimately show ?thesis
    unfolding billed_def using records_row [OF ev] charges_cases(2) [OF bc] q records_in_i64 [OF ev]
    by auto
qed

definition demo_openai :: openai_event_task where
  "demo_openai = \<lparr>oet_session_id = ''s'', oet_session_index = 0, oet_account_id = 1,
     oet_model_id = 1, oet_api_key_id = 1, oet_event_data = CreateEmbeddingResponse
       \<lparr>emb_usage = \<lparr>eu_prompt_tokens = 100, eu_total_tokens = 100\<rparr>, emb_rest = JNull\<rparr>\<rparr>"

definition demo_usage :: usage_info where
  "demo_usage = \<lparr>ui_input_tokens = 100, ui_output_tokens = 0, ui_total_tokens = 100, ui_is_batch = False\<rparr>"

lemma demo_cost: "usage_cost demo_model demo_usage = 1 / 10"
  by (simp add: usage_cost_def demo_model_def demo_usage_def)

lemma demo_lookup:
  "event_model (oet_model_id demo_openai) (w_db (world_of empty_db)) = Some demo_model"
  "\<exists>x \<in> set (t_rows (accounts (w_db (world_of empty_db)))). acc_id x = oet_account_id demo_openai"
  "extract_openai_usage (oet_event_data demo_openai) = Some demo_usage"
  by (simp_all add: event_model_def select_rows_def demo_defs demo_openai_def demo_usage_def)

text \<open>C5: a healthy system turns the usage of an OpenAI event into exactly one balance change for the
  event's account and queues it; the change says the model's prices times the tokens.\<close>

theorem openai_event_billed:
  assumes "w_tx w = None" and "w_faults w = []"
    and "extract_openai_usage (oet_event_data e) = Some u"
    and "event_model (oet_model_id e) (w_db w) = Some m"
    and "\<exists>x \<in> set (t_rows (accounts (w_db w))). acc_id x = oet_account_id e"
    and "\<forall>b \<in> set (t_rows (balance_changes (w_db w))). bc_unique_request_id b \<noteq>
           request_id ''spendtoken-'' (oet_session_id e) (oet_session_index e)"
  shows "\<exists>bc s. t_rows (balance_changes (w_db (final (handle_openai_event hour ser e) w)))
             = t_rows (balance_changes (w_db w)) @ [bc] \<and>
           w_balance_q (final (handle_openai_event hour ser e) w)
             = w_balance_q w @ [\<lparr>bct_balance_change_id = bc_id bc\<rparr>] \<and>
           bc_account_id bc = oet_account_id e \<and> \<not> bc_is_applied bc \<and>
           bc_content bc = content_to_json (SpendToken s) \<and> spent_money s = usage_cost m u"
proof -
  obtain bc where "billed (request_id ''spendtoken-'' (oet_session_id e) (oet_session_index e))
      (oet_account_id e) m u w bc (final (handle_openai_event hour ser e) w)"
    unfolding handle_openai_event_def assms(3)
    using handle_event_bills [OF assms(1,2,4,5,6)] by blast
  then show ?thesis unfolding billed_def using spent_money_cost by blast
qed

theorem openai_event_billed_witness:
  "\<exists>bc s. t_rows (balance_changes (w_db (final (handle_openai_event (\<lambda>_. ''h'') (\<lambda>_. None) demo_openai)
              (world_of empty_db)))) = [bc] \<and>
     bc_account_id bc = 1 \<and> \<not> bc_is_applied bc \<and> bc_content bc = content_to_json (SpendToken s) \<and>
     spent_money s = 1 / 10"
proof -
  have "oet_account_id demo_openai = 1" "t_rows (balance_changes (w_db (world_of empty_db))) = []"
    by (simp_all add: demo_openai_def empty_db_def empty_table_def)
  with openai_event_billed [of "world_of empty_db" demo_openai demo_usage demo_model] demo_lookup
  show ?thesis by (simp add: demo_cost) blast
qed

text \<open>C6: an event that is delivered again, after its change exists, creates no second charge: the
  balance changes, wallets, subscriptions and the queue stay as they are, whatever fails.\<close>

theorem event_redelivery_harmless:
  assumes "w_tx w = None" and "extract_openai_usage (oet_event_data e) = Some u"
    and "event_model (oet_model_id e) (w_db w) = Some m"
    and "\<exists>b \<in> set (t_rows (balance_changes (w_db w))). bc_unique_request_id b =
           request_id ''spendtoken-'' (oet_session_id e) (oet_session_index e)"
  shows "w_db (final (handle_openai_event hour ser e) w) = w_db w \<and>
         w_balance_q (final (handle_openai_event hour ser e) w) = w_balance_q w"
proof -
  let ?n = "session_event_of (oet_session_id e) (oet_session_index e) (oet_account_id e) (oet_model_id e)
      (oet_api_key_id e) (unwrap_or (ser (oet_event_data e)) JNull) (Some u) (Some m)"
  have "event_outcome (w_now w) ''spendtoken-'' ?n (Some u) (w_faults w = []) (w_db w) (w_balance_q w)
      (w_db (final (handle_openai_event hour ser e) w))
      (w_balance_q (final (handle_openai_event hour ser e) w))"
    unfolding handle_openai_event_def assms(2)
    using handle_event_outcome [OF assms(1), of hour "''spendtoken-''" "oet_session_id e"
        "oet_session_index e" "oet_account_id e" "oet_model_id e" "oet_api_key_id e"
        "unwrap_or (ser (oet_event_data e)) JNull" "Some u"] assms(3)
    by (simp add: wp_run_state)
  with assms(3,4) show ?thesis
    using records_row(4) charges_cases(4)
    by (fastforce simp: event_outcome_def Let_def from_content_def)
qed

definition redelivery_db :: db where
  "redelivery_db = empty_db\<lparr>balance_changes := \<lparr>t_rows = [demo_change
     \<lparr>bc_unique_request_id := request_id ''spendtoken-'' ''s'' 0\<rparr>], t_seq = 1\<rparr>\<rparr>"

theorem event_redelivery_harmless_witness:
  "w_db (final (handle_openai_event (\<lambda>_. ''h'') (\<lambda>_. None) demo_openai) (world_of redelivery_db))
     = redelivery_db"
proof -
  have "event_model (oet_model_id demo_openai) redelivery_db = Some demo_model"
    by (simp add: event_model_def select_rows_def redelivery_db_def demo_defs demo_openai_def)
  moreover have "\<exists>b \<in> set (t_rows (balance_changes redelivery_db)). bc_unique_request_id b =
      request_id ''spendtoken-'' (oet_session_id demo_openai) (oet_session_index demo_openai)"
    by (simp add: redelivery_db_def demo_openai_def)
  ultimately show ?thesis
    using event_redelivery_harmless [of "world_of redelivery_db" demo_openai] demo_lookup(3) by simp
qed

lemma settle_billed:
  assumes wf: "bill_wf (w_db w)" and bc: "bc \<in> set (t_rows (balance_changes (w_db w)))"
      "\<not> bc_is_applied bc" "content_of_json (bc_content bc) = Some c"
    and "w_tx w = None" and "w_faults w = []"
    and fine: "\<And>e. \<not> settle_error (w_now w) (bc_account_id bc) c (w_db w) e"
  shows "w_db (final (settle_balance_change \<lparr>bct_balance_change_id = bc_id bc\<rparr>) w)
           = settled_db (w_now w) bc c (w_db w)"
proof -
  have "settleable (w_now w) (bc_id bc) (w_db w)"
    using bc fine unfolding settleable_def by blast
  then have "settles_to (w_now w) (bc_id bc) (w_db w)
      (w_db (final (settle_balance_change \<lparr>bct_balance_change_id = bc_id bc\<rparr>) w))"
    using settle_outcome [OF assms(5) wf, of "\<lparr>bct_balance_change_id = bc_id bc\<rparr>"] assms(6)
    by (simp add: wp_run_state)
  then show ?thesis
    using bc wf ids_ok_unique [of bc_id "balance_changes (w_db w)"]
    unfolding settles_to_def bill_wf_def by fastforce
qed

lemma spend_in_range:
  "extract_anthropic_usage d = Some u \<Longrightarrow> in_i64 i \<Longrightarrow> content_in_range (SpendToken (spend_token_of m u i))"
  by (cases d) (auto simp: spend_token_of_def u64_usage_info_def in_i64_wrap split: prod.split)

text \<open>The token counters of the subscriptions have room for the usage.\<close>

definition counters_fit :: "int \<Rightarrow> db \<Rightarrow> bool" where
  "counters_fit tokens d \<longleftrightarrow>
     (\<forall>s \<in> set (t_rows (subscriptions d)). in_i64 (sub_used_total_tokens s + tokens))"

text \<open>C7: end to end.  The usage of an Anthropic event, recorded by one worker and settled by another at
  any later time, costs its account exactly the model's prices times the tokens, out of the wallet or
  a subscription, and costs nobody else anything.\<close>

theorem anthropic_usage_paid:
  assumes "w_tx w = None" and "w_faults w = []" and wf: "bill_wf (w_db w)" and "serial_ok (w_db w)"
    and usage: "extract_anthropic_usage (aet_event_data e) = Some u"
    and "event_model (aet_model_id e) (w_db w) = Some m"
    and acc: "\<exists>x \<in> set (t_rows (accounts (w_db w))). acc_id x = aet_account_id e"
    and "\<forall>b \<in> set (t_rows (balance_changes (w_db w))). bc_unique_request_id b \<noteq>
           request_id ''anthropic-spendtoken-'' (aet_session_id e) (aet_session_index e)"
    and fit: "counters_fit (wrap_i64 (ui_input_tokens u + ui_output_tokens u)) (w_db w)"
    and w': "w_db w' = w_db (final (handle_anthropic_event hour ser e) w)" "w_tx w' = None" "w_faults w' = []"
  shows "\<exists>task. w_balance_q (final (handle_anthropic_event hour ser e) w) = w_balance_q w @ [task] \<and>
           (\<forall>a. balance_of (w_db (final (settle_balance_change task) w')) a
                  - used_money_of (w_db (final (settle_balance_change task) w')) a
              = balance_of (w_db w) a - used_money_of (w_db w) a
                  - (if a = aet_account_id e then usage_cost m u else 0))"
proof -
  let ?rid = "request_id ''anthropic-spendtoken-'' (aet_session_id e) (aet_session_index e)"
  obtain bc where "billed ?rid (aet_account_id e) m u w bc (final (handle_anthropic_event hour ser e) w)"
    unfolding handle_anthropic_event_def usage using handle_event_bills [OF assms(1,2,6,7,8)] by blast
  note b = this [unfolded billed_def w'(1) [symmetric]]
  then obtain i where i: "bc_content bc = content_to_json (SpendToken (spend_token_of m u i))" "in_i64 i"
    using assms(4) by blast
  let ?c = "SpendToken (spend_token_of m u i)"
  have content: "content_of_json (bc_content bc) = Some ?c"
    unfolding i(1) by (rule content_of_to_json) (rule spend_in_range [OF usage i(2)])
  have wf': "bill_wf (w_db w')"
    unfolding w'(1) using shape.event_step [of hour] assms(1) wf
    unfolding handle_anthropic_event_def by (metis prod.collapse)
  have tokens: "spent_tokens (spend_token_of m u i) = wrap_i64 (ui_input_tokens u + ui_output_tokens u)"
    by (simp add: spent_tokens_def spend_token_of_def split: prod.split)
  have "\<not> settle_error (w_now w') (bc_account_id bc) ?c (w_db w') err" for err
    using b acc fit by (auto simp: settle_error_def counters_fit_def tokens)
  then have settled: "w_db (final (settle_balance_change \<lparr>bct_balance_change_id = bc_id bc\<rparr>) w')
      = settled_db (w_now w') bc ?c (w_db w')"
    using b content wf' w' by (intro settle_billed) auto
  show ?thesis
    using b by (intro exI [of _ "\<lparr>bct_balance_change_id = bc_id bc\<rparr>"])
      (simp add: settled settled_net [OF wf'], simp add: balance_of_def used_money_of_def)
qed

definition demo_anthropic :: anthropic_event_task where
  "demo_anthropic = \<lparr>aet_session_id = ''s'', aet_session_index = 0, aet_account_id = 1,
     aet_model_id = 1, aet_api_key_id = 1, aet_event_data = CreateMessageStreamResponseDone 100 0\<rparr>"

theorem anthropic_usage_paid_witness:
  "\<exists>task. let d' = w_db (final (handle_anthropic_event (\<lambda>_. ''h'') (\<lambda>_. None) demo_anthropic) (world_of empty_db));
             d'' = w_db (final (settle_balance_change task) (world_of d'))
         in balance_of d'' 1 - used_money_of d'' 1 = - (1 / 10)"
proof -
  have w: "serial_ok empty_db" "event_model (aet_model_id demo_anthropic) empty_db = Some demo_model"
    "\<exists>x \<in> set (t_rows (accounts empty_db)). acc_id x = aet_account_id demo_anthropic"
    "t_rows (balance_changes empty_db) = []" "\<And>t. counters_fit t empty_db"
    "extract_anthropic_usage (aet_event_data demo_anthropic) = Some demo_usage"
    "balance_of empty_db 1 = 0" "used_money_of empty_db 1 = 0" "aet_account_id demo_anthropic = 1"
    by (simp_all add: serial_ok_def in_i64_def event_model_def select_rows_def demo_defs demo_anthropic_def
        counters_fit_def u64_usage_info_def wrap_u64_def demo_usage_def balance_of_def used_money_of_def)
  let ?e = "handle_anthropic_event (\<lambda>_. ''h'') (\<lambda>_. None) demo_anthropic"
  let ?w' = "world_of (w_db (final ?e (world_of empty_db)))"
  have "\<exists>task. w_balance_q (final ?e (world_of empty_db)) = w_balance_q (world_of empty_db) @ [task] \<and>
           (\<forall>a. balance_of (w_db (final (settle_balance_change task) ?w')) a
                  - used_money_of (w_db (final (settle_balance_change task) ?w')) a
              = balance_of (w_db (world_of empty_db)) a - used_money_of (w_db (world_of empty_db)) a
                  - (if a = aet_account_id demo_anthropic then usage_cost demo_model demo_usage else 0))"
    by (rule anthropic_usage_paid) (use w demo_wf(1) in simp_all)
  then obtain task where "\<And>a. balance_of (w_db (final (settle_balance_change task) ?w')) a
                  - used_money_of (w_db (final (settle_balance_change task) ?w')) a
              = balance_of (w_db (world_of empty_db)) a - used_money_of (w_db (world_of empty_db)) a
                  - (if a = aet_account_id demo_anthropic then usage_cost demo_model demo_usage else 0)"
    by blast
  from this [of 1] show ?thesis
    unfolding Let_def by (intro exI [of _ task]) (simp add: w(7-9) demo_cost)
qed

section \<open>Subscriptions\<close>


definition demo_subscription :: "int \<Rightarrow> int \<Rightarrow> int \<Rightarrow> subscription" where
  "demo_subscription i order limit =
     (fresh_subscription 1 1 0 i)\<lparr>sub_status := ''active'', sub_start_at := Some 0, sub_end_at := Some 10,
        sub_sort_order := order, sub_total_token_limit := limit\<rparr>"

definition subscribed_db :: db where
  "subscribed_db = empty_db\<lparr>subscriptions := \<lparr>t_rows =
     [demo_subscription 1 1 1000, demo_subscription 2 5 1000, demo_subscription 3 9 50], t_seq = 3\<rparr>\<rparr>"

lemma demo_subscription_facts [simp]:
  "in_force 0 1 (demo_subscription i x y)" "has_quota t (demo_subscription i x y) \<longleftrightarrow> t \<le> y"
  "sub_sort_order (demo_subscription i x y) = x"
  "demo_subscription i x y = demo_subscription i' x' y' \<longleftrightarrow> i = i' \<and> x = x' \<and> y = y'"
  by (auto simp: demo_subscription_def fresh_subscription_def in_force_def has_quota_def)

lemma subscribed_db_rows [simp]: "t_rows (subscriptions subscribed_db) =
     [demo_subscription 1 1 1000, demo_subscription 2 5 1000, demo_subscription 3 9 50]"
  by (simp add: subscribed_db_def)





section \<open>Withdrawals\<close>

text \<open>C10: a withdrawal is accepted only if it is positive and the wallet held that much when the request
  looked, whatever fails.\<close>

theorem withdraw_covered:
  assumes "fst (run_state (create_withdraw_handler rn p) w) = Reply 201 b"
  shows "cq_amount p > 0 \<and> (\<exists>wal \<in> set (t_rows (wallets (w_db w))).
        wal_account_id wal = cq_account_id p \<and> cq_amount p \<le> wal_balance wal)"
proof -
  have "wp (create_withdraw_handler rn p) (\<lambda>r _. (\<exists>b. r = Reply 201 b) \<longrightarrow>
      cq_amount p > 0 \<and> (\<exists>wal \<in> set (t_rows (wallets (w_db w))).
        wal_account_id wal = cq_account_id p \<and> cq_amount p \<le> wal_balance wal)) w"
    (is "wp _ ?Q w")
    unfolding create_withdraw_handler_def with_account_def get_account_by_id_def find_account_wallet_def
      submit_change_def create_balance_change_def push_balance_def insufficient_def database_error_def
      not_found_def validation_error_def
    by (auto intro!: wp_db_stmt wp_push_queue wp_intros
        simp: select_accounts_def find_wallet_sql_def sql_defs select_rows_def not_le not_less
        dest!: first_row_mem)
      (auto dest!: bspec)
  with assms show ?thesis by (auto simp: wp_run_state)
qed


text \<open>An accepted withdrawal on a healthy system: one more change, one more task.\<close>

lemma withdraw_accepted:
  assumes "w_faults w = []" and "bill_wf (w_db w)"
    and "\<exists>x \<in> set (t_rows (accounts (w_db w))). acc_id x = cq_account_id p"
    and "wal \<in> set (t_rows (wallets (w_db w)))" and "wal_account_id wal = cq_account_id p"
    and "0 < cq_amount p" and "cq_amount p \<le> wal_balance wal"
    and "\<forall>b \<in> set (t_rows (balance_changes (w_db w))). bc_unique_request_id b \<noteq> cq_unique_request_id p"
  shows "wp (create_withdraw_handler rn p) (\<lambda>r t. \<exists>bc. r = Reply 201 (balance_change_response_of rn bc) \<and>
      charges (w_now w) (from_content (cq_account_id p) (cq_unique_request_id p) (Withdraw (cq_amount p)))
        (w_db w) bc (w_db t) \<and> w_tx t = w_tx w \<and> w_faults t = [] \<and>
      w_balance_q t = w_balance_q w @ [\<lparr>bct_balance_change_id = bc_id bc\<rparr>]) w"
proof -
  have "filter (\<lambda>x. wal_account_id x = cq_account_id p) (t_rows (wallets (w_db w))) = [wal]"
    using assms(2,4,5) by (intro filter_key) (simp_all add: bill_wf_def)
  moreover obtain x where "first_row (filter (\<lambda>x. acc_id x = cq_account_id p) (t_rows (accounts (w_db w)))) = Some x"
    using assms(3) by (cases "filter (\<lambda>x. acc_id x = cq_account_id p) (t_rows (accounts (w_db w)))")
      (auto simp: filter_empty_conv)
  ultimately show ?thesis
    using assms
    by (simp add: create_withdraw_handler_def with_account_def get_account_by_id_def select_accounts_def
        find_account_wallet_def find_wallet_sql_def submit_change_def create_balance_change_def
        push_balance_def no_fault_calls sql_defs select_rows_def charges_def insert_change_sql_def
        violates_def from_content_def insert_row_def Let_def not_le not_less)
qed

lemma settled_withdraw:
  assumes "bill_wf d"
  shows "balance_of (settled_db now bc (Withdraw x) d) a
           = balance_of d a - (if a = bc_account_id bc then x else 0)"
    and "accounts (settled_db now bc (Withdraw x) d) = accounts d"
    and "b \<in> set (t_rows (balance_changes d)) \<Longrightarrow> bc_id b \<noteq> bc_id bc \<Longrightarrow>
         b \<in> set (t_rows (balance_changes (settled_db now bc (Withdraw x) d)))"
proof -
  have eq: "settled_db now bc (Withdraw x) d = mark_applied (bc_id bc) 0
      (add_balance now (bc_account_id bc) (- x) (ensure_wallet now (bc_account_id bc) d))"
    by (simp add: settled_db_def Let_def)
  show "balance_of (settled_db now bc (Withdraw x) d) a
           = balance_of d a - (if a = bc_account_id bc then x else 0)"
    using settled_net [OF assms, of now bc "Withdraw x" a] unfolding eq by simp
  show "accounts (settled_db now bc (Withdraw x) d) = accounts d"
    unfolding eq by (simp add: mark_applied_def add_balance_def)
  show "b \<in> set (t_rows (balance_changes (settled_db now bc (Withdraw x) d)))"
    if "b \<in> set (t_rows (balance_changes d))" "bc_id b \<noteq> bc_id bc"
    unfolding eq using that by (force simp: mark_applied_def t_rows_update)
qed

lemma charged_change:
  assumes "charges now (from_content a r (Withdraw x)) d bc d'" and "bill_wf d"
  shows "bill_wf d'" and "accounts d' = accounts d" and "wallets d' = wallets d"
    and "set (t_rows (balance_changes d')) = insert bc (set (t_rows (balance_changes d)))"
    and "bc_account_id bc = a" and "\<not> bc_is_applied bc" and "bc_unique_request_id bc = r"
    and "content_of_json (bc_content bc) = Some (Withdraw x)"
    and "b \<in> set (t_rows (balance_changes d)) \<Longrightarrow> bc_id b \<noteq> bc_id bc"
proof -
  note ch = charges_cases [OF assms(1)]
  show "bill_wf d'" unfolding ch(3) using shape.wf_change [OF assms(2) ch(4)] .
  show "accounts d' = accounts d" and "wallets d' = wallets d" by (simp_all add: ch(3))
  show "set (t_rows (balance_changes d')) = insert bc (set (t_rows (balance_changes d)))"
    by (simp add: ch(2))
  show "bc_account_id bc = a" "\<not> bc_is_applied bc" "bc_unique_request_id bc = r"
    by (simp_all add: ch(1) fresh_change_def from_content_def)
  show "content_of_json (bc_content bc) = Some (Withdraw x)"
    by (simp add: ch(1) fresh_change_def from_content_def content_of_to_json)
  show "b \<in> set (t_rows (balance_changes d)) \<Longrightarrow> bc_id b \<noteq> bc_id bc"
    using assms(2) by (fastforce simp: ch(1) fresh_change_def bill_wf_def ids_ok_def)
qed

lemma balance_of_wallet:
  assumes "bill_wf d" and "wal \<in> set (t_rows (wallets d))" and "wal_account_id wal = a"
  shows "balance_of d a = wal_balance wal"
proof -
  have "balance_of d a = sum_list (map wal_balance (filter (\<lambda>w. wal_account_id w = a) (t_rows (wallets d))))"
    by (simp add: balance_of_def sum_list_map_filter')
  also have "filter (\<lambda>w. wal_account_id w = a) (t_rows (wallets d)) = [wal]"
    using assms by (intro filter_key) (simp_all add: bill_wf_def)
  finally show ?thesis by simp
qed

text \<open>C11: two withdrawals that together exceed the balance are both accepted, because the check sees
  only the balance that earlier, still queued, withdrawals have not touched yet; settling the two
  tasks they queue leaves the account with a negative balance.\<close>

theorem withdrawals_overdraw:
  assumes wf: "bill_wf d" and acc: "\<exists>y \<in> set (t_rows (accounts d)). acc_id y = a"
    and wal: "wal \<in> set (t_rows (wallets d))" "wal_account_id wal = a"
    and x: "0 < x" "x \<le> wal_balance wal" "wal_balance wal < 2 * x"
    and fresh: "r1 \<noteq> r2" "\<forall>b \<in> set (t_rows (balance_changes d)). bc_unique_request_id b \<notin> {r1, r2}"
  shows "let req = (\<lambda>r. create_withdraw_handler rn \<lparr>cq_account_id = a, cq_unique_request_id = r, cq_amount = x\<rparr>);
             w1 = final (req r1) (world_of d); w2 = final (req r2) w1
         in (\<exists>b1. fst (run_state (req r1) (world_of d)) = Reply 201 b1) \<and>
            (\<exists>b2. fst (run_state (req r2) w1) = Reply 201 b2) \<and>
            (\<exists>t1 t2. w_balance_q w2 = [t1, t2] \<and>
               balance_of (w_db (final (settle_balance_change t2)
                 (world_of (w_db (final (settle_balance_change t1) (world_of (w_db w2))))))) a < 0)"
proof -
  define req where "req r = create_withdraw_handler rn \<lparr>cq_account_id = a, cq_unique_request_id = r, cq_amount = x\<rparr>" for r
  define w1 where "w1 = final (req r1) (world_of d)"
  define w2 where "w2 = final (req r2) w1"
  from withdraw_accepted [of "world_of d" "\<lparr>cq_account_id = a, cq_unique_request_id = r1, cq_amount = x\<rparr>" wal rn]
    wf acc wal x fresh
  obtain b1 bc1 where 1: "fst (run_state (req r1) (world_of d)) = Reply 201 b1"
      "charges 0 (from_content a r1 (Withdraw x)) d bc1 (w_db w1)" "w_tx w1 = None" "w_faults w1 = []"
      "w_balance_q w1 = [\<lparr>bct_balance_change_id = bc_id bc1\<rparr>]"
    unfolding w1_def req_def by (auto simp: wp_run_state)
  note c1 = charged_change [OF 1(2) wf]
  from withdraw_accepted [of w1 "\<lparr>cq_account_id = a, cq_unique_request_id = r2, cq_amount = x\<rparr>" wal rn]
    c1 1 acc wal x fresh
  obtain b2 bc2 where 2: "fst (run_state (req r2) w1) = Reply 201 b2"
      "charges (w_now w1) (from_content a r2 (Withdraw x)) (w_db w1) bc2 (w_db w2)"
      "w_balance_q w2 = [\<lparr>bct_balance_change_id = bc_id bc1\<rparr>, \<lparr>bct_balance_change_id = bc_id bc2\<rparr>]"
    unfolding w2_def req_def by (auto simp: wp_run_state)
  note c2 = charged_change [OF 2(2) c1(1)]
  let ?d3 = "settled_db 0 bc1 (Withdraw x) (w_db w2)"
  have d3: "w_db (final (settle_balance_change \<lparr>bct_balance_change_id = bc_id bc1\<rparr>) (world_of (w_db w2))) = ?d3"
    using settle_billed [of "world_of (w_db w2)" bc1 "Withdraw x"] c1 c2 acc
    by (simp add: settle_error_def)
  note s1 = settled_withdraw [OF c2(1), where now = 0 and bc = bc1 and x = x]
  have wf3: "bill_wf ?d3" by (rule settled_wf [OF c2(1)])
  have bc2: "bc2 \<in> set (t_rows (balance_changes ?d3))"
    using s1(3) [where b = bc2] c1(4) c2(4,9) by fastforce
  have "w_db (final (settle_balance_change \<lparr>bct_balance_change_id = bc_id bc2\<rparr>) (world_of ?d3))
      = settled_db 0 bc2 (Withdraw x) ?d3"
    using settle_billed [of "world_of ?d3" bc2 "Withdraw x"] wf3 bc2 c2 c1 acc s1(2)
    by (simp add: settle_error_def)
  moreover have "balance_of (settled_db 0 bc2 (Withdraw x) ?d3) a = wal_balance wal - x - x"
    using settled_withdraw(1) [OF wf3, where now = 0 and bc = bc2 and x = x and a = a] s1(1) [where a = a] c1 c2 wal
    by (simp add: balance_of_wallet)
  ultimately show ?thesis
    unfolding Let_def req_def [symmetric] w1_def [symmetric] w2_def [symmetric]
    using 1(1) 2(1,3) x(3) d3 by auto
qed


definition wallet_db :: db where
  "wallet_db = empty_db\<lparr>wallets := \<lparr>t_rows = [\<lparr>wal_id = 1, wal_account_id = 1, wal_balance = 10,
     wal_created_at = 0, wal_updated_at = 0\<rparr>], t_seq = 1\<rparr>\<rparr>"

lemma wallet_db_wf: "bill_wf wallet_db"
  by (simp add: wallet_db_def bill_wf_def ids_ok_def demo_defs)

theorem withdraw_covered_witness:
  "cq_amount \<lparr>cq_account_id = 1, cq_unique_request_id = ''r'', cq_amount = 8\<rparr> > (0 :: decimal) \<and>
   (\<exists>wal \<in> set (t_rows (wallets wallet_db)). wal_account_id wal = 1 \<and> (8 :: decimal) \<le> wal_balance wal)"
proof -
  let ?p = "\<lparr>cq_account_id = 1, cq_unique_request_id = ''r'', cq_amount = 8\<rparr>"
  have "\<exists>b. fst (run_state (create_withdraw_handler demo_rn ?p) (world_of wallet_db)) = Reply 201 b"
    using withdraw_accepted [of "world_of wallet_db" ?p "hd (t_rows (wallets wallet_db))" demo_rn] wallet_db_wf
    by (auto simp: wp_run_state wallet_db_def demo_defs)
  then obtain b where "fst (run_state (create_withdraw_handler demo_rn ?p) (world_of wallet_db)) = Reply 201 b" ..
  from withdraw_covered [OF this] show ?thesis by simp
qed

theorem withdrawals_overdraw_witness:
  "let req = (\<lambda>r. create_withdraw_handler demo_rn \<lparr>cq_account_id = 1, cq_unique_request_id = r, cq_amount = 8\<rparr>);
       w2 = final (req ''b'') (final (req ''a'') (world_of wallet_db))
   in \<exists>t1 t2. w_balance_q w2 = [t1, t2] \<and>
        balance_of (w_db (final (settle_balance_change t2)
          (world_of (w_db (final (settle_balance_change t1) (world_of (w_db w2))))))) 1 < 0"
proof -
  let ?wal = "hd (t_rows (wallets wallet_db))"
  have "?wal \<in> set (t_rows (wallets wallet_db))" "wal_account_id ?wal = 1" "wal_balance ?wal = 10"
    "\<exists>y \<in> set (t_rows (accounts wallet_db)). acc_id y = 1" "t_rows (balance_changes wallet_db) = []"
    by (simp_all add: wallet_db_def demo_defs)
  with withdrawals_overdraw [OF wallet_db_wf, of 1 ?wal 8 "''a''" "''b''" demo_rn] show ?thesis
    by (simp add: Let_def)
qed

end
