(* ===== verification/Http.thy ===== *)
theory Http
  imports Accounts Caches
begin

text \<open>
  Requests as the middlewares see them, the error bodies of the proxies, and the configuration they
  read (\<^verbatim>\<open>config.rs\<close>).  \<open>rq_header r n\<close> is what \<^verbatim>\<open>headers().get(n)\<close> followed by
  \<^verbatim>\<open>to_str().ok()\<close> gives: the first value of the header, if it is visible ASCII.
  \<open>rq_peer\<close> is the address of the socket, when the server recorded it.
\<close>

record http_request =
  rq_header :: "string \<Rightarrow> string option"
  rq_peer :: "string option"

text \<open>\<^verbatim>\<open>{"error": {"message", "type", "code"}}\<close> with a status; the body of a response that
  is no such error is the right summand.\<close>

record proxy_error =
  pe_status :: int
  pe_message :: string
  pe_type :: string
  pe_code :: string

type_synonym 'b response_io = "(proxy_error + 'b) io"

definition server_error :: "string \<Rightarrow> proxy_error" where
  "server_error message =
     \<lparr>pe_status = 500, pe_message = message, pe_type = ''server_error'', pe_code = ''internal_error''\<rparr>"

record rate_limit_config =
  rl_enabled :: bool
  rl_ip_requests :: int
  rl_ip_window_secs :: int
  rl_token_requests :: int
  rl_token_window_secs :: int

definition default_rate_limit_config :: rate_limit_config where
  "default_rate_limit_config =
     \<lparr>rl_enabled = False, rl_ip_requests = 100, rl_ip_window_secs = 60, rl_token_requests = 200,
      rl_token_window_secs = 60\<rparr>"

end
