(* ===== verification/RateLimitClaims.thy ===== *)
theory RateLimitClaims
  imports RateLimit Demo
begin

text \<open>
  The rate limit over a sequence of requests: the sorted set refines the plain list of all request
  times, so the limit is a sliding window, and no window admits more than its maximum.
\<close>

section \<open>The sorted set between requests\<close>

lemma live_put:
  "lookup_live now (put_zset now r k z) k =
     (if z = [] then None
      else Some \<lparr>re_value = R_ZSet z, re_expires = Option.bind (lookup_live now r k) re_expires\<rparr>)"
  by (auto simp: put_zset_def lookup_live_def live_def split: option.splits bind_splits)

lemma zset_put [simp]: "zset_at now (put_zset now r k z) k = Some z"
  by (simp add: zset_at_def live_put)

text \<open>A request, its member and score, and whether it is in the window that ends at \<open>t\<close>.\<close>

definition entry_of :: "timestamp \<times> int \<Rightarrow> string \<times> int" where
  "entry_of a = (member_of (millis (fst a)) (snd a), millis (fst a))"

definition recent :: "int \<Rightarrow> timestamp \<Rightarrow> timestamp \<Rightarrow> bool" where
  "recent win t s \<longleftrightarrow> millis t - win * 1000 < millis s"

text \<open>The set remembers what the windows from now on can still see of the history \<open>h\<close>.\<close>

definition remembers :: "string \<Rightarrow> int \<Rightarrow> redis \<Rightarrow> timestamp \<Rightarrow> (timestamp \<times> int) list \<Rightarrow> bool" where
  "remembers k win r now h \<longleftrightarrow>
     (\<forall>t \<ge> now. \<exists>z. zset_at t r k = Some z \<and>
        filter (\<lambda>(_, s). millis t - win * 1000 < s) z = map entry_of (filter (\<lambda>a. recent win t (fst a)) h))"

definition window_fits :: "int \<Rightarrow> timestamp \<Rightarrow> bool" where
  "window_fits win t \<longleftrightarrow> 0 < win \<and> win * 1000 < 2 ^ 63 \<and> in_i64 (millis t - win * 1000)"

lemma window_ms_exact: "window_fits win t \<Longrightarrow> window_ms win = win * 1000"
  by (simp add: window_fits_def window_ms_def wrap_u64_def in_i64_def)

lemma window_secs_exact: "window_fits win t \<Longrightarrow> wrap_i64 win = win"
  by (simp add: window_fits_def in_i64_def)

lemma zadd_new: "m \<notin> fst ` set z \<Longrightarrow> zadd m s z = z @ [(m, s)]"
  by (force simp: zadd_def filter_id_conv)

lemma millis_seconds: "millis (t + seconds n) = millis t + n * 1000"
  by (simp add: millis_def seconds_def)

lemma millis_mono: "s \<le> t \<Longrightarrow> millis s \<le> millis t"
  by (simp add: millis_def zdiv_mono1)

lemma check_run:
  fixes z :: "(string \<times> int) list" and w :: world and win rnd :: int
  defines "z' \<equiv> filter (\<lambda>(_, s). millis (w_now w) - win * 1000 < s) z"
  defines "m \<equiv> member_of (millis (w_now w)) rnd"
  assumes "w_faults w = []" and "zset_at (w_now w) (w_redis w) (rate_limit_key kind ident) = Some z"
    and "window_fits win (w_now w)" and "m \<notin> fst ` set z'"
  shows "wp (check_rate_limit rnd kind ident mx win)
     (\<lambda>res t. (res = Inr () \<longleftrightarrow> int (length z') + 1 \<le> mx) \<and>
        w_redis t (rate_limit_key kind ident) =
          Some \<lparr>re_value = R_ZSet (z' @ [(m, millis (w_now w))]), re_expires = Some (w_now w + seconds win)\<rparr> \<and>
        w_faults t = [] \<and> w_now t = w_now w \<and> w_db t = w_db w) w"
proof -
  let ?k = "rate_limit_key kind ident" and ?ms = "millis (w_now w)"
  have start: "wrap_i64 (?ms - window_ms win) = ?ms - win * 1000"
    using assms(5) by (simp add: window_ms_exact) (simp add: window_fits_def)
  note new = zadd_new [OF assms(6) [unfolded m_def], of ?ms]
  let ?r1 = "put_zset (w_now w) (w_redis w) ?k z'"
  have "zset_at (w_now w) ?r1 ?k = Some z'" by simp
  with assms(3,4) new show ?thesis
    unfolding m_def check_rate_limit_def Let_def wp_bind redis_conn_def
    by (simp add: no_fault_calls start redis_zremrangebyscore_def redis_zadd_def redis_zcard_def
        redis_expire_def z'_def [symmetric] live_put window_secs_exact [OF assms(5)] wp_run_state [of next_ok])
qed

lemma filter_entries:
  "filter (\<lambda>(_, s). l < s) (map entry_of h) = map entry_of (filter (\<lambda>a. l < millis (fst a)) h)"
  by (simp add: filter_map comp_def entry_of_def)

lemma remembers_step:
  assumes "remembers k win r now h" and "now \<le> t" and "\<forall>a \<in> set h. fst a \<le> t" and "0 < win"
    and "r' k = Some \<lparr>re_value = R_ZSet (map entry_of (filter (\<lambda>a. recent win t (fst a)) h) @ [entry_of (t, rnd)]),
           re_expires = Some (t + seconds win)\<rparr>"
  shows "remembers k win r' t (h @ [(t, rnd)])"
  unfolding remembers_def
proof (intro allI impI)
  fix u assume u: "t \<le> u"
  let ?l = "millis u - win * 1000"
  have later: "millis t \<le> millis u" using u by (rule millis_mono)
  show "\<exists>z. zset_at u r' k = Some z \<and>
      filter (\<lambda>(_, s). ?l < s) z = map entry_of (filter (\<lambda>a. recent win u (fst a)) (h @ [(t, rnd)]))"
  proof (cases "u < t + seconds win")
    case True
    let ?z = "map entry_of (filter (\<lambda>a. recent win t (fst a)) h @ [(t, rnd)])"
    have "zset_at u r' k = Some ?z"
      using True assms(5) by (simp add: zset_at_def lookup_live_def live_def)
    moreover have "filter (\<lambda>(_, s). ?l < s) ?z
        = map entry_of (filter (\<lambda>a. recent win u (fst a)) (h @ [(t, rnd)]))"
      unfolding filter_entries using later
      by (auto simp: recent_def intro!: arg_cong [of _ _ "map entry_of"] filter_cong)
    ultimately show ?thesis by blast
  next
    case False
    then have "millis (t + seconds win) \<le> millis u" by (intro millis_mono) simp
    then have "\<not> recent win u s" if "s \<le> t" for s
      using millis_mono [OF that] by (simp add: recent_def millis_seconds)
    with assms(3) have "filter (\<lambda>a. recent win u (fst a)) (h @ [(t, rnd)]) = []"
      by (auto simp: filter_empty_conv)
    moreover have "zset_at u r' k = Some []"
      using False assms(5) by (simp add: zset_at_def lookup_live_def live_def)
    ultimately show ?thesis by simp
  qed
qed

section \<open>A sequence of requests\<close>

text \<open>The answers of the check to requests that arrive at the given times with the given random
  suffixes, and of the reference: a request is admitted if at most \<open>mx\<close> requests, itself included,
  arrived in the window that ends with it.\<close>

fun admits :: "string \<Rightarrow> string \<Rightarrow> int \<Rightarrow> int \<Rightarrow> (timestamp \<times> int) list \<Rightarrow> world \<Rightarrow> bool list" where
  "admits kind ident mx win [] w = []"
| "admits kind ident mx win ((t, rnd) # as) w =
     (let (res, w') = run_state (check_rate_limit rnd kind ident mx win) (w\<lparr>w_now := t\<rparr>)
      in (res = Inr ()) # admits kind ident mx win as w')"

fun window_admits :: "int \<Rightarrow> int \<Rightarrow> (timestamp \<times> int) list \<Rightarrow> (timestamp \<times> int) list \<Rightarrow> bool list" where
  "window_admits mx win h [] = []"
| "window_admits mx win h (a # as) =
     (int (length (filter (\<lambda>b. recent win (fst a) (fst b)) (h @ [a]))) \<le> mx)
       # window_admits mx win (h @ [a]) as"

lemma member_inj:
  assumes "member_of a r = member_of b s" and "0 \<le> a" and "0 \<le> b"
  shows "a = b \<and> r = s"
proof -
  have digits: "takeWhile (\<lambda>c. c \<noteq> CHR ''-'') (show_nat n @ CHR ''-'' # x) = show_nat n" for n x
    using show_nat_digits [of _ n] digit_char_not(1) by (subst takeWhile_append2) fastforce+
  have "show_nat (nat a) @ CHR ''-'' # show_int r = show_nat (nat b) @ CHR ''-'' # show_int s"
    using assms by (simp add: member_of_def show_int_def)
  then have "show_nat (nat a) = show_nat (nat b)" by (metis digits)
  then have "a = b" using assms(2,3) by simp
  with assms(1) show ?thesis by (simp add: member_of_def)
qed

lemma distinct_entries:
  assumes "distinct (map (\<lambda>(t, r). (millis t, r)) as)" and "\<forall>a \<in> set as. 0 \<le> fst a"
  shows "distinct (map (fst \<circ> entry_of) as)"
proof -
  let ?f = "\<lambda>(t, r). (millis t, r)"
  have "inj_on (fst \<circ> entry_of) (set as)"
  proof (rule inj_onI)
    fix x y assume xy: "x \<in> set as" "y \<in> set as" "(fst \<circ> entry_of) x = (fst \<circ> entry_of) y"
    with assms(2) have "0 \<le> millis (fst x)" "0 \<le> millis (fst y)"
      by (simp_all add: millis_def pos_imp_zdiv_nonneg_iff)
    with xy(3) member_inj have "millis (fst x) = millis (fst y) \<and> snd x = snd y"
      by (simp add: entry_of_def)
    then have "?f x = ?f y" by (simp add: case_prod_beta)
    with assms(1) xy(1,2) show "x = y" by (auto simp: distinct_map dest: inj_onD)
  qed
  with assms(1) show ?thesis by (simp add: distinct_map)
qed

lemma admits_window:
  assumes "w_faults w = []" and "remembers (rate_limit_key kind ident) win (w_redis w) now h"
    and "sorted (map fst (h @ as))" and "distinct (map (fst \<circ> entry_of) (h @ as))"
    and "\<forall>a \<in> set as. now \<le> fst a \<and> window_fits win (fst a)"
  shows "admits kind ident mx win as w = window_admits mx win h as"
  using assms
proof (induction as arbitrary: w now h)
  case Nil
  then show ?case by simp
next
  case (Cons a as)
  obtain t rnd where a: "a = (t, rnd)" by (cases a)
  let ?k = "rate_limit_key kind ident" and ?w = "w\<lparr>w_now := t\<rparr>"
  have t: "now \<le> t" "window_fits win t" using Cons.prems(5) a by auto
  obtain z where z: "zset_at t (w_redis w) ?k = Some z"
    "filter (\<lambda>(_, s). millis t - win * 1000 < s) z = map entry_of (filter (\<lambda>b. recent win t (fst b)) h)"
    using Cons.prems(2) t(1) unfolding remembers_def by blast
  let ?h' = "map entry_of (filter (\<lambda>b. recent win t (fst b)) h)"
  have "member_of (millis t) rnd \<notin> fst ` set ?h'"
    using Cons.prems(4) by (force simp: a entry_of_def)
  with check_run [of ?w kind ident z win rnd mx] z t(2) Cons.prems(1)
  have run: "wp (check_rate_limit rnd kind ident mx win) (\<lambda>res u.
      (res = Inr () \<longleftrightarrow> int (length ?h') + 1 \<le> mx) \<and>
      w_redis u ?k = Some \<lparr>re_value = R_ZSet (?h' @ [entry_of a]), re_expires = Some (t + seconds win)\<rparr> \<and>
      w_faults u = []) ?w"
    by (simp add: a entry_of_def wp_run_state)
  obtain res u where ru: "run_state (check_rate_limit rnd kind ident mx win) ?w = (res, u)" by fastforce
  note u = wp_run [OF run ru]
  have "remembers ?k win (w_redis u) t (h @ [(t, rnd)])"
    by (rule remembers_step [OF Cons.prems(2) t(1)])
      (use Cons.prems(3) u t(2) in \<open>auto simp: a sorted_append window_fits_def\<close>)
  with Cons.prems u have "admits kind ident mx win as u = window_admits mx win (h @ [a]) as"
    by (intro Cons.IH [where now = t]) (auto simp: a sorted_append)
  moreover have "recent win t t" using t(2) by (simp add: recent_def window_fits_def)
  ultimately show ?case using u by (simp add: a ru add.commute)
qed

lemma remembers_nothing:
  "(\<forall>t. zset_at t r k = Some []) \<Longrightarrow> remembers k win r now []"
  by (simp add: remembers_def)

lemma admits_from_empty:
  assumes "w_faults w = []" and "w_redis w (rate_limit_key kind ident) = None"
    and "sorted (map fst as)" and "distinct (map (\<lambda>(t, r). (millis t, r)) as)"
    and "\<forall>a \<in> set as. 0 \<le> fst a \<and> window_fits win (fst a)"
  shows "admits kind ident mx win as w = window_admits mx win [] as"
proof (rule admits_window [OF assms(1)])
  show "remembers (rate_limit_key kind ident) win (w_redis w) 0 []"
    by (rule remembers_nothing) (simp add: zset_at_def lookup_live_def assms(2))
  show "distinct (map (fst \<circ> entry_of) ([] @ as))"
    using distinct_entries [OF assms(4)] assms(5) by auto
qed (use assms in auto)

text \<open>C16: on a healthy Redis the check is a sliding window.  For requests in the order of their times
  with distinct members, starting from an empty set, its answers are those of the reference, which
  counts all requests of the window that ends with the one it decides, refused ones included.\<close>

theorem rate_limit_refines_window:
  assumes "w_faults w = []" and "w_redis w (rate_limit_key kind ident) = None"
    and "sorted (map fst as)" and "distinct (map (\<lambda>(t, r). (millis t, r)) as)"
    and "\<forall>a \<in> set as. 0 \<le> fst a \<and> window_fits win (fst a)"
  shows "admits kind ident mx win as w = window_admits mx win [] as"
  using assms by (rule admits_from_empty)

definition demo_requests :: "(timestamp \<times> int) list" where
  "demo_requests = [(0, 1), (1000000, 2), (2000000, 3), (60500000, 4), (62000000, 5)]"

lemma demo_requests_ok:
  "sorted (map fst demo_requests)" "distinct (map (\<lambda>(t, r). (millis t, r)) demo_requests)"
  "\<forall>a \<in> set demo_requests. 0 \<le> fst a \<and> window_fits 60 (fst a)"
  by (simp_all add: demo_requests_def millis_def window_fits_def in_i64_def)

text \<open>Two requests per minute: the third is refused, and being counted it also holds back the fourth.\<close>

theorem rate_limit_refines_window_witness:
  "admits ''ip'' ''1.2.3.4'' 2 60 demo_requests (world_of empty_db) = [True, True, False, False, True]"
proof -
  have "window_admits 2 60 [] demo_requests = [True, True, False, False, True]"
    by (simp add: demo_requests_def recent_def millis_def)
  with rate_limit_refines_window [of "world_of empty_db" _ _ demo_requests 60] demo_requests_ok
  show ?thesis by simp
qed

lemma window_admits_nth:
  "i < length as \<Longrightarrow> window_admits mx win h as ! i =
     (int (length (filter (\<lambda>b. recent win (fst (as ! i)) (fst b)) (h @ take (Suc i) as))) \<le> mx)"
proof (induction as arbitrary: i h)
  case (Cons a as)
  then show ?case by (cases i) auto
qed simp

text \<open>C17: no window admits more requests than its maximum: of the requests up to an admitted one, at
  most \<open>mx\<close> that are no older than the window were admitted.\<close>

theorem rate_limit_bounds_admissions:
  assumes "w_faults w = []" and "w_redis w (rate_limit_key kind ident) = None"
    and "sorted (map fst as)" and "distinct (map (\<lambda>(t, r). (millis t, r)) as)"
    and "\<forall>a \<in> set as. 0 \<le> fst a \<and> window_fits win (fst a)"
    and "i < length as" and "admits kind ident mx win as w ! i"
  shows "int (card {j. j \<le> i \<and> admits kind ident mx win as w ! j \<and> recent win (fst (as ! i)) (fst (as ! j))}) \<le> mx"
proof -
  have eq: "admits kind ident mx win as w = window_admits mx win [] as"
    using assms(1-5) by (rule admits_from_empty)
  let ?P = "\<lambda>b. recent win (fst (as ! i)) (fst b)"
  have "{j. j \<le> i \<and> window_admits mx win [] as ! j \<and> ?P (as ! j)}
      \<subseteq> {j. j < length (take (Suc i) as) \<and> ?P (take (Suc i) as ! j)}"
    using assms(6) by auto
  then have "card {j. j \<le> i \<and> window_admits mx win [] as ! j \<and> ?P (as ! j)}
      \<le> length (filter ?P (take (Suc i) as))"
    unfolding length_filter_conv_card by (intro card_mono) auto
  moreover have "int (length (filter ?P (take (Suc i) as))) \<le> mx"
    using assms(7) window_admits_nth [OF assms(6), of mx win "[]"] by (simp add: eq)
  ultimately show ?thesis by (simp add: eq)
qed


theorem rate_limit_bounds_admissions_witness:
  "int (card {j. j \<le> (1 :: nat) \<and> admits ''ip'' ''1.2.3.4'' 2 60 demo_requests (world_of empty_db) ! j \<and>
       recent 60 (fst (demo_requests ! 1)) (fst (demo_requests ! j))}) \<le> 2"
proof -
  have "admits ''ip'' ''1.2.3.4'' 2 60 demo_requests (world_of empty_db) = [True, True, False, False, True]"
    using admits_from_empty [of "world_of empty_db" "''ip''" "''1.2.3.4''" demo_requests 60 2] demo_requests_ok
    by (simp add: demo_requests_def recent_def millis_def)
  then show ?thesis
    using rate_limit_bounds_admissions [of "world_of empty_db" "''ip''" "''1.2.3.4''" demo_requests 60 1 2]
      demo_requests_ok by (simp add: demo_requests_def)
qed

end
