(* ===== verification/Auth.thy ===== *)
theory Auth
  imports Http
begin

text \<open>
  Authentication: \<^verbatim>\<open>middlewares/api_auth.rs\<close> for the two proxies and
  \<^verbatim>\<open>middlewares/admin_auth.rs\<close> for the admin API.  The next handler is an argument; the
  credential and account the Rust code puts into task-local variables are its arguments.  Decoding
  a JSON web token (crate \<^verbatim>\<open>jsonwebtoken\<close>) is an argument too.
\<close>

section \<open>API keys\<close>

definition hash_token :: "crypto_env \<Rightarrow> string \<Rightarrow> string" where
  "hash_token cy token = cy_sha256_hex cy token"

definition auth_error_response :: "int \<Rightarrow> string \<Rightarrow> string \<Rightarrow> proxy_error" where
  "auth_error_response status message code =
     \<lparr>pe_status = status, pe_message = message,
      pe_type = (if status = 401 then ''authentication_error'' else ''server_error''),
      pe_code = code\<rparr>"

definition invalid_credential :: "string \<Rightarrow> proxy_error" where
  "invalid_credential message = auth_error_response 401 message ''invalid_api_credential''"

definition auth_internal_error :: proxy_error where
  "auth_internal_error =
     auth_error_response 500 ''Internal server error during authentication.'' ''internal_error''"

text \<open>What the cache hit reconstructs: the identifiers, with placeholders for the rest.\<close>

definition cached_credential :: "timestamp \<Rightarrow> apikey_info \<Rightarrow> api_credential" where
  "cached_credential now info =
     \<lparr>cred_id = aki_id info, cred_account_id = aki_account_id info, cred_encrypted_api_key = '''',
      cred_ellipsed_api_key = '''', cred_api_key_hash = aki_api_key_hash info, cred_apikey = '''',
      cred_label = aki_label info, cred_is_active = aki_is_active info, cred_expires_at = None,
      cred_created_at = now, cred_updated_at = now\<rparr>"

definition cached_account :: "timestamp \<Rightarrow> int \<Rightarrow> apikey_info \<Rightarrow> account" where
  "cached_account now account_id info =
     \<lparr>acc_id = account_id, acc_name = '''', acc_is_active = aki_account_is_active info,
      acc_created_at = now, acc_updated_at = now\<rparr>"

definition check_cached ::
    "timestamp \<Rightarrow> string \<Rightarrow> apikey_info \<Rightarrow> proxy_error + (api_credential \<times> account)" where
  "check_cached now token_hash info =
     (if aki_api_key_hash info \<noteq> token_hash \<or> \<not> aki_is_active info
      then Inl (invalid_credential ''Invalid API key.'')
      else
        (case aki_account_id info of
           None \<Rightarrow> Inl (invalid_credential ''API key is not associated with an account.'')
         | Some account_id \<Rightarrow>
             if \<not> aki_account_is_active info
             then Inl (invalid_credential ''Account is inactive.'')
             else Inr (cached_credential now info, cached_account now account_id info)))"

definition info_of :: "string \<Rightarrow> api_credential \<Rightarrow> account \<Rightarrow> apikey_info" where
  "info_of token_hash key acc =
     \<lparr>aki_id = cred_id key, aki_account_id = cred_account_id key, aki_api_key_hash = token_hash,
      aki_label = cred_label key, aki_is_active = cred_is_active key,
      aki_account_is_active = acc_is_active acc\<rparr>"

text \<open>The cache miss: look the key and its account up, remember them, go on.\<close>

definition authenticate_from_db ::
    "crypto_env \<Rightarrow> string \<Rightarrow> (proxy_error + (api_credential \<times> account)) io" where
  "authenticate_from_db cy token_hash = do {
     found \<leftarrow> find_active_api_credential_by_api_key_hash cy token_hash;
     (case found of
        Inl _ \<Rightarrow> return (Inl auth_internal_error)
      | Inr None \<Rightarrow> return (Inl (invalid_credential ''Invalid API key.''))
      | Inr (Some key) \<Rightarrow>
          (case cred_account_id key of
             None \<Rightarrow> return (Inl (invalid_credential ''API key is not associated with an account.''))
           | Some account_id \<Rightarrow> do {
               owner \<leftarrow> get_account_by_id account_id;
               (case owner of
                  Inl _ \<Rightarrow> return (Inl auth_internal_error)
                | Inr None \<Rightarrow> return (Inl (invalid_credential ''Account not found for this API key.''))
                | Inr (Some acc) \<Rightarrow>
                    if \<not> acc_is_active acc
                    then return (Inl (invalid_credential ''Account is inactive.''))
                    else do {
                      _ \<leftarrow> set_apikey_info token_hash (info_of token_hash key acc);
                      return (Inr (key, acc)) }) })) }"

definition authenticate ::
    "crypto_env \<Rightarrow> string \<Rightarrow> (proxy_error + (api_credential \<times> account)) io" where
  "authenticate cy token = do {
     let token_hash = hash_token cy token;
     cached \<leftarrow> get_apikey_info token_hash;
     (case cached of
        Inr (Some info) \<Rightarrow> do {
          w \<leftarrow> State_Monad.get;
          return (check_cached (w_now w) token_hash info) }
      | _ \<Rightarrow> authenticate_from_db cy token_hash) }"

definition run_next ::
    "proxy_error + (api_credential \<times> account) \<Rightarrow> (api_credential \<Rightarrow> account \<Rightarrow> 'b response_io) \<Rightarrow>
     'b response_io" where
  "run_next r next = (case r of Inl e \<Rightarrow> return (Inl e) | Inr (key, acc) \<Rightarrow> next key acc)"

definition bearer_token :: "http_request \<Rightarrow> string option" where
  "bearer_token request =
     (case rq_header request ''Authorization'' of
        Some header \<Rightarrow> if starts_with ''Bearer '' header then Some (drop 7 header) else None
      | None \<Rightarrow> None)"

definition x_api_key :: "http_request \<Rightarrow> string option" where
  "x_api_key request =
     (case rq_header request ''x-api-key'' of
        Some t \<Rightarrow> if t \<noteq> [] then Some t else None
      | None \<Rightarrow> None)"

definition auth_openai_api ::
    "crypto_env \<Rightarrow> http_request \<Rightarrow> (api_credential \<Rightarrow> account \<Rightarrow> 'b response_io) \<Rightarrow> 'b response_io" where
  "auth_openai_api cy request next =
     (case bearer_token request of
        None \<Rightarrow> return (Inl (auth_error_response 401
          ''Missing or invalid Authorization header. Expected: Bearer <apikey>'' ''invalid_api_key''))
      | Some token \<Rightarrow> do { r \<leftarrow> authenticate cy token; run_next r next })"

definition auth_anthropic_api ::
    "crypto_env \<Rightarrow> http_request \<Rightarrow> (api_credential \<Rightarrow> account \<Rightarrow> 'b response_io) \<Rightarrow> 'b response_io" where
  "auth_anthropic_api cy request next =
     (case x_api_key request of
        None \<Rightarrow> return (Inl (auth_error_response 401
          ''Missing or invalid x-api-key header.'' ''invalid_api_key''))
      | Some token \<Rightarrow> do { r \<leftarrow> authenticate cy token; run_next r next })"

section \<open>Admin tokens\<close>

record claims =
  cl_sub :: "string option"
  cl_exp :: "int option"
  cl_realm :: "string option"

text \<open>The options of the crate the code changes, with the crate's defaults.\<close>

record validation =
  va_required_spec_claims :: "string list"
  va_validate_exp :: bool

definition default_validation :: validation where
  "default_validation = \<lparr>va_required_spec_claims = [''exp''], va_validate_exp = True\<rparr>"

definition admin_validation :: validation where
  "admin_validation = default_validation
     \<lparr>va_required_spec_claims := removeAll ''exp'' (va_required_spec_claims default_validation),
      va_validate_exp := False\<rparr>"

definition admin_error :: "int \<Rightarrow> string \<Rightarrow> proxy_error" where
  "admin_error status message =
     \<lparr>pe_status = status, pe_message = message, pe_type = ''auth_error'', pe_code = ''''\<rparr>"

definition auth_jwt ::
    "string \<Rightarrow> (string \<Rightarrow> validation \<Rightarrow> string \<Rightarrow> claims option) \<Rightarrow> http_request \<Rightarrow>
     'b response_io \<Rightarrow> 'b response_io" where
  "auth_jwt jwt_secret decode request next =
     (if jwt_secret = [] then return (Inl (admin_error 500 ''Admin API is not configured''))
      else
        (case rq_header request ''x-admin-token'' of
           None \<Rightarrow> return (Inl (admin_error 401
             ''Missing or invalid x-admin-token header. Expected: x-admin-token: <jwt_token>''))
         | Some token \<Rightarrow>
             (case decode jwt_secret admin_validation token of
                None \<Rightarrow> return (Inl (admin_error 401 ''Invalid JWT token''))
              | Some data \<Rightarrow>
                  if cl_realm data = Some ''api'' then next
                  else return (Inl (admin_error 401
                    (''Invalid JWT token: realm must be '' @ [CHR 0x27] @ ''api'' @ [CHR 0x27]))))))"

end
