(* ===== verification/AuthClaims.thy ===== *)
theory AuthClaims
  imports Auth AdminApi Demo
begin

text \<open>
  The properties of authentication: who gets through, on the strength of which past state of the
  database, and how fast a revocation takes effect.
\<close>

section \<open>What vouches for a request\<close>

text \<open>Database \<open>d\<close> has an active key with this hash, of an active account.\<close>

definition vouches :: "db \<Rightarrow> string \<Rightarrow> int \<Rightarrow> int \<Rightarrow> bool" where
  "vouches d key_hash key_id account_id \<longleftrightarrow>
     (\<exists>c \<in> set (t_rows (api_credentials d)). cred_api_key_hash c = key_hash \<and> cred_is_active c \<and>
        cred_id c = key_id \<and> cred_account_id c = Some account_id) \<and>
     (\<exists>a \<in> set (t_rows (accounts d)). acc_id a = account_id \<and> acc_is_active a)"

lemma decrypt_optional_same:
  "decrypt_optional cy x = Inr (Some k) \<Longrightarrow>
   \<exists>c. x = Some c \<and> cred_id k = cred_id c \<and> cred_account_id k = cred_account_id c \<and>
       cred_is_active k = cred_is_active c \<and> cred_api_key_hash k = cred_api_key_hash c"
  by (auto simp: decrypt_optional_def decrypt_credential_def split: option.splits sum.splits)

lemma wp_find_active:
  "wp (find_active_api_credential_by_api_key_hash cy h)
     (\<lambda>r t. w_db t = w_db w \<and> w_redis t = w_redis w \<and> w_now t = w_now w \<and> w_tx t = w_tx w \<and>
        (\<forall>k. r = Inr (Some k) \<longrightarrow> (\<exists>c \<in> set (t_rows (api_credentials (w_db w))).
           cred_api_key_hash c = h \<and> cred_is_active c \<and> cred_id c = cred_id k \<and>
           cred_account_id c = cred_account_id k \<and> cred_is_active k))) w"
  unfolding find_active_api_credential_by_api_key_hash_def
  by (auto intro!: wp_db_stmt simp: select_credentials_def sql_defs select_rows_def
      dest!: decrypt_optional_same first_row_mem) blast+

lemma wp_find_account:
  "wp (get_account_by_id i)
     (\<lambda>r t. w_db t = w_db w \<and> w_redis t = w_redis w \<and> w_now t = w_now w \<and> w_tx t = w_tx w \<and>
        (\<forall>a. r = Inr (Some a) \<longrightarrow> a \<in> set (t_rows (accounts (w_db w))) \<and> acc_id a = i)) w"
  unfolding get_account_by_id_def
  by (auto intro!: wp_db_stmt simp: select_accounts_def sql_defs select_rows_def dest!: first_row_mem)

text \<open>Either the cache vouches and the world stays, or the current database does; then the cache may
  learn it.\<close>

definition cache_vouches :: "world \<Rightarrow> string \<Rightarrow> int \<Rightarrow> int \<Rightarrow> bool" where
  "cache_vouches w h key_id account_id \<longleftrightarrow>
     (\<exists>info. apikey_cache.answer (w_redis w) (w_now w) h = Some info \<and> aki_api_key_hash info = h \<and>
        aki_is_active info \<and> aki_account_is_active info \<and> aki_id info = key_id \<and>
        aki_account_id info = Some account_id)"

definition learns :: "world \<Rightarrow> string \<Rightarrow> world \<Rightarrow> bool" where
  "learns w h w' \<longleftrightarrow> w_db w' = w_db w \<and> w_now w' = w_now w \<and> w_tx w' = w_tx w \<and>
     (w_redis w' = w_redis w \<or>
      (\<exists>info a. w_redis w' = apikey_cache.written (w_redis w) (w_now w) h info \<and>
         aki_api_key_hash info = h \<and> aki_account_id info = Some a \<and> vouches (w_db w) h (aki_id info) a))"

lemma wp_set_apikey:
  "wp (set_apikey_info h info)
     (\<lambda>_ t. w_db t = w_db w \<and> w_now t = w_now w \<and> w_tx t = w_tx w \<and>
        (w_redis t = w_redis w \<or> w_redis t = apikey_cache.written (w_redis w) (w_now w) h info)) w"
  unfolding set_apikey_info_def cache_set_def redis_set_ex_def apikey_cache.written_def
  by (auto intro!: wp_redis_conn wp_redis_cmd wp_intros)

lemma wp_get_apikey:
  "wp (get_apikey_info h)
     (\<lambda>r t. w_db t = w_db w \<and> w_now t = w_now w \<and> w_tx t = w_tx w \<and> w_redis t = w_redis w \<and>
        (\<forall>v. r = Inr (Some v) \<longrightarrow> apikey_cache.answer (w_redis w) (w_now w) h = Some v)) w"
  unfolding get_apikey_info_def cache_get_def redis_get_def apikey_cache.answer_def
  by (auto intro!: wp_redis_conn wp_redis_cmd wp_intros)

lemma wp_authenticate_from_db:
  "wp (authenticate_from_db cy h)
     (\<lambda>r t. learns w h t \<and> (\<forall>k a. r = Inr (k, a) \<longrightarrow> vouches (w_db w) h (cred_id k) (acc_id a))) w"
  unfolding authenticate_from_db_def wp_bind
proof (rule wp_mono [OF wp_find_active], goal_cases)
  case (1 found t)
  then show ?case
  proof (intro wp_intros, goal_cases)
    case (4 x key account_id)
    then have key: "w_db t = w_db w" "w_redis t = w_redis w" "w_now t = w_now w" "w_tx t = w_tx w"
      "\<exists>c \<in> set (t_rows (api_credentials (w_db w))). cred_api_key_hash c = h \<and> cred_is_active c \<and>
         cred_id c = cred_id key \<and> cred_account_id c = Some account_id" "cred_is_active key"
      "cred_account_id key = Some account_id"
      by auto
    show ?case
      unfolding wp_bind
    proof (rule wp_mono [OF wp_find_account [of account_id t]], goal_cases)
      case (1 owner u)
      then show ?case
      proof (intro wp_intros, goal_cases)
        case (4 y acc)
        then have v: "vouches (w_db w) h (cred_id key) account_id" "acc_id acc = account_id"
          "w_db u = w_db w" "w_redis u = w_redis w" "w_now u = w_now w" "w_tx u = w_tx w"
          using key by (auto simp: vouches_def)
        show ?case
          unfolding wp_bind
          by (rule wp_mono [OF wp_set_apikey [of h "info_of h key acc" u]])
            (use v key in \<open>auto simp: learns_def info_of_def\<close>)
      qed (auto simp: learns_def key)
    qed
  qed (auto simp: learns_def)
qed

lemma wp_authenticate:
  "wp (authenticate cy token)
     (\<lambda>r t. learns w (hash_token cy token) t \<and>
        (\<forall>k a. r = Inr (k, a) \<longrightarrow> cache_vouches w (hash_token cy token) (cred_id k) (acc_id a) \<or>
           vouches (w_db w) (hash_token cy token) (cred_id k) (acc_id a))) w"
  unfolding authenticate_def Let_def wp_bind
proof (rule wp_mono [OF wp_get_apikey], goal_cases)
  case (1 cached t)
  let ?h = "hash_token cy token"
  have fallback: "wp (authenticate_from_db cy ?h) (\<lambda>r t. learns w ?h t \<and>
      (\<forall>k a. r = Inr (k, a) \<longrightarrow> cache_vouches w ?h (cred_id k) (acc_id a) \<or>
         vouches (w_db w) ?h (cred_id k) (acc_id a))) t"
    by (rule wp_mono [OF wp_authenticate_from_db]) (use 1 in \<open>auto simp: learns_def\<close>)
  show ?case
  proof (intro wp_intros fallback)
    fix x info assume "cached = Inr x" "x = Some info"
    with 1 show "wp (State_Monad.get \<bind> (\<lambda>w. return (check_cached (w_now w) ?h info)))
       (\<lambda>r t. learns w ?h t \<and> (\<forall>k a. r = Inr (k, a) \<longrightarrow>
          cache_vouches w ?h (cred_id k) (acc_id a) \<or> vouches (w_db w) ?h (cred_id k) (acc_id a))) t"
      by (auto simp: check_cached_def cache_vouches_def learns_def cached_credential_def
          cached_account_def split: if_splits option.splits)
  qed
qed

section \<open>Authentication over time\<close>

text \<open>
  \<open>auth_reach w0 H w\<close>: the system came from \<open>w0\<close> to \<open>w\<close> through the states of the
  database collected in \<open>H\<close>, each with its time.  A step is an authentication, under any
  schedule of failures, or anything else that neither turns the clock back nor writes entries of the
  key cache (it may delete them, and change the database at will).
\<close>

inductive auth_step :: "crypto_env \<Rightarrow> world \<Rightarrow> world \<Rightarrow> bool" for cy where
  check: "run_state (authenticate cy token) w = (r, w') \<Longrightarrow> auth_step cy w w'"
| other: "w_now w \<le> w_now w' \<Longrightarrow>
    (\<And>h. w_redis w' (apikey_cache_key h) \<in> {None, w_redis w (apikey_cache_key h)}) \<Longrightarrow> auth_step cy w w'"

inductive auth_reach :: "crypto_env \<Rightarrow> world \<Rightarrow> (timestamp \<times> db) set \<Rightarrow> world \<Rightarrow> bool" for cy w0 where
  start: "auth_reach cy w0 {(w_now w0, w_db w0)} w0"
| step: "auth_reach cy w0 H w \<Longrightarrow> auth_step cy w w' \<Longrightarrow>
    auth_reach cy w0 (insert (w_now w', w_db w') H) w'"

definition entry_recent :: "(timestamp \<times> db) set \<Rightarrow> timestamp \<Rightarrow> string \<Rightarrow> redis_entry \<Rightarrow> bool" where
  "entry_recent H now h e \<longleftrightarrow>
     (\<exists>info a t d. re_value e = R_ApiKey info \<and> re_expires e = Some (t + seconds APIKEY_CACHE_TTL) \<and>
        aki_account_id info = Some a \<and> (t, d) \<in> H \<and> t \<le> now \<and> vouches d h (aki_id info) a)"

definition cache_recent :: "(timestamp \<times> db) set \<Rightarrow> world \<Rightarrow> bool" where
  "cache_recent H w \<longleftrightarrow> (w_now w, w_db w) \<in> H \<and>
     (\<forall>h e. w_redis w (apikey_cache_key h) = Some e \<longrightarrow> entry_recent H (w_now w) h e)"

lemma entry_recent_mono:
  "entry_recent H now h e \<Longrightarrow> now \<le> now' \<Longrightarrow> entry_recent (insert x H) now' h e"
  unfolding entry_recent_def by (meson insertI2 order_trans)

lemma cache_recent_entry:
  "cache_recent H w \<Longrightarrow> w_redis w (apikey_cache_key h) = Some e \<Longrightarrow> w_now w \<le> now \<Longrightarrow>
   entry_recent (insert x H) now h e"
  unfolding cache_recent_def using entry_recent_mono by blast

lemma learns_recent:
  assumes "learns w h w'" and "cache_recent H w"
  shows "cache_recent (insert (w_now w', w_db w') H) w'"
proof -
  have now: "w_now w' = w_now w" "w_db w' = w_db w" using assms(1) by (auto simp: learns_def)
  have "entry_recent (insert (w_now w, w_db w) H) (w_now w) k e"
    if e: "w_redis w' (apikey_cache_key k) = Some e" for k e
  proof (cases "w_redis w' (apikey_cache_key k) = w_redis w (apikey_cache_key k)")
    case True
    with e have "w_redis w (apikey_cache_key k) = Some e" by simp
    then show ?thesis using cache_recent_entry [OF assms(2)] by blast
  next
    case False
    with assms(1) obtain info a where info: "aki_account_id info = Some a"
        "vouches (w_db w) h (aki_id info) a"
        "w_redis w' = apikey_cache.written (w_redis w) (w_now w) h info"
      by (auto simp: learns_def)
    with False have "k = h"
      by (auto simp: apikey_cache.written_def apikey_cache_key_def split: if_splits)
    with e info show ?thesis
      by (auto simp: entry_recent_def apikey_cache.written_def)
  qed
  with now show ?thesis by (auto simp: cache_recent_def)
qed

lemma auth_step_recent:
  assumes "auth_step cy w w'" and "cache_recent H w"
  shows "cache_recent (insert (w_now w', w_db w') H) w'"
  using assms
proof (cases rule: auth_step.cases)
  case (check token r)
  with wp_run [OF wp_authenticate check] assms(2) show ?thesis by (blast intro: learns_recent)
next
  case other
  have "entry_recent (insert (w_now w', w_db w') H) (w_now w') h e"
    if "w_redis w' (apikey_cache_key h) = Some e" for h e
  proof -
    from other(2) [of h] that have "w_redis w (apikey_cache_key h) = Some e" by auto
    then show ?thesis using cache_recent_entry [OF assms(2)] other(1) by blast
  qed
  then show ?thesis by (auto simp: cache_recent_def)
qed

lemma auth_reach_recent:
  "auth_reach cy w0 H w \<Longrightarrow> (\<And>h. w_redis w0 (apikey_cache_key h) = None) \<Longrightarrow> cache_recent H w"
proof (induction rule: auth_reach.induct)
  case start
  then show ?case by (simp add: cache_recent_def)
next
  case (step H w w')
  then show ?case using auth_step_recent by blast
qed

text \<open>C12: whoever gets through was vouched for by the database at most 900 seconds ago: an active key
  with the hash of the presented token, belonging to an active account, was in the database at some
  moment of the system's history that recent.  This holds under every schedule of failures and of
  concurrent changes of the database.\<close>

theorem auth_recently_vouched:
  assumes "auth_reach cy w0 H w" and "\<And>h. w_redis w0 (apikey_cache_key h) = None"
    and "fst (run_state (authenticate cy token) w) = Inr (key, acc)"
  shows "\<exists>t d. (t, d) \<in> H \<and> t \<le> w_now w \<and> w_now w < t + seconds 900 \<and>
           vouches d (hash_token cy token) (cred_id key) (acc_id acc)"
proof -
  have recent: "cache_recent H w" using assms(1,2) by (rule auth_reach_recent)
  from wp_authenticate [of cy token w] assms(3)
  consider "cache_vouches w (hash_token cy token) (cred_id key) (acc_id acc)"
    | "vouches (w_db w) (hash_token cy token) (cred_id key) (acc_id acc)"
    by (auto simp: wp_run_state)
  then show ?thesis
  proof cases
    case 1
    then show ?thesis
      using recent
      by (fastforce simp: cache_vouches_def apikey_cache.answer_def lookup_live_def live_def
          cache_recent_def entry_recent_def APIKEY_CACHE_TTL_def split: option.splits if_splits)
  next
    case 2
    then show ?thesis using recent by (force simp: cache_recent_def seconds_def)
  qed
qed

section \<open>How fast a revocation takes effect\<close>

definition demo_crypto :: crypto_env where
  "demo_crypto = \<lparr>cy_encryption_key = [], cy_hex_decode = Inr, cy_b64_encode = id,
     cy_b64_decode = Inr, cy_seal = (\<lambda>_ _ x. Some x), cy_open = (\<lambda>_ _ x. Some x),
     cy_utf8 = (\<lambda>_. True), cy_sha256_hex = id\<rparr>"

definition demo_key :: api_credential where
  "demo_key = fresh_credential \<lparr>nc_account_id = Some 1, nc_apikey = ''k'', nc_label = ''l'',
     nc_expires_at = None\<rparr> ''k'' ''k'' 0 1"

definition key_db :: db where
  "key_db = empty_db\<lparr>api_credentials := \<lparr>t_rows = [demo_key], t_seq = 1\<rparr>\<rparr>"

lemma demo_authenticates:
  "\<exists>key acc. fst (run_state (authenticate demo_crypto ''k'') (world_of key_db)) = Inr (key, acc) \<and>
     cred_id key = 1 \<and> acc_id acc = 1"
proof -
  have "wp (authenticate demo_crypto ''k'') (\<lambda>r _. \<exists>key acc. r = Inr (key, acc) \<and>
     cred_id key = 1 \<and> acc_id acc = 1) (world_of key_db)"
    by (simp add: authenticate_def Let_def get_apikey_info_def cache_get_def redis_get_def no_fault_calls
        lookup_live_def authenticate_from_db_def find_active_api_credential_by_api_key_hash_def
        select_credentials_def get_account_by_id_def select_accounts_def sql_defs select_rows_def
        key_db_def demo_defs demo_key_def fresh_credential_def decrypt_optional_def hash_token_def
        decrypt_credential_def decrypt_api_key_def decrypt_if_configured_def is_encryption_configured_def
        get_encryption_key_def ellipse_api_key_def demo_crypto_def set_apikey_info_def cache_set_def
        redis_set_ex_def)
  then show ?thesis by (simp add: wp_run_state)
qed

theorem auth_recently_vouched_witness:
  "\<exists>t d. (t, d) \<in> {(0, key_db)} \<and> t \<le> 0 \<and> 0 < t + seconds 900 \<and> vouches d (hash_token demo_crypto ''k'') 1 1"
proof -
  obtain key acc where "fst (run_state (authenticate demo_crypto ''k'') (world_of key_db)) = Inr (key, acc)"
    and id: "cred_id key = 1" "acc_id acc = 1"
    using demo_authenticates by blast
  from auth_recently_vouched [OF auth_reach.start _ this(1)] id show ?thesis by simp
qed

lemma update_account_frame:
  assumes "w_faults w = []"
  shows "wp (update_account_by_id_handler rn i name active)
    (\<lambda>_ t. \<forall>h. w_redis t (apikey_cache_key h) = w_redis w (apikey_cache_key h)) w"
  unfolding update_account_by_id_handler_def Accounts.update_account_def delete_account_def
    cache_delete_def redis_del_def
  by (auto intro!: wp_db_stmt wp_redis_conn wp_redis_cmd wp_intros
      simp: apikey_cache_key_def account_cache_key_def)

lemma answer_cong:
  "r (apikey_cache_key h) = r' (apikey_cache_key h) \<Longrightarrow> apikey_cache.answer r now h = apikey_cache.answer r' now h"
  by (simp add: apikey_cache.answer_def lookup_live_def)

lemma get_apikey_healthy:
  "w_faults w = [] \<Longrightarrow> apikey_cache.answer (w_redis w) (w_now w) h = Some info \<Longrightarrow>
   wp (get_apikey_info h) Q w = Q (Inr (Some info)) w"
  by (auto simp: get_apikey_info_def cache_get_def redis_get_def no_fault_calls apikey_cache.answer_def
      split: option.splits bind_splits)

text \<open>C13: deactivating an account does not stop its keys.  Updating an account deletes the entry
  \<^verbatim>\<open>account:info:\<close> of the cache, but authentication reads \<^verbatim>\<open>apikey:info:\<close>: a key
  that was used before goes on being accepted for as long as its entry lives, whatever the update
  was.\<close>

theorem deactivation_lags:
  assumes "w_faults w = []" and "w_faults w' = []"
    and "w_redis w' = w_redis (final (update_account_by_id_handler rn i name active) w)"
    and "apikey_cache.answer (w_redis w) (w_now w') (hash_token cy token) = Some info"
    and "check_cached (w_now w') (hash_token cy token) info = Inr (key, acc)"
  shows "fst (run_state (authenticate cy token) w') = Inr (key, acc)"
proof -
  have "apikey_cache.answer (w_redis w') (w_now w') (hash_token cy token) = Some info"
    using update_account_frame [OF assms(1), of rn i name active] assms(3,4)
      answer_cong [of "w_redis w'" "hash_token cy token" "w_redis w"]
    by (simp add: wp_run_state)
  with assms(2,5) have "wp (authenticate cy token) (\<lambda>r _. r = Inr (key, acc)) w'"
    by (simp add: authenticate_def Let_def get_apikey_healthy)
  then show ?thesis by (simp add: wp_run_state)
qed


definition demo_info :: apikey_info where
  "demo_info = \<lparr>aki_id = 1, aki_account_id = Some 1, aki_api_key_hash = ''k'', aki_label = ''l'',
     aki_is_active = True, aki_account_is_active = True\<rparr>"

definition cached_world :: world where
  "cached_world = world_of key_db\<lparr>w_redis := apikey_cache.written Map.empty 0 ''k'' demo_info\<rparr>"

theorem deactivation_lags_witness:
  "fst (run_state (authenticate demo_crypto ''k'')
     (cached_world\<lparr>w_now := seconds 899, w_redis := w_redis
        (final (update_account_by_id_handler \<lparr>rn_time = \<lambda>_. '''', rn_dec = \<lambda>_. ''''\<rparr> 1 None (Some False)) cached_world)\<rparr>))
   = Inr (cached_credential (seconds 899) demo_info, cached_account (seconds 899) 1 demo_info)"
proof (rule deactivation_lags)
  have "apikey_cache.answer (apikey_cache.written Map.empty 0 ''k'' demo_info) (seconds 899) ''k'' = Some demo_info"
    by (rule apikey_cache.answer_written) (simp add: APIKEY_CACHE_TTL_def seconds_def)
  moreover have "hash_token demo_crypto ''k'' = ''k''" "w_redis cached_world = apikey_cache.written Map.empty 0 ''k'' demo_info"
    by (simp_all add: hash_token_def demo_crypto_def cached_world_def)
  ultimately show "apikey_cache.answer (w_redis cached_world)
      (w_now (cached_world\<lparr>w_now := seconds 899, w_redis := w_redis
        (final (update_account_by_id_handler \<lparr>rn_time = \<lambda>_. '''', rn_dec = \<lambda>_. ''''\<rparr> 1 None (Some False)) cached_world)\<rparr>))
      (hash_token demo_crypto ''k'') = Some demo_info"
    by simp
qed (simp_all add: cached_world_def check_cached_def hash_token_def demo_crypto_def demo_info_def)

lemma deactivate_deactivates:
  assumes "w_faults w = []"
  shows "wp (deactivate_api_credential cy k) (\<lambda>r t. w_faults t = [] \<and>
      (\<forall>c \<in> set (t_rows (api_credentials (w_db t))). cred_api_key_hash c = hash_token cy k \<longrightarrow> \<not> cred_is_active c) \<and>
      (\<forall>key. r = Inr key \<longrightarrow> cred_api_key_hash key = hash_token cy k)) w"
proof -
  let ?g = "\<lambda>c. c\<lparr>cred_is_active := False, cred_updated_at := w_now w\<rparr>"
  let ?u = "update_rows (\<lambda>c. cred_api_key_hash c = hash_token cy k) ?g (api_credentials (w_db w))"
  let ?t = "w\<lparr>w_db := api_credentials_update (\<lambda>_. snd ?u) (w_db w)\<rparr>"
  have inactive: "\<not> cred_is_active c"
    if "c \<in> set (t_rows (api_credentials (w_db ?t)))" "cred_api_key_hash c = hash_token cy k" for c
    using that by (auto simp: t_rows_update split: if_splits)
  have run: "wp (deactivate_api_credential cy k) Q w \<longleftrightarrow>
      (\<forall>e. one_row (Inr (fst ?u)) = Inl e \<longrightarrow> Q (Inl e) ?t) \<and>
      (\<forall>c. one_row (Inr (fst ?u)) = Inr c \<longrightarrow> Q (decrypt_credential cy c) ?t)" for Q
    using assms
    by (simp add: deactivate_api_credential_def no_fault_calls sql_defs Let_def hash_api_key_def hash_token_def)
  have hash: "cred_api_key_hash key = hash_token cy k"
    if "one_row (Inr (fst ?u)) = Inr c" "decrypt_credential cy c = Inr key" for c key
  proof -
    from that(1) have "c \<in> set (fst ?u)" by (auto simp: one_row_Inr)
    then have "cred_api_key_hash c = hash_token cy k" by (auto simp: update_rows_def)
    with that(2) show ?thesis
      by (auto simp: decrypt_credential_def split: sum.splits)
  qed
  show ?thesis
    unfolding run
    by (intro conjI allI impI ballI)
      (erule (1) inactive | erule (1) hash | simp add: assms)+
qed

text \<open>C14: revoking a key takes effect at once, when Redis answers: after a successful deletion the next
  authentication with the key, on the resulting database and cache, is refused.\<close>

theorem revocation_immediate:
  assumes "w_faults w = []" and "w_faults w' = []"
    and "fst (run_state (delete_apikey_handler cy rn k) w) = Reply 200 b"
    and "w_redis w' = w_redis (final (delete_apikey_handler cy rn k) w)"
    and "w_db w' = w_db (final (delete_apikey_handler cy rn k) w)"
  shows "fst (run_state (authenticate cy k) w') = Inl (invalid_credential ''Invalid API key.'')"
proof -
  let ?h = "hash_token cy k"
  have "wp (delete_apikey_handler cy rn k) (\<lambda>r t. (\<exists>b. r = Reply 200 b) \<longrightarrow>
      w_redis t (apikey_cache_key ?h) = None \<and>
      (\<forall>c \<in> set (t_rows (api_credentials (w_db t))). cred_api_key_hash c = ?h \<longrightarrow> \<not> cred_is_active c)) w"
    unfolding delete_apikey_handler_def wp_bind
  proof (rule wp_mono [OF deactivate_deactivates [OF assms(1)]], goal_cases)
    case (1 r t)
    then show ?case
      by (intro wp_intros)
        (auto simp: delete_apikey_def cache_delete_def redis_del_def no_fault_calls not_found_def
          database_error_def)
  qed
  with assms(3-5) have gone: "w_redis w' (apikey_cache_key ?h) = None"
    "\<forall>c \<in> set (t_rows (api_credentials (w_db w'))). cred_api_key_hash c = ?h \<longrightarrow> \<not> cred_is_active c"
    by (auto simp: wp_run_state)
  then have "filter (\<lambda>c. cred_api_key_hash c = ?h \<and> cred_is_active c) (t_rows (api_credentials (w_db w'))) = []"
    by (auto simp: filter_empty_conv)
  with gone(1) assms(2) have "wp (authenticate cy k) (\<lambda>r _. r = Inl (invalid_credential ''Invalid API key.'')) w'"
    by (simp add: authenticate_def Let_def get_apikey_info_def cache_get_def redis_get_def no_fault_calls
        lookup_live_def authenticate_from_db_def find_active_api_credential_by_api_key_hash_def
        select_credentials_def sql_defs select_rows_def decrypt_optional_def)
  then show ?thesis by (simp add: wp_run_state)
qed

theorem revocation_immediate_witness:
  "let del = delete_apikey_handler demo_crypto \<lparr>rn_time = \<lambda>_. '''', rn_dec = \<lambda>_. ''''\<rparr> ''k'';
       w = final del (world_of key_db)
   in fst (run_state (authenticate demo_crypto ''k'')
        (world_of key_db\<lparr>w_redis := w_redis w, w_db := w_db w\<rparr>)) = Inl (invalid_credential ''Invalid API key.'')"
proof -
  let ?del = "delete_apikey_handler demo_crypto \<lparr>rn_time = \<lambda>_. '''', rn_dec = \<lambda>_. ''''\<rparr> ''k''"
  have "wp ?del (\<lambda>r _. \<exists>b. r = Reply 200 b) (world_of key_db)"
    by (simp add: delete_apikey_handler_def deactivate_api_credential_def no_fault_calls sql_defs Let_def
        delete_apikey_def cache_delete_def redis_del_def ok_reply_def hash_api_key_def demo_crypto_def
        key_db_def demo_key_def fresh_credential_def update_rows_def one_row_def decrypt_credential_def
        decrypt_api_key_def decrypt_if_configured_def is_encryption_configured_def ellipse_api_key_def)
  then obtain b where "fst (run_state ?del (world_of key_db)) = Reply 200 b" by (auto simp: wp_run_state)
  from revocation_immediate [OF _ _ this, of "world_of key_db
      \<lparr>w_redis := w_redis (final ?del (world_of key_db)), w_db := w_db (final ?del (world_of key_db))\<rparr>"]
  show ?thesis by (simp add: Let_def)
qed

section \<open>Admin tokens\<close>

text \<open>What the token crate documents: a token decodes to its payload if its signature is good, its
  expiry, when it has one and the options ask for it, has not passed, and the claims the options
  require are there.\<close>

definition decodes_tokens ::
    "(string \<Rightarrow> validation \<Rightarrow> string \<Rightarrow> claims option) \<Rightarrow> (string \<Rightarrow> string \<Rightarrow> bool) \<Rightarrow> (string \<Rightarrow> claims) \<Rightarrow> int \<Rightarrow> bool" where
  "decodes_tokens decode signed payload now \<longleftrightarrow>
     (\<forall>s v t. decode s v t =
        (if signed s t \<and>
            (''exp'' \<in> set (va_required_spec_claims v) \<longrightarrow> cl_exp (payload t) \<noteq> None) \<and>
            (va_validate_exp v \<longrightarrow> (case cl_exp (payload t) of None \<Rightarrow> True | Some e \<Rightarrow> now \<le> e))
         then Some (payload t) else None))"

text \<open>C15: the admin API is open exactly to signed tokens of the realm \<^verbatim>\<open>api\<close>; with no secret
  configured it is open to nobody.  The expiry of a token plays no part: an expired token is as good
  as a fresh one.  Whoever is refused gets an error, and nothing else happens.\<close>

theorem admin_gate:
  assumes "decodes_tokens decode signed payload now"
  shows "if secret \<noteq> [] \<and> (\<exists>t. rq_header request ''x-admin-token'' = Some t \<and> signed secret t \<and>
              cl_realm (payload t) = Some ''api'')
         then auth_jwt secret decode request next = next
         else \<exists>e. auth_jwt secret decode request next = return (Inl e) \<and> pe_status e \<in> {401, 500}"
  using assms
  by (auto simp: auth_jwt_def admin_error_def decodes_tokens_def admin_validation_def
      default_validation_def split: option.splits)

definition demo_decode :: "string \<Rightarrow> validation \<Rightarrow> string \<Rightarrow> claims option" where
  "demo_decode s v t =
     (if s = t \<and> (va_validate_exp v \<longrightarrow> (9 :: int) \<le> 5)
      then Some \<lparr>cl_sub = None, cl_exp = Some 5, cl_realm = Some ''api''\<rparr> else None)"

theorem admin_gate_witness:
  "auth_jwt ''s'' demo_decode \<lparr>rq_header = (\<lambda>_. Some ''s''), rq_peer = None\<rparr> (return (Inr ()))
     = return (Inr ())"
proof -
  have "decodes_tokens demo_decode (=) (\<lambda>_. \<lparr>cl_sub = None, cl_exp = Some 5, cl_realm = Some ''api''\<rparr>) 9"
    by (simp add: decodes_tokens_def demo_decode_def)
  from admin_gate [OF this, of "''s''" "\<lparr>rq_header = (\<lambda>_. Some ''s''), rq_peer = None\<rparr>"] show ?thesis
    by simp
qed

end
