(* ===== verification/Listings.thy ===== *)
theory Listings
  imports AdminApi Demo
begin

text \<open>
  Listing through the admin API, as a client does it: page after page, or following the cursor.  Each
  pair of count and page query honours \<open>paged_list\<close>, so the pages of every list are a partition of
  its rows; the cursor visits every session event once and ends.
\<close>

section \<open>The lists of the API\<close>

lemma wp_count_stmt:
  "w_faults w = [] \<Longrightarrow> wp (db_stmt (count_stmt f)) Q w = Q (Inr (int (length (f (w_db w))))) w"
  by (simp add: wp_db_stmt_ok count_stmt_def)

lemma wp_page_stmt:
  "w_faults w = [] \<Longrightarrow> 0 \<le> off \<Longrightarrow> 0 \<le> k \<Longrightarrow>
   wp (db_stmt (page_stmt k off f)) Q w = Q (Inr (limit_offset k off (f (w_db w)))) w"
  by (simp add: wp_db_stmt_ok page_stmt_def)

definition account_rows :: "db \<Rightarrow> account list" where
  "account_rows d = sort_key acc_id (t_rows (accounts d))"

definition model_rows :: "list_models_filter \<Rightarrow> db \<Rightarrow> llm_model list" where
  "model_rows f d = sort_key mdl_id (map fst (filter (model_matches f) (joined d)))"

definition plan_rows :: "db \<Rightarrow> subscription_plan list" where
  "plan_rows d =
     sort_key (\<lambda>p. - plan_sort_order p) (sort_key plan_id (t_rows (subscription_plans d)))"

definition subscription_rows :: "int option \<Rightarrow> string option \<Rightarrow> db \<Rightarrow> subscription list" where
  "subscription_rows account_id status d =
     sort_key (\<lambda>s. - sub_sort_order s) (sort_key (\<lambda>s. - sub_id s)
       (select_rows (subscription_filter account_id status) (subscriptions d)))"

interpretation account_list: paged_list count_accounts list_accounts_paginated account_rows
  by unfold_locales
    (simp_all add: count_accounts_def list_accounts_paginated_def account_rows_def wp_count_stmt wp_page_stmt)

interpretation model_list:
  paged_list "count_models_filtered f" "list_models_filtered_paginated f" "model_rows f" for f
  by unfold_locales
    (simp_all add: count_models_filtered_def list_models_filtered_paginated_def model_rows_def
      wp_count_stmt wp_page_stmt)

interpretation plan_list:
  paged_list count_subscription_plans list_subscription_plans_paginated plan_rows
  by unfold_locales
    (simp_all add: count_subscription_plans_def list_subscription_plans_paginated_def plan_rows_def
      wp_count_stmt wp_page_stmt)

interpretation subscription_list:
  paged_list "count_subscriptions a s" "list_subscriptions_paginated a s" "subscription_rows a s" for a s
  by unfold_locales
    (simp_all add: count_subscriptions_def list_subscriptions_paginated_def subscription_rows_def
      wp_count_stmt wp_page_stmt)

section \<open>A client that reads every page\<close>

definition page_request :: "nat \<Rightarrow> nat \<Rightarrow> pagination_params" where
  "page_request per k = \<lparr>pp_page = int k, pp_page_size = int per\<rparr>"

fun reply_rows :: "'d paginated reply \<Rightarrow> 'd list" where
  "reply_rows (Reply _ b) = pr_data b"
| "reply_rows _ = []"

fun reply_pages :: "'d paginated reply \<Rightarrow> nat" where
  "reply_pages (Reply _ b) = nat (pi_total_pages (pr_pagination b))"
| "reply_pages _ = 0"

text \<open>Ask for page 1, learn the number of pages, read pages 1 to that number.\<close>

definition read_pages :: "(pagination_params \<Rightarrow> 'd paginated reply io) \<Rightarrow> nat \<Rightarrow> world \<Rightarrow> 'd list" where
  "read_pages handler per w =
     (let answer = (\<lambda>k. fst (run_state (handler (page_request per k)) w))
      in concat (map (\<lambda>k. reply_rows (answer k)) [1..<Suc (reply_pages (answer 1))]))"

context paged_list
begin

lemma page_answer:
  assumes "w_faults w = []" and "1 \<le> per" and "per \<le> 100" and "1 \<le> k" and "k < 2 ^ 56"
    and "length (rows (w_db w)) < 2 ^ 62"
  shows "reply_rows (fst (run_state (list_page cnt fetch dto msg (page_request per k)) w))
           = map dto (page_rows (rows (w_db w)) per (k - 1))"
    and "reply_pages (fst (run_state (list_page cnt fetch dto msg (page_request per k)) w))
           = page_count (length (rows (w_db w))) per"
proof -
  have p: "page_of (page_request per k) = int k" "page_size_of (page_request per k) = int per"
    using assms by (simp_all add: page_of_def page_size_of_def page_request_def clamp_def MAX_PAGE_SIZE_def)
  have "int k < 2 ^ 56" using assms(5) by (simp add: nat_less_numeral_power_cancel_iff)
  note run = list_page_answers [OF assms(1), of "page_request per k" dto msg, unfolded p wp_run_state, OF this]
  have tot: "total_pages_of (int (length (rows (w_db w)))) (int per) = int (page_count (length (rows (w_db w))) per)"
    using assms by (subst total_pages_count) (simp_all add: nat_less_numeral_power_cancel_iff)
  show "reply_rows (fst (run_state (list_page cnt fetch dto msg (page_request per k)) w))
      = map dto (page_rows (rows (w_db w)) per (k - 1))"
    using run assms(4) by (simp add: ok_reply_def nat_diff_distrib)
  show "reply_pages (fst (run_state (list_page cnt fetch dto msg (page_request per k)) w))
      = page_count (length (rows (w_db w))) per"
    using run by (simp add: ok_reply_def tot)
qed

lemma read_pages_all:
  assumes "w_faults w = []" and "1 \<le> per" and "per \<le> 100" and "length (rows (w_db w)) < 2 ^ 55"
  shows "read_pages (list_page cnt fetch dto msg) per w = map dto (rows (w_db w))"
proof -
  let ?n = "page_count (length (rows (w_db w))) per"
  have "?n \<le> length (rows (w_db w)) + per - 1" by (simp add: page_count_def)
  then have n: "?n < 2 ^ 56 - 1" using assms(3,4) by simp
  have small: "length (rows (w_db w)) < 2 ^ 62" using assms(4) by simp
  note ans = page_answer [OF assms(1-3), of _ dto msg, OF _ _ small]
  have pages: "reply_pages (fst (run_state (list_page cnt fetch dto msg (page_request per 1)) w)) = ?n"
    by (rule ans(2)) simp_all
  have "read_pages (list_page cnt fetch dto msg) per w
      = concat (map (\<lambda>k. reply_rows (fst (run_state (list_page cnt fetch dto msg (page_request per k)) w)))
          [1..<Suc ?n])"
    unfolding read_pages_def Let_def pages ..
  also have "\<dots> = concat (map (\<lambda>k. map dto (page_rows (rows (w_db w)) per (k - 1))) [1..<Suc ?n])"
    by (intro arg_cong [where f = concat] map_cong refl ans(1)) (use n in auto)
  also have "\<dots> = concat (map (\<lambda>k. map dto (page_rows (rows (w_db w)) per k)) [0..<?n])"
    by (simp add: map_Suc_upt [symmetric] comp_def del: upt_Suc)
  also have "\<dots> = map dto (concat (map (page_rows (rows (w_db w)) per) [0..<?n]))"
    by (simp only: map_concat map_map comp_def)
  also have "\<dots> = map dto (rows (w_db w))"
    using assms(2) by (simp add: pages_cover)
  finally show ?thesis .
qed

end

section \<open>A client that follows the cursor\<close>

fun reply_events :: "session_event_response cursor_response reply \<Rightarrow> session_event_response list" where
  "reply_events (Reply _ b) = cr_data b"
| "reply_events _ = []"

fun reply_next :: "session_event_response cursor_response reply \<Rightarrow> int option" where
  "reply_next (Reply _ b) = (if cr_has_more b then Some (cr_next_id b) else None)"
| "reply_next _ = None"

text \<open>At most \<open>n\<close> requests; the second component tells whether the last answer ended the list.\<close>

fun follow ::
    "renderers \<Rightarrow> string option \<Rightarrow> int \<Rightarrow> world \<Rightarrow> nat \<Rightarrow> int \<Rightarrow> session_event_response list \<times> bool" where
  "follow rn session cnt w 0 start = ([], False)"
| "follow rn session cnt w (Suc n) start =
     (let answer = fst (run_state (list_session_events_handler rn
            \<lparr>lse_session = session, lse_start = start, lse_count = cnt\<rparr>) w)
      in (case reply_next answer of
            None \<Rightarrow> (reply_events answer, True)
          | Some next_id \<Rightarrow>
              (let (rest, ended) = follow rn session cnt w n next_id
               in (reply_events answer @ rest, ended))))"

text \<open>The events of the list, by identifier.\<close>

definition event_rows :: "string option \<Rightarrow> db \<Rightarrow> session_event list" where
  "event_rows session d =
     sort_key se_id (select_rows
       (\<lambda>e. case session of None \<Rightarrow> True | Some sid \<Rightarrow> se_session_id e = sid) (session_events d))"

lemma filter_sort_key: "filter P (sort_key f xs) = sort_key f (filter P xs)"
  by (rule filter_sort)

lemma wp_list_events:
  assumes "w_faults w = []" and "0 \<le> cnt" and "cnt \<le> 100"
  shows "wp (list_session_events_cursor session start cnt) Q w =
    Q (Inr (take (nat (cnt + 1)) (filter (\<lambda>e. se_id e > start) (event_rows session (w_db w))))) w"
proof -
  have "wrap_i64 (cnt + 1) = cnt + 1" using assms(2,3) by (simp add: in_i64_def)
  then show ?thesis
    using assms
    by (cases session)
      (simp_all add: list_session_events_cursor_def wp_page_stmt event_rows_def filter_sort_key
        select_rows_def limit_offset_def conj_commute)
qed

lemma events_answer:
  assumes "w_faults w = []" and "1 \<le> cnt" and "cnt \<le> 100" and "0 \<le> start"
  shows "fst (run_state (list_session_events_handler rn
            \<lparr>lse_session = session, lse_start = start, lse_count = cnt\<rparr>) w) =
         ok_reply (cursor_answer se_id (session_event_response_of rn) start cnt
           (take (nat (cnt + 1)) (filter (\<lambda>e. se_id e > start) (event_rows session (w_db w)))))"
proof -
  have "wp (list_session_events_handler rn
            \<lparr>lse_session = session, lse_start = start, lse_count = cnt\<rparr>)
         (\<lambda>r _. r = ok_reply (cursor_answer se_id (session_event_response_of rn) start cnt
           (take (nat (cnt + 1)) (filter (\<lambda>e. se_id e > start) (event_rows session (w_db w)))))) w"
    using assms by (simp add: list_session_events_handler_def Let_def clamp_def MAX_CURSOR_COUNT_def wp_list_events)
  then show ?thesis by (simp add: wp_run_state)
qed

lemma cursor_answer_parts:
  "cr_data (cursor_answer pk dto start cnt xs) = map dto (cr_data (cursor_answer pk id start cnt xs))"
  "cr_next_id (cursor_answer pk dto start cnt xs) = cr_next_id (cursor_answer pk id start cnt xs)"
  "cr_has_more (cursor_answer pk dto start cnt xs) = cr_has_more (cursor_answer pk id start cnt xs)"
  by (simp_all add: cursor_answer_def Let_def)

lemma cursor_next_ge:
  assumes "\<And>r. r \<in> set xs \<Longrightarrow> start \<le> pk r" and "1 \<le> cnt"
  shows "start \<le> cr_next_id (cursor_answer pk dto start cnt xs)"
proof -
  have "start \<le> pk (last ys)" if "set ys \<subseteq> set xs" "ys \<noteq> []" for ys
    using that by (intro assms(1)) auto
  then show ?thesis
    using assms(2) by (auto simp: cursor_answer_def Let_def set_take_subset)
qed

text \<open>Following the handler's cursor is the walk of the contract.\<close>

lemma follow_walk:
  assumes "w_faults w = []" and "1 \<le> cnt" and "cnt \<le> 100" and "0 \<le> start"
  shows "follow rn session cnt w n start =
    map_prod (map (session_event_response_of rn)) Not (walk se_id (event_rows session (w_db w)) cnt n start)"
  using assms(4)
proof (induction n arbitrary: start)
  case 0
  then show ?case by simp
next
  case (Suc n)
  let ?xs = "take (nat (cnt + 1)) (filter (\<lambda>e. se_id e > start) (event_rows session (w_db w)))"
  have "start \<le> cr_next_id (cursor_answer se_id id start cnt ?xs)"
    using assms(2) by (intro cursor_next_ge) (auto dest!: in_set_takeD)
  with Suc.prems have "0 \<le> cr_next_id (cursor_answer se_id id start cnt ?xs)" by simp
  note ih = Suc.IH [OF this]
  show ?case
    using ih events_answer [OF assms(1-3) Suc.prems, of rn session]
    by (simp add: Let_def ok_reply_def cursor_answer_parts [of se_id "session_event_response_of rn"]
        map_prod_def split: prod.splits)
qed

lemma event_rows_sorted:
  assumes "ids_ok se_id (session_events d)"
  shows "sorted_wrt (\<lambda>a b. se_id a < se_id b) (event_rows session d)"
proof -
  have "distinct (map se_id (event_rows session d))"
    using assms unfolding event_rows_def ids_ok_def
    by (simp add: distinct_map select_rows_def inj_on_def)
  moreover have "sorted (map se_id (event_rows session d))"
    by (simp add: event_rows_def)
  ultimately have "sorted_wrt (<) (map se_id (event_rows session d))"
    by (simp add: strict_sorted_iff)
  then show ?thesis by (simp add: sorted_wrt_map)
qed

section \<open>Properties\<close>


definition many_db :: db where
  "many_db = empty_db\<lparr>accounts := \<lparr>t_rows = map (\<lambda>i. demo_account\<lparr>acc_id := i\<rparr>) [3, 1, 2], t_seq = 3\<rparr>\<rparr>"

definition demo_renderers :: renderers where
  "demo_renderers = \<lparr>rn_time = (\<lambda>_. ''''), rn_dec = (\<lambda>_. '''')\<rparr>"


text \<open>C19: Following the cursor of the session events ends after at most one request more than there
  are events left, and shows every event after the start exactly once, in increasing order of
  identifiers.\<close>

theorem cursor_shows_everything:
  assumes "w_faults w = []" and "ids_ok se_id (session_events (w_db w))"
    and "1 \<le> cnt" and "cnt \<le> 100" and "0 \<le> start"
    and "length (filter (\<lambda>e. se_id e > start) (event_rows session (w_db w))) \<le> n"
  shows "follow rn session cnt w (Suc n) start =
    (map (session_event_response_of rn) (filter (\<lambda>e. se_id e > start) (event_rows session (w_db w))), True)"
proof -
  have "0 < cnt" using assms(3) by simp
  note walk_visits [OF event_rows_sorted [OF assms(2)] this assms(6)]
  then show ?thesis unfolding follow_walk [OF assms(1,3,4,5)] by simp
qed

definition demo_event :: "int \<Rightarrow> session_event" where
  "demo_event i = \<lparr>se_id = i, se_session_id = ''s'', se_session_index = i, se_account_id = 1, se_model_id = 1,
     se_api_key_id = 1, se_input_token_price = 0, se_input_tokens = 0, se_output_token_price = 0,
     se_output_tokens = 0, se_event_data = JNull, se_created_at = 0\<rparr>"

definition events_db :: db where
  "events_db = empty_db\<lparr>session_events := \<lparr>t_rows = map demo_event [2, 1, 3], t_seq = 3\<rparr>\<rparr>"

theorem cursor_shows_everything_witness:
  "map_prod (map ser_id) id (follow demo_renderers None 2 (world_of events_db) 4 0) = ([1, 2, 3], True)"
proof -
  have e: "event_rows None events_db = map demo_event [1, 2, 3]"
    by (simp add: event_rows_def events_db_def select_rows_def demo_event_def)
  have "follow demo_renderers None 2 (world_of events_db) (Suc 3) 0 =
    (map (session_event_response_of demo_renderers)
       (filter (\<lambda>e. se_id e > 0) (event_rows None (w_db (world_of events_db)))), True)"
    by (rule cursor_shows_everything)
      (simp_all add: e, simp_all add: events_db_def ids_ok_def demo_event_def)
  then show ?thesis
    by (simp add: e) (simp add: demo_event_def session_event_response_of_def)
qed

end
