(* ===== verification/StoredKeys.thy ===== *)
theory StoredKeys
  imports Catalog Demo
begin

text \<open>
  The keys of upstreams at rest: what is written is the encrypted form, what is read back is the key
  that was given, through creation, reading and updates that leave the key alone
  (\<^verbatim>\<open>db/llm.rs\<close> over \<^verbatim>\<open>crypto.rs\<close>).
\<close>

lemma encrypt_api_key_InrD:
  "encrypt_api_key cy nonce k = Inr c \<Longrightarrow> encrypt_if_configured cy nonce k = Inr c"
  by (auto simp: encrypt_api_key_def split: sum.splits)

lemma decrypt_stored:
  assumes "crates_ok cy" and "length nonce = NONCE_SIZE" and "cy_utf8 cy k"
    and "encrypt_api_key cy nonce k = Inr c" and "up_encrypted_api_key u = c"
  shows "decrypt_upstream cy u =
    (case ellipse_api_key k of
       None \<Rightarrow> Inl (Panicked ''byte index is not a char boundary'')
     | Some e \<Rightarrow> Inr (u\<lparr>up_ellipsed_api_key := e, up_api_key := k\<rparr>))"
  using decrypt_encrypt_if_configured [OF assms(1-3) encrypt_api_key_InrD [OF assms(4)]] assms(5)
  by (auto simp: decrypt_upstream_def decrypt_api_key_def split: option.splits)

text \<open>Reading the upstream \<open>i\<close> without failures.\<close>

lemma get_upstream_row:
  assumes "w_faults w = []" and "ids_ok up_id (llm_upstreams (w_db w))"
    and "u \<in> set (t_rows (llm_upstreams (w_db w)))"
  shows "wp (get_upstream cy (up_id u)) Q w = Q (decrypt_upstream cy u) w"
  using assms
  by (simp add: get_upstream_def query_upstream_def select_upstreams_def no_fault_calls rows_stmt_def
      select_rows_def ids_ok_filter_pk)

text \<open>What the table holds for \<open>k\<close> at \<open>i\<close>: the ciphertext, and no plaintext.\<close>

definition stores_key :: "crypto_env \<Rightarrow> bytes \<Rightarrow> string \<Rightarrow> int \<Rightarrow> db \<Rightarrow> bool" where
  "stores_key cy nonce k i d \<longleftrightarrow>
     (\<exists>u \<in> set (t_rows (llm_upstreams d)).
        up_id u = i \<and> encrypt_api_key cy nonce k = Inr (up_encrypted_api_key u) \<and> up_api_key u = '''')"

lemma get_stored:
  assumes "w_faults w = []" and "ids_ok up_id (llm_upstreams (w_db w))"
    and "crates_ok cy" and "length nonce = NONCE_SIZE" and "cy_utf8 cy k"
    and "stores_key cy nonce k i (w_db w)" and "ellipse_api_key k = Some e"
  shows "\<exists>u. run_state (get_upstream cy i) w = (Inr u, w) \<and> up_id u = i \<and> up_api_key u = k \<and>
           up_ellipsed_api_key u = e"
proof -
  from assms(6) obtain u where u: "u \<in> set (t_rows (llm_upstreams (w_db w)))" "up_id u = i"
      "encrypt_api_key cy nonce k = Inr (up_encrypted_api_key u)"
    unfolding stores_key_def by blast
  have "wp (get_upstream cy (up_id u)) (\<lambda>r t. r = Inr (u\<lparr>up_ellipsed_api_key := e, up_api_key := k\<rparr>) \<and> t = w) w"
    unfolding get_upstream_row [OF assms(1,2) u(1)] decrypt_stored [OF assms(3-5) u(3) refl]
    using assms(7) by simp
  then have "run_state (get_upstream cy i) w = (Inr (u\<lparr>up_ellipsed_api_key := e, up_api_key := k\<rparr>), w)"
    using u(2) by (simp add: wp_run_state prod_eq_iff)
  then show ?thesis using u(2) by simp
qed

lemma create_stores:
  assumes "w_faults w = []" and "encrypt_api_key cy nonce (nu_api_key n) = Inr c"
  shows "let w' = final (create_upstream cy nonce n) w; i = t_seq (llm_upstreams (w_db w)) + 1 in
    w_faults w' = [] \<and>
    llm_upstreams (w_db w') = snd (insert_row (fresh_upstream n c (w_now w)) (llm_upstreams (w_db w))) \<and>
    stores_key cy nonce (nu_api_key n) i (w_db w')"
proof -
  have "wp (create_upstream cy nonce n) (\<lambda>_ t. w_faults t = [] \<and>
      llm_upstreams (w_db t) = snd (insert_row (fresh_upstream n c (w_now w)) (llm_upstreams (w_db w)))) w"
    using assms by (simp add: create_upstream_def no_fault_calls insert_stmt_def Let_def insert_row_def)
  then show ?thesis
    using assms(2)
    by (simp add: wp_run_state Let_def stores_key_def insert_row_def fresh_upstream_def)
qed

lemma update_stores:
  assumes "w_faults w = []" and "ids_ok up_id (llm_upstreams (w_db w))"
    and "crates_ok cy" and "length nonce = NONCE_SIZE" and "cy_utf8 cy k"
    and "stores_key cy nonce k i (w_db w)" and "ellipse_api_key k = Some e"
    and "uu_api_key upd = None" and "encrypt_api_key cy nonce' k = Inr c'"
  shows "let w' = final (update_upstream cy nonce' i upd) w in
    w_faults w' = [] \<and> ids_ok up_id (llm_upstreams (w_db w')) \<and> stores_key cy nonce' k i (w_db w')"
proof -
  from get_stored [OF assms(1-7)] obtain cur where cur:
    "run_state (get_upstream cy i) w = (Inr cur, w)" "up_id cur = i" "up_api_key cur = k" by blast
  let ?f = "\<lambda>u. u\<lparr>
                    up_name := unwrap_or (uu_name upd) (up_name cur),
                    up_api_base := unwrap_or (uu_api_base upd) (up_api_base cur),
                    up_encrypted_api_key := c',
                    up_provider := unwrap_or (uu_provider upd) (up_provider cur),
                    up_tags := unwrap_or (uu_tags upd) (up_tags cur),
                    up_proxies := unwrap_or (uu_proxies upd) (up_proxies cur),
                    up_status := unwrap_or (uu_status upd) (up_status cur),
                    up_description := unwrap_or (uu_description upd) (up_description cur),
                    up_updated_at := unwrap_or (uu_updated_at upd) (up_updated_at cur)\<rparr>"
  have t: "llm_upstreams (w_db (final (update_upstream cy nonce' i upd) w))
      = snd (update_rows (\<lambda>u. up_id u = i) ?f (llm_upstreams (w_db w)))
    \<and> w_faults (final (update_upstream cy nonce' i upd) w) = []"
  proof -
    have "wp (update_upstream cy nonce' i upd) (\<lambda>_ t. llm_upstreams (w_db t)
        = snd (update_rows (\<lambda>u. up_id u = i) ?f (llm_upstreams (w_db w))) \<and> w_faults t = []) w"
      using assms(1,8,9) cur
      by (simp add: update_upstream_def wp_run_state [of "get_upstream cy i"] Let_def query_upstream_def
          no_fault_calls update_stmt_def)
    then show ?thesis by (simp add: wp_run_state)
  qed
  have "stores_key cy nonce' k i (w_db (final (update_upstream cy nonce' i upd) w))"
  proof -
    from assms(6) obtain u where u: "u \<in> set (t_rows (llm_upstreams (w_db w)))" "up_id u = i" "up_api_key u = ''''"
      unfolding stores_key_def by blast
    then have "?f u \<in> set (t_rows (llm_upstreams (w_db (final (update_upstream cy nonce' i upd) w))))"
      unfolding conjunct1 [OF t] t_rows_update by (auto intro!: rev_image_eqI [OF u(1)])
    then show ?thesis
      unfolding stores_key_def by (rule rev_bexI) (simp add: u assms(9))
  qed
  moreover have "ids_ok up_id (llm_upstreams (w_db (final (update_upstream cy nonce' i upd) w)))"
    unfolding conjunct1 [OF t] by (rule ids_ok_update [OF assms(2)]) simp
  ultimately show ?thesis using t by (simp add: Let_def)
qed

section \<open>Properties\<close>


definition demo_crates :: crypto_env where
  "demo_crates = \<lparr>cy_encryption_key = replicate 64 CHR ''0'',
     cy_hex_decode = (\<lambda>s. Inr (take 32 s)), cy_b64_encode = (\<lambda>b. b), cy_b64_decode = Inr,
     cy_seal = (\<lambda>k n p. Some (CHR ''T'' # p)), cy_open = (\<lambda>k n c. Some (tl c)), cy_utf8 = (\<lambda>_. True),
     cy_sha256_hex = (\<lambda>b. b)\<rparr>"

definition demo_new_upstream :: new_llm_upstream where
  "demo_new_upstream = \<lparr>nu_name = ''u'', nu_api_base = ''http://u'', nu_api_key = ''sk-1'',
     nu_provider = ''openai'', nu_tags = [], nu_proxies = [], nu_status = ''online'', nu_description = ''''\<rparr>"

definition no_update :: update_llm_upstream where
  "no_update = \<lparr>uu_name = None, uu_api_base = None, uu_api_key = None, uu_provider = None, uu_tags = None,
     uu_proxies = None, uu_status = None, uu_description = None, uu_updated_at = None\<rparr>"


end
