(* ===== verification/MetaTables.thy ===== *)
theory MetaTables
  imports Sql
begin

text \<open>
  The tables that map the identifiers handed to clients to those of an upstream, and back
  (\<^verbatim>\<open>db/files.rs\<close>, \<^verbatim>\<open>db/responses.rs\<close>, \<^verbatim>\<open>db/batches.rs\<close>).  The locale
  \<open>id_map\<close> is the contract the three tables share: an identifier is mapped once, stays mapped until its
  row is deleted, and is then unknown.
\<close>

section \<open>Files\<close>

definition fresh_file ::
    "string \<Rightarrow> string \<Rightarrow> string \<Rightarrow> int \<Rightarrow> timestamp \<Rightarrow> int \<Rightarrow> file_meta" where
  "fresh_file file_id original_file_id purpose upstream_id now i =
     \<lparr>fm_id = i, fm_file_id = file_id, fm_original_file_id = original_file_id, fm_purpose = purpose,
      fm_upstream_id = upstream_id, fm_deleted = False, fm_created_at = now, fm_updated_at = now\<rparr>"

definition create_file_meta ::
    "string \<Rightarrow> string \<Rightarrow> string \<Rightarrow> int \<Rightarrow> (sqlx_error + file_meta) io" where
  "create_file_meta file_id original_file_id purpose upstream_id =
     fetch_one
       (guard_stmt (\<lambda>d. violates (\<exists>f \<in> set (t_rows (file_metas d)). fm_file_id f = file_id)
           ''idx_file_metas_file_id'')
       (insert_stmt file_metas file_metas_update
          (fresh_file file_id original_file_id purpose upstream_id)))"

definition select_files :: "(file_meta \<Rightarrow> bool) \<Rightarrow> file_meta list stmt" where
  "select_files P = rows_stmt (\<lambda>_ d. select_rows P (file_metas d))"

definition get_file_meta_by_file_id :: "string \<Rightarrow> (sqlx_error + file_meta option) io" where
  "get_file_meta_by_file_id file_id =
     fetch_optional (select_files (\<lambda>f. fm_file_id f = file_id \<and> \<not> fm_deleted f))"

definition get_file_meta_by_original_file_id ::
    "string \<Rightarrow> int \<Rightarrow> (sqlx_error + file_meta option) io" where
  "get_file_meta_by_original_file_id original_file_id upstream_id =
     fetch_optional (page_stmt 1 0 (\<lambda>d. sort_key (\<lambda>f. - fm_id f) (select_rows
       (\<lambda>f. fm_original_file_id f = original_file_id \<and> fm_upstream_id f = upstream_id \<and> \<not> fm_deleted f)
       (file_metas d))))"

definition mark_file_meta_deleted :: "string \<Rightarrow> (sqlx_error + file_meta option) io" where
  "mark_file_meta_deleted file_id =
     fetch_optional (update_stmt file_metas file_metas_update (\<lambda>f. fm_file_id f = file_id)
       (\<lambda>now f. f\<lparr>fm_deleted := True, fm_updated_at := now\<rparr>))"

section \<open>Responses\<close>

definition fresh_response_meta ::
    "string \<Rightarrow> string \<Rightarrow> int \<Rightarrow> timestamp \<Rightarrow> int \<Rightarrow> response_meta" where
  "fresh_response_meta response_id original_response_id upstream_id now i =
     \<lparr>rm_id = i, rm_response_id = response_id, rm_original_response_id = original_response_id,
      rm_upstream_id = upstream_id, rm_deleted = False, rm_created_at = now\<rparr>"

definition create_response_meta ::
    "string \<Rightarrow> string \<Rightarrow> int \<Rightarrow> (sqlx_error + response_meta) io" where
  "create_response_meta response_id original_response_id upstream_id =
     fetch_one
       (guard_stmt (\<lambda>d. violates (\<exists>r \<in> set (t_rows (response_metas d)). rm_response_id r = response_id)
           ''idx_response_metas_response_id'')
       (insert_stmt response_metas response_metas_update
          (fresh_response_meta response_id original_response_id upstream_id)))"

definition select_responses :: "(response_meta \<Rightarrow> bool) \<Rightarrow> response_meta list stmt" where
  "select_responses P = rows_stmt (\<lambda>_ d. select_rows P (response_metas d))"

definition get_response_meta_by_response_id :: "string \<Rightarrow> (sqlx_error + response_meta option) io" where
  "get_response_meta_by_response_id response_id =
     fetch_optional (select_responses (\<lambda>r. rm_response_id r = response_id \<and> \<not> rm_deleted r))"

definition get_response_meta_by_original_response_id ::
    "string \<Rightarrow> (sqlx_error + response_meta option) io" where
  "get_response_meta_by_original_response_id original_response_id =
     fetch_optional
       (select_responses (\<lambda>r. rm_original_response_id r = original_response_id \<and> \<not> rm_deleted r))"

definition get_original_response_id :: "string \<Rightarrow> (sqlx_error + string option) io" where
  "get_original_response_id response_id =
     bind_ok (fetch_optional (select_responses (\<lambda>r. rm_response_id r = response_id \<and> \<not> rm_deleted r)))
       (\<lambda>row. return (Inr (map_option rm_original_response_id row)))"

definition get_response_id_from_original_response_id :: "string \<Rightarrow> (sqlx_error + string option) io" where
  "get_response_id_from_original_response_id original_response_id =
     bind_ok (fetch_optional
         (select_responses (\<lambda>r. rm_original_response_id r = original_response_id \<and> \<not> rm_deleted r)))
       (\<lambda>row. return (Inr (map_option rm_response_id row)))"

definition mark_response_meta_deleted :: "string \<Rightarrow> (sqlx_error + response_meta option) io" where
  "mark_response_meta_deleted response_id =
     fetch_optional (update_stmt response_metas response_metas_update (\<lambda>r. rm_response_id r = response_id)
       (\<lambda>_ r. r\<lparr>rm_deleted := True\<rparr>))"

section \<open>Batches\<close>

text \<open>A new batch is \<^verbatim>\<open>pending\<close>, the default of the column.\<close>

definition fresh_batch_meta ::
    "string \<Rightarrow> string \<Rightarrow> int \<Rightarrow> string \<Rightarrow> timestamp \<Rightarrow> int \<Rightarrow> batch_meta" where
  "fresh_batch_meta batch_id original_batch_id upstream_id provider now i =
     \<lparr>bm_id = i, bm_batch_id = batch_id, bm_original_batch_id = original_batch_id,
      bm_upstream_id = upstream_id, bm_status = ''pending'', bm_provider = provider,
      bm_created_at = now\<rparr>"

definition create_batch_meta_with_provider ::
    "string \<Rightarrow> string \<Rightarrow> int \<Rightarrow> string \<Rightarrow> (sqlx_error + batch_meta) io" where
  "create_batch_meta_with_provider batch_id original_batch_id upstream_id provider =
     fetch_one
       (guard_stmt (\<lambda>d. violates (\<exists>b \<in> set (t_rows (batch_metas d)). bm_batch_id b = batch_id)
           ''idx_batch_metas_batch_id'')
       (insert_stmt batch_metas batch_metas_update
          (fresh_batch_meta batch_id original_batch_id upstream_id provider)))"

definition get_batch_meta_by_batch_id :: "string \<Rightarrow> (sqlx_error + batch_meta option) io" where
  "get_batch_meta_by_batch_id batch_id =
     fetch_optional (rows_stmt (\<lambda>_ d. select_rows (\<lambda>b. bm_batch_id b = batch_id) (batch_metas d)))"

definition update_batch_meta_status :: "string \<Rightarrow> string \<Rightarrow> (sqlx_error + batch_meta option) io" where
  "update_batch_meta_status batch_id status =
     fetch_optional (update_stmt batch_metas batch_metas_update (\<lambda>b. bm_batch_id b = batch_id)
       (\<lambda>_ b. b\<lparr>bm_status := status\<rparr>))"

section \<open>The contract of a mapping table\<close>

text \<open>
  \<open>ext\<close> is the identifier the client knows, \<open>dead\<close> whether the row counts as deleted.  \<open>mapped d k\<close> is
  what a lookup of \<open>k\<close> answers.
\<close>

locale id_map = table_view tab upd pk
  for tab :: "db \<Rightarrow> 'r table" and upd :: "('r table \<Rightarrow> 'r table) \<Rightarrow> db \<Rightarrow> db" and pk :: "'r \<Rightarrow> int" +
  fixes ext :: "'r \<Rightarrow> string"
    and dead :: "'r \<Rightarrow> bool"
    and find :: "string \<Rightarrow> (sqlx_error + 'r option) io"
  assumes find_reads:
    "find k = fetch_optional (rows_stmt (\<lambda>_ d. select_rows (\<lambda>r. ext r = k \<and> \<not> dead r) (tab d)))"
begin

definition mapped :: "db \<Rightarrow> string \<Rightarrow> 'r option" where
  "mapped d k = first_row (select_rows (\<lambda>r. ext r = k \<and> \<not> dead r) (tab d))"

lemma find_mapped:
  assumes "w_faults w = []"
  shows "wp (find k) Q w = Q (Inr (mapped (w_db w) k)) w"
  using assms by (simp add: find_reads mapped_def no_fault_calls rows_stmt_def)

lemma find_faulty:
  "(\<And>fs. Q (Inl Io) (w\<lparr>w_faults := fs\<rparr>)) \<Longrightarrow>
   (\<And>fs. (w_faults w = [] \<Longrightarrow> fs = []) \<Longrightarrow> Q (Inr (mapped (w_db w) k)) (w\<lparr>w_faults := fs\<rparr>)) \<Longrightarrow>
   wp (find k) Q w"
  unfolding find_reads wp_fetch
  by (rule wp_db_stmt) (auto simp: rows_stmt_def mapped_def)

lemma mapped_row: "mapped d k = Some r \<Longrightarrow> r \<in> set (t_rows (tab d)) \<and> ext r = k \<and> \<not> dead r"
  by (auto simp: mapped_def select_rows_def dest!: first_row_mem)

lemma first_row_filter_snoc:
  "first_row (filter P (xs @ [x])) =
     (case first_row (filter P xs) of None \<Rightarrow> if P x then Some x else None | Some y \<Rightarrow> Some y)"
  by (cases "filter P xs") auto

lemma mapped_insert:
  assumes "\<forall>r \<in> set (t_rows (tab d)). ext r \<noteq> ext (mk (t_seq (tab d) + 1))"
  shows "mapped (upd (\<lambda>_. snd (insert_row mk (tab d))) d) k =
    (if k = ext (mk (t_seq (tab d) + 1))
     then if dead (mk (t_seq (tab d) + 1)) then None else Some (mk (t_seq (tab d) + 1))
     else mapped d k)"
proof -
  have "first_row (filter (\<lambda>r. ext r = ext (mk (t_seq (tab d) + 1)) \<and> \<not> dead r) (t_rows (tab d))) = None"
    using assms by (auto simp: filter_empty_conv)
  then show ?thesis
    by (auto simp: mapped_def select_rows_def tab_upd insert_row_def Let_def first_row_filter_snoc
        split: option.splits)
qed

lemma mapped_delete:
  assumes "\<And>r. ext (f r) = ext r" and "\<And>r. dead (f r)"
  shows "mapped (upd (\<lambda>_. snd (update_rows (\<lambda>r. ext r = k) f (tab d))) d) k' =
    (if k' = k then None else mapped d k')"
proof -
  have same: "filter (\<lambda>r. ext r = k' \<and> \<not> dead r) (map (\<lambda>r. if ext r = k then f r else r) rs)
      = (if k' = k then [] else filter (\<lambda>r. ext r = k' \<and> \<not> dead r) rs)" for rs
    by (induction rs) (auto simp: assms)
  show ?thesis
    by (simp add: mapped_def select_rows_def tab_upd update_rows_def same)
qed

end

interpretation file_map: id_map file_metas file_metas_update fm_id fm_file_id fm_deleted
    get_file_meta_by_file_id
  by unfold_locales (simp_all add: get_file_meta_by_file_id_def select_files_def)

interpretation response_map: id_map response_metas response_metas_update rm_id rm_response_id rm_deleted
    get_response_meta_by_response_id
  by unfold_locales (simp_all add: get_response_meta_by_response_id_def select_responses_def)

interpretation batch_map: id_map batch_metas batch_metas_update bm_id bm_batch_id "\<lambda>_. False"
    get_batch_meta_by_batch_id
  by unfold_locales (simp_all add: get_batch_meta_by_batch_id_def)

end
