(* ===== verification/Routing.thy ===== *)
theory Routing
  imports Http Catalog Counters Wallets MetaTables
begin

text \<open>
  What every proxy handler starts with and how it chooses an upstream
  (\<^verbatim>\<open>openai/proxy_views/helpers.rs\<close>, \<^verbatim>\<open>anthropic/proxy_views/helpers.rs\<close>): the wallet
  gate, the candidates of a model by lowest usage, building a client, retrying, marking an upstream
  offline from a spawned task, and the health check that brings it back
  (\<^verbatim>\<open>defer/tasks/upstream_health.rs\<close>).

  \<open>proxy_env\<close> holds what the surroundings decide: the cryptography, the random choice of a proxy URL,
  which proxy URLs and client configurations the HTTP crates accept, the text of the hour, the
  conversion of counter replies, and the fresh identifiers drawn while one request is handled.
\<close>

section \<open>Answers\<close>

text \<open>\<^verbatim>\<open>StatusCode::...into_response()\<close>: no body.\<close>

definition status_only :: "int \<Rightarrow> proxy_error" where
  "status_only status = \<lparr>pe_status = status, pe_message = '''', pe_type = '''', pe_code = ''''\<rparr>"

text \<open>A handler that panics closes the connection without an answer; no HTTP status is 0.\<close>

definition panicked :: "string \<Rightarrow> proxy_error" where
  "panicked msg = \<lparr>pe_status = 0, pe_message = msg, pe_type = ''panic'', pe_code = ''''\<rparr>"

text \<open>\<^verbatim>\<open>{"type": "error", "error": {"type", "message"}}\<close>, the form of the Anthropic API.\<close>

definition anthropic_error :: "int \<Rightarrow> string \<Rightarrow> string \<Rightarrow> proxy_error" where
  "anthropic_error status kind message =
     \<lparr>pe_status = status, pe_message = message, pe_type = kind, pe_code = ''''\<rparr>"

definition quoted :: "string \<Rightarrow> string" where
  "quoted s = [CHR 0x27] @ s @ [CHR 0x27]"

definition openai_missing :: "string \<Rightarrow> string \<Rightarrow> string \<Rightarrow> proxy_error" where
  "openai_missing what i code =
     \<lparr>pe_status = 404, pe_message = what @ '' '' @ quoted i @ '' not found.'',
      pe_type = ''invalid_request_error'', pe_code = code\<rparr>"

text \<open>\<^verbatim>\<open>if let Err(resp) = ... \<lbrace> return resp; \<rbrace>\<close>, and \<^verbatim>\<open>match\<close> on a result whose
  error is already a response: \<open>bind_ok\<close> at the response type.\<close>

section \<open>The wallet gate\<close>

definition no_wallet :: proxy_error where
  "no_wallet = \<lparr>pe_status = 402, pe_message = ''No wallet record found for this account.'',
     pe_type = ''insufficient_wallets'', pe_code = ''no_wallet_record''\<rparr>"

definition wallet_lookup_failed :: proxy_error where
  "wallet_lookup_failed = \<lparr>pe_status = 500, pe_message = ''Internal server error during wallet lookup.'',
     pe_type = ''server_error'', pe_code = ''internal_error''\<rparr>"

definition wallet_empty :: "string \<Rightarrow> proxy_error" where
  "wallet_empty message = \<lparr>pe_status = 402, pe_message = message,
     pe_type = ''insufficient_wallets'', pe_code = ''insufficient_wallets''\<rparr>"

definition check_wallet :: "string \<Rightarrow> int \<Rightarrow> (proxy_error + unit) io" where
  "check_wallet message account_id = do {
     cached \<leftarrow> get_wallet_info account_id;
     wallet \<leftarrow> (case cached of
        Inr (Some f) \<Rightarrow> return (Inr f)
      | _ \<Rightarrow> do {
          found \<leftarrow> find_account_wallet account_id;
          return (case found of
             Inl _ \<Rightarrow> Inl wallet_lookup_failed
           | Inr None \<Rightarrow> Inl no_wallet
           | Inr (Some f) \<Rightarrow> Inr f) });
     return (case wallet of
        Inl resp \<Rightarrow> Inl resp
      | Inr f \<Rightarrow> if wal_balance f \<le> 0 then Inl (wallet_empty message) else Inr ()) }"

text \<open>The OpenAI proxy answers in Chinese; the string is its UTF-8 bytes.\<close>

definition chinese_message :: string where
  "chinese_message = map char_of
     [232, 180, 166, 230, 136, 183, 228, 189, 153, 233, 162, 157, 228, 184, 141, 229, 164, 159, 239, 188,
      140, 232, 175, 183, 229, 133, 133, 229, 128, 188, 229, 144, 142, 231, 187, 167, 231, 187, 173, 228,
      189, 191, 231, 148, 168, 227, 128, 130 :: nat]"

definition check_wallet_balance :: "int \<Rightarrow> (proxy_error + unit) io" where
  "check_wallet_balance account_id = check_wallet chinese_message account_id"

definition anthropic_check_wallet_balance :: "int \<Rightarrow> (proxy_error + unit) io" where
  "anthropic_check_wallet_balance account_id =
     check_wallet ''Balance is insufficient, please fund your wallet'' account_id"

section \<open>Clients\<close>

record sdk_client =
  sc_api_key :: string
  sc_api_base :: string
  sc_proxy :: "string option"

record proxy_env =
  px_crypto :: crypto_env
  px_choose :: "string list \<Rightarrow> string option"
  px_proxy_ok :: "string \<Rightarrow> bool"
  px_sdk_ok :: "sdk_client \<Rightarrow> bool"
  px_hour :: "timestamp \<Rightarrow> string"
  px_conv :: "redis_value option list \<Rightarrow> int option list option"
  px_session :: "int \<Rightarrow> string"
  px_new_file :: string
  px_new_response :: string
  px_new_batch :: string

text \<open>\<^verbatim>\<open>Inl\<close> is a panic.\<close>

definition build_client_from_upstream :: "proxy_env \<Rightarrow> llm_upstream \<Rightarrow> string + sdk_client" where
  "build_client_from_upstream px u =
     (let client = \<lparr>sc_api_key = up_api_key u, sc_api_base = up_api_base u, sc_proxy = None\<rparr> in
      if up_proxies u = [] then Inr client
      else
        (case px_choose px (up_proxies u) of
           None \<Rightarrow> Inr client
         | Some proxy_url \<Rightarrow>
             if px_proxy_ok px proxy_url then Inr (client\<lparr>sc_proxy := Some proxy_url\<rparr>)
             else Inl ''Invalid proxy URL''))"

definition build_client_from_model_upstream ::
    "proxy_env \<Rightarrow> llm_model \<Rightarrow> llm_upstream \<Rightarrow> string + sdk_client \<times> int" where
  "build_client_from_model_upstream px m u =
     (case build_client_from_upstream px u of Inl e \<Rightarrow> Inl e | Inr client \<Rightarrow> Inr (client, mdl_id m))"

record upstream_client =
  uc_client :: sdk_client
  uc_model_db_id :: int
  uc_upstream_id :: int
  uc_fullname :: string

definition build_anthropic_client_context ::
    "proxy_env \<Rightarrow> llm_model \<Rightarrow> llm_upstream \<Rightarrow> string + upstream_client" where
  "build_anthropic_client_context px m u =
     (let config = \<lparr>sc_api_key = up_api_key u, sc_api_base = trim_end_slash (up_api_base u),
                    sc_proxy = (if up_proxies u = [] then None else px_choose px (up_proxies u))\<rparr>
      in if px_sdk_ok px config
         then Inr \<lparr>uc_client = config, uc_model_db_id = mdl_id m, uc_upstream_id = up_id u,
                   uc_fullname = mdl_fullname m\<rparr>
         else Inl ''Failed to build Anthropic SDK client'')"

section \<open>Choosing upstreams\<close>

text \<open>\<^verbatim>\<open>zip\<close>, \<^verbatim>\<open>sort_by_key\<close>, \<^verbatim>\<open>truncate\<close>.\<close>

definition least_used :: "nat \<Rightarrow> int list \<Rightarrow> 'a list \<Rightarrow> 'a list" where
  "least_used n usages models = map snd (take n (sort_key fst (zip usages models)))"

definition select_candidates ::
    "proxy_env \<Rightarrow> string \<Rightarrow> string \<Rightarrow> string \<Rightarrow> nat \<Rightarrow> (llm_model \<times> llm_upstream) list io" where
  "select_candidates px model_name provider feature n = do {
     found \<leftarrow> find_models_by_name_and_capacity (px_crypto px) model_name provider feature;
     (case found of
        Inl _ \<Rightarrow> return []
      | Inr models \<Rightarrow>
          if models = [] then return []
          else do {
            usages \<leftarrow> get_output_token_usage_batch (px_hour px) (px_conv px) (map (\<lambda>(m, _). mdl_id m) models);
            return (least_used n usages models) }) }"

definition select_model_clients ::
    "proxy_env \<Rightarrow> string \<Rightarrow> string \<Rightarrow> string \<Rightarrow> nat \<Rightarrow> (string + upstream_client list) io" where
  "select_model_clients px model_name provider feature n = do {
     models \<leftarrow> select_candidates px model_name provider feature n;
     return (collect_results (map (\<lambda>(m, u).
       (case build_client_from_model_upstream px m u of
          Inl e \<Rightarrow> Inl e
        | Inr (client, model_db_id) \<Rightarrow>
            Inr \<lparr>uc_client = client, uc_model_db_id = model_db_id, uc_upstream_id = up_id u,
                 uc_fullname = mdl_fullname m\<rparr>)) models)) }"

definition select_anthropic_clients ::
    "proxy_env \<Rightarrow> string \<Rightarrow> nat \<Rightarrow> (string + upstream_client list) io" where
  "select_anthropic_clients px model_name n = do {
     models \<leftarrow> select_candidates px model_name ''anthropic'' ''messages'' n;
     return (collect_results (map (\<lambda>(m, u). build_anthropic_client_context px m u) models)) }"

definition select_first_upstream :: "proxy_env \<Rightarrow> (proxy_error + llm_upstream) io" where
  "select_first_upstream px = do {
     r \<leftarrow> list_upstreams (px_crypto px);
     return (case r of
        Inr (u # _) \<Rightarrow> Inr u
      | Inr [] \<Rightarrow> Inl \<lparr>pe_status = 503, pe_message = ''No upstream upstreams configured.'',
                      pe_type = ''server_error'', pe_code = ''no_upstream''\<rparr>
      | Inl _ \<Rightarrow> Inl \<lparr>pe_status = 500, pe_message = ''Internal server error while selecting upstream.'',
                     pe_type = ''server_error'', pe_code = ''internal_error''\<rparr>) }"

text \<open>The upstream a stored identifier belongs to.\<close>

definition get_upstream_by_id :: "proxy_env \<Rightarrow> int \<Rightarrow> (proxy_error + llm_upstream) io" where
  "get_upstream_by_id px upstream_id = do {
     r \<leftarrow> get_upstream (px_crypto px) upstream_id;
     return (case r of
        Inr u \<Rightarrow> Inr u
      | Inl e \<Rightarrow>
          if e = RowNotFound then
            Inl \<lparr>pe_status = 503, pe_message = ''Upstream '' @ show_int upstream_id @ '' not found.'',
                 pe_type = ''server_error'', pe_code = ''upstream_not_found''\<rparr>
          else Inl (status_only 500)) }"

section \<open>Lists of models\<close>

text \<open>\<^verbatim>\<open>filter(|m| seen.insert(m.cname.clone()))\<close>.\<close>

fun keep_first :: "string list \<Rightarrow> llm_model list \<Rightarrow> llm_model list" where
  "keep_first seen [] = []"
| "keep_first seen (m # ms) =
     (if mdl_cname m \<in> set seen then keep_first seen ms
      else m # keep_first (mdl_cname m # seen) ms)"

section \<open>Retrying and marking offline\<close>

text \<open>\<^verbatim>\<open>tokio::spawn\<close> of a task that marks the upstream offline: it runs some time later.\<close>

definition spawn_mark_offline :: "int \<Rightarrow> unit io" where
  "spawn_mark_offline upstream_id = State_Monad.update (w_spawned_update (\<lambda>q. q @ [upstream_id]))"

definition run_spawned :: "unit io" where
  "run_spawned = do {
     w \<leftarrow> State_Monad.get;
     (case w_spawned w of
        [] \<Rightarrow> return ()
      | upstream_id # rest \<Rightarrow> do {
          State_Monad.set (w\<lparr>w_spawned := rest\<rparr>);
          _ \<leftarrow> mark_upstream_offline upstream_id;
          return () }) }"

text \<open>
  The loop over the candidates.  \<open>attempt\<close> is one try; an answer, good or bad, ends the loop, an error
  of the upstream marks it offline when \<open>network\<close> says so and goes on with the next candidate.
\<close>

fun try_clients ::
    "proxy_error \<Rightarrow> ('e \<Rightarrow> bool) \<Rightarrow> (upstream_client \<Rightarrow> ('e + (proxy_error + 'b)) io) \<Rightarrow>
     upstream_client list \<Rightarrow> (proxy_error + 'b) io" where
  "try_clients failed network attempt [] = return (Inl (panicked ''unreachable''))"
| "try_clients failed network attempt (c # cs) = do {
     r \<leftarrow> attempt c;
     (case r of
        Inr response \<Rightarrow> return response
      | Inl e \<Rightarrow> do {
          _ \<leftarrow> (if network e then spawn_mark_offline (uc_upstream_id c) else return ());
          if cs \<noteq> [] then try_clients failed network attempt cs
          else return (Inl failed) }) }"

section \<open>The health check\<close>

text \<open>
  \<open>probe url key\<close> is the status of \<^verbatim>\<open>GET url\<close>, \<open>None\<close> when the request fails; the checks of the
  offline upstreams run one after the other, in the order of the list.
\<close>

definition check_upstream_health :: "(string \<Rightarrow> string \<Rightarrow> int option) \<Rightarrow> string \<Rightarrow> string \<Rightarrow> bool" where
  "check_upstream_health probe api_base api_key =
     (case probe (trim_end_slash api_base @ ''/models'') api_key of
        None \<Rightarrow> False
      | Some status \<Rightarrow> 200 \<le> status \<and> status < 300)"

fun check_each :: "(string \<Rightarrow> string \<Rightarrow> int option) \<Rightarrow> llm_upstream list \<Rightarrow> unit io" where
  "check_each probe [] = return ()"
| "check_each probe (u # us) = do {
     _ \<leftarrow> (if check_upstream_health probe (up_api_base u) (up_api_key u)
          then mark_upstream_online (up_id u) else return (Inr ()));
     check_each probe us }"

definition check_offline_upstreams :: "crypto_env \<Rightarrow> (string \<Rightarrow> string \<Rightarrow> int option) \<Rightarrow> unit io" where
  "check_offline_upstreams cy probe = do {
     r \<leftarrow> list_offline_upstreams cy;
     (case r of
        Inl _ \<Rightarrow> return ()
      | Inr us \<Rightarrow> check_each probe us) }"

end
