(* ===== verification/Tracer.thy ===== *)
theory Tracer
  imports Effects
begin

text \<open>
  Session tracers (\<^verbatim>\<open>openai/session_tracer.rs\<close>, \<^verbatim>\<open>anthropic/session_tracer.rs\<close>): the
  events of one request, numbered from 0 and pushed to the queue of the event workers.  A push that
  fails loses its event and keeps its number.  A tracer is a value; \<^verbatim>\<open>add\<close> takes it by
  mutable reference and here returns its new value.
\<close>

record session_tracer =
  trc_session_id :: string
  trc_session_index :: int
  trc_account_id :: int
  trc_model_id :: int
  trc_api_key_id :: int

definition new_tracer :: "string \<Rightarrow> int \<Rightarrow> int \<Rightarrow> int \<Rightarrow> session_tracer" where
  "new_tracer session_id account_id model_id api_key_id =
     \<lparr>trc_session_id = session_id, trc_session_index = 0, trc_account_id = account_id,
      trc_model_id = model_id, trc_api_key_id = api_key_id\<rparr>"

text \<open>The index is an \<^verbatim>\<open>i32\<close>.\<close>

definition wrap_i32 :: "int \<Rightarrow> int" where
  "wrap_i32 x = (x + 2 ^ 31) mod 2 ^ 32 - 2 ^ 31"

definition next_tracer :: "session_tracer \<Rightarrow> session_tracer" where
  "next_tracer t = t\<lparr>trc_session_index := wrap_i32 (trc_session_index t + 1)\<rparr>"

definition openai_task :: "session_tracer \<Rightarrow> openai_event_data \<Rightarrow> openai_event_task" where
  "openai_task t data =
     \<lparr>oet_session_id = trc_session_id t, oet_session_index = trc_session_index t,
      oet_account_id = trc_account_id t, oet_model_id = trc_model_id t,
      oet_api_key_id = trc_api_key_id t, oet_event_data = data\<rparr>"

definition openai_add :: "session_tracer \<Rightarrow> openai_event_data \<Rightarrow> session_tracer io" where
  "openai_add t data = do {
     _ \<leftarrow> push_openai (openai_task t data);
     return (next_tracer t) }"

definition anthropic_task :: "session_tracer \<Rightarrow> anthropic_event_data \<Rightarrow> anthropic_event_task" where
  "anthropic_task t data =
     \<lparr>aet_session_id = trc_session_id t, aet_session_index = trc_session_index t,
      aet_account_id = trc_account_id t, aet_model_id = trc_model_id t,
      aet_api_key_id = trc_api_key_id t, aet_event_data = data\<rparr>"

definition anthropic_add :: "session_tracer \<Rightarrow> anthropic_event_data \<Rightarrow> session_tracer io" where
  "anthropic_add t data = do {
     _ \<leftarrow> push_anthropic (anthropic_task t data);
     return (next_tracer t) }"

lemma wrap_i32_small [simp]: "0 \<le> x \<Longrightarrow> x < 2 ^ 31 \<Longrightarrow> wrap_i32 x = x"
  by (simp add: wrap_i32_def)

lemma tracer_fields [simp]:
  "trc_session_id (new_tracer s a m k) = s" "trc_session_index (new_tracer s a m k) = 0"
  "trc_account_id (new_tracer s a m k) = a" "trc_model_id (new_tracer s a m k) = m"
  "trc_api_key_id (new_tracer s a m k) = k"
  "trc_session_id (next_tracer t) = trc_session_id t"
  "trc_session_index (next_tracer t) = wrap_i32 (trc_session_index t + 1)"
  "trc_account_id (next_tracer t) = trc_account_id t" "trc_model_id (next_tracer t) = trc_model_id t"
  "trc_api_key_id (next_tracer t) = trc_api_key_id t"
  by (simp_all add: new_tracer_def next_tracer_def)

lemma queue_updates [simp]:
  "w_openai_q_update (\<lambda>q. q @ xs) w = w\<lparr>w_openai_q := w_openai_q w @ xs\<rparr>"
  "w_anthropic_q_update (\<lambda>q. q @ ys) w = w\<lparr>w_anthropic_q := w_anthropic_q w @ ys\<rparr>"
  by (cases w; simp)+

text \<open>With a working queue the event is there, otherwise the queue is as it was.\<close>

lemma wp_openai_add_ok [simp]:
  "w_faults w = [] \<Longrightarrow>
   wp (openai_add t data) Q w = Q (next_tracer t) (w\<lparr>w_openai_q := w_openai_q w @ [openai_task t data]\<rparr>)"
  by (simp add: openai_add_def push_openai_def wp_push_queue_ok)

lemma wp_anthropic_add_ok [simp]:
  "w_faults w = [] \<Longrightarrow>
   wp (anthropic_add t data) Q w
     = Q (next_tracer t) (w\<lparr>w_anthropic_q := w_anthropic_q w @ [anthropic_task t data]\<rparr>)"
  by (simp add: anthropic_add_def push_anthropic_def wp_push_queue_ok)

lemma wp_openai_add:
  "(\<And>fs. Q (next_tracer t) (w\<lparr>w_faults := fs\<rparr>)) \<Longrightarrow>
   (\<And>fs. Q (next_tracer t) (w\<lparr>w_faults := fs, w_openai_q := w_openai_q w @ [openai_task t data]\<rparr>)) \<Longrightarrow>
   wp (openai_add t data) Q w"
  unfolding openai_add_def push_openai_def wp_bind
  by (rule wp_push_queue) simp_all

lemma wp_anthropic_add:
  "(\<And>fs. Q (next_tracer t) (w\<lparr>w_faults := fs\<rparr>)) \<Longrightarrow>
   (\<And>fs. Q (next_tracer t) (w\<lparr>w_faults := fs, w_anthropic_q := w_anthropic_q w @ [anthropic_task t data]\<rparr>)) \<Longrightarrow>
   wp (anthropic_add t data) Q w"
  unfolding anthropic_add_def push_anthropic_def wp_bind
  by (rule wp_push_queue) simp_all

end
