(* ===== verification/OpenAIProxy.thy ===== *)
theory OpenAIProxy
  imports Routing Tracer
begin

text \<open>
  The generating endpoints of the OpenAI proxy (\<^verbatim>\<open>openai/proxy_views/\<close>): chat completions,
  embeddings, images, speech, responses, and the list of models.  What the SDK makes of a call to the
  upstream is an argument \<open>send\<close> of each handler; its answer may depend on the client that was chosen
  and on the payload.  \<open>acc\<close> and \<open>key\<close> are the account and credential of the authenticated request.
\<close>

datatype openai_error = Reqwest string | OpenAIError string

fun is_network_error :: "openai_error \<Rightarrow> bool" where
  "is_network_error (Reqwest _) = True"
| "is_network_error (OpenAIError _) = False"

text \<open>The common start of the generating handlers: no client is an empty answer with status 500.\<close>

definition with_clients ::
    "proxy_env \<Rightarrow> string \<Rightarrow> string \<Rightarrow> nat \<Rightarrow> (upstream_client list \<Rightarrow> 'b response_io) \<Rightarrow> 'b response_io" where
  "with_clients px model_name feature n k = do {
     r \<leftarrow> select_model_clients px model_name ''openai'' feature n;
     (case r of
        Inl msg \<Rightarrow> return (Inl (panicked msg))
      | Inr clients \<Rightarrow> if clients = [] then return (Inl (status_only 500)) else k clients) }"

definition tracer_for :: "proxy_env \<Rightarrow> account \<Rightarrow> api_credential \<Rightarrow> upstream_client \<Rightarrow> session_tracer" where
  "tracer_for px acc key c =
     new_tracer (px_session px (uc_model_db_id c)) (acc_id acc) (uc_model_db_id c) (cred_id key)"

section \<open>Chat completions\<close>

text \<open>A JSON answer, or the data of the server-sent events of a stream.\<close>

datatype chat_reply = ChatJson chat_response | ChatStream "string list"

text \<open>
  \<^verbatim>\<open>transform_stream_with_logging\<close>.  \<open>items\<close> is what the upstream sends, \<open>ser\<close> serialises a
  chunk; \<open>hangup\<close> is the number of chunks after which the client closes the connection, if it does:
  the stream is dropped then, and nothing after that point runs.
\<close>

definition stream_end :: "session_tracer \<Rightarrow> string list io" where
  "stream_end tracer = do {
     _ \<leftarrow> openai_add tracer CreateChatCompletionStreamResponseDone;
     return [''[DONE]''] }"

fun transform_stream ::
    "(chat_response \<Rightarrow> string option) \<Rightarrow> nat option \<Rightarrow> session_tracer \<Rightarrow>
     (openai_error + chat_response) list \<Rightarrow> string list io" where
  "transform_stream ser (Some 0) tracer items = return []"
| "transform_stream ser hangup tracer [] = stream_end tracer"
| "transform_stream ser hangup tracer (Inl e # items) = stream_end tracer"
| "transform_stream ser hangup tracer (Inr chunk # items) = do {
     tracer' \<leftarrow> openai_add tracer (CreateChatCompletionStreamResponse chunk);
     rest \<leftarrow> transform_stream ser (map_option (\<lambda>n. n - 1) hangup) tracer' items;
     return ((case ser chunk of Some data \<Rightarrow> [data] | None \<Rightarrow> []) @ rest) }"

record chat_upstream =
  cup_create :: "upstream_client \<Rightarrow> chat_request \<Rightarrow> openai_error + chat_response"
  cup_stream :: "upstream_client \<Rightarrow> chat_request \<Rightarrow> openai_error + (openai_error + chat_response) list"
  cup_ser :: "chat_response \<Rightarrow> string option"
  cup_hangup :: "nat option"

definition chat_completions_with_client ::
    "chat_upstream \<Rightarrow> session_tracer \<Rightarrow> chat_request \<Rightarrow> upstream_client \<Rightarrow>
     (openai_error + (proxy_error + chat_reply)) io" where
  "chat_completions_with_client up tracer payload client = do {
     tracer' \<leftarrow> openai_add tracer (CreateChatCompletionRequest payload);
     if unwrap_or (ccr_stream payload) False then
       (case cup_stream up client payload of
          Inl e \<Rightarrow> return (Inl e)
        | Inr items \<Rightarrow> do {
            events \<leftarrow> transform_stream (cup_ser up) (cup_hangup up) tracer' items;
            return (Inr (Inr (ChatStream events))) })
     else
       (case cup_create up client payload of
          Inl e \<Rightarrow> return (Inl e)
        | Inr response \<Rightarrow> do {
            _ \<leftarrow> openai_add tracer' (CreateChatCompletionResponse response);
            return (Inr (Inr (ChatJson response))) }) }"

definition chat_completions ::
    "proxy_env \<Rightarrow> chat_upstream \<Rightarrow> api_credential \<Rightarrow> account \<Rightarrow> chat_request \<Rightarrow> chat_reply response_io" where
  "chat_completions px up key acc payload =
     bind_ok (check_wallet_balance (acc_id acc)) (\<lambda>_.
       with_clients px (ccr_model payload) ''chat/completions'' 2 (\<lambda>clients.
         try_clients (status_only 500) is_network_error
           (\<lambda>c. chat_completions_with_client up (tracer_for px acc key c)
                  (payload\<lparr>ccr_model := uc_fullname c\<rparr>) c)
           clients))"

section \<open>Embeddings\<close>

definition create_embeddings_with_client ::
    "(upstream_client \<Rightarrow> embedding_request \<Rightarrow> openai_error + embedding_response) \<Rightarrow> session_tracer \<Rightarrow>
     embedding_request \<Rightarrow> upstream_client \<Rightarrow> (openai_error + (proxy_error + embedding_response)) io" where
  "create_embeddings_with_client send tracer payload client = do {
     tracer' \<leftarrow> openai_add tracer (CreateEmbeddingRequest payload);
     (case send client payload of
        Inl e \<Rightarrow> return (Inl e)
      | Inr response \<Rightarrow> do {
          _ \<leftarrow> openai_add tracer' (CreateEmbeddingResponse response);
          return (Inr (Inr response)) }) }"

definition create_embeddings ::
    "proxy_env \<Rightarrow> (upstream_client \<Rightarrow> embedding_request \<Rightarrow> openai_error + embedding_response) \<Rightarrow>
     api_credential \<Rightarrow> account \<Rightarrow> embedding_request \<Rightarrow> embedding_response response_io" where
  "create_embeddings px send key acc payload =
     bind_ok (check_wallet_balance (acc_id acc)) (\<lambda>_.
       with_clients px (emr_model payload) ''embeddings'' 2 (\<lambda>clients.
         try_clients (status_only 500) is_network_error
           (\<lambda>c. create_embeddings_with_client send (tracer_for px acc key c)
                  (payload\<lparr>emr_model := uc_fullname c\<rparr>) c)
           clients))"

section \<open>Images\<close>

fun image_model_to_string :: "image_model option \<Rightarrow> string" where
  "image_model_to_string (Some GptImage1) = ''gpt-image-1''"
| "image_model_to_string (Some GptImage1dot5) = ''gpt-image-1.5''"
| "image_model_to_string (Some GptImage1Mini) = ''gpt-image-1-mini''"
| "image_model_to_string (Some DallE2) = ''dall-e-2''"
| "image_model_to_string (Some DallE3) = ''dall-e-3''"
| "image_model_to_string (Some (OtherImageModel s)) = s"
| "image_model_to_string None = ''dall-e-2''"

definition generate_images_with_client ::
    "(upstream_client \<Rightarrow> image_request \<Rightarrow> openai_error + images_response) \<Rightarrow> session_tracer \<Rightarrow>
     image_request \<Rightarrow> upstream_client \<Rightarrow> (openai_error + (proxy_error + images_response)) io" where
  "generate_images_with_client send tracer payload client = do {
     tracer' \<leftarrow> openai_add tracer (CreateImageRequest payload);
     (case send client payload of
        Inl e \<Rightarrow> return (Inl e)
      | Inr response \<Rightarrow> do {
          _ \<leftarrow> openai_add tracer' (ImagesResponse response);
          return (Inr (Inr response)) }) }"

text \<open>The payload keeps the model of the client's request, and no error marks an upstream offline.\<close>

definition generate_images ::
    "proxy_env \<Rightarrow> (upstream_client \<Rightarrow> image_request \<Rightarrow> openai_error + images_response) \<Rightarrow>
     api_credential \<Rightarrow> account \<Rightarrow> image_request \<Rightarrow> images_response response_io" where
  "generate_images px send key acc payload =
     bind_ok (check_wallet_balance (acc_id acc)) (\<lambda>_.
       with_clients px (image_model_to_string (imr_model payload)) ''images'' 2 (\<lambda>clients.
         try_clients (status_only 500) (\<lambda>_. False)
           (\<lambda>c. generate_images_with_client send (tracer_for px acc key c) payload c)
           clients))"

section \<open>Speech\<close>

datatype speech_model = Tts1 | Tts1Hd | Gpt4oMiniTts | OtherSpeechModel string

record speech_request =
  spr_model :: speech_model
  spr_rest :: json

fun speech_model_to_string :: "speech_model \<Rightarrow> string" where
  "speech_model_to_string Tts1 = ''tts-1''"
| "speech_model_to_string Tts1Hd = ''tts-1-hd''"
| "speech_model_to_string Gpt4oMiniTts = ''gpt-4o-mini-tts''"
| "speech_model_to_string (OtherSpeechModel s) = s"

text \<open>One candidate, no tracer: speech is never billed.  The answer is the bytes of the audio.\<close>

definition create_speech ::
    "proxy_env \<Rightarrow> (upstream_client \<Rightarrow> speech_request \<Rightarrow> openai_error + bytes) \<Rightarrow>
     account \<Rightarrow> speech_request \<Rightarrow> bytes response_io" where
  "create_speech px send acc payload =
     bind_ok (check_wallet_balance (acc_id acc)) (\<lambda>_.
       with_clients px (speech_model_to_string (spr_model payload)) ''audio/speech'' 1 (\<lambda>clients.
         let upstream_client = hd clients in
         (case send upstream_client payload of
            Inr audio \<Rightarrow> return (Inr audio)
          | Inl e \<Rightarrow> do {
              _ \<leftarrow> (if is_network_error e then spawn_mark_offline (uc_upstream_id upstream_client)
                   else return ());
              return (Inl (status_only 500)) })))"

section \<open>The list of models\<close>

record openai_model =
  om_id :: string
  om_object :: string
  om_created :: int
  om_owned_by :: string

definition list_merged_models :: "openai_model list response_io" where
  "list_merged_models = do {
     res \<leftarrow> list_models ''openai'' (Some ''chat/completions'');
     return (case res of
        Inl _ \<Rightarrow> Inl (status_only 500)
      | Inr models \<Rightarrow>
          Inr (map (\<lambda>m. \<lparr>om_id = mdl_cname m, om_object = ''model'',
                        om_created = mdl_created_at m div 1000000 mod 2 ^ 32,
                        om_owned_by = ''system''\<rparr>) (keep_first [] models))) }"

end
