(* ===== verification/AnthropicProxy.thy ===== *)
theory AnthropicProxy
  imports Routing Tracer
begin

text \<open>
  Messages, token counting and models of the Anthropic proxy
  (\<^verbatim>\<open>anthropic/proxy_views/messages.rs\<close>, \<^verbatim>\<open>models.rs\<close>, and the HTTP helpers of
  \<^verbatim>\<open>helpers.rs\<close>).  Calls through the SDK are an argument; calls the program makes itself go
  through \<open>transport\<close>: building an HTTP client, sending one request, and the error the SDK makes of a
  bad status.
\<close>

section \<open>Plain HTTP calls\<close>

datatype sdk_error = Connection string | SdkError string

fun is_sdk_network_error :: "sdk_error \<Rightarrow> bool" where
  "is_sdk_network_error (Connection _) = True"
| "is_sdk_network_error (SdkError _) = False"

datatype auth_method = BearerAuth | TokenAuth | AnthropicAuth

record 'req http_call =
  hc_method :: string
  hc_url :: string
  hc_headers :: "(string \<times> string) list"
  hc_body :: "'req option"
  hc_proxy :: "string option"

record 'resp http_answer =
  ha_status :: int
  ha_headers :: "(string \<times> string) list"
  ha_text :: "string + string"
  ha_json :: "string + 'resp"

text \<open>\<open>tp_build\<close> is the error of building a client with this proxy, if there is one.\<close>

record ('req, 'resp) transport =
  tp_build :: "string option \<Rightarrow> string option"
  tp_auth :: auth_method
  tp_send :: "'req http_call \<Rightarrow> string + 'resp http_answer"
  tp_from_status :: "int \<Rightarrow> string \<Rightarrow> sdk_error"

text \<open>\<^verbatim>\<open>text().await.unwrap_or_default()\<close>: the body may fail to arrive.\<close>

definition text_or_default :: "string + string \<Rightarrow> string" where
  "text_or_default r = (case r of Inl _ \<Rightarrow> '''' | Inr s \<Rightarrow> s)"

definition is_success :: "int \<Rightarrow> bool" where
  "is_success status \<longleftrightarrow> 200 \<le> status \<and> status < 300"

definition auth_header :: "auth_method \<Rightarrow> string \<Rightarrow> string \<times> string" where
  "auth_header m api_key =
     (case m of
        BearerAuth \<Rightarrow> (''authorization'', ''Bearer '' @ api_key)
      | TokenAuth \<Rightarrow> (''token'', api_key)
      | AnthropicAuth \<Rightarrow> (''x-api-key'', api_key))"

text \<open>A proxy URL the crate does not accept is left out here.\<close>

definition usable_proxy :: "proxy_env \<Rightarrow> sdk_client \<Rightarrow> string option" where
  "usable_proxy px client =
     (case sc_proxy client of Some p \<Rightarrow> if px_proxy_ok px p then Some p else None | None \<Rightarrow> None)"

definition version_header :: "string \<times> string" where
  "version_header = (''anthropic-version'', ''2023-06-01'')"

definition json_header :: "string \<times> string" where
  "json_header = (''content-type'', ''application/json'')"

definition send_call ::
    "proxy_env \<Rightarrow> ('req, 'resp) transport \<Rightarrow> sdk_client \<Rightarrow> string \<Rightarrow> string \<Rightarrow> (string \<times> string) list \<Rightarrow>
     'req option \<Rightarrow> sdk_error + 'resp http_answer" where
  "send_call px tp client method path headers body =
     (case tp_build tp (usable_proxy px client) of
        Some e \<Rightarrow> Inl (Connection e)
      | None \<Rightarrow>
          (case tp_send tp \<lparr>hc_method = method, hc_url = trim_end_slash (sc_api_base client) @ path,
                            hc_headers = headers @ [auth_header (tp_auth tp) (sc_api_key client)],
                            hc_body = body, hc_proxy = usable_proxy px client\<rparr> of
             Inl e \<Rightarrow> Inl (Connection e)
           | Inr answer \<Rightarrow>
               if \<not> is_success (ha_status answer)
               then Inl (tp_from_status tp (ha_status answer) (text_or_default (ha_text answer)))
               else Inr answer))"

text \<open>A body that does not decode is reported as a connection error.\<close>

definition decode_answer :: "sdk_error + 'resp http_answer \<Rightarrow> sdk_error + 'resp" where
  "decode_answer r =
     (case r of
        Inl e \<Rightarrow> Inl e
      | Inr answer \<Rightarrow> (case ha_json answer of Inl e \<Rightarrow> Inl (Connection e) | Inr v \<Rightarrow> Inr v))"

definition anthropic_sdk_request ::
    "proxy_env \<Rightarrow> ('req, 'resp) transport \<Rightarrow> sdk_client \<Rightarrow> string \<Rightarrow> 'req \<Rightarrow> sdk_error + 'resp" where
  "anthropic_sdk_request px tp client path body =
     decode_answer (send_call px tp client ''POST'' path [json_header, version_header] (Some body))"

definition anthropic_sdk_get_request ::
    "proxy_env \<Rightarrow> ('req, 'resp) transport \<Rightarrow> sdk_client \<Rightarrow> string \<Rightarrow> sdk_error + 'resp" where
  "anthropic_sdk_get_request px tp client path =
     decode_answer (send_call px tp client ''GET'' path [json_header, version_header] None)"

definition anthropic_sdk_get_raw ::
    "proxy_env \<Rightarrow> ('req, 'resp) transport \<Rightarrow> sdk_client \<Rightarrow> string \<Rightarrow> sdk_error + 'resp http_answer" where
  "anthropic_sdk_get_raw px tp client path = send_call px tp client ''GET'' path [version_header] None"

section \<open>Conversion to and from the SDK\<close>

datatype sdk_role = User | Assistant

record sdk_message_param =
  smp_role :: sdk_role
  smp_content :: string

record message_create_params =
  mcp_model :: string
  mcp_max_tokens :: int
  mcp_messages :: "sdk_message_param list"
  mcp_system :: "string option"
  mcp_temperature :: "decimal option"
  mcp_top_p :: "decimal option"
  mcp_top_k :: "int option"
  mcp_stop_sequences :: "string list option"
  mcp_stream :: "bool option"
  mcp_tools :: "json option"
  mcp_tool_choice :: "json option"
  mcp_metadata :: "json option"

text \<open>\<open>show_json\<close> is \<^verbatim>\<open>Value::to_string\<close>.  Content and system prompts that are not strings become
  their JSON text; tools, tool choice and metadata are dropped.\<close>

definition to_sdk_params :: "(json \<Rightarrow> string) \<Rightarrow> create_message_params \<Rightarrow> message_create_params" where
  "to_sdk_params show_json params =
     \<lparr>mcp_model = cmp_model params, mcp_max_tokens = cmp_max_tokens params,
      mcp_messages = map (\<lambda>m.
        \<lparr>smp_role = (if mp_role m = ''assistant'' then Assistant else User),
         smp_content = (case mp_content m of Text s \<Rightarrow> s | Block v \<Rightarrow> show_json v)\<rparr>) (cmp_messages params),
      mcp_system = map_option (\<lambda>v. case v of JStr s \<Rightarrow> s | other \<Rightarrow> show_json other) (cmp_system params),
      mcp_temperature = cmp_temperature params, mcp_top_p = cmp_top_p params, mcp_top_k = cmp_top_k params,
      mcp_stop_sequences = cmp_stop_sequences params, mcp_stream = cmp_stream params,
      mcp_tools = None, mcp_tool_choice = None, mcp_metadata = None\<rparr>"

datatype sdk_content_block =
    SdkText string
  | SdkImage json
  | SdkToolUse string string json
  | SdkToolResult string json json

datatype stop_reason = EndTurn | MaxTokens | StopSequence | ToolUse

record sdk_message =
  sdm_id :: string
  sdm_type :: string
  sdm_role :: sdk_role
  sdm_content :: "sdk_content_block list"
  sdm_model :: string
  sdm_stop_reason :: "stop_reason option"
  sdm_stop_sequence :: "string option"
  sdm_usage :: usage

fun block_json :: "sdk_content_block \<Rightarrow> json" where
  "block_json (SdkText text) = JObj [(''type'', JStr ''text''), (''text'', JStr text)]"
| "block_json (SdkImage source) = JObj [(''type'', JStr ''image''), (''source'', source)]"
| "block_json (SdkToolUse i name input) =
     JObj [(''type'', JStr ''tool_use''), (''id'', JStr i), (''name'', JStr name), (''input'', input)]"
| "block_json (SdkToolResult i content is_error) =
     JObj [(''type'', JStr ''tool_result''), (''tool_use_id'', JStr i), (''content'', content),
           (''is_error'', is_error)]"

fun stop_reason_string :: "stop_reason \<Rightarrow> string" where
  "stop_reason_string EndTurn = ''end_turn''"
| "stop_reason_string MaxTokens = ''max_tokens''"
| "stop_reason_string StopSequence = ''stop_sequence''"
| "stop_reason_string ToolUse = ''tool_use''"

fun role_string :: "sdk_role \<Rightarrow> string" where
  "role_string User = ''user''"
| "role_string Assistant = ''assistant''"

text \<open>The SDK's counters are \<^verbatim>\<open>u32\<close>; widening them is exact.\<close>

definition from_sdk_message :: "sdk_message \<Rightarrow> message" where
  "from_sdk_message m =
     \<lparr>msg_id = sdm_id m, msg_type = sdm_type m, msg_role = role_string (sdm_role m),
      msg_content = map block_json (sdm_content m), msg_model = sdm_model m,
      msg_stop_reason = map_option stop_reason_string (sdm_stop_reason m),
      msg_stop_sequence = sdm_stop_sequence m, msg_usage = sdm_usage m\<rparr>"

section \<open>Streams\<close>

datatype stream_event =
    MessageStart sdk_message
  | MessageDelta int json
  | MessageStop
  | ContentBlockStart json
  | ContentBlockDelta json
  | ContentBlockStop json

fun event_name :: "stream_event \<Rightarrow> string" where
  "event_name (MessageStart _) = ''message_start''"
| "event_name (MessageDelta _ _) = ''message_delta''"
| "event_name MessageStop = ''message_stop''"
| "event_name (ContentBlockStart _) = ''content_block_start''"
| "event_name (ContentBlockDelta _) = ''content_block_delta''"
| "event_name (ContentBlockStop _) = ''content_block_stop''"

definition sdk_event_to_sse :: "(stream_event \<Rightarrow> string option) \<Rightarrow> stream_event \<Rightarrow> string \<times> string" where
  "sdk_event_to_sse ser ev = (event_name ev, unwrap_or (ser ev) ''{}'')"

text \<open>
  The usage counters follow the events; only \<^verbatim>\<open>MessageStop\<close> records them.  \<open>hangup\<close> is the number
  of events after which the client closes the connection, if it does.
\<close>

fun transform_sdk_stream ::
    "(stream_event \<Rightarrow> string option) \<Rightarrow> nat option \<Rightarrow> session_tracer \<Rightarrow> int \<Rightarrow> int \<Rightarrow>
     (sdk_error + stream_event) list \<Rightarrow> (string \<times> string) list io" where
  "transform_sdk_stream ser (Some 0) tracer i out items = return []"
| "transform_sdk_stream ser hangup tracer i out [] = return []"
| "transform_sdk_stream ser hangup tracer i out (Inl e # items) = return []"
| "transform_sdk_stream ser hangup tracer i out (Inr ev # items) = do {
     let i' = (case ev of MessageStart m \<Rightarrow> us_input_tokens (sdm_usage m) | _ \<Rightarrow> i);
     let out' = (case ev of MessageDelta n _ \<Rightarrow> n | _ \<Rightarrow> out);
     tracer' \<leftarrow> (if ev = MessageStop
                 then anthropic_add tracer (CreateMessageStreamResponseDone i out)
                 else return tracer);
     rest \<leftarrow> transform_sdk_stream ser (map_option (\<lambda>n. n - 1) hangup) tracer' i' out' items;
     return (sdk_event_to_sse ser ev # rest) }"

section \<open>Messages\<close>

datatype message_reply = MessageJson message | MessageStream "(string \<times> string) list"

record message_upstream =
  mup_create :: "upstream_client \<Rightarrow> message_create_params \<Rightarrow> sdk_error + sdk_message"
  mup_stream :: "upstream_client \<Rightarrow> message_create_params \<Rightarrow> sdk_error + (sdk_error + stream_event) list"
  mup_ser :: "stream_event \<Rightarrow> string option"
  mup_show_json :: "json \<Rightarrow> string"
  mup_hangup :: "nat option"

definition no_anthropic_client :: "string \<Rightarrow> proxy_error" where
  "no_anthropic_client message = anthropic_error 503 ''overloaded_error'' message"

definition with_anthropic_clients ::
    "proxy_env \<Rightarrow> string \<Rightarrow> nat \<Rightarrow> string \<Rightarrow> (upstream_client list \<Rightarrow> 'b response_io) \<Rightarrow> 'b response_io" where
  "with_anthropic_clients px model_name n message k = do {
     r \<leftarrow> select_anthropic_clients px model_name n;
     (case r of
        Inl msg \<Rightarrow> return (Inl (panicked msg))
      | Inr clients \<Rightarrow> if clients = [] then return (Inl (no_anthropic_client message)) else k clients) }"

definition attempt_message ::
    "message_upstream \<Rightarrow> session_tracer \<Rightarrow> create_message_params \<Rightarrow> upstream_client \<Rightarrow>
     (sdk_error + (proxy_error + message_reply)) io" where
  "attempt_message up tracer payload c =
     (let sdk_params = to_sdk_params (mup_show_json up) payload in
      if unwrap_or (cmp_stream payload) False then do {
        tracer' \<leftarrow> anthropic_add tracer (CreateMessageStreamRequest payload);
        (case mup_stream up c sdk_params of
           Inl e \<Rightarrow> return (Inl e)
         | Inr items \<Rightarrow> do {
             events \<leftarrow> transform_sdk_stream (mup_ser up) (mup_hangup up) tracer' 0 0 items;
             return (Inr (Inr (MessageStream events))) }) }
      else do {
        tracer' \<leftarrow> anthropic_add tracer (CreateMessageRequest payload);
        (case mup_create up c sdk_params of
           Inl e \<Rightarrow> return (Inl e)
         | Inr sdk_message \<Rightarrow> do {
             let msg = from_sdk_message sdk_message;
             _ \<leftarrow> anthropic_add tracer' (CreateMessageResponse msg);
             return (Inr (Inr (MessageJson msg))) }) })"

definition create_message ::
    "proxy_env \<Rightarrow> message_upstream \<Rightarrow> api_credential \<Rightarrow> account \<Rightarrow> create_message_params \<Rightarrow>
     message_reply response_io" where
  "create_message px up key acc payload =
     bind_ok (anthropic_check_wallet_balance (acc_id acc)) (\<lambda>_.
       with_anthropic_clients px (cmp_model payload) 2 ''No upstream available for the requested model.''
         (\<lambda>clients.
           try_clients
             (anthropic_error 500 ''api_error'' ''Internal server error while proxying to upstream.'')
             is_sdk_network_error
             (\<lambda>c. attempt_message up
                    (new_tracer (px_session px (uc_model_db_id c)) (acc_id acc) (uc_model_db_id c) (cred_id key))
                    (payload\<lparr>cmp_model := uc_fullname c\<rparr>) c)
             clients))"

section \<open>Counting tokens\<close>

record count_message_tokens_params =
  cmt_model :: string
  cmt_messages :: "message_param list"
  cmt_system :: "json option"
  cmt_tools :: "json option"
  cmt_tool_choice :: "json option"

record count_message_tokens_response =
  cmr_input_tokens :: int

text \<open>The payload is sent with the model name of the client's request.\<close>

definition count_message_tokens ::
    "proxy_env \<Rightarrow> (count_message_tokens_params, count_message_tokens_response) transport \<Rightarrow> account \<Rightarrow>
     count_message_tokens_params \<Rightarrow> count_message_tokens_response response_io" where
  "count_message_tokens px tp acc payload =
     bind_ok (anthropic_check_wallet_balance (acc_id acc)) (\<lambda>_.
       with_anthropic_clients px (cmt_model payload) 1 ''No upstream available for the requested model.''
         (\<lambda>clients.
           let c = hd clients in
           (case anthropic_sdk_request px tp (uc_client c) ''/v1/messages/count_tokens'' payload of
              Inr result \<Rightarrow> return (Inr result)
            | Inl e \<Rightarrow> do {
                _ \<leftarrow> (if is_sdk_network_error e then spawn_mark_offline (uc_upstream_id c) else return ());
                return (Inl (anthropic_error 500 ''api_error''
                  ''Internal server error while counting tokens.'')) })))"

section \<open>The list of models\<close>

record anthropic_model =
  am_id :: string
  am_display_name :: string
  am_created_at :: string
  am_object_type :: string

record list_models_response =
  lmr_data :: "anthropic_model list"
  lmr_has_more :: bool
  lmr_first_id :: "string option"
  lmr_last_id :: "string option"

definition anthropic_list_models :: "(timestamp \<Rightarrow> string) \<Rightarrow> list_models_response response_io" where
  "anthropic_list_models rfc3339 = do {
     res \<leftarrow> list_models ''anthropic'' (Some ''messages'');
     return (case res of
        Inl _ \<Rightarrow> Inl (status_only 500)
      | Inr models \<Rightarrow>
          let unique_models = map (\<lambda>m. \<lparr>am_id = mdl_cname m, am_display_name = mdl_cname m,
                am_created_at = rfc3339 (mdl_created_at m), am_object_type = ''model''\<rparr>)
                (keep_first [] models)
          in Inr \<lparr>lmr_data = unique_models, lmr_has_more = False,
                  lmr_first_id = map_option am_id (first_row unique_models),
                  lmr_last_id = (if unique_models = [] then None else Some (am_id (last unique_models)))\<rparr>) }"

end
