(* ===== verification/ProxyDemo.thy ===== *)
theory ProxyDemo
  imports Routing Demo
begin

text \<open>
  A small system for the properties of the proxies: two upstreams that offer the model \<^verbatim>\<open>m\<close>, the
  first of which has been used in this hour, an account with money and a credential.
\<close>

definition plain_crypto :: crypto_env where
  "plain_crypto = \<lparr>cy_encryption_key = [], cy_hex_decode = Inr, cy_b64_encode = id,
     cy_b64_decode = Inr, cy_seal = (\<lambda>_ _ x. Some x), cy_open = (\<lambda>_ _ x. Some x),
     cy_utf8 = (\<lambda>_. True), cy_sha256_hex = id\<rparr>"

definition demo_conv :: "redis_value option list \<Rightarrow> int option list option" where
  "demo_conv vs =
     (if vs = [None] then Some []
      else Some (map (map_option (\<lambda>v. case v of R_Int n \<Rightarrow> n | _ \<Rightarrow> 0)) vs))"

definition demo_px :: proxy_env where
  "demo_px = \<lparr>px_crypto = plain_crypto, px_choose = (\<lambda>ps. first_row ps), px_proxy_ok = (\<lambda>_. True),
     px_sdk_ok = (\<lambda>_. True), px_hour = (\<lambda>_. ''h''), px_conv = demo_conv,
     px_session = (\<lambda>m. ''s'' @ show_int m), px_new_file = ''f1'', px_new_response = ''r1'',
     px_new_batch = ''b1''\<rparr>"

definition demo_upstream :: "int \<Rightarrow> string \<Rightarrow> llm_upstream" where
  "demo_upstream i provider = \<lparr>up_id = i, up_name = ''u'', up_api_base = ''http://u/'',
     up_encrypted_api_key = ''k'', up_ellipsed_api_key = '''', up_api_key = '''', up_provider = provider,
     up_tags = [''t''], up_proxies = [], up_status = ''online'', up_description = '''', up_created_at = 0,
     up_updated_at = 0\<rparr>"

definition offered :: "int \<Rightarrow> llm_model" where
  "offered i = demo_model\<lparr>mdl_id := i, mdl_upstream_id := i,
     mdl_features := [''chat/completions'', ''messages'', ''responses'']\<rparr>"

definition demo_wallet :: wallet where
  "demo_wallet = \<lparr>wal_id = 1, wal_account_id = 1, wal_balance = 10, wal_created_at = 0, wal_updated_at = 0\<rparr>"

definition offers :: "string \<Rightarrow> int list \<Rightarrow> db" where
  "offers provider is = empty_db\<lparr>
     llm_upstreams := \<lparr>t_rows = map (\<lambda>i. demo_upstream i provider) is, t_seq = int (length is)\<rparr>,
     llm_models := \<lparr>t_rows = map offered is, t_seq = int (length is)\<rparr>,
     wallets := \<lparr>t_rows = [demo_wallet], t_seq = 1\<rparr>\<rparr>"

definition used_redis :: redis where
  "used_redis = [output_usage_key 1 ''h'' \<mapsto> \<lparr>re_value = R_Int 5, re_expires = None\<rparr>]"

definition proxy_world :: "string \<Rightarrow> int list \<Rightarrow> world" where
  "proxy_world provider is = (world_of (offers provider is))\<lparr>w_redis := used_redis\<rparr>"

lemma proxy_world_simps [simp]:
  "w_faults (proxy_world p is) = []" "w_db (proxy_world p is) = offers p is"
  "w_redis (proxy_world p is) = used_redis" "w_now (proxy_world p is) = 0"
  "w_openai_q (proxy_world p is) = []" "w_anthropic_q (proxy_world p is) = []"
  "w_spawned (proxy_world p is) = []" "w_tx (proxy_world p is) = None"
  by (simp_all add: proxy_world_def world_of_def)

lemma demo_px_simps [simp]:
  "px_crypto demo_px = plain_crypto" "px_conv demo_px = demo_conv" "px_hour demo_px t = ''h''"
  "px_session demo_px m = ''s'' @ show_int m" "px_sdk_ok demo_px c" "px_proxy_ok demo_px s"
  by (simp_all add: demo_px_def)

lemma decrypt_plain [simp]:
  "decrypt_upstream plain_crypto (u\<lparr>up_ellipsed_api_key := a, up_api_key := b\<rparr>) =
     decrypt_upstream plain_crypto u"
  "up_encrypted_api_key u = ''k'' \<Longrightarrow>
   decrypt_upstream plain_crypto u = Inr (u\<lparr>up_ellipsed_api_key := ''k'', up_api_key := ''k''\<rparr>)"
  by (auto simp: decrypt_upstream_def decrypt_api_key_def decrypt_if_configured_def plain_crypto_def
      is_encryption_configured_def ellipse_api_key_def split: sum.splits)

lemma demo_upstream_simps [simp]:
  "up_id (demo_upstream i p) = i" "up_provider (demo_upstream i p) = p"
  "up_status (demo_upstream i p) = ''online''" "up_encrypted_api_key (demo_upstream i p) = ''k''"
  "up_proxies (demo_upstream i p) = []" "up_api_base (demo_upstream i p) = ''http://u/''"
  by (simp_all add: demo_upstream_def)

lemma offered_simps [simp]:
  "mdl_id (offered i) = i" "mdl_upstream_id (offered i) = i" "mdl_cname (offered i) = ''m''"
  "mdl_is_active (offered i)" "mdl_fullname (offered i) = ''org/m''"
  "mdl_features (offered i) = [''chat/completions'', ''messages'', ''responses'']"
  by (simp_all add: offered_def demo_model_def)

lemma offers_simps [simp]:
  "t_rows (llm_upstreams (offers p is)) = map (\<lambda>i. demo_upstream i p) is"
  "t_rows (llm_models (offers p is)) = map offered is"
  "t_rows (wallets (offers p is)) = [demo_wallet]"
  "file_metas (offers p is) = empty_table" "response_metas (offers p is) = empty_table"
  "batch_metas (offers p is) = empty_table"
  by (simp_all add: offers_def empty_db_def)

definition demo_credential :: api_credential where
  "demo_credential = fresh_credential \<lparr>nc_account_id = Some 1, nc_apikey = ''k'', nc_label = ''l'',
     nc_expires_at = None\<rparr> ''k'' ''k'' 0 1"

text \<open>An upstream as the router hands it on: with its key.\<close>

definition routed_pair :: "string \<Rightarrow> int \<Rightarrow> llm_model \<times> llm_upstream" where
  "routed_pair p i =
     (offered i, (demo_upstream i p)\<lparr>up_ellipsed_api_key := ''k'', up_api_key := ''k''\<rparr>)"

lemma joined_offers: "distinct is \<Longrightarrow> joined (offers p is) = map (\<lambda>i. (offered i, demo_upstream i p)) is"
proof -
  have here: "map (Pair m) (filter (\<lambda>e. up_id e = i) (map (\<lambda>i. demo_upstream i p) is))
      = (if i \<in> set is then [(m, demo_upstream i p)] else [])" if "distinct is" for m i "is"
    using that by (induction "is") (auto simp: filter_empty_conv)
  assume d: "distinct is"
  have "concat (map (\<lambda>m. map (Pair m) (filter (\<lambda>e. up_id e = mdl_upstream_id m) (map (\<lambda>i. demo_upstream i p) is)))
      (map offered js)) = map (\<lambda>i. (offered i, demo_upstream i p)) js" if "set js \<subseteq> set is" for js
    using that by (induction js) (auto simp: here [OF d])
  then show ?thesis by (simp add: joined_def)
qed

end
