(* ===== verification/Selection.thy ===== *)
theory Selection
  imports OpenAIProxy AnthropicProxy ProxyDemo
begin

text \<open>
  What the routing of \<open>Routing\<close> does without failures, as functions of the world: the upstreams able to
  serve a request and their order, the clients built for them, the answer of the wallet gate (also with
  failures), and the loop over the candidates, whose contract is the locale \<open>retry\<close>.
\<close>

section \<open>The choice as a function of the world\<close>

text \<open>The pairs able to serve a request, with decrypted keys.\<close>

definition candidates :: "proxy_env \<Rightarrow> db \<Rightarrow> string \<Rightarrow> string \<Rightarrow> string \<Rightarrow>
    sqlx_error + (llm_model \<times> llm_upstream) list" where
  "candidates px d name provider feature =
     collect_results (map (into_tuple (px_crypto px)) (filter (capable name provider feature) (joined d)))"

definition usages_of :: "proxy_env \<Rightarrow> world \<Rightarrow> int list \<Rightarrow> int list" where
  "usages_of px w ids =
     (if ids = [] then []
      else
        (case px_conv px (map (\<lambda>i. map_option re_value (lookup_live (w_now w) (w_redis w)
                (output_usage_key i (px_hour px (w_now w))))) ids) of
           None \<Rightarrow> replicate (length ids) 0
         | Some vs \<Rightarrow> map (\<lambda>v. unwrap_or v 0) vs))"

definition routed :: "proxy_env \<Rightarrow> world \<Rightarrow> string \<Rightarrow> string \<Rightarrow> string \<Rightarrow> nat \<Rightarrow>
    (llm_model \<times> llm_upstream) list" where
  "routed px w name provider feature n =
     (case candidates px (w_db w) name provider feature of
        Inl _ \<Rightarrow> []
      | Inr ms \<Rightarrow> least_used n (usages_of px w (map (\<lambda>(m, _). mdl_id m) ms)) ms)"

lemma least_used_Nil [simp]: "least_used n us [] = []"
  by (simp add: least_used_def)

lemma usages_read:
  "(if ids = [] then []
    else (case px_conv px (map (\<lambda>k. map_option re_value (lookup_live (w_now w) (w_redis w) k))
            (map (\<lambda>i. output_usage_key i (px_hour px (w_now w))) ids)) of
       None \<Rightarrow> replicate (length ids) 0
     | Some vs \<Rightarrow> map (\<lambda>v. unwrap_or v 0) vs)) = usages_of px w ids"
  by (simp add: usages_of_def comp_def cong: option.case_cong)

lemma wp_usage_batch [simp]:
  assumes "w_faults w = []"
  shows "wp (get_output_token_usage_batch (px_hour px) (px_conv px) ids) Q w = Q (usages_of px w ids) w"
  unfolding usages_read [symmetric]
  using assms
  by (auto simp: get_output_token_usage_batch_def wp_redis_conn_ok redis_mget_def wp_redis_cmd_ok
      simp del: map_map split: option.splits)

lemma wp_select_candidates [simp]:
  assumes "w_faults w = []"
  shows "wp (select_candidates px name provider feature n) Q w = Q (routed px w name provider feature n) w"
  using assms
  by (auto simp: select_candidates_def find_models_by_name_and_capacity_def wp_db_stmt_ok rows_stmt_def
      candidates_def routed_def split: sum.splits)

lemma sort_key_zip:
  "sort_key fst (zip (map f xs) xs) = map (\<lambda>x. (f x, x)) (sort_key f xs)"
proof -
  have insort: "insort_key fst (f x, x) (map (\<lambda>x. (f x, x)) ys) = map (\<lambda>x. (f x, x)) (insort_key f x ys)"
    for x ys by (induction ys) auto
  show ?thesis by (induction xs) (simp_all add: insort)
qed

lemma least_used_sorted: "least_used n (map f xs) xs = take n (sort_key f xs)"
  by (simp add: least_used_def sort_key_zip take_map comp_def)

text \<open>
  What the \<^verbatim>\<open>redis\<close> crate makes of the replies (\<^verbatim>\<open>FromRedisValue\<close> for
  \<^verbatim>\<open>Vec<Option<i64>>\<close>): an array is converted element by element; for a single key the command
  is \<^verbatim>\<open>GET\<close>, whose missing value is the empty vector.
\<close>

definition redis_replies :: "(redis_value option list \<Rightarrow> int option list option) \<Rightarrow> bool" where
  "redis_replies conv \<longleftrightarrow>
     (\<forall>is. 2 \<le> length is \<longrightarrow> conv (map (map_option R_Int) is) = Some is) \<and>
     (\<forall>i. conv [Some (R_Int i)] = Some [Some i]) \<and> conv [None] = Some []"

text \<open>Every counter in the key space is a number.\<close>

definition counters_numeric :: "proxy_env \<Rightarrow> world \<Rightarrow> bool" where
  "counters_numeric px w \<longleftrightarrow>
     (\<forall>i e. lookup_live (w_now w) (w_redis w) (output_usage_key i (px_hour px (w_now w))) = Some e \<longrightarrow>
        (\<exists>n. re_value e = R_Int n))"

definition model_usage :: "proxy_env \<Rightarrow> world \<Rightarrow> llm_model \<times> llm_upstream \<Rightarrow> int" where
  "model_usage px w = (\<lambda>(m, u).
     usage_count (w_redis w) (w_now w) (output_usage_key (mdl_id m) (px_hour px (w_now w))))"

lemma usages_of_counts:
  assumes "redis_replies (px_conv px)" and "counters_numeric px w" and "2 \<le> length ms"
  shows "usages_of px w (map (\<lambda>(m, _). mdl_id m) ms) = map (model_usage px w) ms"
proof -
  let ?find = "\<lambda>i. lookup_live (w_now w) (w_redis w) (output_usage_key i (px_hour px (w_now w)))"
  let ?int = "\<lambda>i. map_option (\<lambda>e. case re_value e of R_Int n \<Rightarrow> n | _ \<Rightarrow> 0) (?find i)"
  let ?ids = "map (\<lambda>(m, _). mdl_id m) ms"
  have int: "map_option re_value (?find i) = map_option R_Int (?int i)" for i
    using assms(2) by (cases "?find i") (fastforce simp: counters_numeric_def)+
  have "map (\<lambda>i. map_option re_value (?find i)) ?ids = map (map_option R_Int) (map ?int ?ids)"
    by (simp only: int map_map comp_def)
  moreover have "px_conv px (map (map_option R_Int) (map ?int ?ids)) = Some (map ?int ?ids)"
    using assms(1,3) by (simp only: redis_replies_def length_map)
  ultimately have "usages_of px w ?ids = map (\<lambda>v. unwrap_or v 0) (map ?int ?ids)"
    using assms(3) by (auto simp: usages_of_def simp del: map_map)
  also have "\<dots> = map (model_usage px w) ms"
    by (auto simp: model_usage_def usage_count_def split: option.splits)
  finally show ?thesis .
qed

lemma candidates_capable:
  assumes "candidates px d name provider feature = Inr ms" and "(m, u) \<in> set ms"
  shows "m \<in> set (t_rows (llm_models d)) \<and> mdl_cname m = name \<and> mdl_is_active m \<and>
    feature \<in> set (mdl_features m) \<and> up_id u = mdl_upstream_id m \<and>
    (\<exists>e \<in> set (t_rows (llm_upstreams d)). up_id e = up_id u \<and> up_status e = ''online'' \<and> up_provider e = provider)"
proof -
  from assms have "Inr (m, u) \<in> set (map (into_tuple (px_crypto px)) (filter (capable name provider feature) (joined d)))"
    by (auto simp: candidates_def collect_results_Inr)
  then obtain m' e where row: "(m', e) \<in> set (joined d)" "capable name provider feature (m', e)"
      "into_tuple (px_crypto px) (m', e) = Inr (m, u)"
    by auto
  then have "m' = m" and "up_id u = up_id e"
    by (auto simp: into_tuple_def decrypt_upstream_def split: sum.splits)
  with row show ?thesis
    by (auto simp: joined_def capable_def)
qed

text \<open>A client is built for a pair that may serve the request.\<close>

definition client_for ::
    "db \<Rightarrow> string \<Rightarrow> string \<Rightarrow> string \<Rightarrow> upstream_client \<Rightarrow> llm_model \<times> llm_upstream \<Rightarrow> bool" where
  "client_for d name provider feature c = (\<lambda>(m, u).
     uc_model_db_id c = mdl_id m \<and> uc_upstream_id c = up_id u \<and>
     uc_fullname c = mdl_fullname m \<and> sc_api_key (uc_client c) = up_api_key u \<and>
     mdl_cname m = name \<and> mdl_is_active m \<and> feature \<in> set (mdl_features m) \<and>
     (\<exists>e \<in> set (t_rows (llm_upstreams d)). up_id e = up_id u \<and> up_status e = ''online'' \<and>
        up_provider e = provider))"

lemma built_client:
  assumes "(case build_client_from_model_upstream px m u of
      Inl e \<Rightarrow> Inl e
    | Inr (client, model_db_id) \<Rightarrow>
        Inr \<lparr>uc_client = client, uc_model_db_id = model_db_id, uc_upstream_id = up_id u,
             uc_fullname = mdl_fullname m\<rparr>) = Inr c"
  shows "uc_model_db_id c = mdl_id m \<and> uc_upstream_id c = up_id u \<and> uc_fullname c = mdl_fullname m \<and>
    sc_api_key (uc_client c) = up_api_key u"
  using assms
  by (auto simp: build_client_from_model_upstream_def build_client_from_upstream_def Let_def
      split: sum.splits if_splits option.splits)

section \<open>The clients of a request\<close>

abbreviation build_pair :: "proxy_env \<Rightarrow> llm_model \<times> llm_upstream \<Rightarrow> string + upstream_client" where
  "build_pair px \<equiv> (\<lambda>(m, u). case build_client_from_model_upstream px m u of
        Inl e \<Rightarrow> Inl e
      | Inr (client, model_db_id) \<Rightarrow>
          Inr \<lparr>uc_client = client, uc_model_db_id = model_db_id, uc_upstream_id = up_id u,
               uc_fullname = mdl_fullname m\<rparr>)"

definition clients_for ::
    "proxy_env \<Rightarrow> world \<Rightarrow> string \<Rightarrow> string \<Rightarrow> string \<Rightarrow> nat \<Rightarrow> string + upstream_client list" where
  "clients_for px w name provider feature n =
     collect_results (map (build_pair px) (routed px w name provider feature n))"

lemma wp_select_model_clients [simp]:
  "w_faults w = [] \<Longrightarrow>
   wp (select_model_clients px name provider feature n) Q w = Q (clients_for px w name provider feature n) w"
  by (simp add: select_model_clients_def clients_for_def)

definition messages_for :: "proxy_env \<Rightarrow> world \<Rightarrow> string \<Rightarrow> nat \<Rightarrow> string + upstream_client list" where
  "messages_for px w name n =
     collect_results (map (\<lambda>(m, u). build_anthropic_client_context px m u)
       (routed px w name ''anthropic'' ''messages'' n))"

lemma wp_select_anthropic_clients [simp]:
  "w_faults w = [] \<Longrightarrow> wp (select_anthropic_clients px name n) Q w = Q (messages_for px w name n) w"
  by (simp add: select_anthropic_clients_def messages_for_def)

lemma wp_with_clients:
  "w_faults w = [] \<Longrightarrow> clients_for px w name ''openai'' feature n = Inr cs \<Longrightarrow>
   wp (with_clients px name feature n k) Q w =
     (if cs = [] then Q (Inl (status_only 500)) w else wp (k cs) Q w)"
  by (simp add: with_clients_def)

lemma wp_with_anthropic_clients:
  "w_faults w = [] \<Longrightarrow> messages_for px w name n = Inr cs \<Longrightarrow>
   wp (with_anthropic_clients px name n message k) Q w =
     (if cs = [] then Q (Inl (no_anthropic_client message)) w else wp (k cs) Q w)"
  by (simp add: with_anthropic_clients_def)

section \<open>The wallet gate\<close>

text \<open>The wallet a healthy gate looks at: the cached one, otherwise the row.\<close>

definition wallet_row :: "db \<Rightarrow> int \<Rightarrow> wallet option" where
  "wallet_row d a = first_row (select_rows (\<lambda>f. wal_account_id f = a) (wallets d))"

definition wallet_cached :: "world \<Rightarrow> int \<Rightarrow> wallet option" where
  "wallet_cached w a =
     Option.bind (lookup_live (w_now w) (w_redis w) (wallet_cache_key a)) (\<lambda>e. as_wallet (re_value e))"

definition wallet_seen :: "world \<Rightarrow> int \<Rightarrow> wallet option" where
  "wallet_seen w a = (case wallet_cached w a of Some f \<Rightarrow> Some f | None \<Rightarrow> wallet_row (w_db w) a)"

definition funded :: "world \<Rightarrow> int \<Rightarrow> bool" where
  "funded w a \<longleftrightarrow> (case wallet_seen w a of None \<Rightarrow> False | Some f \<Rightarrow> 0 < wal_balance f)"

text \<open>No money: neither the cached wallet nor the stored one, as far as they exist.\<close>

definition broke :: "world \<Rightarrow> int \<Rightarrow> bool" where
  "broke w a \<longleftrightarrow>
     (\<forall>f \<in> set_option (wallet_cached w a) \<union> set_option (wallet_row (w_db w) a). wal_balance f \<le> 0)"

lemma wp_check_wallet_funded:
  "w_faults w = [] \<Longrightarrow> funded w a \<Longrightarrow> wp (check_wallet msg a) Q w = Q (Inr ()) w"
  by (auto simp: funded_def wallet_seen_def wallet_cached_def wallet_row_def check_wallet_def
      get_wallet_info_def cache_get_def redis_get_def find_account_wallet_def find_wallet_sql_def
      fetch_optional_def rows_stmt_def no_fault_calls split: option.splits)

lemma wp_gate_funded [simp]:
  assumes "w_faults w = []" and "funded w a"
  shows "wp (check_wallet_balance a) Q w = Q (Inr ()) w"
    and "wp (anthropic_check_wallet_balance a) Q w = Q (Inr ()) w"
  using assms by (simp_all add: check_wallet_balance_def anthropic_check_wallet_balance_def wp_check_wallet_funded)

text \<open>Only the schedule of failures has moved on.\<close>

definition untouched :: "world \<Rightarrow> world \<Rightarrow> bool" where
  "untouched w t \<longleftrightarrow> (\<exists>fs. t = w\<lparr>w_faults := fs\<rparr>)"

lemma untouched_faults [simp, intro]: "untouched w (w\<lparr>w_faults := fs\<rparr>)"
  by (auto simp: untouched_def)

lemma untouched_again [simp]: "untouched (w\<lparr>w_faults := fs\<rparr>) t \<longleftrightarrow> untouched w t"
  by (simp add: untouched_def)

lemma untouched_refl [simp]: "untouched w w"
  unfolding untouched_def by (rule exI [of _ "w_faults w"]) simp

text \<open>Whatever calls fail, an account without money is refused and nothing is changed.\<close>

definition refusal :: "proxy_error \<Rightarrow> bool" where
  "refusal e \<longleftrightarrow> pe_status e \<in> {402, 500}"

lemma wp_check_wallet_broke:
  assumes "broke w a"
  shows "wp (check_wallet msg a) (\<lambda>r t. (\<exists>e. r = Inl e \<and> refusal e) \<and> untouched w t) w"
proof -
  have refusals [simp]: "refusal no_wallet" "refusal (wallet_empty m)" "refusal wallet_lookup_failed" for m
    by (simp_all add: refusal_def no_wallet_def wallet_empty_def wallet_lookup_failed_def)
  have row: "wp (find_account_wallet a) (\<lambda>r t. (\<forall>f. r = Inr (Some f) \<longrightarrow> wal_balance f \<le> 0) \<and>
      untouched w t) t" if "untouched w t" for t
    using assms that unfolding find_account_wallet_def fetch_optional_def find_wallet_sql_def wp_bind
    by (intro wp_db_stmt) (auto simp: rows_stmt_def broke_def wallet_row_def untouched_def)
  have cached: "wp (get_wallet_info a) (\<lambda>r t. (\<forall>f. r = Inr (Some f) \<longrightarrow> wal_balance f \<le> 0) \<and>
      untouched w t) w"
    using assms unfolding get_wallet_info_def cache_get_def redis_get_def
    by (auto intro!: wp_intros wp_redis_conn wp_redis_cmd
        simp: broke_def wallet_cached_def bind_eq_Some_conv split: option.splits)
  show ?thesis
    unfolding check_wallet_def wp_bind
    by (rule wp_mono [OF cached])
      (auto intro!: wp_intros wp_mono [OF row] split: sum.splits option.splits)
qed

section \<open>The loop over the candidates\<close>

text \<open>The clients that are tried: up to and including the first that answers.  The outcome is its answer,
  or \<open>failed\<close> when every client failed.\<close>

definition tried :: "(upstream_client \<Rightarrow> 'e + 'b) \<Rightarrow> upstream_client list \<Rightarrow> upstream_client list" where
  "tried answer cs = takeWhile (\<lambda>c. isl (answer c)) cs @ take 1 (dropWhile (\<lambda>c. isl (answer c)) cs)"

definition outcome ::
    "(upstream_client \<Rightarrow> 'e + (proxy_error + 'b)) \<Rightarrow> proxy_error \<Rightarrow> upstream_client list \<Rightarrow> proxy_error + 'b" where
  "outcome answer failed cs =
     (case dropWhile (\<lambda>c. isl (answer c)) cs of [] \<Rightarrow> Inl failed | c # _ \<Rightarrow> projr (answer c))"

definition unreachable :: "('e \<Rightarrow> bool) \<Rightarrow> (upstream_client \<Rightarrow> 'e + 'b) \<Rightarrow> upstream_client list \<Rightarrow> int list" where
  "unreachable network answer cs =
     map uc_upstream_id (filter (\<lambda>c. case answer c of Inl e \<Rightarrow> network e | Inr _ \<Rightarrow> False) (tried answer cs))"

text \<open>
  \<open>attempt\<close> asks one client, whose answer is \<open>answer c\<close>, and records \<open>tasks c\<close> in a queue; \<open>extend\<close>
  appends to that queue.
\<close>

lemma spawned_id [simp]: "w_spawned_update (\<lambda>q. q) w = w"
  by (cases w) simp

locale retry =
  fixes attempt :: "upstream_client \<Rightarrow> ('e + (proxy_error + 'b)) io"
    and answer :: "upstream_client \<Rightarrow> 'e + (proxy_error + 'b)"
    and tasks :: "upstream_client \<Rightarrow> 't list"
    and extend :: "'t list \<Rightarrow> world \<Rightarrow> world"
  assumes attempt_runs: "w_faults w = [] \<Longrightarrow> wp (attempt c) Q w = Q (answer c) (extend (tasks c) w)"
    and extend_extend: "extend ys (extend xs w) = extend (xs @ ys) w"
    and extend_faults: "w_faults (extend xs w) = w_faults w"
    and extend_spawned: "w_spawned_update f (extend xs w) = extend xs (w_spawned_update f w)"
begin

lemma try_clients_runs:
  assumes "w_faults w = []" and "cs \<noteq> []"
  shows "wp (try_clients failed network attempt cs) Q w =
    Q (outcome answer failed cs)
      (extend (concat (map tasks (tried answer cs)))
        (w_spawned_update (\<lambda>q. q @ unreachable network answer cs) w))"
  using assms
proof (induction cs arbitrary: w)
  case Nil
  then show ?case by simp
next
  case (Cons c cs)
  show ?case
  proof (cases "answer c")
    case (Inr r)
    then show ?thesis
      using Cons.prems
      by (simp add: attempt_runs tried_def outcome_def unreachable_def)
  next
    case (Inl e)
    let ?w = "extend (tasks c) (w_spawned_update (\<lambda>q. q @ (if network e then [uc_upstream_id c] else [])) w)"
    have "wp (try_clients failed network attempt (c # cs)) Q w =
        (if cs = [] then Q (Inl failed) ?w else wp (try_clients failed network attempt cs) Q ?w)"
      using Cons.prems Inl by (simp add: attempt_runs spawn_mark_offline_def extend_spawned)
    moreover have "w_faults ?w = []" using Cons.prems by (simp add: extend_faults)
    moreover have "w_spawned_update f (w_spawned_update g v) = w_spawned_update (\<lambda>q. f (g q)) v" for f g and v :: world
      by simp
    ultimately show ?thesis
      using Inl Cons.IH [of ?w]
      by (cases "cs = []")
        (simp_all add: tried_def outcome_def unreachable_def extend_spawned extend_extend comp_def)
  qed
qed

end

section \<open>The demonstration system\<close>

lemma candidates_offers:
  assumes "distinct is" and "feature \<in> {''chat/completions'', ''messages'', ''responses''}"
  shows "candidates demo_px (offers p is) ''m'' p feature = Inr (map (routed_pair p) is)"
proof -
  have "filter (capable ''m'' p feature) (joined (offers p is)) = map (\<lambda>i. (offered i, demo_upstream i p)) is"
    unfolding joined_offers [OF assms(1)] using assms(2) by (auto simp: capable_def filter_id_conv)
  moreover have "map (into_tuple plain_crypto) (map (\<lambda>i. (offered i, demo_upstream i p)) is)
      = map Inr (map (routed_pair p) is)"
    by (simp add: into_tuple_def routed_pair_def)
  ultimately show ?thesis by (simp add: candidates_def del: map_map)
qed

lemma demo_replies [simp]: "redis_replies demo_conv"
proof -
  have returned: "map (map_option (\<lambda>v. case v of R_Int n \<Rightarrow> n | _ \<Rightarrow> 0)) (map (map_option R_Int) js) = js" for js
    by (auto simp: option.map_comp comp_def option.map_ident intro!: map_idI)
  show ?thesis
    by (auto simp: redis_replies_def demo_conv_def returned simp del: map_map)
qed

lemma demo_numeric [simp]: "counters_numeric demo_px (proxy_world p is)"
  by (auto simp: counters_numeric_def lookup_live_def used_redis_def split: if_splits)

lemma demo_routed:
  assumes "distinct is" and "2 \<le> length is" and "feature \<in> {''chat/completions'', ''messages'', ''responses''}"
  shows "routed demo_px (proxy_world p is) ''m'' p feature n =
    take n (sort_key (model_usage demo_px (proxy_world p is)) (map (routed_pair p) is))"
proof -
  have "usages_of demo_px (proxy_world p is) (map (\<lambda>(m, _). mdl_id m) (map (routed_pair p) is))
      = map (model_usage demo_px (proxy_world p is)) (map (routed_pair p) is)"
    by (rule usages_of_counts) (simp_all add: assms)
  then show ?thesis
    by (simp only: routed_def candidates_offers [OF assms(1,3)] proxy_world_simps sum.case least_used_sorted)
qed

lemma demo_usage [simp]:
  "model_usage demo_px (proxy_world p is) (routed_pair p i) = (if i = 1 then 5 else 0)"
  by (auto simp: model_usage_def routed_pair_def usage_count_def lookup_live_def used_redis_def
      output_usage_key_def live_def)

lemma demo_routed_two [simp]:
  assumes "feature \<in> {''chat/completions'', ''messages'', ''responses''}"
  shows "routed demo_px (proxy_world p [1, 2]) ''m'' p feature (Suc 0) = [routed_pair p 2]"
    and "routed demo_px (proxy_world p [1, 2]) ''m'' p feature 2 = [routed_pair p 2, routed_pair p 1]"
  by (simp_all add: demo_routed [OF _ _ assms] numeral_2_eq_2)

definition demo_client :: "string \<Rightarrow> int \<Rightarrow> upstream_client" where
  "demo_client base i = \<lparr>uc_client = \<lparr>sc_api_key = ''k'', sc_api_base = base, sc_proxy = None\<rparr>,
     uc_model_db_id = i, uc_upstream_id = i, uc_fullname = ''org/m''\<rparr>"

lemma demo_client_simps [simp]:
  "uc_model_db_id (demo_client b i) = i" "uc_upstream_id (demo_client b i) = i"
  "uc_fullname (demo_client b i) = ''org/m''"
  by (simp_all add: demo_client_def)

lemma demo_clients:
  assumes "feature \<in> {''chat/completions'', ''messages'', ''responses''}"
  shows "clients_for demo_px (proxy_world ''openai'' [1, 2]) ''m'' ''openai'' feature 2
    = Inr [demo_client ''http://u/'' 2, demo_client ''http://u/'' 1]"
  unfolding clients_for_def demo_routed_two [OF assms]
  by (simp add: routed_pair_def build_client_from_model_upstream_def build_client_from_upstream_def
      demo_client_def)

lemma demo_clients_one:
  assumes "feature \<in> {''chat/completions'', ''messages'', ''responses''}"
  shows "clients_for demo_px (proxy_world ''openai'' [1, 2]) ''m'' ''openai'' feature (Suc 0)
    = Inr [demo_client ''http://u/'' 2]"
  unfolding clients_for_def demo_routed_two [OF assms]
  by (simp add: routed_pair_def build_client_from_model_upstream_def build_client_from_upstream_def
      demo_client_def)

lemma demo_messages:
  "messages_for demo_px (proxy_world ''anthropic'' [1, 2]) ''m'' 2
    = Inr [demo_client ''http://u'' 2, demo_client ''http://u'' 1]"
proof -
  have "trim_end_slash ''http://u/'' = ''http://u''" by (simp add: trim_end_slash_def)
  then have "build_anthropic_client_context demo_px (offered i)
      ((demo_upstream i ''anthropic'')\<lparr>up_ellipsed_api_key := ''k'', up_api_key := ''k''\<rparr>)
      = Inr (demo_client ''http://u'' i)" for i
    by (simp add: build_anthropic_client_context_def demo_client_def Let_def)
  then show ?thesis by (simp add: messages_for_def routed_pair_def)
qed

lemma demo_funded [simp]: "funded (proxy_world p is) 1"
  by (auto simp: funded_def wallet_seen_def wallet_cached_def wallet_row_def select_rows_def demo_wallet_def
      lookup_live_def used_redis_def wallet_cache_key_def output_usage_key_def)

end
