(* ===== verification/RoutingClaims.thy ===== *)
theory RoutingClaims
  imports Selection
begin

text \<open>
  The properties of routing: which upstreams a request may go to and in which order, what the wallet
  gate lets through, how a failing upstream leaves the rotation and comes back.
\<close>

section \<open>Properties\<close>

text \<open>C21: With a healthy system, the clients a request is sent to are chosen among the models of that
  name that are active, have the feature, and belong to an online upstream of the provider; as many as
  asked for or all there are, in the order of their use in this hour, and no candidate left out was used
  less than a chosen one.\<close>

theorem routing_least_used:
  assumes "w_faults w = []" and "redis_replies (px_conv px)" and "counters_numeric px w"
    and "candidates px (w_db w) name provider feature = Inr ms" and "2 \<le> length ms"
    and "run_state (select_model_clients px name provider feature n) w = (Inr cs, w')"
  shows "\<exists>chosen. w' = w \<and> length chosen = min n (length ms) \<and> set chosen \<subseteq> set ms \<and>
    sorted (map (model_usage px w) chosen) \<and>
    (\<forall>x \<in> set ms. x \<notin> set chosen \<longrightarrow> (\<forall>y \<in> set chosen. model_usage px w y \<le> model_usage px w x)) \<and>
    list_all2 (client_for (w_db w) name provider feature) cs chosen"
proof -
  let ?f = "model_usage px w"
  let ?chosen = "take n (sort_key ?f ms)"
  have routed: "routed px w name provider feature n = ?chosen"
    by (simp add: routed_def assms(4) usages_of_counts [OF assms(2,3,5)] least_used_sorted)
  let ?build = "build_pair px"
  have "wp (select_model_clients px name provider feature n)
      (\<lambda>r t. r = collect_results (map ?build ?chosen) \<and> t = w) w"
    by (simp add: assms(1) clients_for_def routed)
  with assms(6) have w': "w' = w" and "collect_results (map ?build ?chosen) = Inr cs"
    by (simp_all add: wp_run_state)
  then have cs: "list_all2 (\<lambda>c mu. ?build mu = Inr c) cs ?chosen"
    by (simp only: collect_results_map)
  have "set ?chosen \<subseteq> set ms" by (metis set_sort set_take_subset)
  moreover have "\<forall>x \<in> set ms. x \<notin> set ?chosen \<longrightarrow> (\<forall>y \<in> set ?chosen. ?f y \<le> ?f x)"
  proof (intro ballI impI)
    fix x y assume "x \<in> set ms" "x \<notin> set ?chosen" "y \<in> set ?chosen"
    then have "x \<in> set (drop n (sort_key ?f ms))"
      by (metis Un_iff append_take_drop_id set_append set_sort)
    with \<open>y \<in> set ?chosen\<close> show "?f y \<le> ?f x" by (rule sort_key_take_le)
  qed
  moreover have "sorted (map ?f ?chosen)" by (simp add: take_map [symmetric] sorted_wrt_take)
  moreover have "list_all2 (client_for (w_db w) name provider feature) cs ?chosen"
  proof (rule list.rel_mono_strong [OF cs])
    fix c mu assume mu: "mu \<in> set ?chosen" and c: "?build mu = Inr c"
    obtain m u where eq: "mu = (m, u)" by (cases mu)
    have "(m, u) \<in> set ms"
      using mu eq \<open>set ?chosen \<subseteq> set ms\<close> by auto
    from c candidates_capable [OF assms(4) this] show "client_for (w_db w) name provider feature c mu"
      unfolding eq by (auto simp: client_for_def dest!: built_client)
  qed
  ultimately show ?thesis using w' by (intro exI [of _ ?chosen]) simp
qed

theorem routing_least_used_witness:
  "\<exists>cs chosen. fst (run_state (select_model_clients demo_px ''m'' ''openai'' ''chat/completions'' 1)
       (proxy_world ''openai'' [1, 2])) = Inr cs \<and>
     length chosen = 1 \<and> list_all2 (\<lambda>c (m, u). uc_model_db_id c = mdl_id m) cs chosen \<and>
     set chosen \<subseteq> {routed_pair ''openai'' 1, routed_pair ''openai'' 2}"
proof -
  let ?w = "proxy_world ''openai'' [1, 2]"
  let ?run = "run_state (select_model_clients demo_px ''m'' ''openai'' ''chat/completions'' 1) ?w"
  let ?ms = "[routed_pair ''openai'' 1, routed_pair ''openai'' 2]"
  have cand: "candidates demo_px (w_db ?w) ''m'' ''openai'' ''chat/completions'' = Inr ?ms"
    by (simp add: candidates_offers)
  have "wp (select_model_clients demo_px ''m'' ''openai'' ''chat/completions'' 1) (\<lambda>r _. \<exists>cs. r = Inr cs) ?w"
    by (simp add: demo_clients_one)
  then obtain cs w' where run: "?run = (Inr cs, w')"
    by (auto simp only: wp_run_state prod_eq_iff fst_conv snd_conv)
  from routing_least_used [OF _ _ _ cand _ run] obtain chosen
    where "length chosen = min 1 (length ?ms)" "set chosen \<subseteq> set ?ms"
      "list_all2 (client_for (w_db ?w) ''m'' ''openai'' ''chat/completions'') cs chosen"
    unfolding proxy_world_simps demo_px_simps by (simp del: One_nat_def) blast
  moreover from this(3) have "list_all2 (\<lambda>c (m, u). uc_model_db_id c = mdl_id m) cs chosen"
    by (rule list.rel_mono_strong) (auto simp: client_for_def)
  ultimately show ?thesis unfolding run fst_conv
    by (intro exI [of _ cs] exI [of _ chosen]) simp
qed

end
