(* ===== verification/Serving.thy ===== *)
theory Serving
  imports Selection
begin

text \<open>
  What a healthy system answers and records for one request, as functions of the payload and of the
  upstream, and that the handlers do exactly that: one interpretation of \<open>retry\<close> per endpoint.
\<close>

section \<open>Numbered events\<close>

text \<open>The tasks of the events \<open>ds\<close> of one session, from the tracer on.\<close>

fun numbered :: "session_tracer \<Rightarrow> openai_event_data list \<Rightarrow> openai_event_task list" where
  "numbered t [] = []"
| "numbered t (d # ds) = openai_task t d # numbered (next_tracer t) ds"

fun numbered_anthropic :: "session_tracer \<Rightarrow> anthropic_event_data list \<Rightarrow> anthropic_event_task list" where
  "numbered_anthropic t [] = []"
| "numbered_anthropic t (d # ds) = anthropic_task t d # numbered_anthropic (next_tracer t) ds"

definition record_openai :: "openai_event_task list \<Rightarrow> world \<Rightarrow> world" where
  "record_openai ts w = w\<lparr>w_openai_q := w_openai_q w @ ts\<rparr>"

definition record_anthropic :: "anthropic_event_task list \<Rightarrow> world \<Rightarrow> world" where
  "record_anthropic ts w = w\<lparr>w_anthropic_q := w_anthropic_q w @ ts\<rparr>"

lemma record_laws [simp]:
  "record_openai ys (record_openai xs w) = record_openai (xs @ ys) w"
  "w_faults (record_openai xs w) = w_faults w"
  "w_spawned_update f (record_openai xs w) = record_openai xs (w_spawned_update f w)"
  "record_openai [] w = w" "w_openai_q (record_openai xs w) = w_openai_q w @ xs"
  "w_spawned (record_openai xs w) = w_spawned w" "w_db (record_openai xs w) = w_db w"
  by (simp_all add: record_openai_def)

lemma record_anthropic_laws [simp]:
  "record_anthropic ys (record_anthropic xs w) = record_anthropic (xs @ ys) w"
  "w_faults (record_anthropic xs w) = w_faults w"
  "w_spawned_update f (record_anthropic xs w) = record_anthropic xs (w_spawned_update f w)"
  "record_anthropic [] w = w" "w_anthropic_q (record_anthropic xs w) = w_anthropic_q w @ xs"
  "w_spawned (record_anthropic xs w) = w_spawned w" "w_db (record_anthropic xs w) = w_db w"
  by (simp_all add: record_anthropic_def)

lemma wp_add_record [simp]:
  "w_faults w = [] \<Longrightarrow> wp (openai_add t d) Q w = Q (next_tracer t) (record_openai [openai_task t d] w)"
  "w_faults w = [] \<Longrightarrow>
   wp (anthropic_add t e) Q' w = Q' (next_tracer t) (record_anthropic [anthropic_task t e] w)"
  by (simp_all add: record_openai_def record_anthropic_def)

declare wp_openai_add_ok [simp del] wp_anthropic_add_ok [simp del]

lemma numbered_append:
  "numbered t (xs @ ys) = numbered t xs @ numbered ((next_tracer ^^ length xs) t) ys"
  by (induction xs arbitrary: t) (simp_all add: funpow_swap1)

lemma spawned_append: "w_spawned_update (\<lambda>q. q @ xs) w = w\<lparr>w_spawned := w_spawned w @ xs\<rparr>"
  by (cases w) simp

section \<open>Chat completions\<close>

text \<open>The chunks a stream delivers before it ends, fails or is abandoned by the client, and whether the
  end is reached with the client still there.\<close>

definition delivered :: "nat option \<Rightarrow> ('e + 'c) list \<Rightarrow> 'c list" where
  "delivered hangup items =
     (let chunks = map projr (takeWhile (\<lambda>x. \<not> isl x) items)
      in case hangup of None \<Rightarrow> chunks | Some n \<Rightarrow> take n chunks)"

definition stays :: "nat option \<Rightarrow> ('e + 'c) list \<Rightarrow> bool" where
  "stays hangup items \<longleftrightarrow>
     (case hangup of None \<Rightarrow> True | Some n \<Rightarrow> length (takeWhile (\<lambda>x. \<not> isl x) items) < n)"

definition stream_events :: "nat option \<Rightarrow> ('e + chat_response) list \<Rightarrow> openai_event_data list" where
  "stream_events hangup items =
     map CreateChatCompletionStreamResponse (delivered hangup items) @
     (if stays hangup items then [CreateChatCompletionStreamResponseDone] else [])"

definition stream_text :: "(chat_response \<Rightarrow> string option) \<Rightarrow> nat option \<Rightarrow> ('e + chat_response) list \<Rightarrow> string list"
  where
  "stream_text ser hangup items =
     List.map_filter ser (delivered hangup items) @ (if stays hangup items then [''[DONE]''] else [])"

lemma delivered_simps [simp]:
  "delivered (Some 0) items = []" "delivered hangup [] = []" "delivered hangup (Inl e # items) = []"
  "delivered None (Inr c # items) = c # delivered None items"
  "delivered (Some (Suc n)) (Inr c # items) = c # delivered (Some n) items"
  by (simp_all add: delivered_def Let_def split: option.splits)

lemma stays_simps [simp]:
  "\<not> stays (Some 0) items" "stays None items" "stays (Some (Suc n)) []" "stays (Some (Suc n)) (Inl e # items)"
  "stays (Some (Suc n)) (Inr c # items) \<longleftrightarrow> stays (Some n) items"
  by (simp_all add: stays_def)

lemma wp_transform_stream:
  assumes "w_faults w = []"
  shows "wp (transform_stream ser hangup t items) Q w =
    Q (stream_text ser hangup items) (record_openai (numbered t (stream_events hangup items)) w)"
  using assms
proof (induction items arbitrary: hangup t w Q)
  case Nil
  consider "hangup = Some 0" | "hangup = None" | n where "hangup = Some (Suc n)"
    by (metis not0_implies_Suc option.exhaust)
  then show ?case
    by cases (use Nil in \<open>simp_all add: stream_end_def stream_text_def stream_events_def\<close>)
next
  case (Cons item items)
  consider "hangup = Some 0" | "hangup = None" | n where "hangup = Some (Suc n)"
    by (metis not0_implies_Suc option.exhaust)
  then show ?case
    by cases (cases item; use Cons in \<open>simp add: stream_end_def stream_text_def stream_events_def
      map_filter_simps split: option.splits\<close>)+
qed

text \<open>One exchange with a client: what is recorded and what it answers.\<close>

definition named :: "chat_request \<Rightarrow> upstream_client \<Rightarrow> chat_request" where
  "named payload c = payload\<lparr>ccr_model := uc_fullname c\<rparr>"

definition chat_answer ::
    "chat_upstream \<Rightarrow> chat_request \<Rightarrow> upstream_client \<Rightarrow> openai_error + (proxy_error + chat_reply)" where
  "chat_answer up payload c =
     (if unwrap_or (ccr_stream payload) False
      then map_sum id (\<lambda>items. Inr (ChatStream (stream_text (cup_ser up) (cup_hangup up) items)))
             (cup_stream up c (named payload c))
      else map_sum id (\<lambda>resp. Inr (ChatJson resp)) (cup_create up c (named payload c)))"

definition chat_events :: "chat_upstream \<Rightarrow> chat_request \<Rightarrow> upstream_client \<Rightarrow> openai_event_data list" where
  "chat_events up payload c =
     CreateChatCompletionRequest (named payload c) #
     (if unwrap_or (ccr_stream payload) False
      then (case cup_stream up c (named payload c) of
              Inl _ \<Rightarrow> [] | Inr items \<Rightarrow> stream_events (cup_hangup up) items)
      else (case cup_create up c (named payload c) of
              Inl _ \<Rightarrow> [] | Inr resp \<Rightarrow> [CreateChatCompletionResponse resp]))"

definition chat_tasks ::
    "proxy_env \<Rightarrow> account \<Rightarrow> api_credential \<Rightarrow> chat_upstream \<Rightarrow> chat_request \<Rightarrow> upstream_client \<Rightarrow>
     openai_event_task list" where
  "chat_tasks px acc key up payload c = numbered (tracer_for px acc key c) (chat_events up payload c)"

interpretation chat: retry
  "\<lambda>c. chat_completions_with_client up (tracer_for px acc key c) (payload\<lparr>ccr_model := uc_fullname c\<rparr>) c"
  "chat_answer up payload" "chat_tasks px acc key up payload" record_openai
  for px acc key up payload
proof unfold_locales
  fix w :: world and Q c
  assume "w_faults w = []"
  then show "wp (chat_completions_with_client up (tracer_for px acc key c) (payload\<lparr>ccr_model := uc_fullname c\<rparr>) c)
      Q w = Q (chat_answer up payload c) (record_openai (chat_tasks px acc key up payload c) w)"
    by (auto simp: chat_completions_with_client_def chat_answer_def chat_tasks_def chat_events_def
        named_def wp_transform_stream split: sum.splits)
qed simp_all

lemma chat_completions_runs:
  assumes "w_faults w = []" and "funded w (acc_id acc)"
    and "clients_for px w (ccr_model payload) ''openai'' ''chat/completions'' 2 = Inr cs" and "cs \<noteq> []"
  shows "wp (chat_completions px up key acc payload) Q w =
    Q (outcome (chat_answer up payload) (status_only 500) cs)
      (record_openai (concat (map (chat_tasks px acc key up payload) (tried (chat_answer up payload) cs)))
        (w_spawned_update (\<lambda>q. q @ unreachable is_network_error (chat_answer up payload) cs) w))"
  using assms
  by (simp add: chat_completions_def bind_ok_def wp_with_clients chat.try_clients_runs del: try_clients.simps)

section \<open>Embeddings\<close>

definition embedding_answer ::
    "(upstream_client \<Rightarrow> embedding_request \<Rightarrow> openai_error + embedding_response) \<Rightarrow> embedding_request \<Rightarrow>
     upstream_client \<Rightarrow> openai_error + (proxy_error + embedding_response)" where
  "embedding_answer send payload c = map_sum id Inr (send c (payload\<lparr>emr_model := uc_fullname c\<rparr>))"

definition embedding_tasks ::
    "proxy_env \<Rightarrow> account \<Rightarrow> api_credential \<Rightarrow>
     (upstream_client \<Rightarrow> embedding_request \<Rightarrow> openai_error + embedding_response) \<Rightarrow> embedding_request \<Rightarrow>
     upstream_client \<Rightarrow> openai_event_task list" where
  "embedding_tasks px acc key send payload c = numbered (tracer_for px acc key c)
     (CreateEmbeddingRequest (payload\<lparr>emr_model := uc_fullname c\<rparr>) #
      (case send c (payload\<lparr>emr_model := uc_fullname c\<rparr>) of
         Inl _ \<Rightarrow> [] | Inr resp \<Rightarrow> [CreateEmbeddingResponse resp]))"

interpretation embedding: retry
  "\<lambda>c. create_embeddings_with_client send (tracer_for px acc key c) (payload\<lparr>emr_model := uc_fullname c\<rparr>) c"
  "embedding_answer send payload" "embedding_tasks px acc key send payload" record_openai
  for px acc key send payload
  by unfold_locales
    (simp_all add: create_embeddings_with_client_def embedding_answer_def embedding_tasks_def split: sum.splits)

lemma create_embeddings_runs:
  assumes "w_faults w = []" and "funded w (acc_id acc)"
    and "clients_for px w (emr_model payload) ''openai'' ''embeddings'' 2 = Inr cs" and "cs \<noteq> []"
  shows "wp (create_embeddings px send key acc payload) Q w =
    Q (outcome (embedding_answer send payload) (status_only 500) cs)
      (record_openai (concat (map (embedding_tasks px acc key send payload) (tried (embedding_answer send payload) cs)))
        (w_spawned_update (\<lambda>q. q @ unreachable is_network_error (embedding_answer send payload) cs) w))"
  using assms
  by (simp add: create_embeddings_def bind_ok_def wp_with_clients embedding.try_clients_runs del: try_clients.simps)

section \<open>Messages\<close>

text \<open>The counters an event leaves behind, and what the stops of a stream record.\<close>

definition counted_input :: "stream_event \<Rightarrow> int \<Rightarrow> int" where
  "counted_input ev i = (case ev of MessageStart m \<Rightarrow> us_input_tokens (sdm_usage m) | _ \<Rightarrow> i)"

definition counted_output :: "stream_event \<Rightarrow> int \<Rightarrow> int" where
  "counted_output ev out = (case ev of MessageDelta n _ \<Rightarrow> n | _ \<Rightarrow> out)"

fun stop_events :: "int \<Rightarrow> int \<Rightarrow> stream_event list \<Rightarrow> anthropic_event_data list" where
  "stop_events i out [] = []"
| "stop_events i out (ev # evs) =
     (if ev = MessageStop then [CreateMessageStreamResponseDone i out] else []) @
     stop_events (counted_input ev i) (counted_output ev out) evs"

lemma wp_transform_sdk_stream:
  assumes "w_faults w = []"
  shows "wp (transform_sdk_stream ser hangup t i out items) Q w =
    Q (map (sdk_event_to_sse ser) (delivered hangup items))
      (record_anthropic (numbered_anthropic t (stop_events i out (delivered hangup items))) w)"
  using assms
proof (induction items arbitrary: hangup t i out w Q)
  case Nil
  consider "hangup = Some 0" | "hangup = None" | n where "hangup = Some (Suc n)"
    by (metis not0_implies_Suc option.exhaust)
  then show ?case by cases (use Nil in simp_all)
next
  case (Cons item items)
  consider "hangup = Some 0" | "hangup = None" | n where "hangup = Some (Suc n)"
    by (metis not0_implies_Suc option.exhaust)
  then show ?case
    by cases (cases item; use Cons in \<open>simp add: counted_input_def counted_output_def\<close>)+
qed

definition renamed :: "create_message_params \<Rightarrow> upstream_client \<Rightarrow> create_message_params" where
  "renamed payload c = payload\<lparr>cmp_model := uc_fullname c\<rparr>"

definition message_answer ::
    "message_upstream \<Rightarrow> create_message_params \<Rightarrow> upstream_client \<Rightarrow> sdk_error + (proxy_error + message_reply)" where
  "message_answer up payload c =
     (let params = to_sdk_params (mup_show_json up) (renamed payload c) in
      if unwrap_or (cmp_stream payload) False
      then map_sum id (\<lambda>items. Inr (MessageStream (map (sdk_event_to_sse (mup_ser up)) (delivered (mup_hangup up) items))))
             (mup_stream up c params)
      else map_sum id (\<lambda>m. Inr (MessageJson (from_sdk_message m))) (mup_create up c params))"

definition message_events ::
    "message_upstream \<Rightarrow> create_message_params \<Rightarrow> upstream_client \<Rightarrow> anthropic_event_data list" where
  "message_events up payload c =
     (let params = to_sdk_params (mup_show_json up) (renamed payload c) in
      if unwrap_or (cmp_stream payload) False
      then CreateMessageStreamRequest (renamed payload c) #
           (case mup_stream up c params of
              Inl _ \<Rightarrow> [] | Inr items \<Rightarrow> stop_events 0 0 (delivered (mup_hangup up) items))
      else CreateMessageRequest (renamed payload c) #
           (case mup_create up c params of
              Inl _ \<Rightarrow> [] | Inr m \<Rightarrow> [CreateMessageResponse (from_sdk_message m)]))"

definition message_tasks ::
    "proxy_env \<Rightarrow> account \<Rightarrow> api_credential \<Rightarrow> message_upstream \<Rightarrow> create_message_params \<Rightarrow> upstream_client \<Rightarrow>
     anthropic_event_task list" where
  "message_tasks px acc key up payload c =
     numbered_anthropic (tracer_for px acc key c) (message_events up payload c)"

interpretation messages: retry
  "\<lambda>c. attempt_message up (tracer_for px acc key c) (payload\<lparr>cmp_model := uc_fullname c\<rparr>) c"
  "message_answer up payload" "message_tasks px acc key up payload" record_anthropic
  for px acc key up payload
proof unfold_locales
  fix w :: world and Q c
  assume "w_faults w = []"
  then show "wp (attempt_message up (tracer_for px acc key c) (payload\<lparr>cmp_model := uc_fullname c\<rparr>) c)
      Q w = Q (message_answer up payload c) (record_anthropic (message_tasks px acc key up payload c) w)"
    by (auto simp: attempt_message_def message_answer_def message_tasks_def message_events_def Let_def
        renamed_def wp_transform_sdk_stream split: sum.splits)
qed simp_all

definition message_failed :: proxy_error where
  "message_failed = anthropic_error 500 ''api_error'' ''Internal server error while proxying to upstream.''"

lemma create_message_runs:
  assumes "w_faults w = []" and "funded w (acc_id acc)"
    and "messages_for px w (cmp_model payload) 2 = Inr cs" and "cs \<noteq> []"
  shows "wp (create_message px up key acc payload) Q w =
    Q (outcome (message_answer up payload) message_failed cs)
      (record_anthropic (concat (map (message_tasks px acc key up payload) (tried (message_answer up payload) cs)))
        (w_spawned_update (\<lambda>q. q @ unreachable is_sdk_network_error (message_answer up payload) cs) w))"
  using assms
  by (simp add: create_message_def bind_ok_def wp_with_anthropic_clients message_failed_def tracer_for_def [symmetric]
      messages.try_clients_runs del: try_clients.simps)

end
