(* ===== verification/ChatClaims.thy ===== *)
theory ChatClaims
  imports Serving BillingClaims "HOL-Library.Sublist"
begin

text \<open>
  What clients of the generating endpoints can rely on, and what reaches the billing: failover, the
  events of one exchange, the usage that is recorded and the usage that is lost.
\<close>

section \<open>A concrete upstream\<close>

definition demo_response :: chat_response where
  "demo_response = \<lparr>chat_usage = Some \<lparr>cu_prompt_tokens = 100, cu_completion_tokens = 0,
     cu_total_tokens = 100\<rparr>, chat_rest = JNull\<rparr>"

definition silent_chunk :: chat_response where
  "silent_chunk = \<lparr>chat_usage = None, chat_rest = JNull\<rparr>"

text \<open>The second upstream cannot be reached, the first answers; a stream ends with its usage.\<close>

definition demo_chat :: "nat option \<Rightarrow> chat_upstream" where
  "demo_chat hangup = \<lparr>
     cup_create = (\<lambda>c _. if uc_upstream_id c = 2 then Inl (Reqwest ''refused'') else Inr demo_response),
     cup_stream = (\<lambda>_ _. Inr [Inr silent_chunk, Inr demo_response]), cup_ser = (\<lambda>_. Some ''c''),
     cup_hangup = hangup\<rparr>"

definition demo_request :: "bool \<Rightarrow> chat_request" where
  "demo_request streamed = \<lparr>ccr_model = ''m'', ccr_stream = Some streamed, ccr_rest = JNull\<rparr>"

lemma demo_request_simps [simp]:
  "ccr_model (demo_request s) = ''m''" "ccr_stream (demo_request s) = Some s" "acc_id demo_account = 1"
  by (simp_all add: demo_request_def demo_account_def)

abbreviation two_openai :: world where
  "two_openai \<equiv> proxy_world ''openai'' [1, 2]"

lemma demo_chat_clients:
  "clients_for demo_px two_openai (ccr_model (demo_request s)) ''openai'' ''chat/completions'' 2
     = Inr [demo_client ''http://u/'' 2, demo_client ''http://u/'' 1]"
  unfolding demo_request_simps by (rule demo_clients) simp

lemma demo_chat_tried [simp]:
  "chat_answer (demo_chat h) (demo_request False) c =
     (if uc_upstream_id c = 2 then Inl (Reqwest ''refused'') else Inr (Inr (ChatJson demo_response)))"
  by (simp add: chat_answer_def demo_chat_def)

lemma demo_chat_events [simp]:
  "chat_events (demo_chat h) (demo_request False) c =
     CreateChatCompletionRequest (named (demo_request False) c) #
     (if uc_upstream_id c = 2 then [] else [CreateChatCompletionResponse demo_response])"
  "chat_events (demo_chat h) (demo_request True) c =
     CreateChatCompletionRequest (named (demo_request True) c) #
     stream_events h [Inr silent_chunk, Inr demo_response :: openai_error + _]"
  by (simp_all add: chat_events_def demo_chat_def)

section \<open>Properties\<close>

text \<open>C22: With one model able to serve a request and no token counted for it in this hour, the counters
  are read with a single \<^verbatim>\<open>GET\<close> whose empty reply has no entry for the model: the model is dropped
  and the request answered with status 500, although its upstream is online.\<close>

theorem lone_model_dropped:
  assumes "w_faults w = []" and "redis_replies (px_conv px)" and "funded w (acc_id acc)"
    and "candidates px (w_db w) (ccr_model payload) ''openai'' ''chat/completions'' = Inr [(m, u)]"
    and "lookup_live (w_now w) (w_redis w) (output_usage_key (mdl_id m) (px_hour px (w_now w))) = None"
  shows "run_state (chat_completions px up key acc payload) w = (Inl (status_only 500), w)"
proof -
  have "usages_of px w [mdl_id m] = []"
    using assms(2,5) by (simp add: usages_of_def redis_replies_def)
  then have "clients_for px w (ccr_model payload) ''openai'' ''chat/completions'' 2 = Inr []"
    by (simp add: clients_for_def routed_def assms(4) least_used_def)
  then have "wp (chat_completions px up key acc payload) (\<lambda>r t. r = Inl (status_only 500) \<and> t = w) w"
    using assms(1,3) by (simp add: chat_completions_def bind_ok_def wp_with_clients)
  then show ?thesis by (simp add: wp_run_state prod_eq_iff)
qed

theorem lone_model_dropped_witness:
  "run_state (chat_completions demo_px (demo_chat None) demo_credential demo_account (demo_request False))
     (proxy_world ''openai'' [2]) = (Inl (status_only 500), proxy_world ''openai'' [2])"
proof (rule lone_model_dropped)
  show "candidates demo_px (w_db (proxy_world ''openai'' [2])) (ccr_model (demo_request False)) ''openai''
      ''chat/completions'' = Inr [(offered 2, snd (routed_pair ''openai'' 2))]"
    by (simp add: candidates_offers) (simp add: routed_pair_def)
  show "lookup_live (w_now (proxy_world ''openai'' [2])) (w_redis (proxy_world ''openai'' [2]))
      (output_usage_key (mdl_id (offered 2)) (px_hour demo_px (w_now (proxy_world ''openai'' [2])))) = None"
    by (simp add: lookup_live_def used_redis_def output_usage_key_def)
qed simp_all

text \<open>C23: A healthy system serves a chat completion, streamed or not, from the first chosen client whose
  upstream answers: the reply is that answer, or status 500 if every upstream fails; each client tried has
  its request, and the answering one its reply, in the queue, numbered in order; the upstreams that could
  not be reached are marked offline by spawned tasks; nothing else changes.\<close>

theorem chat_served:
  assumes "w_faults w = []" and "funded w (acc_id acc)"
    and "clients_for px w (ccr_model payload) ''openai'' ''chat/completions'' 2 = Inr cs" and "cs \<noteq> []"
  shows "run_state (chat_completions px up key acc payload) w =
    (outcome (chat_answer up payload) (status_only 500) cs,
     w\<lparr>w_spawned := w_spawned w @ unreachable is_network_error (chat_answer up payload) cs,
       w_openai_q := w_openai_q w @
          concat (map (\<lambda>c. numbered (tracer_for px acc key c) (chat_events up payload c))
            (tried (chat_answer up payload) cs))\<rparr>)"
  by (rule wp_exact)
    (simp add: chat_completions_runs [OF assms] spawned_append record_openai_def chat_tasks_def [abs_def])

theorem chat_served_witness:
  "let (r, w') = run_state (chat_completions demo_px (demo_chat None) demo_credential demo_account (demo_request False)) two_openai
   in r = Inr (ChatJson demo_response) \<and> w_spawned w' = [2] \<and> length (w_openai_q w') = 3"
  unfolding Let_def
    chat_served [of two_openai demo_account demo_px "demo_request False" _ "demo_chat None" demo_credential,
      OF proxy_world_simps(1) demo_funded [folded demo_request_simps(3)] demo_chat_clients list.distinct(2)]
  by (simp add: outcome_def tried_def unreachable_def)

section \<open>From a chat completion to the charge\<close>

lemma request_unbilled:
  assumes "w_tx w = None" and "extract_openai_usage (oet_event_data e) = None"
  shows "balance_changes (w_db (final (handle_openai_event hour ser e) w)) = balance_changes (w_db w)"
proof -
  have "event_outcome (w_now w) ''spendtoken-'' (session_event_of (oet_session_id e) (oet_session_index e)
      (oet_account_id e) (oet_model_id e) (oet_api_key_id e) (unwrap_or (ser (oet_event_data e)) JNull) None
      (event_model (oet_model_id e) (w_db w))) None (w_faults w = []) (w_db w) (w_balance_q w)
      (w_db (final (handle_openai_event hour ser e) w)) (w_balance_q (final (handle_openai_event hour ser e) w))"
    unfolding handle_openai_event_def assms(2)
    using handle_event_outcome [OF assms(1), of hour "''spendtoken-''" "oet_session_id e" "oet_session_index e"
        "oet_account_id e" "oet_model_id e" "oet_api_key_id e" "unwrap_or (ser (oet_event_data e)) JNull" None]
    by (simp add: wp_run_state)
  then show ?thesis by (auto simp: event_outcome_def Let_def dest: records_row(4))
qed

lemma tracer_for_fields [simp]:
  "trc_session_id (tracer_for px acc key c) = px_session px (uc_model_db_id c)"
  "trc_session_index (tracer_for px acc key c) = 0" "trc_account_id (tracer_for px acc key c) = acc_id acc"
  "trc_model_id (tracer_for px acc key c) = uc_model_db_id c"
  "trc_api_key_id (tracer_for px acc key c) = cred_id key"
  by (simp_all add: tracer_for_def)

text \<open>C24: End to end: the usage an upstream reports for a chat completion is charged.  The answer is
  queued behind the request, as event 1 of the session; the worker that later handles the two events
  creates no change for the request and exactly one for the answer, on the account of the request, for
  the model's prices times the tokens of the answer.\<close>

theorem chat_billed:
  assumes "w_faults w = []" and "funded w (acc_id acc)"
    and "clients_for px w (ccr_model payload) ''openai'' ''chat/completions'' 2 = Inr (c # cs)"
    and "ccr_stream payload \<noteq> Some True"
    and "cup_create up c (payload\<lparr>ccr_model := uc_fullname c\<rparr>) = Inr resp" and "chat_usage resp = Some cu"
    and w': "w_tx w' = None" "w_faults w' = []" "event_model (uc_model_db_id c) (w_db w') = Some m"
      "\<exists>x \<in> set (t_rows (accounts (w_db w'))). acc_id x = acc_id acc"
      "\<forall>b \<in> set (t_rows (balance_changes (w_db w'))).
         bc_unique_request_id b \<noteq> request_id ''spendtoken-'' (px_session px (uc_model_db_id c)) 1"
  shows "\<exists>asked answered. w_openai_q (final (chat_completions px up key acc payload) w)
        = w_openai_q w @ [asked, answered] \<and>
      balance_changes (w_db (final (handle_openai_event hour ser asked) w')) = balance_changes (w_db w') \<and>
      (\<exists>bc s. t_rows (balance_changes (w_db (final (handle_openai_event hour ser answered) w')))
           = t_rows (balance_changes (w_db w')) @ [bc] \<and>
         bc_account_id bc = acc_id acc \<and> \<not> bc_is_applied bc \<and>
         bc_content bc = content_to_json (SpendToken s) \<and>
         spent_money s = mdl_input_token_price m * of_int (cu_prompt_tokens cu)
           + mdl_output_token_price m * of_int (cu_completion_tokens cu))"
proof -
  let ?t = "tracer_for px acc key c"
  let ?asked = "openai_task ?t (CreateChatCompletionRequest (named payload c))"
  let ?answered = "openai_task (next_tracer ?t) (CreateChatCompletionResponse resp)"
  have once: "unwrap_or (ccr_stream payload) False = False"
    using assms(4) by (cases "ccr_stream payload") auto
  have "w_openai_q (final (chat_completions px up key acc payload) w) = w_openai_q w @ [?asked, ?answered]"
    using chat_completions_runs [OF assms(1-3), of up key "\<lambda>_ t. w_openai_q t = w_openai_q w @ [?asked, ?answered]"]
    by (simp add: wp_run_state chat_tasks_def tried_def chat_answer_def chat_events_def once named_def assms(5))
  moreover have "balance_changes (w_db (final (handle_openai_event hour ser ?asked) w')) = balance_changes (w_db w')"
    by (rule request_unbilled [OF w'(1)]) (simp add: openai_task_def)
  moreover
  have fields: "oet_session_id ?answered = px_session px (uc_model_db_id c)" "oet_session_index ?answered = 1"
    "oet_account_id ?answered = acc_id acc" "oet_model_id ?answered = uc_model_db_id c"
    "extract_openai_usage (oet_event_data ?answered) = Some (chat_usage_info cu)"
    by (simp_all add: openai_task_def assms(6))
  obtain bc where "billed (request_id ''spendtoken-'' (px_session px (uc_model_db_id c)) 1) (acc_id acc) m
      (chat_usage_info cu) w' bc (final (handle_openai_event hour ser ?answered) w')"
    unfolding handle_openai_event_def fields using handle_event_bills [OF w'] by blast
  then have "\<exists>bc s. t_rows (balance_changes (w_db (final (handle_openai_event hour ser ?answered) w')))
           = t_rows (balance_changes (w_db w')) @ [bc] \<and>
         bc_account_id bc = acc_id acc \<and> \<not> bc_is_applied bc \<and>
         bc_content bc = content_to_json (SpendToken s) \<and>
         spent_money s = mdl_input_token_price m * of_int (cu_prompt_tokens cu)
           + mdl_output_token_price m * of_int (cu_completion_tokens cu)"
    unfolding billed_def using spent_money_cost [of m "chat_usage_info cu"]
    by (fastforce simp: usage_cost_def chat_usage_info_def)
  ultimately show ?thesis by blast
qed

definition answering_chat :: chat_upstream where
  "answering_chat = (demo_chat None)\<lparr>cup_create := (\<lambda>_ _. Inr demo_response)\<rparr>"

theorem chat_billed_witness:
  "\<exists>asked answered bc. w_openai_q (final (chat_completions demo_px answering_chat demo_credential demo_account
        (demo_request False)) two_openai) = [asked, answered] \<and>
     t_rows (balance_changes (w_db (final (handle_openai_event (\<lambda>_. ''h'') (\<lambda>_. None) answered) two_openai))) = [bc] \<and>
     bc_account_id bc = 1"
proof -
  have "cup_create answering_chat (demo_client ''http://u/'' 2)
      ((demo_request False)\<lparr>ccr_model := uc_fullname (demo_client ''http://u/'' 2)\<rparr>) = Inr demo_response"
    "chat_usage demo_response = Some \<lparr>cu_prompt_tokens = 100, cu_completion_tokens = 0, cu_total_tokens = 100\<rparr>"
    "event_model (uc_model_db_id (demo_client ''http://u/'' 2)) (w_db two_openai) = Some (offered 2)"
    "\<exists>x \<in> set (t_rows (accounts (w_db two_openai))). acc_id x = acc_id demo_account"
    "t_rows (balance_changes (w_db two_openai)) = []"
    by (simp_all add: answering_chat_def demo_response_def event_model_def select_rows_def offers_def empty_db_def
        empty_table_def)
  note here = this
  from chat_billed [of two_openai demo_account demo_px "demo_request False" _ _ answering_chat demo_response _
      two_openai "offered 2" demo_credential, OF _ _ demo_chat_clients _ here(1-2) _ _ here(3,4)]
  show ?thesis using here(5) by simp blast
qed

section \<open>Usage that is recorded, usage that is lost\<close>

definition usages :: "openai_event_task list \<Rightarrow> usage_info list" where
  "usages ts = List.map_filter (\<lambda>t. extract_openai_usage (oet_event_data t)) ts"

lemma usages_numbered [simp]: "usages (numbered t ds) = List.map_filter extract_openai_usage ds"
  by (induction ds arbitrary: t)
    (simp_all add: usages_def map_filter_simps openai_task_def split: option.split)

lemma map_filter_append: "List.map_filter f (xs @ ys) = List.map_filter f xs @ List.map_filter f ys"
  by (simp add: List.map_filter_def)

lemma usages_stream:
  "List.map_filter extract_openai_usage (stream_events hangup items)
     = List.map_filter (\<lambda>r. map_option chat_usage_info (chat_usage r)) (delivered hangup items)"
  by (simp add: stream_events_def map_filter_append List.map_filter_def comp_def filter_map)

lemma no_usage: "\<forall>r \<in> set rs. chat_usage r = None \<Longrightarrow>
    List.map_filter (\<lambda>r. map_option chat_usage_info (chat_usage r)) rs = []"
  by (simp add: List.map_filter_def filter_empty_conv)

lemma takeWhile_Inr [simp]: "takeWhile (\<lambda>x. \<not> isl x) (map Inr rs) = map Inr rs"
  by (induction rs) simp_all

lemma delivered_Inr: "delivered hangup (map Inr rs) = (case hangup of None \<Rightarrow> rs | Some n \<Rightarrow> take n rs)"
  by (simp add: delivered_def comp_def split: option.split)

text \<open>C25: The usage of a streamed completion comes with its last chunk.  A client that reads the stream to
  the end is charged for it; one that closes the connection before the last chunk has received all the
  text before it and is charged for nothing.\<close>

theorem hangup_unbilled:
  assumes "w_faults w = []" and "funded w (acc_id acc)"
    and "clients_for px w (ccr_model payload) ''openai'' ''chat/completions'' 2 = Inr (c # cs)"
    and "ccr_stream payload = Some True"
    and "cup_stream up c (payload\<lparr>ccr_model := uc_fullname c\<rparr>) = Inr (map Inr (chunks @ [last_chunk]))"
    and "\<forall>r \<in> set chunks. chat_usage r = None" and "chat_usage last_chunk = Some cu"
  shows "\<exists>new. w_openai_q (final (chat_completions px up key acc payload) w) = w_openai_q w @ new \<and>
     usages new = (if \<exists>n \<le> length chunks. cup_hangup up = Some n then [] else [chat_usage_info cu]) \<and>
     (\<forall>n \<le> length chunks. cup_hangup up = Some n \<longrightarrow>
        fst (run_state (chat_completions px up key acc payload) w)
          = Inr (ChatStream (List.map_filter (cup_ser up) (take n chunks))))"
proof -
  let ?all = "chunks @ [last_chunk]"
  obtain items :: "(openai_error + chat_response) list" where items: "items = map Inr ?all" by blast
  have stream: "unwrap_or (ccr_stream payload) False" by (simp add: assms(4))
  have sent: "cup_stream up c (named payload c) = Inr items" using assms(5) by (simp only: named_def items)
  let ?new = "chat_tasks px acc key up payload c"
  have "w_openai_q (final (chat_completions px up key acc payload) w) = w_openai_q w @ ?new \<and>
      fst (run_state (chat_completions px up key acc payload) w)
        = Inr (ChatStream (stream_text (cup_ser up) (cup_hangup up) items))"
    using chat_completions_runs [OF assms(1-3), of up key
        "\<lambda>r t. w_openai_q t = w_openai_q w @ ?new \<and>
          r = Inr (ChatStream (stream_text (cup_ser up) (cup_hangup up) items))"]
    by (simp add: wp_run_state tried_def outcome_def chat_answer_def stream sent)
  moreover have "usages ?new = List.map_filter (\<lambda>r. map_option chat_usage_info (chat_usage r))
      (delivered (cup_hangup up) items)"
    by (simp add: chat_tasks_def chat_events_def stream sent usages_stream map_filter_simps
        del: numbered.simps)
  moreover have "\<dots> = (if \<exists>n \<le> length chunks. cup_hangup up = Some n then [] else [chat_usage_info cu])"
  proof (cases "\<exists>n \<le> length chunks. cup_hangup up = Some n")
    case True
    then obtain n where "n \<le> length chunks" "cup_hangup up = Some n" by blast
    with True show ?thesis
      using assms(6) unfolding items delivered_Inr
      by (auto intro!: no_usage dest: in_set_takeD)
  next
    case False
    then have "delivered (cup_hangup up) items = ?all"
      unfolding items delivered_Inr
      by (cases "cup_hangup up") (auto simp: not_le take_Cons')
    with False show ?thesis
      using assms(7) by (simp add: map_filter_append no_usage [OF assms(6)] map_filter_simps)
  qed
  moreover have "stream_text (cup_ser up) (Some n) items = List.map_filter (cup_ser up) (take n chunks)"
    if "n \<le> length chunks" for n
  proof -
    have "\<not> stays (Some n) items"
      unfolding items stays_def takeWhile_Inr using that by simp
    with that show ?thesis
      unfolding stream_text_def by (simp add: items delivered_Inr del: map_append)
  qed
  ultimately show ?thesis by (intro exI [of _ ?new]) auto
qed

theorem hangup_unbilled_witness:
  "\<exists>new. w_openai_q (final (chat_completions demo_px (demo_chat (Some 1)) demo_credential demo_account
        (demo_request True)) two_openai) = new \<and> usages new = []"
proof -
  have "cup_stream (demo_chat (Some 1)) (demo_client ''http://u/'' 2)
      ((demo_request True)\<lparr>ccr_model := uc_fullname (demo_client ''http://u/'' 2)\<rparr>)
      = Inr (map Inr ([silent_chunk] @ [demo_response]))"
    "\<forall>r \<in> set [silent_chunk]. chat_usage r = None"
    "chat_usage demo_response = Some \<lparr>cu_prompt_tokens = 100, cu_completion_tokens = 0, cu_total_tokens = 100\<rparr>"
    "cup_hangup (demo_chat (Some 1)) = Some 1"
    by (simp_all add: demo_chat_def silent_chunk_def demo_response_def)
  note here = this
  from hangup_unbilled [of two_openai demo_account demo_px "demo_request True" _ _ "demo_chat (Some 1)"
      _ _ _ demo_credential, OF _ _ demo_chat_clients _ here(1-3)] here(4)
  show ?thesis by auto
qed

text \<open>The counters an Anthropic stream ends with: those of its last \<^verbatim>\<open>MessageStart\<close> and its last
  \<^verbatim>\<open>MessageDelta\<close>.\<close>

definition last_input :: "int \<Rightarrow> stream_event list \<Rightarrow> int" where
  "last_input i evs = last (i # [us_input_tokens (sdm_usage m). MessageStart m \<leftarrow> evs])"

definition last_output :: "int \<Rightarrow> stream_event list \<Rightarrow> int" where
  "last_output out evs = last (out # [n. MessageDelta n _ \<leftarrow> evs])"

lemma stop_events_none: "MessageStop \<notin> set evs \<Longrightarrow> stop_events i out evs = []"
  by (induction evs arbitrary: i out) auto

lemma stop_events_end:
  "MessageStop \<notin> set evs \<Longrightarrow> stop_events i out (evs @ [MessageStop])
     = [CreateMessageStreamResponseDone (last_input i evs) (last_output out evs)]"
proof (induction evs arbitrary: i out)
  case Nil
  then show ?case by (simp add: last_input_def last_output_def)
next
  case (Cons ev evs)
  then show ?case
    by (cases ev) (simp_all add: last_input_def last_output_def counted_input_def counted_output_def)
qed

definition anthropic_usages :: "anthropic_event_task list \<Rightarrow> usage_info list" where
  "anthropic_usages ts = List.map_filter (\<lambda>t. extract_anthropic_usage (aet_event_data t)) ts"

lemma anthropic_usages_numbered [simp]:
  "anthropic_usages (numbered_anthropic t ds) = List.map_filter extract_anthropic_usage ds"
  by (induction ds arbitrary: t)
    (simp_all add: anthropic_usages_def map_filter_simps anthropic_task_def split: option.split)

text \<open>C26: A streamed message is charged exactly when the client receives its \<^verbatim>\<open>message_stop\<close>: then
  the one usage recorded is the input count of the last start and the output count of the last delta of
  the stream.  Of a stream that fails, or is left, before its stop, no usage is recorded, whatever tokens
  were delivered.\<close>

theorem message_stream_recorded:
  assumes "w_faults w = []" and "funded w (acc_id acc)"
    and "messages_for px w (cmp_model payload) 2 = Inr (c # cs)" and "cmp_stream payload = Some True"
    and "mup_stream up c (to_sdk_params (mup_show_json up) (payload\<lparr>cmp_model := uc_fullname c\<rparr>)) = Inr items"
    and "delivered (mup_hangup up) items = evs @ stop" and "MessageStop \<notin> set evs" and "stop \<in> {[], [MessageStop]}"
  shows "\<exists>new. w_anthropic_q (final (create_message px up key acc payload) w) = w_anthropic_q w @ new \<and>
     anthropic_usages new =
       (if stop = [] then [] else [u64_usage_info (last_input 0 evs) (last_output 0 evs)])"
proof -
  let ?new = "message_tasks px acc key up payload c"
  have stream: "unwrap_or (cmp_stream payload) False" by (simp add: assms(4))
  have sent: "mup_stream up c (to_sdk_params (mup_show_json up) (renamed payload c)) = Inr items"
    using assms(5) by (simp add: renamed_def)
  have "w_anthropic_q (final (create_message px up key acc payload) w) = w_anthropic_q w @ ?new"
    using create_message_runs [OF assms(1-3), of up key "\<lambda>_ t. w_anthropic_q t = w_anthropic_q w @ ?new"]
    by (simp add: wp_run_state tried_def message_answer_def stream sent Let_def)
  moreover have "anthropic_usages ?new
      = (if stop = [] then [] else [u64_usage_info (last_input 0 evs) (last_output 0 evs)])"
    using assms(8) stop_events_none [OF assms(7), of 0 0] stop_events_end [OF assms(7), of 0 0]
    unfolding message_tasks_def anthropic_usages_numbered message_events_def
    by (auto simp: stream sent Let_def assms(6) map_filter_simps)
  ultimately show ?thesis by blast
qed

definition demo_sdk_message :: sdk_message where
  "demo_sdk_message = \<lparr>sdm_id = ''msg'', sdm_type = ''message'', sdm_role = Assistant, sdm_content = [],
     sdm_model = ''org/m'', sdm_stop_reason = None, sdm_stop_sequence = None,
     sdm_usage = \<lparr>us_input_tokens = 7, us_output_tokens = 0, us_cache_creation_input_tokens = None,
        us_cache_read_input_tokens = None\<rparr>\<rparr>"

definition demo_messages_up :: message_upstream where
  "demo_messages_up = \<lparr>mup_create = (\<lambda>_ _. Inr demo_sdk_message),
     mup_stream = (\<lambda>_ _. Inr [Inr (MessageStart demo_sdk_message), Inr (MessageDelta 5 JNull), Inr MessageStop]),
     mup_ser = (\<lambda>_. None), mup_show_json = (\<lambda>_. ''''), mup_hangup = None\<rparr>"

definition demo_params :: create_message_params where
  "demo_params = \<lparr>cmp_model = ''m'', cmp_messages = [], cmp_max_tokens = 10, cmp_system = None,
     cmp_stream = Some True, cmp_temperature = None, cmp_top_p = None, cmp_top_k = None,
     cmp_stop_sequences = None, cmp_tools = None, cmp_tool_choice = None, cmp_metadata = None\<rparr>"

theorem message_stream_recorded_witness:
  "anthropic_usages (w_anthropic_q (final (create_message demo_px demo_messages_up demo_credential demo_account
      demo_params) (proxy_world ''anthropic'' [1, 2]))) = [u64_usage_info 7 5]"
proof -
  let ?evs = "[MessageStart demo_sdk_message, MessageDelta 5 JNull]"
  have "delivered (mup_hangup demo_messages_up) [Inr (MessageStart demo_sdk_message), Inr (MessageDelta 5 JNull),
      Inr MessageStop :: sdk_error + _] = ?evs @ [MessageStop]"
    "messages_for demo_px (proxy_world ''anthropic'' [1, 2]) (cmp_model demo_params) 2
      = Inr [demo_client ''http://u'' 2, demo_client ''http://u'' 1]"
    "cmp_stream demo_params = Some True" "last_input 0 ?evs = 7" "last_output 0 ?evs = 5"
    using demo_messages by (simp_all add: demo_messages_up_def demo_params_def last_input_def last_output_def
        demo_sdk_message_def)
  note here = this
  from message_stream_recorded [of "proxy_world ''anthropic'' [1, 2]" demo_account demo_px demo_params _ _
      demo_messages_up _ ?evs "[MessageStop]" demo_credential, OF _ _ here(2,3) _ here(1)] here(4,5)
  show ?thesis by (auto simp: demo_messages_up_def)
qed

section \<open>The events of a session when calls fail\<close>

text \<open>Between \<open>w\<close> and \<open>w'\<close> some of the events \<open>ds\<close> have reached the queue, in their order and under their
  numbers, and nothing else has changed.\<close>

definition lossy :: "session_tracer \<Rightarrow> openai_event_data list \<Rightarrow> world \<Rightarrow> world \<Rightarrow> bool" where
  "lossy t ds w w' \<longleftrightarrow>
     (\<exists>new fs. subseq new (numbered t ds) \<and> w' = w\<lparr>w_faults := fs, w_openai_q := w_openai_q w @ new\<rparr>)"

lemma lossy_Nil [simp]: "lossy t [] w w"
  unfolding lossy_def by (rule exI [of _ "[]"], rule exI [of _ "w_faults w"]) simp

lemma lossy_step:
  assumes "lossy t [d] w v" and "lossy (next_tracer t) ds v u"
  shows "lossy t (d # ds) w u"
proof -
  from assms obtain xs ys fs where "subseq xs [openai_task t d]" "subseq ys (numbered (next_tracer t) ds)"
      "u = w\<lparr>w_faults := fs, w_openai_q := w_openai_q w @ xs @ ys\<rparr>"
    unfolding lossy_def by force
  moreover from this(1,2) have "subseq (xs @ ys) (numbered t (d # ds))"
    using list_emb_append_mono by fastforce
  ultimately show ?thesis unfolding lossy_def by blast
qed

lemma wp_add_lossy: "wp (openai_add t d) (\<lambda>r v. r = next_tracer t \<and> lossy t [d] w v) w"
proof (rule wp_openai_add)
  show "next_tracer t = next_tracer t \<and> lossy t [d] w (w\<lparr>w_faults := fs\<rparr>)" for fs
    unfolding lossy_def by (auto intro!: exI [of _ "[]"] exI [of _ fs])
  show "next_tracer t = next_tracer t \<and>
      lossy t [d] w (w\<lparr>w_faults := fs, w_openai_q := w_openai_q w @ [openai_task t d]\<rparr>)" for fs
    unfolding lossy_def by (auto intro!: exI [of _ "[openai_task t d]"] exI [of _ fs])
qed

lemma wp_then_lossy:
  assumes "\<And>v. wp (k (next_tracer t)) (\<lambda>r u. P r \<and> lossy (next_tracer t) ds v u) v"
  shows "wp (openai_add t d) (\<lambda>t' v. wp (k t') (\<lambda>r u. P r \<and> lossy t (d # ds) w u) v) w"
  by (rule wp_mono [OF wp_add_lossy]) (auto intro: wp_mono [OF assms] lossy_step)

lemma wp_last_lossy: "P (f (next_tracer t)) \<Longrightarrow>
    wp (openai_add t d) (\<lambda>t' v. P (f t') \<and> lossy t [d] w v) w"
  by (rule wp_mono [OF wp_add_lossy]) auto

lemma transform_stream_lossy:
  "wp (transform_stream ser hangup t items)
     (\<lambda>r v. r = stream_text ser hangup items \<and> lossy t (stream_events hangup items) w v) w"
proof (induction items arbitrary: hangup t w)
  case Nil
  consider "hangup = Some 0" | "hangup = None" | n where "hangup = Some (Suc n)"
    by (metis not0_implies_Suc option.exhaust)
  then show ?case
    by cases (simp_all add: stream_end_def stream_text_def stream_events_def wp_mono [OF wp_add_lossy])
next
  case (Cons item items)
  have ended: "wp (stream_end t) (\<lambda>r v. r = [''[DONE]''] \<and>
      lossy t [CreateChatCompletionStreamResponseDone] w v) w"
    by (simp add: stream_end_def wp_mono [OF wp_add_lossy])
  have goes_on: "wp (openai_add t (CreateChatCompletionStreamResponse chunk))
      (\<lambda>t' v. wp (transform_stream ser h' t' items)
         (\<lambda>r u. P r \<and> lossy t (CreateChatCompletionStreamResponse chunk # stream_events h' items) w u) v) w"
    if "P (stream_text ser h' items)" for chunk h' P
    by (rule wp_then_lossy, rule wp_mono [OF Cons]) (use that in auto)
  consider "hangup = Some 0" | "hangup = None" | n where "hangup = Some (Suc n)"
    by (metis not0_implies_Suc option.exhaust)
  then show ?case
  proof cases
    case 1
    then show ?thesis by (simp add: stream_text_def stream_events_def)
  next
    case 2
    show ?thesis
      using ended goes_on [of _ None] 2
      by (cases item) (auto simp: stream_text_def stream_events_def map_filter_simps split: option.splits)
  next
    case (3 n)
    show ?thesis
      using ended goes_on [of _ "Some n"] 3
      by (cases item) (auto simp: stream_text_def stream_events_def map_filter_simps split: option.splits)
  qed
qed

lemma numbered_index:
  assumes "0 \<le> trc_session_index t" and "trc_session_index t + int (length ds) < 2 ^ 31" and "e \<in> set (numbered t ds)"
  shows "trc_session_index t \<le> oet_session_index e"
  using assms
proof (induction ds arbitrary: t)
  case (Cons d ds)
  then show ?case using Cons.IH [of "next_tracer t"] by (auto simp: openai_task_def)
qed simp

lemma numbered_sorted:
  assumes "0 \<le> trc_session_index t" and "trc_session_index t + int (length ds) < 2 ^ 31"
  shows "sorted_wrt (<) (map oet_session_index (numbered t ds))"
  using assms
proof (induction ds arbitrary: t)
  case (Cons d ds)
  then have "trc_session_index t + 1 \<le> oet_session_index e" if "e \<in> set (numbered (next_tracer t) ds)" for e
    using numbered_index [of "next_tracer t" ds e] that by simp
  then show ?case using Cons by (fastforce simp: openai_task_def)
qed simp

lemma numbered_session: "e \<in> set (numbered t ds) \<Longrightarrow>
    oet_session_id e = trc_session_id t \<and> oet_account_id e = trc_account_id t \<and>
    oet_model_id e = trc_model_id t \<and> oet_api_key_id e = trc_api_key_id t"
proof (induction ds arbitrary: t)
  case (Cons d ds)
  from Cons.prems consider "e = openai_task t d" | "e \<in> set (numbered (next_tracer t) ds)" by auto
  then show ?case
    by cases (simp add: openai_task_def, use Cons.IH [of "next_tracer t"] in simp)
qed simp

lemma subseq_subset: "subseq xs ys \<Longrightarrow> set xs \<subseteq> set ys"
  by (induction rule: list_emb.induct) auto

lemma subseq_sorted_wrt: "subseq xs ys \<Longrightarrow> sorted_wrt R ys \<Longrightarrow> sorted_wrt R xs"
  by (induction rule: list_emb.induct) (auto dest: subseq_subset)

text \<open>C27: Whatever calls fail, the client of a chat completion gets the answer of the upstream, and the
  events that reach the queue are some of those a healthy system records, in order: they belong to the
  session, account, model and key of the request, and their indices are distinct and increasing as long
  as a session has less than \<open>2 ^ 31\<close> events.  Nothing else is changed.\<close>

theorem session_numbering:
  assumes "run_state (chat_completions_with_client up (tracer_for px acc key c) (named payload c) c) w = (r, w')"
  shows "r = chat_answer up payload c \<and>
    (\<exists>new fs. w' = w\<lparr>w_faults := fs, w_openai_q := w_openai_q w @ new\<rparr> \<and>
      subseq (map oet_event_data new) (chat_events up payload c) \<and>
      (\<forall>e \<in> set new. oet_session_id e = px_session px (uc_model_db_id c) \<and> oet_account_id e = acc_id acc \<and>
         oet_model_id e = uc_model_db_id c \<and> oet_api_key_id e = cred_id key) \<and>
      (int (length (chat_events up payload c)) < 2 ^ 31 \<longrightarrow> sorted_wrt (<) (map oet_session_index new)))"
proof -
  let ?t = "tracer_for px acc key c" and ?p = "named payload c"
  have stream: "ccr_stream (named payload c) = ccr_stream payload" by (simp add: named_def)
  have answered: "wp (openai_add t d) (\<lambda>t' v. P \<and> lossy t [d] w v) w" if P for t d w P
    by (rule wp_mono [OF wp_add_lossy]) (use that in auto)
  have "wp (chat_completions_with_client up ?t ?p c)
      (\<lambda>r v. r = chat_answer up payload c \<and> lossy ?t (chat_events up payload c) w v) w"
  proof (cases "unwrap_or (ccr_stream payload) False")
    case True
    then show ?thesis
      unfolding chat_completions_with_client_def chat_answer_def chat_events_def wp_bind stream
      by (intro wp_then_lossy)
        (auto simp: split: sum.split intro!: wp_mono [OF transform_stream_lossy])
  next
    case False
    then show ?thesis
      unfolding chat_completions_with_client_def chat_answer_def chat_events_def wp_bind stream
      by (intro wp_then_lossy) (auto split: sum.split intro!: answered [where P = True, simplified])
  qed
  then have r: "r = chat_answer up payload c" and "lossy ?t (chat_events up payload c) w w'"
    using assms by (simp_all add: wp_run_state)
  then obtain new fs where new: "subseq new (numbered ?t (chat_events up payload c))"
      "w' = w\<lparr>w_faults := fs, w_openai_q := w_openai_q w @ new\<rparr>"
    unfolding lossy_def by blast
  have "map oet_event_data (numbered t ds) = ds" for t ds
    by (induction ds arbitrary: t) (simp_all add: openai_task_def)
  with new(1) have "subseq (map oet_event_data new) (chat_events up payload c)"
    by (metis subseq_map)
  moreover have "set new \<subseteq> set (numbered ?t (chat_events up payload c))"
    by (rule subseq_subset [OF new(1)])
  moreover have "sorted_wrt (<) (map oet_session_index new)"
    if "int (length (chat_events up payload c)) < 2 ^ 31"
    using numbered_sorted [of ?t "chat_events up payload c"] that subseq_map [OF new(1), of oet_session_index]
    by (auto intro: subseq_sorted_wrt)
  ultimately show ?thesis
    using r new(2) by (intro conjI exI [of _ new] exI [of _ fs]) (auto dest!: subsetD numbered_session)
qed

theorem session_numbering_witness:
  "let (r, w') = run_state (chat_completions_with_client (demo_chat None)
        (tracer_for demo_px demo_account demo_credential (demo_client ''http://u/'' 1))
        (named (demo_request False) (demo_client ''http://u/'' 1)) (demo_client ''http://u/'' 1))
        (two_openai\<lparr>w_faults := [True]\<rparr>)
   in r = Inr (Inr (ChatJson demo_response))"
proof -
  obtain r w' where run: "run_state (chat_completions_with_client (demo_chat None)
        (tracer_for demo_px demo_account demo_credential (demo_client ''http://u/'' 1))
        (named (demo_request False) (demo_client ''http://u/'' 1)) (demo_client ''http://u/'' 1))
        (two_openai\<lparr>w_faults := [True]\<rparr>) = (r, w')" by fastforce
  from session_numbering [OF this] show ?thesis unfolding run by simp
qed

end
