(* ===== verification/OpenAIResponses.thy ===== *)
theory OpenAIResponses
  imports OpenAIProxy
begin

text \<open>
  The responses API (\<^verbatim>\<open>openai/proxy_views/responses.rs\<close>): responses are stored at the upstream
  under its identifier; the client sees an identifier of this program, and both are translated on every
  call.
\<close>

text \<open>\<^verbatim>\<open>format!("resp-\<lbrace>\<rbrace>", ...)\<close>; \<open>px_new_response\<close> is the UUID without dashes.\<close>

definition new_response_id :: "proxy_env \<Rightarrow> string" where
  "new_response_id px = ''resp-'' @ px_new_response px"

section \<open>Creating\<close>

definition missing_model :: proxy_error where
  "missing_model = \<lparr>pe_status = 400, pe_message = ''model is required'',
     pe_type = ''invalid_request_error'', pe_code = ''missing_model''\<rparr>"

text \<open>The identifier of the previous response, translated to the upstream's.\<close>

definition translate_previous :: "string option \<Rightarrow> (proxy_error + string option) io" where
  "translate_previous previous =
     (case previous of
        None \<Rightarrow> return (Inr None)
      | Some prev_id \<Rightarrow> do {
          r \<leftarrow> get_original_response_id prev_id;
          return (case r of
            Inr (Some orig_id) \<Rightarrow> Inr (Some orig_id)
          | Inr None \<Rightarrow> Inl (openai_missing ''Previous response'' prev_id ''response_not_found'')
          | Inl _ \<Rightarrow> Inl (status_only 500)) })"

record responses_upstream =
  rup_create :: "upstream_client \<Rightarrow> create_response \<Rightarrow> openai_error + response"
  rup_to_value :: "response \<Rightarrow> json option"

definition create_response_with_client ::
    "responses_upstream \<Rightarrow> session_tracer \<Rightarrow> create_response \<Rightarrow> upstream_client \<Rightarrow>
     (openai_error + json \<times> string) io" where
  "create_response_with_client up tracer payload client = do {
     tracer' \<leftarrow> openai_add tracer (ResponsesRequest payload);
     (case rup_create up client payload of
        Inl e \<Rightarrow> return (Inl e)
      | Inr resp \<Rightarrow> do {
          _ \<leftarrow> openai_add tracer' (ResponsesResponse resp);
          return (Inr (unwrap_or (rup_to_value up resp) JNull, rsp_id resp)) }) }"

text \<open>After a success: store the mapping, put the program's identifiers into the answer.\<close>

definition store_response ::
    "proxy_env \<Rightarrow> int \<Rightarrow> string option \<Rightarrow> json \<times> string \<Rightarrow> (proxy_error + json) io" where
  "store_response px upstream_id our_previous = (\<lambda>(value, original_response_id). do {
     let our_response_id = new_response_id px;
     stored \<leftarrow> create_response_meta our_response_id original_response_id upstream_id;
     return (case stored of
        Inl _ \<Rightarrow> Inl (status_only 500)
      | Inr _ \<Rightarrow>
          let value' = json_set ''id'' (JStr our_response_id) value
          in Inr (case our_previous of
                    None \<Rightarrow> value'
                  | Some our_prev_id \<Rightarrow> json_set ''previous_response_id'' (JStr our_prev_id) value')) })"

definition create_response ::
    "proxy_env \<Rightarrow> responses_upstream \<Rightarrow> api_credential \<Rightarrow> account \<Rightarrow> create_response \<Rightarrow>
     json response_io" where
  "create_response px up key acc payload =
     bind_ok (check_wallet_balance (acc_id acc)) (\<lambda>_.
       (case crq_model payload of
          None \<Rightarrow> return (Inl missing_model)
        | Some model_name \<Rightarrow>
            with_clients px model_name ''responses'' 2 (\<lambda>clients.
              bind_ok (translate_previous (crq_previous_response_id payload)) (\<lambda>original_previous.
                try_clients (status_only 500) is_network_error
                  (\<lambda>c. do {
                     r \<leftarrow> create_response_with_client up (tracer_for px acc key c)
                           (payload\<lparr>crq_model := Some (uc_fullname c),
                                    crq_previous_response_id := original_previous\<rparr>) c;
                     (case r of
                        Inl e \<Rightarrow> return (Inl e)
                      | Inr answer \<Rightarrow> do {
                          reply \<leftarrow> store_response px (uc_upstream_id c) (crq_previous_response_id payload) answer;
                          return (Inr reply) }) })
                  clients))))"

section \<open>Deleting and retrieving\<close>

definition resolve_response_meta :: "string \<Rightarrow> (proxy_error + response_meta) io" where
  "resolve_response_meta response_id = do {
     r \<leftarrow> get_response_meta_by_response_id response_id;
     return (case r of
        Inr (Some m) \<Rightarrow> Inr m
      | Inr None \<Rightarrow> Inl (openai_missing ''Response'' response_id ''response_not_found'')
      | Inl _ \<Rightarrow> Inl (status_only 500)) }"

text \<open>\<^verbatim>\<open>Client::with_config\<close> without the proxies of the upstream.\<close>

definition direct_client :: "llm_upstream \<Rightarrow> sdk_client" where
  "direct_client u = \<lparr>sc_api_key = up_api_key u, sc_api_base = up_api_base u, sc_proxy = None\<rparr>"

text \<open>The balance is not checked before a deletion; \<open>'d\<close> is the answer of the upstream.\<close>

definition delete_response ::
    "proxy_env \<Rightarrow> (sdk_client \<Rightarrow> string \<Rightarrow> openai_error + 'd) \<Rightarrow> string \<Rightarrow> 'd response_io" where
  "delete_response px send response_id =
     bind_ok (resolve_response_meta response_id) (\<lambda>meta.
     bind_ok (get_upstream_by_id px (rm_upstream_id meta)) (\<lambda>upstream.
       (case send (direct_client upstream) (rm_original_response_id meta) of
          Inl _ \<Rightarrow> return (Inl (status_only 500))
        | Inr deleted \<Rightarrow> do {
            marked \<leftarrow> mark_response_meta_deleted response_id;
            return (case marked of
               Inl _ \<Rightarrow> Inl (status_only 500)
             | Inr _ \<Rightarrow> Inr deleted) })))"

text \<open>The tracer of a retrieval carries the identifier of the upstream where others carry the model's.\<close>

definition retrieve_response ::
    "proxy_env \<Rightarrow> (sdk_client \<Rightarrow> string \<Rightarrow> openai_error + response) \<Rightarrow> api_credential \<Rightarrow> account \<Rightarrow> string \<Rightarrow>
     response response_io" where
  "retrieve_response px send key acc response_id =
     bind_ok (check_wallet_balance (acc_id acc)) (\<lambda>_.
     bind_ok (resolve_response_meta response_id) (\<lambda>meta.
     bind_ok (get_upstream_by_id px (rm_upstream_id meta)) (\<lambda>upstream.
       (case send (direct_client upstream) (rm_original_response_id meta) of
          Inl _ \<Rightarrow> return (Inl (status_only 500))
        | Inr resp \<Rightarrow> do {
            _ \<leftarrow> openai_add (new_tracer (px_session px (up_id upstream)) (acc_id acc) (up_id upstream) (cred_id key))
                  (ResponsesResponse resp);
            let resp' = resp\<lparr>rsp_id := response_id\<rparr>;
            (case rsp_previous_response_id resp of
               None \<Rightarrow> return (Inr resp')
             | Some upstream_prev_id \<Rightarrow> do {
                 r \<leftarrow> get_response_id_from_original_response_id upstream_prev_id;
                 return (case r of
                    Inl _ \<Rightarrow> Inl (status_only 500)
                  | Inr None \<Rightarrow> Inr resp'
                  | Inr (Some our_prev_id) \<Rightarrow>
                      Inr (resp'\<lparr>rsp_previous_response_id := Some our_prev_id\<rparr>)) }) }))))"

end
