(* ===== verification/Uploads.thy ===== *)
theory Uploads
  imports Routing
begin

text \<open>
  Reading the multipart body of a file upload, the loop that \<^verbatim>\<open>openai/proxy_views/files.rs\<close> and
  \<^verbatim>\<open>anthropic/proxy_views/files.rs\<close> share up to the form of their errors (\<open>bad\<close>).
\<close>

text \<open>
  What the multipart reader yields, field by field; a field whose body cannot be read, or a broken
  body, carries the text of the error.
\<close>

datatype multipart_item =
    Field string "string option" "string option" "string + bytes"
  | Broken string

record upload_form =
  uf_bytes :: "bytes option"
  uf_name :: "string option"
  uf_content_type :: "string option"
  uf_purpose :: "string option"

definition empty_form :: upload_form where
  "empty_form = \<lparr>uf_bytes = None, uf_name = None, uf_content_type = None, uf_purpose = None\<rparr>"

fun read_form ::
    "(string \<Rightarrow> proxy_error) \<Rightarrow> upload_form \<Rightarrow> multipart_item list \<Rightarrow> proxy_error + upload_form" where
  "read_form bad form [] = Inr form"
| "read_form bad form (Broken e # items) = Inl (bad (''Multipart parsing error: '' @ e))"
| "read_form bad form (Field name file_name content_type body # items) =
     (if name = ''file'' then
        (case body of
           Inl e \<Rightarrow> Inl (bad (''Failed to read file bytes: '' @ e))
         | Inr b \<Rightarrow> read_form bad (form\<lparr>uf_bytes := Some b, uf_name := Some (unwrap_or file_name ''upload.bin''),
                                       uf_content_type := content_type\<rparr>) items)
      else if name = ''purpose'' then
        (case body of
           Inl e \<Rightarrow> Inl (bad (''Failed to read purpose field: '' @ e))
         | Inr t \<Rightarrow> read_form bad (form\<lparr>uf_purpose := Some t\<rparr>) items)
      else read_form bad form items)"

end
