(* ===== verification/OpenAIFiles.thy ===== *)
theory OpenAIFiles
  imports OpenAIProxy Uploads
begin

text \<open>
  Files and batches of the OpenAI proxy (\<^verbatim>\<open>openai/proxy_views/files.rs\<close>,
  \<^verbatim>\<open>openai/proxy_views/batches.rs\<close>): both live at one upstream under its identifiers, the client
  sees those of this program.
\<close>

section \<open>Uploads\<close>

definition bad_request :: "string \<Rightarrow> proxy_error" where
  "bad_request message = \<lparr>pe_status = 400, pe_message = message, pe_type = ''invalid_request_error'',
     pe_code = ''bad_request''\<rparr>"

datatype file_purpose = Assistants | BatchPurpose | Vision | UserData | Evals | FineTune

definition parse_purpose :: "string \<Rightarrow> file_purpose" where
  "parse_purpose s =
     (if s = ''assistants'' then Assistants else if s = ''batch'' then BatchPurpose
      else if s = ''vision'' then Vision else if s = ''user_data'' then UserData
      else if s = ''evals'' then Evals else FineTune)"

record create_file_request =
  cfr_filename :: string
  cfr_bytes :: bytes
  cfr_purpose :: file_purpose

record file_object =
  fo_id :: string
  fo_rest :: json

section \<open>Identifiers\<close>

definition new_file_id :: "proxy_env \<Rightarrow> string" where
  "new_file_id px = ''file-'' @ px_new_file px"

definition wrap_file ::
    "proxy_env \<Rightarrow> string option \<Rightarrow> int \<Rightarrow> (proxy_error + file_meta option) io" where
  "wrap_file px file_id upstream_id =
     (case file_id of
        None \<Rightarrow> return (Inr None)
      | Some original_file_id \<Rightarrow> do {
          found \<leftarrow> get_file_meta_by_original_file_id original_file_id upstream_id;
          (case found of
             Inl _ \<Rightarrow> return (Inl (status_only 500))
           | Inr (Some existing) \<Rightarrow> return (Inr (Some existing))
           | Inr None \<Rightarrow> do {
               created \<leftarrow> create_file_meta (new_file_id px) original_file_id ''batch_output'' upstream_id;
               return (case created of
                  Inl _ \<Rightarrow> Inl (status_only 500)
                | Inr meta \<Rightarrow> Inr (Some meta)) }) })"

definition resolve_file_meta :: "string \<Rightarrow> (proxy_error + file_meta) io" where
  "resolve_file_meta file_id = do {
     r \<leftarrow> get_file_meta_by_file_id file_id;
     return (case r of
        Inr (Some meta) \<Rightarrow> Inr meta
      | Inr None \<Rightarrow> Inl (openai_missing ''File'' file_id ''file_not_found'')
      | Inl _ \<Rightarrow> Inl (status_only 500)) }"

text \<open>\<^verbatim>\<open>build_client_from_upstream\<close> may panic.\<close>

definition with_client :: "proxy_env \<Rightarrow> llm_upstream \<Rightarrow> (sdk_client \<Rightarrow> 'b response_io) \<Rightarrow> 'b response_io" where
  "with_client px u k =
     (case build_client_from_upstream px u of
        Inl msg \<Rightarrow> return (Inl (panicked msg))
      | Inr client \<Rightarrow> k client)"

definition failed :: "openai_error + 'b \<Rightarrow> proxy_error + 'b" where
  "failed r = (case r of Inl _ \<Rightarrow> Inl (status_only 500) | Inr x \<Rightarrow> Inr x)"

section \<open>Files\<close>

definition list_files_handler ::
    "proxy_env \<Rightarrow> (sdk_client \<Rightarrow> openai_error + 'd) \<Rightarrow> account \<Rightarrow> 'd response_io" where
  "list_files_handler px send acc =
     bind_ok (check_wallet_balance (acc_id acc)) (\<lambda>_.
     bind_ok (select_first_upstream px) (\<lambda>upstream.
     with_client px upstream (\<lambda>client. return (failed (send client)))))"

definition create_file_handler ::
    "proxy_env \<Rightarrow> (sdk_client \<Rightarrow> create_file_request \<Rightarrow> openai_error + file_object) \<Rightarrow> account \<Rightarrow>
     multipart_item list \<Rightarrow> file_object response_io" where
  "create_file_handler px send acc items =
     bind_ok (check_wallet_balance (acc_id acc)) (\<lambda>_.
     bind_ok (select_first_upstream px) (\<lambda>upstream.
       (case read_form bad_request empty_form items of
          Inl resp \<Rightarrow> return (Inl resp)
        | Inr form \<Rightarrow>
            (case uf_bytes form of
               None \<Rightarrow> return (Inl (bad_request ''Missing required field: file''))
             | Some bytes \<Rightarrow>
                 let filename = unwrap_or (uf_name form) ''upload.bin'';
                     purpose_raw = unwrap_or (uf_purpose form) ''fine-tune''
                 in with_client px upstream (\<lambda>client.
                      (case send client \<lparr>cfr_filename = filename, cfr_bytes = bytes,
                                         cfr_purpose = parse_purpose purpose_raw\<rparr> of
                         Inl _ \<Rightarrow> return (Inl (status_only 500))
                       | Inr file \<Rightarrow> do {
                           stored \<leftarrow> create_file_meta (new_file_id px) (fo_id file) purpose_raw (up_id upstream);
                           return (case stored of
                              Inl _ \<Rightarrow> Inl (status_only 500)
                            | Inr _ \<Rightarrow> Inr (file\<lparr>fo_id := new_file_id px\<rparr>)) }))))))"

text \<open>The three handlers of one file: gate, identifier, upstream, client.\<close>

definition with_file ::
    "proxy_env \<Rightarrow> account \<Rightarrow> string \<Rightarrow> (sdk_client \<Rightarrow> file_meta \<Rightarrow> 'b response_io) \<Rightarrow> 'b response_io" where
  "with_file px acc file_id k =
     bind_ok (check_wallet_balance (acc_id acc)) (\<lambda>_.
     bind_ok (resolve_file_meta file_id) (\<lambda>meta.
     bind_ok (get_upstream_by_id px (fm_upstream_id meta)) (\<lambda>upstream.
     with_client px upstream (\<lambda>client. k client meta))))"

definition retrieve_file_handler ::
    "proxy_env \<Rightarrow> (sdk_client \<Rightarrow> string \<Rightarrow> openai_error + file_object) \<Rightarrow> account \<Rightarrow> string \<Rightarrow>
     file_object response_io" where
  "retrieve_file_handler px send acc file_id = with_file px acc file_id (\<lambda>client meta.
     (case send client (fm_original_file_id meta) of
        Inl _ \<Rightarrow> return (Inl (status_only 500))
      | Inr file \<Rightarrow> return (Inr (file\<lparr>fo_id := file_id\<rparr>))))"

definition delete_file_handler ::
    "proxy_env \<Rightarrow> (sdk_client \<Rightarrow> string \<Rightarrow> openai_error + file_object) \<Rightarrow> account \<Rightarrow> string \<Rightarrow>
     file_object response_io" where
  "delete_file_handler px send acc file_id = with_file px acc file_id (\<lambda>client meta.
     (case send client (fm_original_file_id meta) of
        Inl _ \<Rightarrow> return (Inl (status_only 500))
      | Inr resp \<Rightarrow> do {
          _ \<leftarrow> mark_file_meta_deleted file_id;
          return (Inr (resp\<lparr>fo_id := file_id\<rparr>)) }))"

definition file_content_handler ::
    "proxy_env \<Rightarrow> (sdk_client \<Rightarrow> string \<Rightarrow> openai_error + bytes) \<Rightarrow> account \<Rightarrow> string \<Rightarrow> bytes response_io" where
  "file_content_handler px send acc file_id = with_file px acc file_id (\<lambda>client meta.
     return (failed (send client (fm_original_file_id meta))))"

section \<open>Batches\<close>

definition new_batch_id :: "proxy_env \<Rightarrow> string" where
  "new_batch_id px = ''batch-'' @ px_new_batch px"

definition resolve_batch_meta :: "string \<Rightarrow> (proxy_error + batch_meta) io" where
  "resolve_batch_meta batch_id = do {
     r \<leftarrow> get_batch_meta_by_batch_id batch_id;
     return (case r of
        Inr (Some meta) \<Rightarrow> Inr meta
      | Inr None \<Rightarrow> Inl (openai_missing ''Batch'' batch_id ''batch_not_found'')
      | Inl _ \<Rightarrow> Inl (status_only 500)) }"

definition sync_batch_status :: "string \<Rightarrow> batch \<Rightarrow> unit io" where
  "sync_batch_status batch_id b = do {
     _ \<leftarrow> update_batch_meta_status batch_id (bat_status b);
     return () }"

definition list_batches_handler ::
    "proxy_env \<Rightarrow> (sdk_client \<Rightarrow> openai_error + 'd) \<Rightarrow> account \<Rightarrow> 'd response_io" where
  "list_batches_handler px send acc =
     bind_ok (check_wallet_balance (acc_id acc)) (\<lambda>_. do {
       r \<leftarrow> list_upstreams (px_crypto px);
       (case r of
          Inl _ \<Rightarrow> return (Inl (status_only 500))
        | Inr [] \<Rightarrow> return (Inl \<lparr>pe_status = 503, pe_message = ''No upstream upstreams configured.'',
                              pe_type = ''server_error'', pe_code = ''no_upstream''\<rparr>)
        | Inr (upstream # _) \<Rightarrow> with_client px upstream (\<lambda>client. return (failed (send client)))) })"

text \<open>The tracer of a batch carries the identifier of the upstream where others carry the model's.\<close>

definition batch_tracer :: "proxy_env \<Rightarrow> account \<Rightarrow> api_credential \<Rightarrow> int \<Rightarrow> session_tracer" where
  "batch_tracer px acc key upstream_id =
     new_tracer (px_session px upstream_id) (acc_id acc) upstream_id (cred_id key)"

text \<open>The end of three handlers: translate the output file, trace the batch, answer with it.\<close>

definition answer_batch :: "proxy_env \<Rightarrow> session_tracer \<Rightarrow> int \<Rightarrow> batch \<Rightarrow> batch response_io" where
  "answer_batch px tracer upstream_id b =
     bind_ok (wrap_file px (bat_output_file_id b) upstream_id) (\<lambda>meta. do {
       let b' = b\<lparr>bat_output_file_id := map_option fm_file_id meta\<rparr>;
       _ \<leftarrow> openai_add tracer (Batch b');
       return (Inr b') })"

definition create_batch_handler ::
    "proxy_env \<Rightarrow> (sdk_client \<Rightarrow> batch_request \<Rightarrow> openai_error + batch) \<Rightarrow> api_credential \<Rightarrow> account \<Rightarrow>
     batch_request \<Rightarrow> batch response_io" where
  "create_batch_handler px send key acc payload =
     bind_ok (check_wallet_balance (acc_id acc)) (\<lambda>_.
     bind_ok (resolve_file_meta (br_input_file_id payload)) (\<lambda>file_meta.
     bind_ok (get_upstream_by_id px (fm_upstream_id file_meta)) (\<lambda>upstream. do {
       tracer \<leftarrow> openai_add (batch_tracer px acc key (up_id upstream)) (BatchRequest payload);
       with_client px upstream (\<lambda>client.
         (case send client (payload\<lparr>br_input_file_id := fm_original_file_id file_meta\<rparr>) of
            Inl _ \<Rightarrow> return (Inl (status_only 500))
          | Inr b \<Rightarrow> do {
              stored \<leftarrow> create_batch_meta_with_provider (new_batch_id px) (bat_id b) (up_id upstream) ''openai'';
              (case stored of
                 Inl _ \<Rightarrow> return (Inl (status_only 500))
               | Inr _ \<Rightarrow> do {
                   let b' = b\<lparr>bat_id := new_batch_id px\<rparr>;
                   _ \<leftarrow> sync_batch_status (new_batch_id px) b';
                   answer_batch px tracer (up_id upstream) b' }) })) })))"

definition batch_by_id_handler ::
    "proxy_env \<Rightarrow> (sdk_client \<Rightarrow> string \<Rightarrow> openai_error + batch) \<Rightarrow> api_credential \<Rightarrow> account \<Rightarrow> string \<Rightarrow>
     batch response_io" where
  "batch_by_id_handler px send key acc batch_id =
     bind_ok (check_wallet_balance (acc_id acc)) (\<lambda>_.
     bind_ok (resolve_batch_meta batch_id) (\<lambda>meta.
     bind_ok (get_upstream_by_id px (bm_upstream_id meta)) (\<lambda>upstream.
     with_client px upstream (\<lambda>client.
       (case send client (bm_original_batch_id meta) of
          Inl _ \<Rightarrow> return (Inl (status_only 500))
        | Inr b \<Rightarrow> do {
            let b' = b\<lparr>bat_id := batch_id\<rparr>;
            _ \<leftarrow> sync_batch_status batch_id b';
            answer_batch px (batch_tracer px acc key (up_id upstream)) (bm_upstream_id meta) b' })))))"

text \<open>Cancelling does not write the new status to the table.\<close>

definition batch_cancel_handler ::
    "proxy_env \<Rightarrow> (sdk_client \<Rightarrow> string \<Rightarrow> openai_error + batch) \<Rightarrow> api_credential \<Rightarrow> account \<Rightarrow> string \<Rightarrow>
     batch response_io" where
  "batch_cancel_handler px send key acc batch_id =
     bind_ok (check_wallet_balance (acc_id acc)) (\<lambda>_.
     bind_ok (resolve_batch_meta batch_id) (\<lambda>meta.
     bind_ok (get_upstream_by_id px (bm_upstream_id meta)) (\<lambda>upstream.
     with_client px upstream (\<lambda>client.
       (case send client (bm_original_batch_id meta) of
          Inl _ \<Rightarrow> return (Inl (status_only 500))
        | Inr b \<Rightarrow>
            answer_batch px (batch_tracer px acc key (up_id upstream)) (bm_upstream_id meta)
              (b\<lparr>bat_id := batch_id\<rparr>))))))"

end
