(* ===== verification/AnthropicStored.thy ===== *)
theory AnthropicStored
  imports AnthropicProxy Uploads
begin

text \<open>
  Message batches and files of the Anthropic proxy (\<^verbatim>\<open>anthropic/proxy_views/batches.rs\<close>,
  \<^verbatim>\<open>files.rs\<close>).  Identifiers are translated by the same tables as for OpenAI; the upstream is
  chosen by model name, which is the empty string wherever a request names no model.
\<close>

section \<open>Errors\<close>

definition sdk_error_response :: "(sdk_error \<Rightarrow> string) \<Rightarrow> sdk_error \<Rightarrow> proxy_error" where
  "sdk_error_response show_error e = anthropic_error 500 ''api_error'' (show_error e)"

definition maybe_mark_offline :: "sdk_error \<Rightarrow> int \<Rightarrow> unit io" where
  "maybe_mark_offline e upstream_id =
     (if is_sdk_network_error e then spawn_mark_offline upstream_id else return ())"

text \<open>The error branch of every call: mark offline, answer with the text of the error.\<close>

definition call_failed ::
    "(sdk_error \<Rightarrow> string) \<Rightarrow> upstream_client \<Rightarrow> sdk_error \<Rightarrow> 'b response_io" where
  "call_failed show_error c e = do {
     _ \<leftarrow> maybe_mark_offline e (uc_upstream_id c);
     return (Inl (sdk_error_response show_error e)) }"

section \<open>Message batches\<close>

definition new_msgbatch_id :: "proxy_env \<Rightarrow> string" where
  "new_msgbatch_id px = ''msgbatch-'' @ px_new_batch px"

definition resolve_msgbatch_meta :: "string \<Rightarrow> (proxy_error + batch_meta) io" where
  "resolve_msgbatch_meta batch_id = do {
     r \<leftarrow> get_batch_meta_by_batch_id batch_id;
     return (case r of
        Inr (Some meta) \<Rightarrow> Inr meta
      | Inr None \<Rightarrow> Inl (anthropic_error 404 ''not_found_error''
          (''Message batch '' @ quoted batch_id @ '' not found.''))
      | Inl _ \<Rightarrow> Inl (status_only 500)) }"

definition sync_msgbatch_status :: "string \<Rightarrow> message_batch \<Rightarrow> unit io" where
  "sync_msgbatch_status batch_id b = do {
     _ \<leftarrow> update_batch_meta_status batch_id (mb_processing_status b);
     return () }"

definition create_message_batch ::
    "proxy_env \<Rightarrow> (create_message_batch_params, message_batch) transport \<Rightarrow> (sdk_error \<Rightarrow> string) \<Rightarrow> account \<Rightarrow>
     create_message_batch_params \<Rightarrow> message_batch response_io" where
  "create_message_batch px tp show_error acc payload =
     bind_ok (anthropic_check_wallet_balance (acc_id acc)) (\<lambda>_.
       let model_name = (case first_row (cmb_requests payload) of
                           None \<Rightarrow> '''' | Some r \<Rightarrow> cmp_model (bri_params r))
       in with_anthropic_clients px model_name 1 ''No upstream available for the requested model.'' (\<lambda>clients.
         let c = hd clients in
         (case anthropic_sdk_request px tp (uc_client c) ''/v1/messages/batches'' payload of
            Inl e \<Rightarrow> call_failed show_error c e
          | Inr b \<Rightarrow> do {
              stored \<leftarrow> create_batch_meta_with_provider (new_msgbatch_id px) (mb_id b) (uc_upstream_id c)
                         ''anthropic'';
              (case stored of
                 Inl _ \<Rightarrow> return (Inl (status_only 500))
               | Inr _ \<Rightarrow> do {
                   let b' = b\<lparr>mb_id := new_msgbatch_id px\<rparr>;
                   _ \<leftarrow> sync_msgbatch_status (new_msgbatch_id px) b';
                   return (Inr b') }) })))"

record list_message_batches_response =
  lmb_data :: "message_batch list"
  lmb_has_more :: bool
  lmb_first_id :: "string option"
  lmb_last_id :: "string option"

definition list_message_batches ::
    "proxy_env \<Rightarrow> (unit, list_message_batches_response) transport \<Rightarrow> (sdk_error \<Rightarrow> string) \<Rightarrow> account \<Rightarrow>
     list_message_batches_response response_io" where
  "list_message_batches px tp show_error acc =
     bind_ok (anthropic_check_wallet_balance (acc_id acc)) (\<lambda>_.
       with_anthropic_clients px '''' 1 ''No upstream available.'' (\<lambda>clients.
         let c = hd clients in
         (case anthropic_sdk_get_request px tp (uc_client c) ''/v1/messages/batches'' of
            Inl e \<Rightarrow> call_failed show_error c e
          | Inr batches \<Rightarrow> return (Inr batches))))"

text \<open>The start of the three handlers of one batch.\<close>

definition with_msgbatch ::
    "proxy_env \<Rightarrow> account \<Rightarrow> string \<Rightarrow> (batch_meta \<Rightarrow> upstream_client \<Rightarrow> 'b response_io) \<Rightarrow> 'b response_io" where
  "with_msgbatch px acc message_batch_id k =
     bind_ok (anthropic_check_wallet_balance (acc_id acc)) (\<lambda>_.
     bind_ok (resolve_msgbatch_meta message_batch_id) (\<lambda>meta.
       with_anthropic_clients px '''' 1 ''No upstream available.'' (\<lambda>clients. k meta (hd clients))))"

text \<open>The end of two of them.\<close>

definition answer_msgbatch ::
    "(sdk_error \<Rightarrow> string) \<Rightarrow> string \<Rightarrow> upstream_client \<Rightarrow> sdk_error + message_batch \<Rightarrow> message_batch response_io" where
  "answer_msgbatch show_error message_batch_id c r =
     (case r of
        Inl e \<Rightarrow> call_failed show_error c e
      | Inr b \<Rightarrow> do {
          let b' = b\<lparr>mb_id := message_batch_id\<rparr>;
          _ \<leftarrow> sync_msgbatch_status message_batch_id b';
          return (Inr b') })"

definition retrieve_message_batch ::
    "proxy_env \<Rightarrow> (unit, message_batch) transport \<Rightarrow> (sdk_error \<Rightarrow> string) \<Rightarrow> account \<Rightarrow> string \<Rightarrow>
     message_batch response_io" where
  "retrieve_message_batch px tp show_error acc message_batch_id =
     with_msgbatch px acc message_batch_id (\<lambda>meta c.
       answer_msgbatch show_error message_batch_id c
         (anthropic_sdk_get_request px tp (uc_client c)
            (''/v1/messages/batches/'' @ bm_original_batch_id meta)))"

text \<open>A cancellation sends the JSON value \<^verbatim>\<open>null\<close>.\<close>

definition cancel_message_batch ::
    "proxy_env \<Rightarrow> (json, message_batch) transport \<Rightarrow> (sdk_error \<Rightarrow> string) \<Rightarrow> account \<Rightarrow> string \<Rightarrow>
     message_batch response_io" where
  "cancel_message_batch px tp show_error acc message_batch_id =
     with_msgbatch px acc message_batch_id (\<lambda>meta c.
       answer_msgbatch show_error message_batch_id c
         (anthropic_sdk_request px tp (uc_client c)
            (''/v1/messages/batches/'' @ bm_original_batch_id meta @ ''/cancel'') JNull))"

text \<open>The results are streamed through: status, headers and body of the upstream.\<close>

definition retrieve_message_batch_results ::
    "proxy_env \<Rightarrow> (unit, unit) transport \<Rightarrow> (sdk_error \<Rightarrow> string) \<Rightarrow> account \<Rightarrow> string \<Rightarrow>
     unit http_answer response_io" where
  "retrieve_message_batch_results px tp show_error acc message_batch_id =
     with_msgbatch px acc message_batch_id (\<lambda>meta c.
       (case anthropic_sdk_get_raw px tp (uc_client c)
               (''/v1/messages/batches/'' @ bm_original_batch_id meta @ ''/results'') of
          Inl e \<Rightarrow> call_failed show_error c e
        | Inr answer \<Rightarrow> return (Inr answer)))"

section \<open>Files\<close>

definition new_anthropic_file_id :: "proxy_env \<Rightarrow> string" where
  "new_anthropic_file_id px = ''anthropic-file-'' @ px_new_file px"

text \<open>A JSON object, or the body of the upstream with its status.\<close>

datatype file_reply = FileJson json | Relayed int string

text \<open>\<^verbatim>\<open>value["id"] = v\<close>: inserts into an object, makes \<^verbatim>\<open>null\<close> an object, panics otherwise.\<close>

fun index_set :: "string \<Rightarrow> json \<Rightarrow> json \<Rightarrow> json option" where
  "index_set k v (JObj kvs) = Some (json_set k v (JObj kvs))"
| "index_set k v JNull = Some (JObj [(k, v)])"
| "index_set k v j = None"

definition with_id :: "string \<Rightarrow> json \<Rightarrow> proxy_error + file_reply" where
  "with_id file_id v =
     (case index_set ''id'' (JStr file_id) v of
        None \<Rightarrow> Inl (panicked ''cannot access key in JSON value'')
      | Some v' \<Rightarrow> Inr (FileJson v'))"

definition get_upstream_client :: "proxy_env \<Rightarrow> (upstream_client \<Rightarrow> 'b response_io) \<Rightarrow> 'b response_io" where
  "get_upstream_client px k =
     with_anthropic_clients px '''' 1 ''No upstream available.'' (\<lambda>clients. k (hd clients))"

text \<open>
  One request of the files API: building the HTTP client may fail, sending may fail and marks the
  upstream offline; every status is an answer.
\<close>

definition file_call ::
    "proxy_env \<Rightarrow> ('req, json) transport \<Rightarrow> (sdk_error \<Rightarrow> string) \<Rightarrow> upstream_client \<Rightarrow> string \<Rightarrow> string \<Rightarrow>
     (string \<times> string) list \<Rightarrow> 'req option \<Rightarrow> (proxy_error + json http_answer) io" where
  "file_call px tp show_error c method path headers body =
     (case tp_build tp (usable_proxy px (uc_client c)) of
        Some e \<Rightarrow> return (Inl (sdk_error_response show_error (Connection e)))
      | None \<Rightarrow>
          (case tp_send tp \<lparr>hc_method = method, hc_url = trim_end_slash (sc_api_base (uc_client c)) @ path,
                            hc_headers = headers @ [auth_header (tp_auth tp) (sc_api_key (uc_client c))],
                            hc_body = body, hc_proxy = usable_proxy px (uc_client c)\<rparr> of
             Inl e \<Rightarrow> call_failed show_error c (Connection e)
           | Inr answer \<Rightarrow> return (Inr answer)))"

definition relay :: "json http_answer \<Rightarrow> file_reply" where
  "relay answer = Relayed (ha_status answer) (text_or_default (ha_text answer))"

record file_part =
  fp_bytes :: bytes
  fp_filename :: string
  fp_mime :: string
  fp_purpose :: string

definition anthropic_bad_request :: "string \<Rightarrow> proxy_error" where
  "anthropic_bad_request message = anthropic_error 400 ''invalid_request_error'' message"

definition original_id_of :: "json \<Rightarrow> string" where
  "original_id_of v = unwrap_or (Option.bind (json_get v ''id'') as_str) ''''"

text \<open>What becomes of the upstream's answer to an upload.\<close>

definition store_upload ::
    "proxy_env \<Rightarrow> upstream_client \<Rightarrow> string \<Rightarrow> json http_answer \<Rightarrow> file_reply response_io" where
  "store_upload px c purpose answer =
     (if \<not> is_success (ha_status answer) then return (Inr (relay answer))
      else
        (case ha_json answer of
           Inl _ \<Rightarrow> return (Inl (status_only 500))
         | Inr file_obj \<Rightarrow>
             if original_id_of file_obj = '''' then return (Inr (FileJson file_obj))
             else do {
               stored \<leftarrow> create_file_meta (new_anthropic_file_id px) (original_id_of file_obj) purpose
                          (uc_upstream_id c);
               return (case stored of
                  Inl _ \<Rightarrow> Inl (status_only 500)
                | Inr _ \<Rightarrow> with_id (new_anthropic_file_id px) file_obj) }))"

definition upload_file ::
    "proxy_env \<Rightarrow> (file_part, json) transport \<Rightarrow> (sdk_error \<Rightarrow> string) \<Rightarrow> (string \<Rightarrow> bool) \<Rightarrow> account \<Rightarrow>
     multipart_item list \<Rightarrow> file_reply response_io" where
  "upload_file px tp show_error mime_ok acc items =
     bind_ok (anthropic_check_wallet_balance (acc_id acc)) (\<lambda>_.
     get_upstream_client px (\<lambda>c.
       (case read_form anthropic_bad_request empty_form items of
          Inl resp \<Rightarrow> return (Inl resp)
        | Inr form \<Rightarrow>
            (case uf_bytes form of
               None \<Rightarrow> return (Inl (anthropic_bad_request ''Missing required field: file''))
             | Some bytes \<Rightarrow>
                 let filename = unwrap_or (uf_name form) ''upload.bin'';
                     purpose = unwrap_or (uf_purpose form) ''batch_input'';
                     mime = unwrap_or (uf_content_type form) ''application/octet-stream''
                 in (case tp_build tp (usable_proxy px (uc_client c)) of
                       Some e \<Rightarrow> return (Inl (sdk_error_response show_error (Connection e)))
                     | None \<Rightarrow>
                         if \<not> mime_ok mime then return (Inl (status_only 500))
                         else
                           bind_ok (file_call px tp show_error c ''POST'' ''/v1/files'' [version_header]
                               (Some \<lparr>fp_bytes = bytes, fp_filename = filename, fp_mime = mime,
                                      fp_purpose = purpose\<rparr>))
                             (store_upload px c purpose))))))"

definition list_files ::
    "proxy_env \<Rightarrow> (unit, json) transport \<Rightarrow> (sdk_error \<Rightarrow> string) \<Rightarrow> account \<Rightarrow> file_reply response_io" where
  "list_files px tp show_error acc =
     bind_ok (anthropic_check_wallet_balance (acc_id acc)) (\<lambda>_.
     get_upstream_client px (\<lambda>c.
     bind_ok (file_call px tp show_error c ''GET'' ''/v1/files'' [version_header, json_header] None)
       (\<lambda>answer. return (case ha_text answer of
          Inl _ \<Rightarrow> Inl (status_only 500)
        | Inr body \<Rightarrow> Inr (Relayed (ha_status answer) body)))))"

definition resolve_anthropic_file :: "string \<Rightarrow> (proxy_error + file_meta) io" where
  "resolve_anthropic_file file_id = do {
     r \<leftarrow> get_file_meta_by_file_id file_id;
     return (case r of
        Inr (Some m) \<Rightarrow> Inr m
      | Inr None \<Rightarrow> Inl (anthropic_error 404 ''not_found_error'' (''File '' @ quoted file_id @ '' not found.''))
      | Inl _ \<Rightarrow> Inl (status_only 500)) }"

text \<open>The start of the three handlers of one file.\<close>

definition with_anthropic_file ::
    "proxy_env \<Rightarrow> account \<Rightarrow> string \<Rightarrow> (file_meta \<Rightarrow> upstream_client \<Rightarrow> 'b response_io) \<Rightarrow> 'b response_io" where
  "with_anthropic_file px acc file_id k =
     bind_ok (anthropic_check_wallet_balance (acc_id acc)) (\<lambda>_.
     bind_ok (resolve_anthropic_file file_id) (\<lambda>meta.
     get_upstream_client px (\<lambda>c. k meta c)))"

definition retrieve_file ::
    "proxy_env \<Rightarrow> (unit, json) transport \<Rightarrow> (sdk_error \<Rightarrow> string) \<Rightarrow> account \<Rightarrow> string \<Rightarrow>
     file_reply response_io" where
  "retrieve_file px tp show_error acc file_id = with_anthropic_file px acc file_id (\<lambda>meta c.
     bind_ok (file_call px tp show_error c ''GET'' (''/v1/files/'' @ fm_original_file_id meta)
                [version_header, json_header] None)
       (\<lambda>answer.
         if \<not> is_success (ha_status answer) then return (Inr (relay answer))
         else return (case ha_json answer of
            Inl _ \<Rightarrow> Inl (status_only 500)
          | Inr file_obj \<Rightarrow> with_id file_id file_obj)))"

definition delete_file ::
    "proxy_env \<Rightarrow> (unit, json) transport \<Rightarrow> (sdk_error \<Rightarrow> string) \<Rightarrow> account \<Rightarrow> string \<Rightarrow>
     file_reply response_io" where
  "delete_file px tp show_error acc file_id = with_anthropic_file px acc file_id (\<lambda>meta c.
     bind_ok (file_call px tp show_error c ''DELETE'' (''/v1/files/'' @ fm_original_file_id meta)
                [version_header, json_header] None)
       (\<lambda>answer.
         if \<not> is_success (ha_status answer) then return (Inr (relay answer))
         else do {
           _ \<leftarrow> mark_file_meta_deleted file_id;
           return (case ha_json answer of
              Inl _ \<Rightarrow> Inl (status_only 500)
            | Inr file_obj \<Rightarrow> with_id file_id file_obj) }))"

text \<open>The content is streamed through with the headers of the upstream.\<close>

definition file_content ::
    "proxy_env \<Rightarrow> (unit, json) transport \<Rightarrow> (sdk_error \<Rightarrow> string) \<Rightarrow> account \<Rightarrow> string \<Rightarrow>
     (file_reply + json http_answer) response_io" where
  "file_content px tp show_error acc file_id = with_anthropic_file px acc file_id (\<lambda>meta c.
     bind_ok (file_call px tp show_error c ''GET'' (''/v1/files/'' @ fm_original_file_id meta @ ''/content'')
                [version_header] None)
       (\<lambda>answer.
         if \<not> is_success (ha_status answer) then return (Inr (Inl (relay answer)))
         else return (Inr (Inr answer))))"

end
