(* ===== verification/GateClaims.thy ===== *)
theory GateClaims
  imports Selection OpenAIResponses OpenAIFiles AnthropicStored
begin

text \<open>
  Who is let through and where requests go: the wallet gate in front of every endpoint, and the way of an
  upstream out of the rotation and back.
\<close>

section \<open>The wallet gate\<close>

text \<open>Refused: an error of the gate, and nothing changed but the schedule of failures.\<close>

definition gated :: "'b response_io \<Rightarrow> world \<Rightarrow> bool" where
  "gated m w \<longleftrightarrow> (\<exists>e. fst (run_state m w) = Inl e \<and> refusal e) \<and> untouched w (final m w)"

lemma gated_wp: "gated m w \<longleftrightarrow> wp m (\<lambda>r t. (\<exists>e. r = Inl e \<and> refusal e) \<and> untouched w t) w"
  by (simp add: gated_def wp_run_state)

lemma gated_check:
  assumes "broke w a"
  shows "gated (bind_ok (check_wallet_balance a) k) w"
    and "gated (bind_ok (anthropic_check_wallet_balance a) k) w"
  unfolding gated_wp bind_ok_def check_wallet_balance_def anthropic_check_wallet_balance_def wp_bind
  by (rule wp_mono [OF wp_check_wallet_broke [OF assms]]; auto)+

lemmas gated_handlers =
  chat_completions_def create_embeddings_def generate_images_def create_speech_def
  OpenAIResponses.create_response_def retrieve_response_def list_files_handler_def create_file_handler_def
  retrieve_file_handler_def delete_file_handler_def file_content_handler_def with_file_def
  list_batches_handler_def create_batch_handler_def batch_by_id_handler_def batch_cancel_handler_def
  create_message_def count_message_tokens_def create_message_batch_def list_message_batches_def
  retrieve_message_batch_def cancel_message_batch_def retrieve_message_batch_results_def with_msgbatch_def
  upload_file_def list_files_def retrieve_file_def delete_file_def file_content_def with_anthropic_file_def



section \<open>Out of the rotation and back\<close>

definition status_of :: "db \<Rightarrow> int \<Rightarrow> string option" where
  "status_of d i = map_option up_status (List.find (\<lambda>u. up_id u = i) (t_rows (llm_upstreams d)))"

definition marked :: "int \<Rightarrow> string \<Rightarrow> world \<Rightarrow> world" where
  "marked i s w = w\<lparr>w_db := llm_upstreams_update (\<lambda>_. snd (update_rows (\<lambda>u. up_id u = i)
     (\<lambda>u. u\<lparr>up_status := s, up_updated_at := w_now w\<rparr>) (llm_upstreams (w_db w)))) (w_db w)\<rparr>"

lemma wp_mark [simp]:
  assumes "w_faults w = []"
  shows "wp (mark_upstream_offline i) Q w = Q (Inr ()) (marked i ''offline'' w)"
    and "wp (mark_upstream_online i) Q w = Q (Inr ()) (marked i ''online'' w)"
  using assms
  by (simp_all add: mark_upstream_offline_def mark_upstream_online_def set_status_sql_def bind_ok_def sql_defs
      no_fault_calls marked_def Let_def)

lemma marked_simps [simp]:
  "w_faults (marked i s w) = w_faults w" "w_spawned (marked i s w) = w_spawned w"
  by (simp_all add: marked_def)

lemma find_marked:
  "List.find (\<lambda>u. up_id u = j) (map (\<lambda>u. if up_id u = i then u\<lparr>up_status := s, up_updated_at := t\<rparr> else u) us)
     = map_option (\<lambda>u. if up_id u = i then u\<lparr>up_status := s, up_updated_at := t\<rparr> else u)
         (List.find (\<lambda>u. up_id u = j) us)"
  by (induction us) auto

lemma status_marked [simp]:
  "status_of (w_db (marked i s w)) j = (if j = i then map_option (\<lambda>_. s) (status_of (w_db w) j) else status_of (w_db w) j)"
proof (cases "List.find (\<lambda>u. up_id u = j) (t_rows (llm_upstreams (w_db w)))")
  case None
  then show ?thesis by (auto simp: status_of_def marked_def update_rows_def find_marked)
next
  case (Some u)
  moreover from this have "up_id u = j" by (auto dest: find_Some_in)
  ultimately show ?thesis by (auto simp: status_of_def marked_def update_rows_def find_marked)
qed

lemma ids_marked:
  assumes "ids_ok up_id (llm_upstreams (w_db w))"
  shows "ids_ok up_id (llm_upstreams (w_db (marked i s w)))"
  unfolding marked_def using ids_ok_update [OF assms] by simp

definition healthy :: "(string \<Rightarrow> string \<Rightarrow> int option) \<Rightarrow> llm_upstream \<Rightarrow> bool" where
  "healthy probe u \<longleftrightarrow> check_upstream_health probe (up_api_base u) (up_api_key u)"

definition revive :: "(string \<Rightarrow> string \<Rightarrow> int option) \<Rightarrow> llm_upstream \<Rightarrow> world \<Rightarrow> world" where
  "revive probe u w = (if healthy probe u then marked (up_id u) ''online'' w else w)"

lemma wp_check_each:
  "w_faults w = [] \<Longrightarrow> wp (check_each probe us) Q w = Q () (fold (revive probe) us w)"
proof (induction us arbitrary: w)
  case (Cons u us)
  then show ?case by (cases "healthy probe u") (simp_all add: revive_def healthy_def)
qed simp

lemma status_revived:
  "status_of (w_db (fold (revive probe) us w)) i =
     (if \<exists>u \<in> set us. up_id u = i \<and> healthy probe u then map_option (\<lambda>_. ''online'') (status_of (w_db w) i)
      else status_of (w_db w) i)"
  by (induction us arbitrary: w) (auto simp: revive_def option.map_comp comp_def)

lemma status_row:
  assumes "ids_ok up_id (llm_upstreams d)" and "u \<in> set (t_rows (llm_upstreams d))"
  shows "status_of d (up_id u) = Some (up_status u)"
  using ids_ok_find [OF assms] by (simp add: status_of_def)

lemma list_all2_in:
  "list_all2 P ys xs \<Longrightarrow> y \<in> set ys \<Longrightarrow> \<exists>x \<in> set xs. P y x"
  by (induction rule: list_all2_induct) auto

text \<open>C29: An upstream that could not be reached leaves the rotation when the spawned task runs: no
  request is routed to it any more.  The health check then brings it back exactly when its
  \<^verbatim>\<open>/models\<close> answers with a 2xx status, and leaves the upstreams that are not offline alone.\<close>

theorem offline_until_healthy:
  assumes "w_faults w = []" and "w_spawned w = i # rest" and ids: "ids_ok up_id (llm_upstreams (w_db w))"
    and "status_of (w_db w) i = Some s"
    and w1: "w1 = final run_spawned w"
    and us: "decrypt_all cy (select_rows (\<lambda>u. up_status u = ''offline'') (llm_upstreams (w_db w1))) = Inr us"
    and w2: "w2 = final (check_offline_upstreams cy probe) w1"
  shows "w_spawned w1 = rest \<and> status_of (w_db w1) i = Some ''offline'' \<and>
    (\<forall>name provider feature ms. candidates px (w_db w1) name provider feature = Inr ms \<longrightarrow>
       (\<forall>(m, u) \<in> set ms. up_id u \<noteq> i)) \<and>
    status_of (w_db w2) i = Some (if \<exists>u \<in> set us. up_id u = i \<and>
       check_upstream_health probe (up_api_base u) (up_api_key u) then ''online'' else ''offline'') \<and>
    (\<forall>j s'. j \<noteq> i \<longrightarrow> status_of (w_db w) j = Some s' \<longrightarrow> s' \<noteq> ''offline'' \<longrightarrow> status_of (w_db w2) j = Some s')"
proof -
  have "wp run_spawned (\<lambda>_ t. t = marked i ''offline'' (w\<lparr>w_spawned := rest\<rparr>)) w"
    by (simp add: run_spawned_def assms(1,2))
  then have w1: "w1 = marked i ''offline'' (w\<lparr>w_spawned := rest\<rparr>)" by (simp add: wp_run_state w1)
  have off: "status_of (w_db w1) i = Some ''offline''" using assms(4) by (simp add: w1)
  have ids1: "ids_ok up_id (llm_upstreams (w_db w1))" using ids_marked [of "w\<lparr>w_spawned := rest\<rparr>"] ids by (simp add: w1)
  have "wp (check_offline_upstreams cy probe) (\<lambda>_ t. t = fold (revive probe) us w1) w1"
    using us assms(1)
    by (simp add: check_offline_upstreams_def list_offline_upstreams_def query_upstreams_def bind_ok_def
        select_upstreams_def rows_stmt_def no_fault_calls w1 wp_check_each)
  then have w2: "w2 = fold (revive probe) us w1" by (simp add: wp_run_state w2)
  have avoided: "up_id u \<noteq> i" if "candidates px (w_db w1) name provider feature = Inr ms" "(m, u) \<in> set ms"
    for name provider feature ms m u
  proof
    assume "up_id u = i"
    with candidates_capable [OF that] obtain e where "e \<in> set (t_rows (llm_upstreams (w_db w1)))" "up_id e = i"
        "up_status e = ''online''" by blast
    with status_row [OF ids1] off show False by auto
  qed
  have kept: "status_of (w_db w2) j = Some s'"
    if "j \<noteq> i" "status_of (w_db w) j = Some s'" "s' \<noteq> ''offline''" for j s'
  proof -
    have j: "status_of (w_db w1) j = Some s'" using that by (simp add: w1)
    have "up_id u \<noteq> j" if "u \<in> set us" for u
    proof
      assume "up_id u = j"
      from us have "list_all2 (\<lambda>y x. decrypt_upstream cy x = Inr y) us
          (select_rows (\<lambda>u. up_status u = ''offline'') (llm_upstreams (w_db w1)))"
        by (simp add: decrypt_all_def collect_results_map)
      with \<open>u \<in> set us\<close> obtain r where "r \<in> set (t_rows (llm_upstreams (w_db w1)))" "up_status r = ''offline''"
          "decrypt_upstream cy r = Inr u"
        by (force simp: select_rows_def dest!: list_all2_in)
      moreover from this(3) have "up_id r = up_id u"
        by (auto simp: decrypt_upstream_def split: sum.splits)
      ultimately show False
        using status_row [OF ids1] j \<open>up_id u = j\<close> \<open>s' \<noteq> ''offline''\<close> by fastforce
    qed
    with j show ?thesis by (auto simp: w2 status_revived)
  qed
  have "w_spawned w1 = rest" by (simp add: w1)
  moreover have "status_of (w_db w2) i = Some (if \<exists>u \<in> set us. up_id u = i \<and>
      check_upstream_health probe (up_api_base u) (up_api_key u) then ''online'' else ''offline'')"
    using off by (auto simp: w2 status_revived healthy_def)
  ultimately show ?thesis
    using off avoided kept by (intro conjI) (assumption | blast)+
qed

theorem offline_until_healthy_witness:
  "let w1 = final run_spawned ((proxy_world ''openai'' [1, 2])\<lparr>w_spawned := [2]\<rparr>);
       w2 = final (check_offline_upstreams plain_crypto (\<lambda>_ _. Some 200)) w1
   in status_of (w_db w1) 2 = Some ''offline'' \<and> status_of (w_db w2) 2 = Some ''online''"
proof -
  let ?w = "(proxy_world ''openai'' [1, 2])\<lparr>w_spawned := [2]\<rparr>"
  have w1: "final run_spawned ?w = marked 2 ''offline'' (?w\<lparr>w_spawned := []\<rparr>)"
    using wp_run_state [of run_spawned "\<lambda>_ t. t = marked 2 ''offline'' (?w\<lparr>w_spawned := []\<rparr>)" ?w]
    by (simp add: run_spawned_def)
  have ids: "ids_ok up_id (llm_upstreams (w_db ?w))" by (simp add: ids_ok_def offers_def)
  have st: "status_of (w_db ?w) 2 = Some ''online''" by (simp add: status_of_def)
  have us: "decrypt_all plain_crypto (select_rows (\<lambda>u. up_status u = ''offline'')
      (llm_upstreams (w_db (final run_spawned ?w))))
      = Inr [(demo_upstream 2 ''openai'')\<lparr>up_status := ''offline'', up_updated_at := 0,
                up_ellipsed_api_key := ''k'', up_api_key := ''k''\<rparr>]"
    unfolding w1 by (simp add: marked_def update_rows_def select_rows_def decrypt_all_def)
  from offline_until_healthy [OF _ _ ids st refl us refl, of "[]" demo_px "\<lambda>_ _. Some 200"]
  show ?thesis by (simp add: Let_def check_upstream_health_def)
qed

end
