(* ===== verification/StoredClaims.thy ===== *)
theory StoredClaims
  imports Selection StoredKeys OpenAIResponses OpenAIFiles AnthropicStored
begin

text \<open>
  Files, batches and responses that live at an upstream and are known to clients under the program's own
  identifiers: what is stored is found, what is deleted is gone, and which upstream is asked.
\<close>

section \<open>The upstream of a stored object\<close>

lemma wp_select_first_upstream:
  assumes "w_faults w = []" and "decrypt_all (px_crypto px) (t_rows (llm_upstreams (w_db w))) = Inr (u # us)"
  shows "wp (select_first_upstream px) Q w = Q (Inr u) w"
  using assms
  by (simp add: select_first_upstream_def list_upstreams_def query_upstreams_def bind_ok_def
      select_upstreams_def rows_stmt_def select_rows_def no_fault_calls)

lemma wp_get_upstream_by_id:
  assumes "w_faults w = []" and "ids_ok up_id (llm_upstreams (w_db w))"
    and "r \<in> set (t_rows (llm_upstreams (w_db w)))" and "decrypt_upstream (px_crypto px) r = Inr u"
  shows "wp (get_upstream_by_id px (up_id u)) Q w = Q (Inr u) w"
proof -
  have "up_id u = up_id r" using assms(4) by (auto simp: decrypt_upstream_def split: sum.splits)
  then show ?thesis by (simp add: get_upstream_by_id_def get_upstream_row [OF assms(1-3)] assms(4))
qed

lemma first_decrypted:
  assumes "decrypt_all cy rs = Inr (u # us)"
  obtains r where "r \<in> set rs" and "decrypt_upstream cy r = Inr u"
  using assms unfolding decrypt_all_def collect_results_map by (cases rs) auto

section \<open>Files\<close>

definition file_stored :: "string \<Rightarrow> string \<Rightarrow> string \<Rightarrow> int \<Rightarrow> world \<Rightarrow> world" where
  "file_stored i original purpose upstream_id w = w\<lparr>w_db := file_metas_update (\<lambda>_. snd (insert_row
     (fresh_file i original purpose upstream_id (w_now w)) (file_metas (w_db w)))) (w_db w)\<rparr>"

definition file_gone :: "string \<Rightarrow> world \<Rightarrow> world" where
  "file_gone i w = w\<lparr>w_db := file_metas_update (\<lambda>_. snd (update_rows (\<lambda>f. fm_file_id f = i)
     (\<lambda>f. f\<lparr>fm_deleted := True, fm_updated_at := w_now w\<rparr>) (file_metas (w_db w)))) (w_db w)\<rparr>"

lemma file_worlds [simp]:
  "w_faults (file_stored i p q u w) = w_faults w" "w_faults (file_gone i w) = w_faults w"
  "llm_upstreams (w_db (file_stored i p q u w)) = llm_upstreams (w_db w)"
  "llm_upstreams (w_db (file_gone i w)) = llm_upstreams (w_db w)"
  "funded (file_stored i p q u w) a = funded w a" "funded (file_gone i w) a = funded w a"
  by (simp_all add: file_stored_def file_gone_def funded_def wallet_seen_def wallet_cached_def wallet_row_def
      cong: option.case_cong)

definition unused_file_id :: "string \<Rightarrow> db \<Rightarrow> bool" where
  "unused_file_id i d \<longleftrightarrow> (\<forall>f \<in> set (t_rows (file_metas d)). fm_file_id f \<noteq> i)"

lemma wp_create_file_meta:
  assumes "w_faults w = []" and "unused_file_id i (w_db w)"
  shows "wp (create_file_meta i original purpose upstream_id) Q w =
    Q (Inr (fresh_file i original purpose upstream_id (w_now w) (t_seq (file_metas (w_db w)) + 1)))
      (file_stored i original purpose upstream_id w)"
proof -
  have "violates (\<exists>f \<in> set (t_rows (file_metas (w_db w))). fm_file_id f = i) c = None" for c
    using assms(2) by (auto simp: violates_def unused_file_id_def)
  then show ?thesis
    using assms(1)
    by (simp add: create_file_meta_def fetch_one_def guard_stmt_def insert_stmt_def no_fault_calls
        file_stored_def insert_row_def Let_def)
qed

lemma wp_mark_file_deleted:
  "w_faults w = [] \<Longrightarrow> wp (mark_file_meta_deleted i) (\<lambda>_ t. Q t) w = Q (file_gone i w)"
  by (simp add: mark_file_meta_deleted_def fetch_optional_def update_stmt_def no_fault_calls file_gone_def Let_def)

lemma mapped_file_stored:
  assumes "unused_file_id i (w_db w)"
  shows "file_map.mapped (w_db (file_stored i original purpose upstream_id w)) k =
    (if k = i then Some (fresh_file i original purpose upstream_id (w_now w) (t_seq (file_metas (w_db w)) + 1))
     else file_map.mapped (w_db w) k)"
  using assms unfolding file_stored_def
  by (simp add: file_map.mapped_insert unused_file_id_def fresh_file_def)

lemma mapped_file_gone: "file_map.mapped (w_db (file_gone i w)) k = (if k = i then None else file_map.mapped (w_db w) k)"
  unfolding file_gone_def by (simp add: file_map.mapped_delete)

text \<open>What a healthy handler of one file does.\<close>

lemma wp_with_file:
  assumes "w_faults w = []" and "funded w (acc_id acc)" and "file_map.mapped (w_db w) i = Some meta"
    and "fm_upstream_id meta = up_id u" and "ids_ok up_id (llm_upstreams (w_db w))"
    and "r \<in> set (t_rows (llm_upstreams (w_db w)))" and "decrypt_upstream (px_crypto px) r = Inr u"
    and "build_client_from_upstream px u = Inr client"
  shows "wp (with_file px acc i k) Q w = wp (k client meta) Q w"
  using assms
  by (simp add: with_file_def bind_ok_def resolve_file_meta_def file_map.find_mapped with_client_def
      wp_get_upstream_by_id [OF assms(1,5-7)])

lemma wp_no_file:
  assumes "w_faults w = []" and "funded w (acc_id acc)" and "file_map.mapped (w_db w) i = None"
  shows "wp (with_file px acc i k) Q w = Q (Inl (openai_missing ''File'' i ''file_not_found'')) w"
  using assms by (simp add: with_file_def bind_ok_def resolve_file_meta_def file_map.find_mapped)

section \<open>Properties\<close>

text \<open>C30: A file uploaded through the proxy is known to clients under a fresh identifier and never under
  that of the upstream; reading and deleting it with that identifier reach the upstream it was stored at,
  with the upstream's identifier; after the deletion it is not found.  The account that reads and deletes
  need not be the one that uploaded: a file has no owner.\<close>

theorem file_roundtrip:
  assumes "w_faults w = []" and "funded w (acc_id acc)" and "funded w (acc_id acc')"
    and "ids_ok up_id (llm_upstreams (w_db w))"
    and "decrypt_all (px_crypto px) (t_rows (llm_upstreams (w_db w))) = Inr (u # us)"
    and "build_client_from_upstream px u = Inr client"
    and "read_form bad_request empty_form items = Inr form" and "uf_bytes form = Some content"
    and "upload client \<lparr>cfr_filename = unwrap_or (uf_name form) ''upload.bin'', cfr_bytes = content,
           cfr_purpose = parse_purpose (unwrap_or (uf_purpose form) ''fine-tune'')\<rparr> = Inr file"
    and "fetch client (fo_id file) = Inr found" and "remove client (fo_id file) = Inr gone"
    and "unused_file_id (new_file_id px) (w_db w)"
    and w1: "w1 = final (create_file_handler px upload acc items) w"
    and w2: "w2 = final (delete_file_handler px remove acc' (new_file_id px)) w1"
  shows "fst (run_state (create_file_handler px upload acc items) w) = Inr (file\<lparr>fo_id := new_file_id px\<rparr>) \<and>
    fst (run_state (retrieve_file_handler px fetch acc' (new_file_id px)) w1) = Inr (found\<lparr>fo_id := new_file_id px\<rparr>) \<and>
    fst (run_state (delete_file_handler px remove acc' (new_file_id px)) w1) = Inr (gone\<lparr>fo_id := new_file_id px\<rparr>) \<and>
    fst (run_state (retrieve_file_handler px fetch acc' (new_file_id px)) w2)
      = Inl (openai_missing ''File'' (new_file_id px) ''file_not_found'')"
proof -
  let ?i = "new_file_id px" and ?purpose = "unwrap_or (uf_purpose form) ''fine-tune''"
  let ?w1 = "file_stored ?i (fo_id file) ?purpose (up_id u) w"
  obtain r where r: "r \<in> set (t_rows (llm_upstreams (w_db w)))" "decrypt_upstream (px_crypto px) r = Inr u"
    by (rule first_decrypted [OF assms(5)])
  have created: "run_state (create_file_handler px upload acc items) w = (Inr (file\<lparr>fo_id := ?i\<rparr>), ?w1)"
    using assms(1,2)
    by (intro wp_exact) (simp add: create_file_handler_def bind_ok_def wp_select_first_upstream [OF assms(1,5)]
        assms(6-9) with_client_def wp_create_file_meta [OF assms(1,12)] Let_def)
  then have w1: "w1 = ?w1" by (simp add: w1)
  have mapped: "file_map.mapped (w_db w1) ?i = Some (fresh_file ?i (fo_id file) ?purpose (up_id u) (w_now w)
      (t_seq (file_metas (w_db w)) + 1))"
    unfolding w1 by (simp add: mapped_file_stored [OF assms(12)])
  have "wp (with_file px acc' ?i k) Q w1 = wp (k client (fresh_file ?i (fo_id file) ?purpose (up_id u) (w_now w)
      (t_seq (file_metas (w_db w)) + 1))) Q w1" for k and Q :: "proxy_error + file_object \<Rightarrow> world \<Rightarrow> bool"
    by (rule wp_with_file [OF _ _ mapped _ _ _ r(2) assms(6)])
      (use assms(1,3,4) r(1) in \<open>simp_all add: w1 fresh_file_def\<close>)
  note found = this
  have "run_state (retrieve_file_handler px fetch acc' ?i) w1 = (Inr (found\<lparr>fo_id := ?i\<rparr>), w1)"
    by (intro wp_exact) (simp add: retrieve_file_handler_def found fresh_file_def assms(10))
  moreover have deleted: "run_state (delete_file_handler px remove acc' ?i) w1
      = (Inr (gone\<lparr>fo_id := ?i\<rparr>), file_gone ?i w1)"
    by (intro wp_exact)
      (simp add: delete_file_handler_def found [unfolded w1] fresh_file_def assms(1,11) wp_mark_file_deleted w1)
  moreover have "run_state (retrieve_file_handler px fetch acc' ?i) w2
      = (Inl (openai_missing ''File'' ?i ''file_not_found''), w2)"
    using assms(1,3) deleted
    by (intro wp_exact) (simp add: retrieve_file_handler_def wp_no_file w2 mapped_file_gone w1)
  ultimately show ?thesis using created by simp
qed

definition demo_file :: file_object where
  "demo_file = \<lparr>fo_id = ''up-1'', fo_rest = JNull\<rparr>"

lemma demo_decrypted:
  "decrypt_all (px_crypto demo_px) (t_rows (llm_upstreams (w_db (proxy_world ''openai'' [1, 2]))))
     = Inr [snd (routed_pair ''openai'' 1), snd (routed_pair ''openai'' 2)]"
  by (simp add: decrypt_all_def routed_pair_def)

lemma demo_built:
  "build_client_from_upstream demo_px (snd (routed_pair p i))
     = Inr \<lparr>sc_api_key = ''k'', sc_api_base = ''http://u/'', sc_proxy = None\<rparr>"
  by (simp add: build_client_from_upstream_def routed_pair_def)

theorem file_roundtrip_witness:
  "let w = proxy_world ''openai'' [1, 2];
       items = [Field ''file'' (Some ''a'') None (Inr ''x'')];
       w1 = final (create_file_handler demo_px (\<lambda>_ _. Inr demo_file) demo_account items) w
   in fst (run_state (retrieve_file_handler demo_px (\<lambda>_ i. Inr \<lparr>fo_id = i, fo_rest = JNull\<rparr>) demo_account ''file-f1'') w1)
      = Inr \<lparr>fo_id = ''file-f1'', fo_rest = JNull\<rparr>"
proof -
  have "new_file_id demo_px = ''file-f1''" by (simp add: new_file_id_def demo_px_def)
  moreover have "read_form bad_request empty_form [Field ''file'' (Some ''a'') None (Inr ''x'')]
      = Inr \<lparr>uf_bytes = Some ''x'', uf_name = Some ''a'', uf_content_type = None, uf_purpose = None\<rparr>"
    by (simp add: empty_form_def)
  moreover have "ids_ok up_id (llm_upstreams (w_db (proxy_world ''openai'' [1, 2])))" "acc_id demo_account = 1"
    "unused_file_id (new_file_id demo_px) (w_db (proxy_world ''openai'' [1, 2]))"
    by (simp_all add: ids_ok_def offers_def demo_account_def unused_file_id_def empty_db_def empty_table_def)
  ultimately show ?thesis
    using file_roundtrip [of "proxy_world ''openai'' [1, 2]" demo_account demo_account demo_px _ _ _
        "[Field ''file'' (Some ''a'') None (Inr ''x'')]" _ "''x''" "\<lambda>_ _. Inr demo_file" demo_file
        "\<lambda>_ i. Inr \<lparr>fo_id = i, fo_rest = JNull\<rparr>" "\<lparr>fo_id = ''up-1'', fo_rest = JNull\<rparr>" "\<lambda>_ i. Inr demo_file" demo_file,
        OF _ _ _ _ demo_decrypted demo_built]
    by (simp add: demo_file_def)
qed

text \<open>The row a file of an upstream was given, if any.\<close>

definition known_file :: "db \<Rightarrow> string \<Rightarrow> int \<Rightarrow> file_meta option" where
  "known_file d original upstream_id = first_row (sort_key (\<lambda>f. - fm_id f) (filter
     (\<lambda>f. fm_original_file_id f = original \<and> fm_upstream_id f = upstream_id \<and> \<not> fm_deleted f)
     (t_rows (file_metas d))))"

lemma wp_known_file:
  "w_faults w = [] \<Longrightarrow> wp (get_file_meta_by_original_file_id original upstream_id) Q w =
     Q (Inr (known_file (w_db w) original upstream_id)) w"
  by (cases "sort_key (\<lambda>f. - fm_id f) (filter
       (\<lambda>f. fm_original_file_id f = original \<and> fm_upstream_id f = upstream_id \<and> \<not> fm_deleted f)
       (t_rows (file_metas (w_db w))))")
    (simp_all add: get_file_meta_by_original_file_id_def fetch_optional_def page_stmt_def limit_offset_def
      select_rows_def no_fault_calls known_file_def)

lemma sort_key_Nil [simp]: "sort_key f xs = [] \<longleftrightarrow> xs = []"
  by (metis length_0_conv length_sort)

lemma known_file_row: "known_file d original upstream_id = Some f \<Longrightarrow>
    fm_original_file_id f = original \<and> fm_upstream_id f = upstream_id"
  by (auto simp: known_file_def dest!: first_row_mem)

lemma known_file_stored:
  "known_file (w_db w) original upstream_id = None \<Longrightarrow>
   known_file (w_db (file_stored i original purpose upstream_id w)) original upstream_id
     = Some (fresh_file i original purpose upstream_id (w_now w) (t_seq (file_metas (w_db w)) + 1))"
  by (simp add: known_file_def file_stored_def insert_row_def Let_def fresh_file_def filter_empty_conv)

text \<open>The output file of a batch has one identifier: the first time it is seen it is given a fresh
  one, and every later time, by whatever request, that same one, with nothing written.\<close>

theorem batch_output_stable:
  assumes "w_faults w = []" and "unused_file_id (new_file_id px) (w_db w)"
    and run: "run_state (wrap_file px (Some original) upstream_id) w = (Inr (Some meta), w1)"
  shows "fm_original_file_id meta = original \<and> fm_upstream_id meta = upstream_id \<and>
    run_state (wrap_file px' (Some original) upstream_id) w1 = (Inr (Some meta), w1)"
proof -
  show ?thesis
  proof (cases "known_file (w_db w) original upstream_id")
    case (Some f)
    then have "run_state (wrap_file p (Some original) upstream_id) w = (Inr (Some f), w)" for p
      using assms(1) by (intro wp_exact) (simp add: wrap_file_def wp_known_file)
    with run known_file_row [OF Some] show ?thesis by simp
  next
    case None
    let ?f = "fresh_file (new_file_id px) original ''batch_output'' upstream_id (w_now w) (t_seq (file_metas (w_db w)) + 1)"
    let ?w1 = "file_stored (new_file_id px) original ''batch_output'' upstream_id w"
    have "run_state (wrap_file px (Some original) upstream_id) w = (Inr (Some ?f), ?w1)"
      using assms(1,2) None by (intro wp_exact) (simp add: wrap_file_def wp_known_file wp_create_file_meta)
    moreover have "run_state (wrap_file px' (Some original) upstream_id) ?w1 = (Inr (Some ?f), ?w1)"
      using assms(1) by (intro wp_exact) (simp add: wrap_file_def wp_known_file known_file_stored [OF None])
    ultimately show ?thesis using run by (auto simp: fresh_file_def)
  qed
qed

theorem batch_output_stable_witness:
  "\<exists>meta w1. run_state (wrap_file demo_px (Some ''out'') 1) (world_of empty_db) = (Inr (Some meta), w1) \<and>
     run_state (wrap_file (demo_px\<lparr>px_new_file := ''f2''\<rparr>) (Some ''out'') 1) w1 = (Inr (Some meta), w1)"
proof -
  have unused: "unused_file_id (new_file_id demo_px) (w_db (world_of empty_db))"
    by (simp add: unused_file_id_def empty_db_def empty_table_def)
  have "wp (wrap_file demo_px (Some ''out'') 1) (\<lambda>r _. \<exists>meta. r = Inr (Some meta)) (world_of empty_db)"
    using unused
    by (simp add: wrap_file_def wp_known_file wp_create_file_meta known_file_def empty_db_def empty_table_def)
  then obtain meta w1 where run: "run_state (wrap_file demo_px (Some ''out'') 1) (world_of empty_db) = (Inr (Some meta), w1)"
    by (auto simp only: wp_run_state prod_eq_iff fst_conv snd_conv)
  with batch_output_stable [OF _ unused run] show ?thesis by simp
qed

section \<open>Responses\<close>

definition unused_response_id :: "string \<Rightarrow> db \<Rightarrow> bool" where
  "unused_response_id i d \<longleftrightarrow> (\<forall>r \<in> set (t_rows (response_metas d)). rm_response_id r \<noteq> i)"

definition response_stored :: "string \<Rightarrow> string \<Rightarrow> int \<Rightarrow> world \<Rightarrow> world" where
  "response_stored i original upstream_id w = w\<lparr>w_db := response_metas_update (\<lambda>_. snd (insert_row
     (fresh_response_meta i original upstream_id (w_now w)) (response_metas (w_db w)))) (w_db w)\<rparr>"

lemma wp_create_response_meta:
  assumes "w_faults w = []" and "unused_response_id i (w_db w)"
  shows "wp (create_response_meta i original upstream_id) Q w =
    Q (Inr (fresh_response_meta i original upstream_id (w_now w) (t_seq (response_metas (w_db w)) + 1)))
      (response_stored i original upstream_id w)"
proof -
  have "violates (\<exists>r \<in> set (t_rows (response_metas (w_db w))). rm_response_id r = i) c = None" for c
    using assms(2) by (auto simp: violates_def unused_response_id_def)
  then show ?thesis
    using assms(1)
    by (simp add: create_response_meta_def fetch_one_def guard_stmt_def insert_stmt_def no_fault_calls
        response_stored_def insert_row_def Let_def)
qed

lemma mapped_response_stored:
  assumes "unused_response_id i (w_db w)"
  shows "response_map.mapped (w_db (response_stored i original upstream_id w)) k =
    (if k = i then Some (fresh_response_meta i original upstream_id (w_now w) (t_seq (response_metas (w_db w)) + 1))
     else response_map.mapped (w_db w) k)"
  using assms unfolding response_stored_def
  by (simp add: response_map.mapped_insert unused_response_id_def fresh_response_meta_def)

lemma wp_translate_previous:
  assumes "w_faults w = []" and "response_map.mapped (w_db w) i = Some r"
  shows "wp (translate_previous (Some i)) Q w = Q (Inr (Some (rm_original_response_id r))) w"
  using assms
  by (simp add: translate_previous_def get_original_response_id_def fetch_optional_def bind_ok_def
      select_responses_def rows_stmt_def no_fault_calls response_map.mapped_def)

text \<open>C32: Conversations go on through the program's identifiers.  A response that names its predecessor
  \<open>prev\<close> is sent with the upstream's identifier of that predecessor, is answered under a fresh identifier
  with \<open>prev\<close> as its predecessor, and the fresh identifier can be named in the next request.  Nothing
  makes the client that is asked belong to the upstream that holds the predecessor.\<close>

theorem response_chain:
  assumes "w_faults w = []" and "funded w (acc_id acc)" and "crq_model payload = Some name"
    and "clients_for px w name ''openai'' ''responses'' 2 = Inr (c # cs)"
    and "crq_previous_response_id payload = Some prev" and "response_map.mapped (w_db w) prev = Some r"
    and "rup_create up c (payload\<lparr>crq_model := Some (uc_fullname c),
            crq_previous_response_id := Some (rm_original_response_id r)\<rparr>) = Inr resp"
    and "rup_to_value up resp = Some v" and "unused_response_id (new_response_id px) (w_db w)"
    and w1: "w1 = final (OpenAIResponses.create_response px up key acc payload) w"
  shows "fst (run_state (OpenAIResponses.create_response px up key acc payload) w)
      = Inr (json_set ''previous_response_id'' (JStr prev) (json_set ''id'' (JStr (new_response_id px)) v)) \<and>
    (\<exists>r'. response_map.mapped (w_db w1) (new_response_id px) = Some r' \<and>
       rm_original_response_id r' = rsp_id resp \<and> rm_upstream_id r' = uc_upstream_id c) \<and>
    fst (run_state (translate_previous (Some (new_response_id px))) w1) = Inr (Some (rsp_id resp))"
proof -
  let ?i = "new_response_id px" and ?t = "tracer_for px acc key c"
  let ?sent = "payload\<lparr>crq_model := Some (uc_fullname c), crq_previous_response_id := Some (rm_original_response_id r)\<rparr>"
  let ?q = "w\<lparr>w_openai_q := w_openai_q w @ [openai_task ?t (ResponsesRequest ?sent),
       openai_task (next_tracer ?t) (ResponsesResponse resp)]\<rparr>"
  let ?w1 = "response_stored ?i (rsp_id resp) (uc_upstream_id c) ?q"
  have unused: "unused_response_id ?i (w_db ?q)" using assms(9) by simp
  have created: "run_state (OpenAIResponses.create_response px up key acc payload) w
      = (Inr (json_set ''previous_response_id'' (JStr prev) (json_set ''id'' (JStr ?i) v)), ?w1)"
    using assms(1-8)
    by (intro wp_exact)
      (simp add: OpenAIResponses.create_response_def bind_ok_def wp_with_clients wp_translate_previous
        create_response_with_client_def store_response_def wp_create_response_meta [OF _ unused] Let_def)
  then have w1: "w1 = ?w1" by (simp add: w1)
  have mapped: "response_map.mapped (w_db w1) ?i = Some (fresh_response_meta ?i (rsp_id resp) (uc_upstream_id c)
      (w_now ?q) (t_seq (response_metas (w_db ?q)) + 1))"
    unfolding w1 by (simp add: mapped_response_stored [OF unused])
  moreover have "w_faults w1 = []" using assms(1) by (simp add: w1 response_stored_def)
  then have "run_state (translate_previous (Some ?i)) w1 = (Inr (Some (rsp_id resp)), w1)"
    by (intro wp_exact) (simp add: wp_translate_previous [OF _ mapped] fresh_response_meta_def)
  ultimately show ?thesis using created by (simp add: fresh_response_meta_def)
qed

text \<open>The predecessor lives at upstream 1, the request goes to upstream 2.\<close>

definition chain_world :: world where
  "chain_world = response_stored ''resp-0'' ''up-resp'' 1 (proxy_world ''openai'' [1, 2])"

definition demo_rup :: responses_upstream where
  "demo_rup = \<lparr>rup_create = (\<lambda>_ p. Inr \<lparr>rsp_id = ''next'', rsp_previous_response_id = crq_previous_response_id p,
       rsp_usage = None, rsp_rest = JNull\<rparr>),
     rup_to_value = (\<lambda>_. Some (JObj [(''id'', JNull)]))\<rparr>"

definition demo_crq :: Events.create_response where
  "demo_crq = \<lparr>crq_model = Some ''m'', crq_previous_response_id = Some ''resp-0'', crq_rest = JNull\<rparr>"

lemma clients_response_stored [simp]:
  "clients_for px (response_stored i original u w) name p f n = clients_for px w name p f n"
  "funded (response_stored i original u w) a = funded w a" "w_faults (response_stored i original u w) = w_faults w"
  by (simp_all add: response_stored_def clients_for_def routed_def candidates_def joined_def usages_of_def
      funded_def wallet_seen_def wallet_cached_def wallet_row_def cong: option.case_cong sum.case_cong if_cong)

theorem response_chain_witness:
  "let w1 = final (OpenAIResponses.create_response demo_px demo_rup demo_credential demo_account demo_crq) chain_world
   in \<exists>r'. response_map.mapped (w_db w1) ''resp-r1'' = Some r' \<and> rm_original_response_id r' = ''next'' \<and>
        rm_upstream_id r' = 2"
proof -
  have here: "new_response_id demo_px = ''resp-r1''" "acc_id demo_account = 1" "crq_model demo_crq = Some ''m''"
    "crq_previous_response_id demo_crq = Some ''resp-0''"
    by (simp_all add: new_response_id_def demo_px_def demo_account_def demo_crq_def)
  have "unused_response_id ''resp-0'' (w_db (proxy_world ''openai'' [1, 2]))"
    "unused_response_id ''resp-r1'' (w_db chain_world)"
    by (simp_all add: unused_response_id_def chain_world_def response_stored_def empty_table_def insert_row_def
        fresh_response_meta_def Let_def)
  moreover have "\<exists>r. response_map.mapped (w_db chain_world) ''resp-0'' = Some r"
    unfolding chain_world_def by (simp add: mapped_response_stored [OF calculation(1)])
  then obtain r where "response_map.mapped (w_db chain_world) ''resp-0'' = Some r" by blast
  moreover have "clients_for demo_px chain_world ''m'' ''openai'' ''responses'' 2
      = Inr [demo_client ''http://u/'' 2, demo_client ''http://u/'' 1]"
    unfolding chain_world_def clients_response_stored by (rule demo_clients) simp
  moreover have "funded chain_world 1" "w_faults chain_world = []" by (simp_all add: chain_world_def)
  ultimately show ?thesis
    using response_chain [of chain_world demo_account demo_crq "''m''" demo_px "demo_client ''http://u/'' 2" _ "''resp-0''"
        r demo_rup "\<lparr>rsp_id = ''next'', rsp_previous_response_id = Some (rm_original_response_id r),
          rsp_usage = None, rsp_rest = JNull\<rparr>" "JObj [(''id'', JNull)]" _ demo_credential, OF _ _ _ _ _ _ _ _ _ refl]
    by (simp add: here Let_def demo_rup_def)
qed

section \<open>Endpoints that name no model\<close>

lemma nameless_none:
  assumes "w_faults w = []" and "\<forall>m \<in> set (t_rows (llm_models (w_db w))). mdl_cname m \<noteq> ''''"
  shows "wp (with_anthropic_clients px '''' n message k) Q w = Q (Inl (no_anthropic_client message)) w"
proof -
  have "filter (capable '''' ''anthropic'' ''messages'') (joined (w_db w)) = []"
    using assms(2) by (auto simp: filter_empty_conv capable_def joined_def)
  then have "messages_for px w '''' n = Inr []"
    by (simp add: messages_for_def routed_def candidates_def)
  then show ?thesis using assms(1) by (simp add: with_anthropic_clients_def)
qed

text \<open>The Anthropic endpoints for files, and those for listing, reading and cancelling message batches,
  look for an upstream with a model named by the empty string.  As long as no model has that name they
  answer 503 to every account and change nothing, however many Anthropic upstreams are online, also for
  files and batches that exist.\<close>

theorem nameless_endpoints_unavailable:
  assumes "w_faults w = []" and "funded w (acc_id acc)"
    and "\<forall>m \<in> set (t_rows (llm_models (w_db w))). mdl_cname m \<noteq> ''''"
    and "file_map.mapped (w_db w) i = Some f" and "batch_map.mapped (w_db w) j = Some b"
  shows "run_state (list_files px tp show acc) w = (Inl (no_anthropic_client ''No upstream available.''), w) \<and>
    run_state (upload_file px tpu show mime acc items) w = (Inl (no_anthropic_client ''No upstream available.''), w) \<and>
    run_state (retrieve_file px tp show acc i) w = (Inl (no_anthropic_client ''No upstream available.''), w) \<and>
    run_state (delete_file px tp show acc i) w = (Inl (no_anthropic_client ''No upstream available.''), w) \<and>
    run_state (list_message_batches px tpl show acc) w = (Inl (no_anthropic_client ''No upstream available.''), w) \<and>
    run_state (retrieve_message_batch px tpr show acc j) w = (Inl (no_anthropic_client ''No upstream available.''), w) \<and>
    run_state (cancel_message_batch px tpc show acc j) w = (Inl (no_anthropic_client ''No upstream available.''), w)"
  using assms
  by (intro conjI wp_exact)
    (simp_all add: list_files_def upload_file_def retrieve_file_def delete_file_def list_message_batches_def
      retrieve_message_batch_def cancel_message_batch_def with_msgbatch_def with_anthropic_file_def
      get_upstream_client_def bind_ok_def nameless_none resolve_anthropic_file_def resolve_msgbatch_meta_def
      file_map.find_mapped batch_map.find_mapped)


definition demo_transport :: "('req, 'resp) transport" where
  "demo_transport = \<lparr>tp_build = (\<lambda>_. None), tp_auth = BearerAuth, tp_send = (\<lambda>_. Inl ''refused''),
     tp_from_status = (\<lambda>_ s. SdkError s)\<rparr>"

definition nameless_world :: world where
  "nameless_world = (let w = file_stored ''f'' ''up-f'' ''p'' 1 (proxy_world ''anthropic'' [1, 2])
     in w\<lparr>w_db := batch_metas_update (\<lambda>_. snd (insert_row
            (fresh_batch_meta ''b'' ''up-b'' 1 ''anthropic'' 0) (batch_metas (w_db w)))) (w_db w)\<rparr>)"

theorem nameless_endpoints_unavailable_witness:
  "run_state (retrieve_file demo_px demo_transport (\<lambda>_. ''e'') demo_account ''f'') nameless_world
     = (Inl (no_anthropic_client ''No upstream available.''), nameless_world)"
proof -
  let ?w = "file_stored ''f'' ''up-f'' ''p'' 1 (proxy_world ''anthropic'' [1, 2])"
  have unused: "unused_file_id ''f'' (w_db (proxy_world ''anthropic'' [1, 2]))"
    by (simp add: unused_file_id_def empty_table_def)
  have "file_map.mapped (w_db nameless_world) k = file_map.mapped (w_db ?w) k" for k
    by (simp add: nameless_world_def Let_def file_map.mapped_def)
  then have "\<exists>f. file_map.mapped (w_db nameless_world) ''f'' = Some f"
    by (simp add: mapped_file_stored [OF unused])
  moreover have "\<exists>b. batch_map.mapped (w_db nameless_world) ''b'' = Some b"
    unfolding nameless_world_def Let_def
    by (simp add: batch_map.mapped_def select_rows_def insert_row_def Let_def file_stored_def fresh_batch_meta_def
        empty_table_def)
  moreover have "funded nameless_world (acc_id demo_account)"
    by (simp add: nameless_world_def Let_def funded_def wallet_seen_def wallet_cached_def wallet_row_def
        file_stored_def cong: option.case_cong)
      (use demo_funded [of "''anthropic''" "[1, 2]"] in \<open>simp add: funded_def wallet_seen_def wallet_cached_def
        wallet_row_def demo_account_def cong: option.case_cong\<close>)
  moreover have "w_faults nameless_world = []" "\<forall>m \<in> set (t_rows (llm_models (w_db nameless_world))). mdl_cname m \<noteq> ''''"
    by (simp_all add: nameless_world_def Let_def file_stored_def)
  ultimately obtain f b where "file_map.mapped (w_db nameless_world) ''f'' = Some f"
      "batch_map.mapped (w_db nameless_world) ''b'' = Some b" "funded nameless_world (acc_id demo_account)"
      "w_faults nameless_world = []" "\<forall>m \<in> set (t_rows (llm_models (w_db nameless_world))). mdl_cname m \<noteq> ''''"
    by blast
  note here = this
  show ?thesis
    by (rule nameless_endpoints_unavailable
        [OF here(4,3,5,1,2), THEN conjunct2, THEN conjunct2, THEN conjunct1])
qed

end
