(* ===== verification/Features.thy ===== *)
theory Features
  imports AnthropicProxy OpenAIProxy
begin

text \<open>
  Finding out what a model can do by trying it (\<^verbatim>\<open>openai/features.rs\<close>,
  \<^verbatim>\<open>anthropic/features.rs\<close>, and \<^verbatim>\<open>detect_features\<close> of the two providers).  A probe is the
  outcome of one request: the request could not be built, the upstream answered, or an error, whose text
  (OpenAI) or status (Anthropic) is looked at.
\<close>

section \<open>OpenAI\<close>

datatype probe = NotBuilt | Answered | Refused string

definition lower :: "string \<Rightarrow> string" where
  "lower s = map to_ascii_lowercase s"

fun contains :: "string \<Rightarrow> string \<Rightarrow> bool" where
  "contains p [] \<longleftrightarrow> p = []"
| "contains p (c # s) \<longleftrightarrow> starts_with p (c # s) \<or> contains p s"

text \<open>The text of an error, lower-cased; no multi-byte character lower-cases into one of these words.\<close>

definition is_unsupported_error :: "string \<Rightarrow> bool" where
  "is_unsupported_error err \<longleftrightarrow>
     (let err_str = lower err in
      contains ''404'' err_str \<or> contains ''not found'' err_str \<or> contains ''405'' err_str \<or>
      contains ''unsupported_model'' err_str)"

fun check_support :: "probe \<Rightarrow> bool" where
  "check_support NotBuilt \<longleftrightarrow> False"
| "check_support Answered \<longleftrightarrow> True"
| "check_support (Refused err) \<longleftrightarrow> \<not> is_unsupported_error err"

text \<open>What becomes of a request of each kind sent through a client.  The component \<open>_rest\<close> of a request
  holds its remaining fields.\<close>

record openai_probes =
  pb_chat :: "sdk_client \<Rightarrow> chat_request \<Rightarrow> probe"
  pb_image :: "sdk_client \<Rightarrow> image_request \<Rightarrow> probe"
  pb_embedding :: "sdk_client \<Rightarrow> embedding_request \<Rightarrow> probe"
  pb_speech :: "sdk_client \<Rightarrow> speech_request \<Rightarrow> probe"
  pb_response :: "sdk_client \<Rightarrow> create_response \<Rightarrow> probe"

definition check_chat_completion_support :: "openai_probes \<Rightarrow> sdk_client \<Rightarrow> string \<Rightarrow> bool" where
  "check_chat_completion_support pb client model_id =
     check_support (pb_chat pb client
       \<lparr>ccr_model = model_id, ccr_stream = None,
        ccr_rest = JObj [(''messages'', JArr [JObj [(''role'', JStr ''user''), (''content'', JStr ''a'')]]),
                         (''max_completion_tokens'', JInt 1)]\<rparr>)"

definition check_image_generation_support :: "openai_probes \<Rightarrow> sdk_client \<Rightarrow> string \<Rightarrow> bool" where
  "check_image_generation_support pb client model_id =
     check_support (pb_image pb client
       \<lparr>imr_model = Some (OtherImageModel model_id),
        imr_rest = JObj [(''prompt'', JStr ''a''), (''n'', JInt 1)]\<rparr>)"

definition check_embedding_support :: "openai_probes \<Rightarrow> sdk_client \<Rightarrow> string \<Rightarrow> bool" where
  "check_embedding_support pb client model_id =
     check_support (pb_embedding pb client
       \<lparr>emr_model = model_id, emr_rest = JObj [(''input'', JStr ''a'')]\<rparr>)"

definition check_speech_support :: "openai_probes \<Rightarrow> sdk_client \<Rightarrow> string \<Rightarrow> bool" where
  "check_speech_support pb client model_id =
     check_support (pb_speech pb client
       \<lparr>spr_model = OtherSpeechModel model_id,
        spr_rest = JObj [(''input'', JStr ''a''), (''voice'', JStr ''alloy''), (''response_format'', JStr ''mp3'')]\<rparr>)"

definition check_responses_api_support :: "openai_probes \<Rightarrow> sdk_client \<Rightarrow> string \<Rightarrow> bool" where
  "check_responses_api_support pb client model_id =
     check_support (pb_response pb client
       \<lparr>crq_model = Some model_id, crq_previous_response_id = None,
        crq_rest = JObj [(''input'', JStr ''a''), (''max_output_tokens'', JInt 1)]\<rparr>)"

definition detect_openai_features :: "openai_probes \<Rightarrow> sdk_client \<Rightarrow> string \<Rightarrow> string list" where
  "detect_openai_features pb client model_id =
     (if check_chat_completion_support pb client model_id then [''chat/completions''] else []) @
     (if check_image_generation_support pb client model_id then [''images''] else []) @
     (if check_embedding_support pb client model_id then [''embeddings''] else []) @
     (if check_speech_support pb client model_id then [''audio/speech''] else []) @
     (if check_responses_api_support pb client model_id then [''responses''] else [])"

section \<open>Anthropic\<close>

text \<open>\<open>None\<close>: the endpoint answered; otherwise the status of the error, when it has one.\<close>

definition check_anthropic_support :: "int option option \<Rightarrow> bool" where
  "check_anthropic_support r \<longleftrightarrow> (case r of None \<Rightarrow> True | Some status \<Rightarrow> status \<notin> {Some 404, Some 405})"

text \<open>Two of the three probes are listings and do not name the model.\<close>

record anthropic_probes =
  pb_message :: "sdk_client \<Rightarrow> message_create_params \<Rightarrow> int option option"
  pb_files :: "sdk_client \<Rightarrow> int option option"
  pb_batches :: "sdk_client \<Rightarrow> int option option"

definition check_messages_api_support :: "anthropic_probes \<Rightarrow> sdk_client \<Rightarrow> llm_model \<Rightarrow> bool" where
  "check_messages_api_support pb client m =
     check_anthropic_support (pb_message pb client
       \<lparr>mcp_model = mdl_fullname m, mcp_max_tokens = 1,
        mcp_messages = [\<lparr>smp_role = User, smp_content = ''ping''\<rparr>], mcp_system = None,
        mcp_temperature = None, mcp_top_p = None, mcp_top_k = None, mcp_stop_sequences = None,
        mcp_stream = Some False, mcp_tools = None, mcp_tool_choice = None, mcp_metadata = None\<rparr>)"

definition check_files_api_support :: "anthropic_probes \<Rightarrow> sdk_client \<Rightarrow> llm_model \<Rightarrow> bool" where
  "check_files_api_support pb client m = check_anthropic_support (pb_files pb client)"

definition check_messages_batches_api_support :: "anthropic_probes \<Rightarrow> sdk_client \<Rightarrow> llm_model \<Rightarrow> bool" where
  "check_messages_batches_api_support pb client m = check_anthropic_support (pb_batches pb client)"

definition detect_anthropic_features :: "anthropic_probes \<Rightarrow> sdk_client \<Rightarrow> llm_model \<Rightarrow> string list" where
  "detect_anthropic_features pb client m =
     (if check_messages_api_support pb client m then [''messages''] else []) @
     (if check_files_api_support pb client m then [''files''] else []) @
     (if check_messages_batches_api_support pb client m then [''messages/batches''] else [])"

section \<open>The two providers\<close>

text \<open>\<open>Inl\<close> is a panic while the client is built.\<close>

definition openai_provider_detect ::
    "proxy_env \<Rightarrow> openai_probes \<Rightarrow> llm_model \<Rightarrow> llm_upstream \<Rightarrow> string + string list" where
  "openai_provider_detect px pb m u =
     (case build_client_from_upstream px u of
        Inl msg \<Rightarrow> Inl msg
      | Inr client \<Rightarrow> Inr (detect_openai_features pb client (mdl_fullname m)))"

definition anthropic_provider_detect ::
    "proxy_env \<Rightarrow> anthropic_probes \<Rightarrow> llm_model \<Rightarrow> llm_upstream \<Rightarrow> string + string list" where
  "anthropic_provider_detect px pb m u =
     (case build_anthropic_client_context px m u of
        Inl msg \<Rightarrow> Inl msg
      | Inr c \<Rightarrow> Inr (detect_anthropic_features pb (uc_client c) m))"

end
