(* ===== verification/Passthrough.thy ===== *)
theory Passthrough
  imports Routing
begin

text \<open>
  The passthrough proxy of the admin port (\<^verbatim>\<open>views/passthrough.rs\<close>): a request is sent to an
  upstream found by identifier or by tag, with the headers filtered and the key of the upstream added.
  Header names are compared without regard to case; \<open>pt_send\<close> is one HTTP exchange.
\<close>

definition passthrough_error :: "int \<Rightarrow> string \<Rightarrow> proxy_error" where
  "passthrough_error status message =
     \<lparr>pe_status = status, pe_message = message, pe_type = ''passthrough_error'', pe_code = ''''\<rparr>"

section \<open>Headers\<close>

definition HOP_BY_HOP_HEADERS :: "string list" where
  "HOP_BY_HOP_HEADERS =
     [''connection'', ''keep-alive'', ''proxy-authenticate'', ''proxy-authorization'', ''te'', ''trailers'',
      ''transfer-encoding'', ''upgrade'', ''host'', ''x-admin-token'']"

definition is_hop_by_hop :: "string \<Rightarrow> bool" where
  "is_hop_by_hop name \<longleftrightarrow> list_ex (\<lambda>h. eq_ignore_ascii_case h name) HOP_BY_HOP_HEADERS"

text \<open>A header value is visible ASCII text, or not text (\<^verbatim>\<open>to_str\<close> fails).\<close>

type_synonym header = "string \<times> bytes"

record passthrough_request =
  ptq_method :: string
  ptq_query :: "string option"
  ptq_headers :: "header list"
  ptq_body :: bytes

record upstream_answer =
  pta_status :: int
  pta_headers :: "header list"
  pta_body :: bytes

record outgoing =
  og_method :: string
  og_url :: string
  og_headers :: "header list"
  og_body :: bytes
  og_proxy :: "string option"

record passthrough_env =
  pt_proxy :: proxy_env
  pt_text :: "bytes \<Rightarrow> bool"
  pt_build :: "string option \<Rightarrow> string option"
  pt_send :: "outgoing \<Rightarrow> string + upstream_answer"
  pt_pick :: "llm_upstream list \<Rightarrow> nat"

section \<open>The request to the upstream\<close>

definition upstream_url :: "string \<Rightarrow> string \<Rightarrow> string option \<Rightarrow> string" where
  "upstream_url api_base rest query =
     trim_end_slash api_base @ ''/'' @ trim_start_slash rest @
     (case query of None \<Rightarrow> '''' | Some q \<Rightarrow> ''?'' @ q)"

definition forwarded_headers :: "passthrough_env \<Rightarrow> header list \<Rightarrow> header list" where
  "forwarded_headers pt headers = filter (\<lambda>(name, v). \<not> is_hop_by_hop name \<and> pt_text pt v) headers"

definition outgoing_headers :: "passthrough_env \<Rightarrow> llm_upstream \<Rightarrow> header list \<Rightarrow> header list" where
  "outgoing_headers pt u headers =
     forwarded_headers pt headers @
     (if up_api_key u = [] then [] else [(''Authorization'', ''Bearer '' @ up_api_key u)])"

text \<open>\<^verbatim>\<open>insert\<close> into the header map of the answer: a later value replaces an earlier one.\<close>

definition header_insert :: "header list \<Rightarrow> header \<Rightarrow> header list" where
  "header_insert hs h = filter (\<lambda>(n, _). \<not> eq_ignore_ascii_case n (fst h)) hs @ [h]"

definition answer_headers :: "header list \<Rightarrow> header list" where
  "answer_headers headers =
     foldl header_insert [] (filter (\<lambda>(name, _). \<not> is_hop_by_hop name) headers)"

definition ALLOWED_METHODS :: "string list" where
  "ALLOWED_METHODS = [''GET'', ''POST'', ''PUT'', ''DELETE'', ''PATCH'', ''HEAD'', ''OPTIONS'']"

definition proxy_to_upstream ::
    "passthrough_env \<Rightarrow> llm_upstream \<Rightarrow> string \<Rightarrow> passthrough_request \<Rightarrow> proxy_error + upstream_answer" where
  "proxy_to_upstream pt u rest req =
     (let url = upstream_url (up_api_base u) rest (ptq_query req);
          chosen = (if up_proxies u = [] then None else px_choose (pt_proxy pt) (up_proxies u))
      in if (case chosen of None \<Rightarrow> False | Some p \<Rightarrow> \<not> px_proxy_ok (pt_proxy pt) p)
         then Inl (panicked ''Invalid proxy URL'')
         else
           (case pt_build pt chosen of
              Some e \<Rightarrow> Inl (passthrough_error 500 (''Failed to build HTTP client: '' @ e))
            | None \<Rightarrow>
                if ptq_method req \<notin> set ALLOWED_METHODS
                then Inl (passthrough_error 405 (''Unsupported HTTP method: '' @ ptq_method req))
                else
                  (case pt_send pt \<lparr>og_method = ptq_method req, og_url = url,
                                    og_headers = outgoing_headers pt u (ptq_headers req),
                                    og_body = ptq_body req, og_proxy = chosen\<rparr> of
                     Inl e \<Rightarrow> Inl (passthrough_error 502 (''Upstream request failed: '' @ e))
                   | Inr a \<Rightarrow> Inr (a\<lparr>pta_headers := answer_headers (pta_headers a)\<rparr>))))"

section \<open>The handlers\<close>

text \<open>\<open>pt_pick\<close> is the random choice: an index into a non-empty list.\<close>

definition passthrough_by_tag_handler ::
    "passthrough_env \<Rightarrow> string \<Rightarrow> string \<Rightarrow> passthrough_request \<Rightarrow> upstream_answer response_io" where
  "passthrough_by_tag_handler pt tag rest req = do {
     r \<leftarrow> find_upstreams_by_tag (px_crypto (pt_proxy pt)) tag;
     return (case r of
        Inl _ \<Rightarrow> Inl (passthrough_error 500 ''Failed to query upstreams.'')
      | Inr upstreams \<Rightarrow>
          if upstreams = [] then
            Inl (passthrough_error 404 (''No upstreams found for tag '' @ quoted tag))
          else proxy_to_upstream pt (upstreams ! (pt_pick pt upstreams mod length upstreams)) rest req) }"

definition passthrough_by_upstream_id_handler ::
    "passthrough_env \<Rightarrow> int \<Rightarrow> string \<Rightarrow> passthrough_request \<Rightarrow> upstream_answer response_io" where
  "passthrough_by_upstream_id_handler pt upstream_id rest req = do {
     r \<leftarrow> get_upstream (px_crypto (pt_proxy pt)) upstream_id;
     return (case r of
        Inr u \<Rightarrow> proxy_to_upstream pt u rest req
      | Inl e \<Rightarrow>
          if e = RowNotFound then
            Inl (passthrough_error 404 (''Upstream with id '' @ quoted (show_int upstream_id) @ '' not found''))
          else Inl (passthrough_error 500 ''Failed to query upstream.'')) }"

end
