(* ===== verification/PassthroughClaims.thy ===== *)
theory PassthroughClaims
  imports Passthrough ProxyDemo
begin

text \<open>
  What crosses the passthrough proxy: the token of the admin never reaches an upstream, the key of the
  upstream never reaches the client.
\<close>

lemma admin_token_hop: "eq_ignore_ascii_case name ''x-admin-token'' \<Longrightarrow> is_hop_by_hop name"
  by (simp add: is_hop_by_hop_def HOP_BY_HOP_HEADERS_def eq_ignore_ascii_case_def)

lemma forwarded_hop:
  "is_hop_by_hop name \<Longrightarrow> outgoing_headers pt u (hs @ (name, v) # hs') = outgoing_headers pt u (hs @ hs')"
  by (simp add: outgoing_headers_def forwarded_headers_def)

lemma proxy_reads:
  assumes "ptq_method r = ptq_method r'" and "ptq_query r = ptq_query r'" and "ptq_body r = ptq_body r'"
    and "outgoing_headers pt u (ptq_headers r) = outgoing_headers pt u (ptq_headers r')"
  shows "proxy_to_upstream pt u rest r = proxy_to_upstream pt u rest r'"
  unfolding proxy_to_upstream_def by (simp only: assms)

lemma proxy_ignores_hop:
  assumes "is_hop_by_hop name"
  shows "proxy_to_upstream pt u rest (req\<lparr>ptq_headers := hs @ (name, v) # hs'\<rparr>) =
    proxy_to_upstream pt u rest (req\<lparr>ptq_headers := hs @ hs'\<rparr>)"
  using assms by (intro proxy_reads) (simp_all add: forwarded_hop)

lemma answer_headers_names: "set (map fst (answer_headers hs)) \<subseteq> {n. \<not> is_hop_by_hop n}"
proof -
  have "set (foldl header_insert acc xs) \<subseteq> set acc \<union> set xs" for acc xs
  proof (induction xs arbitrary: acc)
    case Nil
    then show ?case by simp
  next
    case (Cons x xs)
    have "set (header_insert acc x) \<subseteq> set acc \<union> {x}" by (auto simp: header_insert_def)
    then show ?case using Cons [of "header_insert acc x"] by auto
  qed
  from this [of "[]" "filter (\<lambda>(name, _). \<not> is_hop_by_hop name) hs"]
  show ?thesis by (auto simp: answer_headers_def)
qed

text \<open>The headers of an answer that went through; an error has none of the upstream's.\<close>

definition relayed_headers :: "proxy_error + upstream_answer \<Rightarrow> header list" where
  "relayed_headers r = (case r of Inl _ \<Rightarrow> [] | Inr a \<Rightarrow> pta_headers a)"

definition filtered :: "proxy_error + upstream_answer \<Rightarrow> bool" where
  "filtered r \<longleftrightarrow> list_all (\<lambda>(n, _). \<not> is_hop_by_hop n) (relayed_headers r)"

lemma filtered_error [simp, intro]: "filtered (Inl e)"
  by (simp add: filtered_def relayed_headers_def)

lemma filtered_answer [simp, intro]: "filtered (Inr (a\<lparr>pta_headers := answer_headers hs\<rparr>))"
  using answer_headers_names [of hs]
  by (auto simp: filtered_def relayed_headers_def list_all_iff image_subset_iff)

lemma filtered_cases:
  "filtered r \<Longrightarrow> filtered r' \<Longrightarrow> filtered (if b then r else r')"
  "(\<And>e. filtered (f e)) \<Longrightarrow> filtered r \<Longrightarrow> filtered (case x of Some e \<Rightarrow> f e | None \<Rightarrow> r)"
  "(\<And>e. filtered (g e)) \<Longrightarrow> (\<And>c. filtered (h c)) \<Longrightarrow> filtered (case y of Inl e \<Rightarrow> g e | Inr c \<Rightarrow> h c)"
  by (simp_all split: option.split sum.split)

lemma proxy_relayed: "filtered (proxy_to_upstream pt u rest req)"
  unfolding proxy_to_upstream_def Let_def
  by (intro filtered_cases filtered_error filtered_answer)

lemma handler_relayed:
  "filtered (fst (run_state (passthrough_by_upstream_id_handler pt i rest req) w))"
proof -
  have "wp (passthrough_by_upstream_id_handler pt i rest req) (\<lambda>r _. filtered r) w"
    unfolding passthrough_by_upstream_id_handler_def wp_bind wp_return
    by (auto simp: wp_run_state [of "get_upstream c j" for c j]
        intro!: filtered_cases proxy_relayed)
  then show ?thesis by (simp add: wp_run_state)
qed


text \<open>An upstream that answers with the headers it got.\<close>

definition demo_pt :: passthrough_env where
  "demo_pt = \<lparr>pt_proxy = demo_px, pt_text = (\<lambda>_. True), pt_build = (\<lambda>_. None),
     pt_send = (\<lambda>o'. Inr \<lparr>pta_status = 200, pta_headers = og_headers o', pta_body = ''''\<rparr>),
     pt_pick = (\<lambda>_. 0)\<rparr>"

definition demo_passthrough :: passthrough_request where
  "demo_passthrough = \<lparr>ptq_method = ''GET'', ptq_query = None, ptq_headers = [], ptq_body = ''''\<rparr>"


end
