(* ===== verification/Wire.thy ===== *)
theory Wire
  imports AdminApi
begin

text \<open>
  The JSON of the admin API: what \<^verbatim>\<open>#[derive(Serialize)]\<close> and
  \<^verbatim>\<open>#[derive(Deserialize)]\<close> make of the bodies of \<^verbatim>\<open>views/admin_rest_api.rs\<close>.
  The locale \<open>wire_format\<close> is the contract between a writer and a reader of one type; it carries over to
  lists, pages and cursor answers.
\<close>

section \<open>Reading a struct\<close>

text \<open>
  A struct is read from an object, in which a known field may occur once and unknown ones are ignored,
  or from an array of exactly its fields in order.  The result has one entry per field.
\<close>

definition once :: "string \<Rightarrow> (string \<times> json) list \<Rightarrow> bool" where
  "once k kvs \<longleftrightarrow> length (filter (\<lambda>(k', _). k' = k) kvs) \<le> 1"

fun fields_of :: "string list \<Rightarrow> json \<Rightarrow> json option list option" where
  "fields_of names (JObj kvs) =
     (if list_all (\<lambda>k. once k kvs) names then Some (map (map_of kvs) names) else None)"
| "fields_of names (JArr vs) = (if length vs = length names then Some (map Some vs) else None)"
| "fields_of names _ = None"

text \<open>A required field, an \<^verbatim>\<open>Option\<close> field, and one with \<^verbatim>\<open>#[serde(default)]\<close>.\<close>

definition req :: "(json \<Rightarrow> 'a option) \<Rightarrow> json option \<Rightarrow> 'a option" where
  "req f v = Option.bind v f"

definition opt :: "(json \<Rightarrow> 'a option) \<Rightarrow> json option \<Rightarrow> 'a option option" where
  "opt f v =
     (case v of
        None \<Rightarrow> Some None
      | Some j \<Rightarrow> if j = JNull then Some None else map_option Some (f j))"

definition dflt :: "'a \<Rightarrow> (json \<Rightarrow> 'a option) \<Rightarrow> json option \<Rightarrow> 'a option" where
  "dflt d f v = (case v of None \<Rightarrow> Some d | Some j \<Rightarrow> f j)"

text \<open>\<^verbatim>\<open>i64\<close>, \<^verbatim>\<open>i32\<close>, \<^verbatim>\<open>bool\<close>, \<^verbatim>\<open>Vec\<close>.\<close>

definition read_i64 :: "json \<Rightarrow> int option" where
  "read_i64 j = (case j of JInt i \<Rightarrow> if in_i64 i then Some i else None | _ \<Rightarrow> None)"

definition read_i32 :: "json \<Rightarrow> int option" where
  "read_i32 j = (case j of JInt i \<Rightarrow> if in_i32 i then Some i else None | _ \<Rightarrow> None)"

definition read_bool :: "json \<Rightarrow> bool option" where
  "read_bool j = (case j of JBool b \<Rightarrow> Some b | _ \<Rightarrow> None)"

definition read_list :: "(json \<Rightarrow> 'a option) \<Rightarrow> json \<Rightarrow> 'a list option" where
  "read_list f j = (case j of JArr vs \<Rightarrow> those (map f vs) | _ \<Rightarrow> None)"

lemma req_Some [simp]: "req f (Some v) = f v"
  by (simp add: req_def)

lemma opt_simps [simp]:
  "opt f None = Some None"
  "opt f (Some JNull) = Some None"
  "j \<noteq> JNull \<Longrightarrow> opt f (Some j) = map_option Some (f j)"
  by (simp_all add: opt_def)

lemma dflt_simps [simp]: "dflt d f None = Some d" "dflt d f (Some j) = f j"
  by (simp_all add: dflt_def)

lemma read_prim [simp]:
  "in_i64 i \<Longrightarrow> read_i64 (JInt i) = Some i"
  "in_i32 i \<Longrightarrow> read_i32 (JInt i) = Some i"
  "read_bool (JBool b) = Some b"
  by (simp_all add: read_i64_def read_i32_def read_bool_def)

lemma those_map_map: "(\<And>x. x \<in> set xs \<Longrightarrow> f (g x) = Some x) \<Longrightarrow> those (map f (map g xs)) = Some xs"
  by (induction xs) auto

lemma read_list_map [simp]:
  "(\<And>x. x \<in> set xs \<Longrightarrow> f (g x) = Some x) \<Longrightarrow> read_list f (JArr (map g xs)) = Some xs"
  by (simp add: read_list_def those_map_map del: map_map)

lemma read_strings [simp]: "read_list as_str (JArr (map JStr xs)) = Some xs"
  by simp

text \<open>An object with distinct keys.\<close>

lemma once_distinct: "distinct (map fst kvs) \<Longrightarrow> once k kvs"
proof (induction kvs)
  case Nil
  then show ?case by (simp add: once_def)
next
  case (Cons p kvs)
  have "filter (\<lambda>(k', _). k' = k) kvs = []" if "fst p = k"
    using Cons.prems that by (auto simp: filter_empty_conv rev_image_eqI)
  with Cons show ?case by (auto simp: once_def split: prod.splits)
qed

lemma fields_of_distinct [simp]:
  "distinct (map fst kvs) \<Longrightarrow> fields_of names (JObj kvs) = Some (map (map_of kvs) names)"
  by (simp add: list_all_iff once_distinct)

declare fields_of.simps(1) [simp del]

section \<open>The bodies the server writes\<close>

definition opt_json :: "('a \<Rightarrow> json) \<Rightarrow> 'a option \<Rightarrow> json" where
  "opt_json f x = (case x of None \<Rightarrow> JNull | Some v \<Rightarrow> f v)"

definition strings_json :: "string list \<Rightarrow> json" where
  "strings_json xs = JArr (map JStr xs)"

definition error_json :: "string \<Rightarrow> string \<Rightarrow> json" where
  "error_json error message = JObj [(''error'', JStr error), (''message'', JStr message)]"

definition pagination_json :: "pagination_info \<Rightarrow> json" where
  "pagination_json p = JObj
     [(''page'', JInt (pi_page p)), (''page_size'', JInt (pi_page_size p)),
      (''total'', JInt (pi_total p)), (''total_pages'', JInt (pi_total_pages p))]"

definition paginated_json :: "('d \<Rightarrow> json) \<Rightarrow> 'd paginated \<Rightarrow> json" where
  "paginated_json f r = JObj
     [(''data'', JArr (map f (pr_data r))), (''pagination'', pagination_json (pr_pagination r))]"

definition cursor_json :: "('d \<Rightarrow> json) \<Rightarrow> 'd cursor_response \<Rightarrow> json" where
  "cursor_json f r = JObj
     [(''data'', JArr (map f (cr_data r))), (''next_id'', JInt (cr_next_id r)),
      (''has_more'', JBool (cr_has_more r))]"

definition upstream_json :: "upstream_response \<Rightarrow> json" where
  "upstream_json u = JObj
     [(''id'', JInt (ur_id u)), (''name'', JStr (ur_name u)), (''api_base'', JStr (ur_api_base u)),
      (''provider'', JStr (ur_provider u)), (''tags'', strings_json (ur_tags u)),
      (''proxies'', strings_json (ur_proxies u)), (''status'', JStr (ur_status u)),
      (''description'', JStr (ur_description u)), (''created_at'', JStr (ur_created_at u)),
      (''updated_at'', JStr (ur_updated_at u))]"

definition account_json :: "account_response \<Rightarrow> json" where
  "account_json a = JObj
     [(''id'', JInt (ar_id a)), (''name'', JStr (ar_name a)), (''is_active'', JBool (ar_is_active a)),
      (''created_at'', JStr (ar_created_at a)), (''updated_at'', JStr (ar_updated_at a))]"

definition wallet_json :: "wallet_response \<Rightarrow> json" where
  "wallet_json w = JObj
     [(''id'', JInt (wr_id w)), (''account_id'', JInt (wr_account_id w)), (''balance'', JStr (wr_balance w)),
      (''created_at'', JStr (wr_created_at w)), (''updated_at'', JStr (wr_updated_at w))]"

definition credential_json :: "credential_response \<Rightarrow> json" where
  "credential_json c = JObj
     [(''id'', JInt (kr_id c)), (''account_id'', opt_json JInt (kr_account_id c)),
      (''apikey'', JStr (kr_apikey c)), (''label'', JStr (kr_label c)),
      (''is_active'', JBool (kr_is_active c)), (''expires_at'', opt_json JStr (kr_expires_at c)),
      (''created_at'', JStr (kr_created_at c)), (''updated_at'', JStr (kr_updated_at c))]"

definition credential_created_json :: "credential_created_response \<Rightarrow> json" where
  "credential_created_json c = JObj
     [(''id'', JInt (kr_id c)), (''account_id'', opt_json JInt (kr_account_id c)),
      (''apikey'', JStr (kr_apikey c)), (''ellipsed_apikey'', JStr (kr_ellipsed_apikey c)),
      (''label'', JStr (kr_label c)), (''is_active'', JBool (kr_is_active c)),
      (''expires_at'', opt_json JStr (kr_expires_at c)), (''created_at'', JStr (kr_created_at c)),
      (''updated_at'', JStr (kr_updated_at c))]"

definition model_json :: "model_response \<Rightarrow> json" where
  "model_json m = JObj
     [(''id'', JInt (mr_id m)), (''upstream_id'', JInt (mr_upstream_id m)),
      (''fullname'', JStr (mr_fullname m)), (''cname'', JStr (mr_cname m)),
      (''is_active'', JBool (mr_is_active m)), (''features'', strings_json (mr_features m)),
      (''input_token_price'', JStr (mr_input_token_price m)),
      (''output_token_price'', JStr (mr_output_token_price m)),
      (''batch_input_token_price'', JStr (mr_batch_input_token_price m)),
      (''batch_output_token_price'', JStr (mr_batch_output_token_price m)),
      (''description'', JStr (mr_description m)), (''created_at'', JStr (mr_created_at m)),
      (''updated_at'', JStr (mr_updated_at m))]"

definition upstream_with_models_json :: "upstream_with_models_response \<Rightarrow> json" where
  "upstream_with_models_json r = JObj
     [(''upstream'', upstream_json (uwm_upstream r)), (''models'', JArr (map model_json (uwm_models r)))]"

text \<open>\<^verbatim>\<open>skip_serializing_if = "Option::is_none"\<close> leaves the field out.\<close>

definition some_field :: "string \<Rightarrow> ('a \<Rightarrow> json) \<Rightarrow> 'a option \<Rightarrow> (string \<times> json) list" where
  "some_field k f x = (case x of None \<Rightarrow> [] | Some v \<Rightarrow> [(k, f v)])"

definition model_test_json :: "model_test_result \<Rightarrow> json" where
  "model_test_json t = JObj
     ([(''model_id'', JInt (mt_model_id t))] @ some_field ''model'' model_json (mt_model t) @
      some_field ''error'' JStr (mt_error t))"

definition tags_json :: "tags_response \<Rightarrow> json" where
  "tags_json t = JObj [(''upstream_id'', JInt (tr_upstream_id t)), (''tags'', strings_json (tr_tags t))]"

definition balance_change_json :: "balance_change_response \<Rightarrow> json" where
  "balance_change_json b = JObj
     [(''id'', JInt (bcr_id b)), (''account_id'', JInt (bcr_account_id b)),
      (''unique_request_id'', JStr (bcr_unique_request_id b)), (''content'', bcr_content b),
      (''is_applied'', JBool (bcr_is_applied b)), (''created_at'', JStr (bcr_created_at b))]"

definition session_event_json :: "session_event_response \<Rightarrow> json" where
  "session_event_json e = JObj
     [(''id'', JInt (ser_id e)), (''session_id'', JStr (ser_session_id e)),
      (''session_index'', JInt (ser_session_index e)), (''account_id'', JInt (ser_account_id e)),
      (''model_id'', JInt (ser_model_id e)), (''api_key_id'', JInt (ser_api_key_id e)),
      (''input_token_price'', JStr (ser_input_token_price e)),
      (''input_tokens'', JInt (ser_input_tokens e)),
      (''output_token_price'', JStr (ser_output_token_price e)),
      (''output_tokens'', JInt (ser_output_tokens e)), (''event_data'', ser_event_data e),
      (''created_at'', JStr (ser_created_at e))]"

definition subscription_plan_json :: "subscription_plan_response \<Rightarrow> json" where
  "subscription_plan_json p = JObj
     [(''id'', JInt (spr_id p)), (''status'', JStr (spr_status p)),
      (''description'', JStr (spr_description p)),
      (''total_token_limit'', JInt (spr_total_token_limit p)), (''time_span'', JInt (spr_time_span p)),
      (''money_limit'', JStr (spr_money_limit p)), (''sort_order'', JInt (spr_sort_order p)),
      (''created_at'', JStr (spr_created_at p)), (''updated_at'', JStr (spr_updated_at p))]"

definition subscription_json :: "subscription_response \<Rightarrow> json" where
  "subscription_json s = JObj
     [(''id'', JInt (sbr_id s)), (''account_id'', JInt (sbr_account_id s)),
      (''plan_id'', JInt (sbr_plan_id s)), (''status'', JStr (sbr_status s)),
      (''start_at'', opt_json JStr (sbr_start_at s)), (''end_at'', opt_json JStr (sbr_end_at s)),
      (''used_total_tokens'', JInt (sbr_used_total_tokens s)),
      (''total_token_limit'', JInt (sbr_total_token_limit s)),
      (''sort_order'', JInt (sbr_sort_order s)), (''used_money'', JStr (sbr_used_money s)),
      (''created_at'', JStr (sbr_created_at s)), (''updated_at'', JStr (sbr_updated_at s))]"

lemma opt_opt_json [simp]:
  "f (g x) = Some x \<Longrightarrow> g x \<noteq> JNull \<Longrightarrow> opt f (Some (opt_json g (Some x))) = Some (Some x)"
  "opt f (Some (opt_json g None)) = Some None"
  by (simp_all add: opt_json_def)

lemma read_strings_json [simp]: "read_list as_str (strings_json xs) = Some xs"
  by (simp add: strings_json_def)

section \<open>The contract of a format\<close>

locale wire_format =
  fixes enc :: "'a \<Rightarrow> json" and dec :: "json \<Rightarrow> 'a option" and fits :: "'a \<Rightarrow> bool"
  assumes dec_enc: "fits x \<Longrightarrow> dec (enc x) = Some x"
begin

lemma dec_enc_list: "list_all fits xs \<Longrightarrow> read_list dec (JArr (map enc xs)) = Some xs"
  by (simp add: dec_enc list_all_iff)

lemma enc_inj: "fits x \<Longrightarrow> fits y \<Longrightarrow> enc x = enc y \<Longrightarrow> x = y"
  by (metis option.inject dec_enc)

end

end
