(* ===== verification/AdminServer.thy ===== *)
theory AdminServer
  imports Wire Auth
begin

text \<open>
  The admin API as a server: which handler a method and path select, how its arguments are read from
  path, query and body, and how its answer is written (\<^verbatim>\<open>get_router\<close> and the request
  types of \<^verbatim>\<open>views/admin_rest_api.rs\<close>, behind \<^verbatim>\<open>auth_jwt\<close>).  A path is the
  list of its decoded segments after \<^verbatim>\<open>/api/v1\<close>, a query the list of its decoded pairs.
\<close>

section \<open>Request bodies\<close>

text \<open>Reading a \<^verbatim>\<open>BigDecimal\<close> (crate \<^verbatim>\<open>bigdecimal\<close>) is the argument \<open>dec\<close>.\<close>

definition read_create_account :: "json \<Rightarrow> string option" where
  "read_create_account j = do { vs \<leftarrow> fields_of [''name''] j; req as_str (vs ! 0) }"

definition read_update_account :: "json \<Rightarrow> (string option \<times> bool option) option" where
  "read_update_account j = do {
     vs \<leftarrow> fields_of [''name'', ''is_active''] j;
     name \<leftarrow> opt as_str (vs ! 0); is_active \<leftarrow> opt read_bool (vs ! 1);
     Some (name, is_active) }"

definition read_create_apikey :: "json \<Rightarrow> string option" where
  "read_create_apikey j = do { vs \<leftarrow> fields_of [''label''] j; dflt '''' as_str (vs ! 0) }"

definition default_provider :: string where
  "default_provider = ''openai''"

definition read_create_upstream :: "json \<Rightarrow> create_upstream_request option" where
  "read_create_upstream j = do {
     vs \<leftarrow> fields_of [''name'', ''api_key'', ''api_base'', ''provider'', ''tags'', ''proxies''] j;
     name \<leftarrow> req as_str (vs ! 0); api_key \<leftarrow> req as_str (vs ! 1); api_base \<leftarrow> req as_str (vs ! 2);
     provider \<leftarrow> dflt default_provider as_str (vs ! 3);
     tags \<leftarrow> dflt [] (read_list as_str) (vs ! 4); proxies \<leftarrow> dflt [] (read_list as_str) (vs ! 5);
     Some \<lparr>cur_name = name, cur_api_key = api_key, cur_api_base = api_base, cur_provider = provider,
           cur_tags = tags, cur_proxies = proxies\<rparr> }"

definition read_update_upstream :: "json \<Rightarrow> update_upstream_request option" where
  "read_update_upstream j = do {
     vs \<leftarrow> fields_of [''name'', ''provider'', ''tags'', ''proxies'', ''description'', ''status''] j;
     name \<leftarrow> opt as_str (vs ! 0); provider \<leftarrow> opt as_str (vs ! 1);
     tags \<leftarrow> opt (read_list as_str) (vs ! 2); proxies \<leftarrow> opt (read_list as_str) (vs ! 3);
     description \<leftarrow> opt as_str (vs ! 4); status \<leftarrow> opt as_str (vs ! 5);
     Some \<lparr>uur_name = name, uur_provider = provider, uur_tags = tags, uur_proxies = proxies,
           uur_description = description, uur_status = status\<rparr> }"

definition read_update_model :: "(json \<Rightarrow> decimal option) \<Rightarrow> json \<Rightarrow> update_model_request option" where
  "read_update_model dec j = do {
     vs \<leftarrow> fields_of [''is_active'', ''description'', ''input_token_price'', ''output_token_price'',
             ''batch_input_token_price'', ''batch_output_token_price''] j;
     is_active \<leftarrow> opt read_bool (vs ! 0); description \<leftarrow> opt as_str (vs ! 1);
     input_price \<leftarrow> opt dec (vs ! 2); output_price \<leftarrow> opt dec (vs ! 3);
     batch_input \<leftarrow> opt dec (vs ! 4); batch_output \<leftarrow> opt dec (vs ! 5);
     Some \<lparr>umr_is_active = is_active, umr_description = description,
           umr_input_token_price = input_price, umr_output_token_price = output_price,
           umr_batch_input_token_price = batch_input, umr_batch_output_token_price = batch_output\<rparr> }"

text \<open>\<^verbatim>\<open>CreateDepositRequest\<close>, \<^verbatim>\<open>CreateWithdrawRequest\<close> and
  \<^verbatim>\<open>CreateCreditRequest\<close> have the same fields.\<close>

definition read_change :: "(json \<Rightarrow> decimal option) \<Rightarrow> json \<Rightarrow> change_request option" where
  "read_change dec j = do {
     vs \<leftarrow> fields_of [''account_id'', ''unique_request_id'', ''amount''] j;
     account_id \<leftarrow> req read_i64 (vs ! 0); rid \<leftarrow> req as_str (vs ! 1); amount \<leftarrow> req dec (vs ! 2);
     Some \<lparr>cq_account_id = account_id, cq_unique_request_id = rid, cq_amount = amount\<rparr> }"

definition read_tag :: "json \<Rightarrow> string option" where
  "read_tag j = do { vs \<leftarrow> fields_of [''tag''] j; req as_str (vs ! 0) }"

definition read_create_plan :: "(json \<Rightarrow> decimal option) \<Rightarrow> json \<Rightarrow> create_plan_request option" where
  "read_create_plan dec j = do {
     vs \<leftarrow> fields_of [''description'', ''total_token_limit'', ''time_span'', ''money_limit'', ''sort_order''] j;
     description \<leftarrow> req as_str (vs ! 0); total_token_limit \<leftarrow> dflt 0 read_i64 (vs ! 1);
     time_span \<leftarrow> dflt 0 read_i64 (vs ! 2); money_limit \<leftarrow> req dec (vs ! 3);
     sort_order \<leftarrow> dflt 0 read_i64 (vs ! 4);
     Some \<lparr>cpr_description = description, cpr_total_token_limit = total_token_limit,
           cpr_time_span = time_span, cpr_money_limit = money_limit, cpr_sort_order = sort_order\<rparr> }"

definition read_update_plan :: "(json \<Rightarrow> decimal option) \<Rightarrow> json \<Rightarrow> update_plan_request option" where
  "read_update_plan dec j = do {
     vs \<leftarrow> fields_of [''description'', ''total_token_limit'', ''time_span'', ''money_limit'', ''sort_order'',
             ''status''] j;
     description \<leftarrow> opt as_str (vs ! 0); total_token_limit \<leftarrow> opt read_i64 (vs ! 1);
     time_span \<leftarrow> opt read_i64 (vs ! 2); money_limit \<leftarrow> opt dec (vs ! 3);
     sort_order \<leftarrow> opt read_i64 (vs ! 4); status \<leftarrow> opt as_str (vs ! 5);
     Some \<lparr>upr_description = description, upr_total_token_limit = total_token_limit,
           upr_time_span = time_span, upr_money_limit = money_limit, upr_sort_order = sort_order,
           upr_status = status\<rparr> }"

definition read_create_subscription :: "json \<Rightarrow> (int \<times> int) option" where
  "read_create_subscription j = do {
     vs \<leftarrow> fields_of [''account_id'', ''plan_id''] j;
     account_id \<leftarrow> req read_i64 (vs ! 0); i \<leftarrow> req read_i64 (vs ! 1);
     Some (account_id, i) }"

definition read_status :: "json \<Rightarrow> string option" where
  "read_status j = do { vs \<leftarrow> fields_of [''status''] j; req as_str (vs ! 0) }"

section \<open>Query parameters\<close>

type_synonym query = "(string \<times> string) list"

definition query_field :: "string \<Rightarrow> (string \<Rightarrow> 'a option) \<Rightarrow> query \<Rightarrow> 'a option option" where
  "query_field k p q =
     (case map snd (filter (\<lambda>(k', _). k' = k) q) of
        [] \<Rightarrow> Some None
      | [v] \<Rightarrow> map_option Some (p v)
      | _ \<Rightarrow> None)"

definition parse_bool :: "string \<Rightarrow> bool option" where
  "parse_bool s = (if s = ''true'' then Some True else if s = ''false'' then Some False else None)"

definition read_page :: "query \<Rightarrow> pagination_params option" where
  "read_page q = do {
     page \<leftarrow> query_field ''page'' parse_i64 q; page_size \<leftarrow> query_field ''page_size'' parse_i64 q;
     Some (pagination_params_of page page_size) }"

definition read_model_filter :: "query \<Rightarrow> (list_models_filter \<times> pagination_params) option" where
  "read_model_filter q = do {
     upstream_id \<leftarrow> query_field ''upstream_id'' parse_i64 q;
     upstream_name \<leftarrow> query_field ''upstream_name'' Some q;
     name \<leftarrow> query_field ''name'' Some q;
     is_active \<leftarrow> query_field ''is_active'' parse_bool q;
     params \<leftarrow> read_page q;
     Some (\<lparr>lmf_upstream_id = upstream_id, lmf_upstream_name = upstream_name, lmf_name = name,
            lmf_is_active = is_active\<rparr>, params) }"

definition read_events_query :: "query \<Rightarrow> list_session_events_params option" where
  "read_events_query q = do {
     session \<leftarrow> query_field ''session'' Some q;
     start \<leftarrow> query_field ''start'' parse_i64 q;
     cnt \<leftarrow> query_field ''count'' parse_i64 q;
     Some \<lparr>lse_session = session, lse_start = unwrap_or start 0,
           lse_count = unwrap_or cnt DEFAULT_CURSOR_COUNT\<rparr> }"

definition read_subscriptions_query :: "query \<Rightarrow> (int option \<times> string option \<times> pagination_params) option" where
  "read_subscriptions_query q = do {
     account_id \<leftarrow> query_field ''account_id'' parse_i64 q;
     status \<leftarrow> query_field ''status'' Some q;
     params \<leftarrow> read_page q;
     Some (account_id, status, params) }"

section \<open>Routes\<close>

text \<open>One constructor per handler, with the arguments it extracts.\<close>

datatype admin_call =
    ListUpstreams pagination_params
  | CreateUpstream create_upstream_request
  | GetUpstream int
  | UpdateUpstream int update_upstream_request
  | ListModels list_models_filter pagination_params
  | GetModel int
  | UpdateModel int update_model_request
  | TestModel int
  | GetModelByPath string string
  | ListAccounts pagination_params
  | CreateAccount string
  | GetAccount int
  | UpdateAccount int "string option" "bool option"
  | GetWallet int
  | ListApiKeys int pagination_params
  | CreateApiKey int string
  | GetAccountByName string
  | GetUpstreamByName string
  | ListTags int
  | AddTag int string
  | RemoveTag int string
  | ListSessionEvents list_session_events_params
  | GetSessionEvent int
  | CreateDeposit change_request
  | CreateWithdraw change_request
  | CreateCredit change_request
  | GetApiKey string
  | DeleteApiKey string
  | ListPlans pagination_params
  | CreatePlan create_plan_request
  | GetPlan int
  | UpdatePlan int update_plan_request
  | CancelPlan int
  | ListSubscriptions "int option" "string option" pagination_params
  | CreateSubscription int int
  | GetSubscription int
  | UpdateSubscription int string
  | CancelSubscription int

text \<open>Why the router or an extractor refuses a request.\<close>

datatype rejection = NoRoute | WrongMethod | BadPath | BadQuery | NoBody | BadBody

definition with_i64 :: "string \<Rightarrow> (int \<Rightarrow> rejection + 'a) \<Rightarrow> rejection + 'a" where
  "with_i64 s k = (case parse_i64 s of None \<Rightarrow> Inl BadPath | Some i \<Rightarrow> k i)"

definition with_query :: "(query \<Rightarrow> 'b option) \<Rightarrow> query \<Rightarrow> ('b \<Rightarrow> 'a) \<Rightarrow> rejection + 'a" where
  "with_query p q k = (case p q of None \<Rightarrow> Inl BadQuery | Some x \<Rightarrow> Inr (k x))"

definition with_body :: "(json \<Rightarrow> 'b option) \<Rightarrow> json option \<Rightarrow> ('b \<Rightarrow> 'a) \<Rightarrow> rejection + 'a" where
  "with_body p body k = 
     (case body of
        None \<Rightarrow> Inl NoBody
      | Some j \<Rightarrow> (case p j of None \<Rightarrow> Inl BadBody | Some x \<Rightarrow> Inr (k x)))"

definition by_method :: "string \<Rightarrow> (string \<times> (rejection + 'a)) list \<Rightarrow> rejection + 'a" where
  "by_method m handlers = (case map_of handlers m of None \<Rightarrow> Inl WrongMethod | Some r \<Rightarrow> r)"

text \<open>The routes of one, two and more segments.\<close>

definition route1 :: "(json \<Rightarrow> decimal option) \<Rightarrow> string \<Rightarrow> string \<Rightarrow> query \<Rightarrow> json option \<Rightarrow> rejection + admin_call"
  where "route1 dec m p q body =
     (if p = ''upstreams'' then by_method m
        [(''GET'', with_query read_page q ListUpstreams),
         (''POST'', with_body read_create_upstream body CreateUpstream)]
      else if p = ''models'' then by_method m
        [(''GET'', with_query read_model_filter q (\<lambda>(f, params). ListModels f params))]
      else if p = ''accounts'' then by_method m
        [(''GET'', with_query read_page q ListAccounts),
         (''POST'', with_body read_create_account body CreateAccount)]
      else if p = ''session-events'' then by_method m
        [(''GET'', with_query read_events_query q ListSessionEvents)]
      else if p = ''deposits'' then by_method m [(''POST'', with_body (read_change dec) body CreateDeposit)]
      else if p = ''withdrawals'' then by_method m [(''POST'', with_body (read_change dec) body CreateWithdraw)]
      else if p = ''credits'' then by_method m [(''POST'', with_body (read_change dec) body CreateCredit)]
      else if p = ''subscription-plans'' then by_method m
        [(''GET'', with_query read_page q ListPlans),
         (''POST'', with_body (read_create_plan dec) body CreatePlan)]
      else if p = ''subscriptions'' then by_method m
        [(''GET'', with_query read_subscriptions_query q
             (\<lambda>(account_id, status, params). ListSubscriptions account_id status params)),
         (''POST'', with_body read_create_subscription body (\<lambda>(a, p). CreateSubscription a p))]
      else Inl NoRoute)"

definition route2 :: "(json \<Rightarrow> decimal option) \<Rightarrow> string \<Rightarrow> string \<Rightarrow> string \<Rightarrow> json option \<Rightarrow> rejection + admin_call"
  where "route2 dec m p x body =
     (if p = ''upstreams'' then by_method m
        [(''GET'', with_i64 x (\<lambda>i. Inr (GetUpstream i))),
         (''PUT'', with_i64 x (\<lambda>i. with_body read_update_upstream body (UpdateUpstream i)))]
      else if p = ''models'' then by_method m
        [(''GET'', with_i64 x (\<lambda>i. Inr (GetModel i))),
         (''PUT'', with_i64 x (\<lambda>i. with_body (read_update_model dec) body (UpdateModel i)))]
      else if p = ''accounts'' then by_method m
        [(''GET'', with_i64 x (\<lambda>i. Inr (GetAccount i))),
         (''PUT'', with_i64 x (\<lambda>i. with_body read_update_account body (\<lambda>(n, a). UpdateAccount i n a)))]
      else if p = ''accounts_by_name'' then by_method m [(''GET'', Inr (GetAccountByName x))]
      else if p = ''upstream_by_name'' then by_method m [(''GET'', Inr (GetUpstreamByName x))]
      else if p = ''session-events'' then by_method m [(''GET'', with_i64 x (\<lambda>i. Inr (GetSessionEvent i)))]
      else if p = ''apikeys'' then by_method m
        [(''GET'', Inr (GetApiKey x)), (''DELETE'', Inr (DeleteApiKey x))]
      else if p = ''subscription-plans'' then by_method m
        [(''GET'', with_i64 x (\<lambda>i. Inr (GetPlan i))),
         (''PUT'', with_i64 x (\<lambda>i. with_body (read_update_plan dec) body (UpdatePlan i))),
         (''DELETE'', with_i64 x (\<lambda>i. Inr (CancelPlan i)))]
      else if p = ''subscriptions'' then by_method m
        [(''GET'', with_i64 x (\<lambda>i. Inr (GetSubscription i))),
         (''PUT'', with_i64 x (\<lambda>i. with_body read_status body (UpdateSubscription i))),
         (''DELETE'', with_i64 x (\<lambda>i. Inr (CancelSubscription i)))]
      else Inl NoRoute)"

definition route3 :: "string \<Rightarrow> string \<Rightarrow> string \<Rightarrow> string \<Rightarrow> query \<Rightarrow> json option \<Rightarrow> rejection + admin_call"
  where "route3 m p x s q body =
     (if p = ''models'' \<and> s = ''tests'' then by_method m [(''POST'', with_i64 x (\<lambda>i. Inr (TestModel i)))]
      else if p = ''accounts'' \<and> s = ''wallet'' then by_method m
        [(''GET'', with_i64 x (\<lambda>i. Inr (GetWallet i)))]
      else if p = ''accounts'' \<and> s = ''apikeys'' then by_method m
        [(''GET'', with_i64 x (\<lambda>i. with_query read_page q (ListApiKeys i))),
         (''POST'', with_i64 x (\<lambda>i. with_body read_create_apikey body (CreateApiKey i)))]
      else if p = ''upstreams'' \<and> s = ''tags'' then by_method m
        [(''GET'', with_i64 x (\<lambda>i. Inr (ListTags i))),
         (''POST'', with_i64 x (\<lambda>i. with_body read_tag body (AddTag i)))]
      else Inl NoRoute)"

text \<open>\<^verbatim>\<open>{*model_name}\<close> takes the rest of the path, slashes included; no parameter of a path is
  empty.\<close>

definition route_admin ::
    "(json \<Rightarrow> decimal option) \<Rightarrow> string \<Rightarrow> string list \<Rightarrow> query \<Rightarrow> json option \<Rightarrow> rejection + admin_call" where
  "route_admin dec m path q body =
     (case path of
        [p] \<Rightarrow> route1 dec m p q body
      | [p, x] \<Rightarrow> if x = '''' then Inl NoRoute else route2 dec m p x body
      | [p, x, s] \<Rightarrow> if x = '''' then Inl NoRoute else route3 m p x s q body
      | p # x # s # t # rest \<Rightarrow>
          if p = ''models'' \<and> x = ''path'' \<and> s \<noteq> '''' \<and> join ''/'' (t # rest) \<noteq> '''' then
            by_method m [(''GET'', Inr (GetModelByPath s (join ''/'' (t # rest))))]
          else if p = ''upstreams'' \<and> x \<noteq> '''' \<and> s = ''tags'' \<and> t \<noteq> '''' \<and> rest = [] then
            by_method m [(''DELETE'', with_i64 x (\<lambda>i. Inr (RemoveTag i t)))]
          else Inl NoRoute
      | [] \<Rightarrow> Inl NoRoute)"

section \<open>Answering\<close>

datatype body = JsonBody json | TextBody string

definition answer_json :: "('d \<Rightarrow> json) \<Rightarrow> 'd reply \<Rightarrow> int \<times> body" where
  "answer_json f r =
     (case r of
        Reply status b \<Rightarrow> (status, JsonBody (f b))
      | ErrorReply status e msg \<Rightarrow> (status, JsonBody (error_json e msg)))"

definition answered :: "('d \<Rightarrow> json) \<Rightarrow> 'd reply io \<Rightarrow> (int \<times> body) io" where
  "answered f m = do { r \<leftarrow> m; return (answer_json f r) }"

text \<open>What the handlers take from their surroundings.\<close>

record admin_env =
  ae_jwt_secret :: string
  ae_decode :: "string \<Rightarrow> validation \<Rightarrow> string \<Rightarrow> claims option"
  ae_crypto :: crypto_env
  ae_nonce :: bytes
  ae_nonce' :: bytes
  ae_uuid :: string
  ae_rn :: renderers
  ae_listed :: "create_upstream_request \<Rightarrow> string list option"
  ae_detect :: "string \<Rightarrow> llm_model \<Rightarrow> llm_upstream \<Rightarrow> string list"
  ae_show_error :: "sqlx_error \<Rightarrow> string"
  ae_decimal :: "json \<Rightarrow> decimal option"
  ae_rejected :: "rejection \<Rightarrow> int \<times> string"

definition serve_call :: "admin_env \<Rightarrow> admin_call \<Rightarrow> (int \<times> body) io" where
  "serve_call ae call =
     (let rn = ae_rn ae; cy = ae_crypto ae in
      case call of
        ListUpstreams ps \<Rightarrow> answered (paginated_json upstream_json) (list_upstreams_handler cy rn ps)
      | CreateUpstream p \<Rightarrow> answered upstream_with_models_json
          (create_upstream_handler cy (ae_nonce ae) (ae_nonce' ae) (ae_listed ae p) (ae_show_error ae) rn p)
      | GetUpstream i \<Rightarrow> answered upstream_json (get_upstream_by_id_handler cy rn i)
      | UpdateUpstream i p \<Rightarrow> answered upstream_json (update_upstream_by_id_handler cy (ae_nonce ae) rn i p)
      | ListModels f ps \<Rightarrow> answered (paginated_json model_json) (list_models_handler rn f ps)
      | GetModel i \<Rightarrow> answered model_json (get_model_by_id_handler rn i)
      | UpdateModel i p \<Rightarrow> answered model_json (update_model_by_id_handler rn i p)
      | TestModel i \<Rightarrow> answered model_test_json
          (test_model_handler cy (ae_detect ae) (ae_show_error ae) rn i)
      | GetModelByPath u m \<Rightarrow> answered model_json (get_model_by_upstream_and_name_handler rn u m)
      | ListAccounts ps \<Rightarrow> answered (paginated_json account_json) (list_accounts_handler rn ps)
      | CreateAccount n \<Rightarrow> answered account_json (create_account_handler rn n)
      | GetAccount i \<Rightarrow> answered account_json (get_account_by_id_handler rn i)
      | UpdateAccount i n a \<Rightarrow> answered account_json (update_account_by_id_handler rn i n a)
      | GetWallet i \<Rightarrow> answered wallet_json (get_account_wallet_handler rn i)
      | ListApiKeys i ps \<Rightarrow> answered (paginated_json credential_json) (list_account_apikeys_handler cy rn i ps)
      | CreateApiKey i l \<Rightarrow> answered credential_created_json
          (create_account_apikey_handler cy (ae_nonce ae) (ae_uuid ae) rn i l)
      | GetAccountByName n \<Rightarrow> answered account_json (get_account_by_name_handler rn n)
      | GetUpstreamByName n \<Rightarrow> answered upstream_json (get_upstream_by_name_handler cy rn n)
      | ListTags i \<Rightarrow> answered tags_json (list_upstream_tags_handler i)
      | AddTag i t \<Rightarrow> answered tags_json (add_upstream_tag_handler cy i t)
      | RemoveTag i t \<Rightarrow> answered tags_json (remove_upstream_tag_handler cy i t)
      | ListSessionEvents ps \<Rightarrow> answered (cursor_json session_event_json) (list_session_events_handler rn ps)
      | GetSessionEvent i \<Rightarrow> answered session_event_json (get_session_event_by_id_handler rn i)
      | CreateDeposit p \<Rightarrow> answered balance_change_json (create_deposit_handler rn p)
      | CreateWithdraw p \<Rightarrow> answered balance_change_json (create_withdraw_handler rn p)
      | CreateCredit p \<Rightarrow> answered balance_change_json (create_credit_handler rn p)
      | GetApiKey k \<Rightarrow> answered credential_json (get_apikey_handler cy rn k)
      | DeleteApiKey k \<Rightarrow> answered credential_json (delete_apikey_handler cy rn k)
      | ListPlans ps \<Rightarrow> answered (paginated_json subscription_plan_json) (list_subscription_plans_handler rn ps)
      | CreatePlan p \<Rightarrow> answered subscription_plan_json (create_subscription_plan_handler rn p)
      | GetPlan i \<Rightarrow> answered subscription_plan_json (get_subscription_plan_handler rn i)
      | UpdatePlan i p \<Rightarrow> answered subscription_plan_json (update_subscription_plan_handler rn i p)
      | CancelPlan i \<Rightarrow> answered subscription_plan_json (cancel_subscription_plan_handler rn i)
      | ListSubscriptions a s ps \<Rightarrow>
          answered (paginated_json subscription_json) (list_subscriptions_handler rn a s ps)
      | CreateSubscription a i \<Rightarrow> answered subscription_json (create_subscription_handler rn a i)
      | GetSubscription i \<Rightarrow> answered subscription_json (get_subscription_handler rn i)
      | UpdateSubscription i s \<Rightarrow> answered subscription_json (update_subscription_handler rn i s)
      | CancelSubscription i \<Rightarrow> answered subscription_json (cancel_subscription_handler rn i))"

text \<open>
  The layer \<^verbatim>\<open>auth_jwt\<close> is around every route, not around the fallback.  A rejection is
  answered by the \<^verbatim>\<open>axum\<close> crate, with the statuses its documentation gives; \<^verbatim>\<open>HEAD\<close>, which
  the crate answers as \<^verbatim>\<open>GET\<close> without the body, is not modelled.
\<close>

definition documented_rejections :: "admin_env \<Rightarrow> bool" where
  "documented_rejections ae \<longleftrightarrow> list_all (\<lambda>(rej, status). fst (ae_rejected ae rej) = status)
     [(NoRoute, 404), (WrongMethod, 405), (BadPath, 400), (BadQuery, 400), (NoBody, 415), (BadBody, 422)]"

definition rejected :: "admin_env \<Rightarrow> rejection \<Rightarrow> int \<times> body" where
  "rejected ae rej = (case ae_rejected ae rej of (status, t) \<Rightarrow> (status, TextBody t))"

definition auth_error_json :: "proxy_error \<Rightarrow> json" where
  "auth_error_json e =
     JObj [(''error'', JObj [(''message'', JStr (pe_message e)), (''type'', JStr (pe_type e))])]"

definition admin_server ::
    "admin_env \<Rightarrow> http_request \<Rightarrow> string \<Rightarrow> string list \<Rightarrow> query \<Rightarrow> json option \<Rightarrow> (int \<times> body) io" where
  "admin_server ae request m path q body =
     (case route_admin (ae_decimal ae) m path q body of
        Inl NoRoute \<Rightarrow> return (rejected ae NoRoute)
      | routed \<Rightarrow> do {
          r \<leftarrow> auth_jwt (ae_jwt_secret ae) (ae_decode ae) request
            (case routed of
               Inl rej \<Rightarrow> return (Inr (rejected ae rej))
             | Inr call \<Rightarrow> do { a \<leftarrow> serve_call ae call; return (Inr a) });
          return (case r of Inl e \<Rightarrow> (pe_status e, JsonBody (auth_error_json e)) | Inr a \<Rightarrow> a) })"

text \<open>A request with an accepted token that a route takes is answered by its handler.\<close>

lemma admin_server_authorized:
  assumes "route_admin (ae_decimal ae) m path q body = Inr call"
    and "ae_jwt_secret ae \<noteq> []" and "rq_header request ''x-admin-token'' = Some token"
    and "ae_decode ae (ae_jwt_secret ae) admin_validation token = Some cl" and "cl_realm cl = Some ''api''"
  shows "admin_server ae request m path q body = serve_call ae call"
  using assms by (simp add: admin_server_def auth_jwt_def)

lemma rejected_no_route:
  "documented_rejections ae \<Longrightarrow> rejected ae NoRoute = (404, TextBody (snd (ae_rejected ae NoRoute)))"
  by (auto simp: documented_rejections_def rejected_def split: prod.splits)

text \<open>Surroundings for the witnesses.\<close>

definition demo_admin :: admin_env where
  "demo_admin =
     \<lparr>ae_jwt_secret = ''s'',
      ae_decode = (\<lambda>_ _ t. if t = ''jwt'' then
         Some \<lparr>cl_sub = None, cl_exp = None, cl_realm = Some ''api''\<rparr> else None),
      ae_crypto = \<lparr>cy_encryption_key = '''', cy_hex_decode = Inr, cy_b64_encode = id, cy_b64_decode = Inr,
        cy_seal = (\<lambda>_ _ p. Some p), cy_open = (\<lambda>_ _ c. Some c), cy_utf8 = (\<lambda>_. True),
        cy_sha256_hex = id\<rparr>,
      ae_nonce = ''aaaaaaaaaaaa'', ae_nonce' = ''bbbbbbbbbbbb'', ae_uuid = ''u'',
      ae_rn = \<lparr>rn_time = (\<lambda>t. show_int t), rn_dec = (\<lambda>d. show_int \<lfloor>d\<rfloor>)\<rparr>,
      ae_listed = (\<lambda>_. None), ae_detect = (\<lambda>_ _ _. []), ae_show_error = (\<lambda>_. ''''),
      ae_decimal = (\<lambda>j. if j = JStr ''5'' then Some 5 else None), ae_rejected = (\<lambda>rej. (case rej of NoRoute \<Rightarrow> 404 | WrongMethod \<Rightarrow> 405 | BadPath \<Rightarrow> 400
        | BadQuery \<Rightarrow> 400 | NoBody \<Rightarrow> 415 | BadBody \<Rightarrow> 422, ''''))\<rparr>"

lemma demo_rejections: "documented_rejections demo_admin"
  by (simp add: documented_rejections_def demo_admin_def)

end
