(* ===== verification/AdminTypes.thy ===== *)
theory AdminTypes
  imports AdminServer Demo
begin

text \<open>
  What kinds of answer the admin server gives: \<open>always P m\<close> says of a handler that its result satisfies
  \<open>P\<close> in every state.  Every answer of a handler is a success with a body or an error of one of the codes
  of the API.
\<close>

named_theorems proper_intros \<open>results of handlers\<close>

definition always :: "('a \<Rightarrow> bool) \<Rightarrow> ('s, 'a) state \<Rightarrow> bool" where
  "always P m \<longleftrightarrow> (\<forall>s. P (fst (run_state m s)))"

lemma always_return [simp]: "always P (return x) \<longleftrightarrow> P x"
  by (simp add: always_def)

lemma always_bind [proper_intros]: "(\<And>x. always P (f x)) \<Longrightarrow> always P (State_Monad.bind m f)"
  by (simp add: always_def State_Monad.bind_def split: prod.splits)

lemma always_then:
  assumes "always P m" and "\<And>x. P x \<Longrightarrow> always Q (f x)"
  shows "always Q (State_Monad.bind m f)"
proof -
  have "Q (fst (run_state (State_Monad.bind m f) s))" for s
    using assms by (cases "run_state m s") (simp add: always_def, metis fst_conv)
  then show ?thesis by (simp add: always_def)
qed

lemma always_splits [proper_intros]:
  "(b \<Longrightarrow> always P m) \<Longrightarrow> (\<not> b \<Longrightarrow> always P m') \<Longrightarrow> always P (if b then m else m')"
  "(\<And>e. x = Inl e \<Longrightarrow> always P (f e)) \<Longrightarrow> (\<And>v. x = Inr v \<Longrightarrow> always P (g v)) \<Longrightarrow>
     always P (case x of Inl e \<Rightarrow> f e | Inr v \<Rightarrow> g v)"
  "(y = None \<Longrightarrow> always P m) \<Longrightarrow> (\<And>v. y = Some v \<Longrightarrow> always P (h v)) \<Longrightarrow>
     always P (case y of None \<Rightarrow> m | Some v \<Rightarrow> h v)"
  by (auto split: sum.splits option.splits)

section \<open>Handlers\<close>

definition proper_reply :: "'d reply \<Rightarrow> bool" where
  "proper_reply r \<longleftrightarrow>
     (case r of
        Reply status _ \<Rightarrow> status \<in> {200, 201}
      | ErrorReply status _ _ \<Rightarrow> status \<in> {400, 404, 409, 500, 502})"

lemma proper_replies [simp]:
  "proper_reply (ok_reply b)" "proper_reply (Reply 200 b)" "proper_reply (Reply 201 b)"
  "proper_reply (database_error msg)" "proper_reply (not_found msg)" "proper_reply (validation_error msg)"
  "proper_reply (ErrorReply 409 e m)" "proper_reply (ErrorReply 400 e m)"
  "proper_reply (ErrorReply 500 e m)" "proper_reply (ErrorReply 502 e m)"
  by (simp_all add: proper_reply_def ok_reply_def database_error_def not_found_def validation_error_def)

lemma proper_shapes [simp]:
  "proper_reply (reply_optional r dto missing msg)" "proper_reply (reply_row r' dto' missing msg)"
  "proper_reply duplicate_account" "proper_reply (insufficient rn a d)"
  by (auto simp: reply_optional_def reply_row_def duplicate_account_def insufficient_def
      split: sum.splits option.splits)

lemma proper_with_account [proper_intros]:
  "(\<And>a. always proper_reply (k a)) \<Longrightarrow> always proper_reply (with_account i k)"
  by (auto simp: with_account_def intro!: proper_intros)

lemma proper_list_page [proper_intros]: "always proper_reply (list_page cnt fetch dto msg ps)"
  by (auto simp: list_page_def Let_def intro!: proper_intros)

lemma proper_submit [proper_intros]: "always proper_reply (submit_change rn what What p content)"
  by (auto simp: submit_change_def intro!: proper_intros)

lemma proper_accounts [proper_intros]:
  "always proper_reply (list_accounts_handler rn ps)"
  "always proper_reply (create_account_handler rn n)"
  "always proper_reply (get_account_by_id_handler rn i)"
  "always proper_reply (update_account_by_id_handler rn i nm act)"
  "always proper_reply (get_account_by_name_handler rn n)"
  "always proper_reply (get_account_wallet_handler rn i)"
  "always proper_reply (list_account_apikeys_handler cy rn i ps)"
  "always proper_reply (create_account_apikey_handler cy nonce uuid rn i l)"
  "always proper_reply (get_apikey_handler cy rn k)"
  "always proper_reply (delete_apikey_handler cy rn k)"
  by (auto simp: list_accounts_handler_def create_account_handler_def get_account_by_id_handler_def
      update_account_by_id_handler_def get_account_by_name_handler_def get_account_wallet_handler_def
      list_account_apikeys_handler_def create_account_apikey_handler_def get_apikey_handler_def
      delete_apikey_handler_def intro!: proper_intros)

lemma proper_upstreams [proper_intros]:
  "always proper_reply (list_upstreams_handler cy rn ps)"
  "always proper_reply (finish_create_upstream cy nonce' rn p u)"
  "always proper_reply (get_upstream_by_name_handler cy rn n)"
  "always proper_reply (get_upstream_by_id_handler cy rn i)"
  "always proper_reply (update_upstream_by_id_handler cy nonce rn i up)"
  "always proper_reply (list_upstream_tags_handler i)"
  "always proper_reply (add_upstream_tag_handler cy i t)"
  "always proper_reply (remove_upstream_tag_handler cy i t)"
  "always proper_reply (list_models_handler rn f ps)"
  "always proper_reply (get_model_by_upstream_and_name_handler rn un mn)"
  "always proper_reply (get_model_by_id_handler rn i)"
  "always proper_reply (update_model_by_id_handler rn i um)"
  "always proper_reply (test_model_handler cy detect show_error rn i)"
  by (auto simp: list_upstreams_handler_def finish_create_upstream_def get_upstream_by_name_handler_def
      get_upstream_by_id_handler_def update_upstream_by_id_handler_def list_upstream_tags_handler_def
      add_upstream_tag_handler_def remove_upstream_tag_handler_def list_models_handler_def
      get_model_by_upstream_and_name_handler_def get_model_by_id_handler_def
      update_model_by_id_handler_def test_model_handler_def intro!: proper_intros)

lemma proper_create_upstream [proper_intros]:
  "always proper_reply (create_upstream_handler cy nonce nonce' listed show_error rn p)"
  by (auto simp: create_upstream_handler_def intro!: proper_intros)

lemma proper_changes [proper_intros]:
  "always proper_reply (create_deposit_handler rn p)"
  "always proper_reply (create_withdraw_handler rn p)"
  "always proper_reply (create_credit_handler rn p)"
  "always proper_reply (get_session_event_by_id_handler rn i)"
  "always proper_reply (list_session_events_handler rn es)"
  by (auto simp: create_deposit_handler_def create_withdraw_handler_def create_credit_handler_def
      get_session_event_by_id_handler_def list_session_events_handler_def Let_def intro!: proper_intros)

lemma proper_plans [proper_intros]:
  "always proper_reply (list_subscription_plans_handler rn ps)"
  "always proper_reply (create_subscription_plan_handler rn cp)"
  "always proper_reply (get_subscription_plan_handler rn i)"
  "always proper_reply (update_subscription_plan_handler rn i up)"
  "always proper_reply (cancel_subscription_plan_handler rn i)"
  "always proper_reply (list_subscriptions_handler rn a s ps)"
  "always proper_reply (create_subscription_handler rn ai i)"
  "always proper_reply (get_subscription_handler rn i)"
  "always proper_reply (update_subscription_handler rn i st)"
  "always proper_reply (cancel_subscription_handler rn i)"
  by (auto simp: list_subscription_plans_handler_def create_subscription_plan_handler_def
      get_subscription_plan_handler_def update_subscription_plan_handler_def
      cancel_subscription_plan_handler_def list_subscriptions_handler_def create_subscription_handler_def
      get_subscription_handler_def update_subscription_handler_def cancel_subscription_handler_def
      intro!: proper_intros split: sum.splits)

section \<open>The server\<close>

text \<open>The three forms of an error: the standard body, that of \<^verbatim>\<open>auth_jwt\<close>, and the plain text of a
  rejected request.\<close>

definition error_body :: "body \<Rightarrow> bool" where
  "error_body b \<longleftrightarrow>
     (case b of
        TextBody t \<Rightarrow> True
      | JsonBody j \<Rightarrow> (\<exists>e msg. j = error_json e msg) \<or> (\<exists>e. j = auth_error_json e))"

definition typed_answer :: "int \<times> body \<Rightarrow> bool" where
  "typed_answer = (\<lambda>(status, b).
     (status \<in> {200, 201} \<and> (\<exists>j. b = JsonBody j)) \<or>
     (status \<in> {400, 401, 404, 405, 409, 415, 422, 500, 502} \<and> error_body b))"

lemma typed_answer_json: "proper_reply r \<Longrightarrow> typed_answer (answer_json f r)"
  by (auto simp: proper_reply_def answer_json_def typed_answer_def error_body_def split: reply.splits)

lemma typed_answered:
  assumes "always proper_reply m"
  shows "always typed_answer (answered f m)"
  unfolding answered_def by (rule always_then [OF assms]) (simp add: typed_answer_json)

lemma typed_serve: "always typed_answer (serve_call ae call)"
  by (cases call) (auto simp: serve_call_def Let_def intro!: typed_answered proper_intros)

lemma typed_rejection: "documented_rejections ae \<Longrightarrow> typed_answer (rejected ae rej)"
  by (cases rej) (auto simp: documented_rejections_def rejected_def typed_answer_def error_body_def
      split: prod.splits)

text \<open>The result of the authentication layer: the error of the layer, or what the inner service gives.\<close>

definition admin_refusal :: "proxy_error \<Rightarrow> bool" where
  "admin_refusal e \<longleftrightarrow> pe_status e \<in> {401, 500}"

lemma always_auth_jwt:
  assumes "always (case_sum admin_refusal P) next"
  shows "always (case_sum admin_refusal P) (auth_jwt secret decode request next)"
  using assms by (auto simp: auth_jwt_def admin_refusal_def admin_error_def split: option.splits)



end
