(* ===== verification/Control.thy ===== *)
theory Control
  imports Wire Crypto
begin

text \<open>
  The command line client \<^verbatim>\<open>llmpool-ctl\<close>: what a command is, and the HTTP client
  (\<^verbatim>\<open>client.rs\<close>).
  A command is a \<open>session\<close>, the tree of what it prints and sends and of how it goes on after each answer.
\<close>

section \<open>Sessions\<close>

record ctl_request =
  cr_method :: string
  cr_url :: string
  cr_token :: string
  cr_body :: "json option"

text \<open>An answer has a status and a text, whose reading may fail; no answer is the error of the crate
  \<^verbatim>\<open>reqwest\<close>.\<close>

record ctl_answer =
  ca_status :: int
  ca_text :: "string + string"

datatype 'a session =
    Done 'a
  | Print string "'a session"
  | Send ctl_request "string + ctl_answer \<Rightarrow> 'a session"
  | Abort string

primrec and_then :: "'a session \<Rightarrow> ('a \<Rightarrow> 'b session) \<Rightarrow> 'b session" where
  "and_then (Done x) k = k x"
| "and_then (Print s m) k = Print s (and_then m k)"
| "and_then (Send r f) k = Send r (\<lambda>a. and_then (f a) k)"
| "and_then (Abort msg) k = Abort msg"

text \<open>\<^verbatim>\<open>?\<close> on a \<^verbatim>\<open>Result\<close>; \<open>Abort\<close> is a panic.\<close>

definition ask :: "(string + 'a) session \<Rightarrow> ('a \<Rightarrow> (string + 'b) session) \<Rightarrow> (string + 'b) session" where
  "ask m k = and_then m (\<lambda>r. case r of Inl e \<Rightarrow> Done (Inl e) | Inr x \<Rightarrow> k x)"

fun print_lines :: "string list \<Rightarrow> 'a session \<Rightarrow> 'a session" where
  "print_lines [] m = m"
| "print_lines (s # ss) m = Print s (print_lines ss m)"

lemma and_then_Done [simp]: "and_then m Done = m"
  by (induction m) auto

lemma and_then_assoc [simp]: "and_then (and_then m f) g = and_then m (\<lambda>x. and_then (f x) g)"
  by (induction m) auto

lemma ask_simps [simp]:
  "ask (Done (Inl e)) k = Done (Inl e)"
  "ask (Done (Inr x)) k = k x"
  "ask (Print s m) k = Print s (ask m k)"
  "ask (Send r f) k = Send r (\<lambda>a. ask (f a) k)"
  "ask (Abort msg) k = Abort msg"
  by (simp_all add: ask_def)

lemma print_lines_append [simp]: "print_lines (xs @ ys) m = print_lines xs (print_lines ys m)"
  by (induction xs) auto

text \<open>Running a session against a server that is itself a state transformer: the lines printed and the
  result, where a panic is \<open>None\<close>.\<close>

primrec run_session ::
    "(ctl_request \<Rightarrow> ('s, string + ctl_answer) state) \<Rightarrow> 'a session \<Rightarrow> ('s, string list \<times> 'a option) state" where
  "run_session serve (Done x) = return ([], Some x)"
| "run_session serve (Print s m) = do { (out, r) \<leftarrow> run_session serve m; return (s # out, r) }"
| "run_session serve (Send q f) = do { a \<leftarrow> serve q; run_session serve (f a) }"
| "run_session serve (Abort msg) = return ([], None)"

section \<open>The HTTP client\<close>

record api_client =
  ac_base_url :: string
  ac_token :: string

text \<open>JSON as text (crate \<^verbatim>\<open>serde_json\<close>), how its errors and a status print.\<close>

record ctl_env =
  ce_parse :: "string \<Rightarrow> string + json"
  ce_mismatch :: "json \<Rightarrow> string"
  ce_show :: "json \<Rightarrow> string"
  ce_pretty :: "json \<Rightarrow> string"
  ce_status :: "int \<Rightarrow> string"

definition new_client :: "string \<Rightarrow> string \<Rightarrow> api_client" where
  "new_client base_url token = \<lparr>ac_base_url = trim_end_slash base_url, ac_token = token\<rparr>"

definition client_url :: "api_client \<Rightarrow> string \<Rightarrow> string" where
  "client_url c path = ac_base_url c @ ''/api/v1'' @ path"

definition call :: "api_client \<Rightarrow> string \<Rightarrow> string \<Rightarrow> json option \<Rightarrow> ctl_request" where
  "call c m path body = \<lparr>cr_method = m, cr_url = client_url c path, cr_token = ac_token c, cr_body = body\<rparr>"

text \<open>\<^verbatim>\<open>.send().await.map_err(|e| format!("Request failed: {}", e))?\<close>.\<close>

definition send :: "ctl_request \<Rightarrow> (ctl_answer \<Rightarrow> (string + 'a) session) \<Rightarrow> (string + 'a) session" where
  "send q k =
     Send q (\<lambda>a. case a of Inl e \<Rightarrow> Done (Inl (''Request failed: '' @ e)) | Inr answer \<Rightarrow> k answer)"

definition read_error :: "json \<Rightarrow> (string \<times> string) option" where
  "read_error j = do {
     vs \<leftarrow> fields_of [''error'', ''message''] j;
     error \<leftarrow> req as_str (vs ! 0); message \<leftarrow> req as_str (vs ! 1);
     Some (error, message) }"

definition is_success_status :: "int \<Rightarrow> bool" where
  "is_success_status status \<longleftrightarrow> 200 \<le> status \<and> status < 300"

text \<open>What an error answer is reported as, in both ways of handling a response.\<close>

definition report_error :: "ctl_env \<Rightarrow> int \<Rightarrow> string \<Rightarrow> string" where
  "report_error ce status text =
     (case ce_parse ce text of
        Inl _ \<Rightarrow> ''HTTP error ('' @ ce_status ce status @ ''): '' @ text
      | Inr j \<Rightarrow>
          (case read_error j of
             Some (error, message) \<Rightarrow>
               ''API error ('' @ ce_status ce status @ ''): ['' @ error @ ''] '' @ message
           | None \<Rightarrow> ''HTTP error ('' @ ce_status ce status @ ''): '' @ text))"

definition handle_response :: "ctl_env \<Rightarrow> (json \<Rightarrow> 'a option) \<Rightarrow> ctl_answer \<Rightarrow> (string + 'a) session" where
  "handle_response ce dec resp =
     (if is_success_status (ca_status resp) then
        (case ca_text resp of
           Inl e \<Rightarrow> Done (Inl (''Failed to read response body: '' @ e))
         | Inr text \<Rightarrow>
             (case ce_parse ce text of
                Inl e \<Rightarrow> Done (Inl (''Failed to parse response JSON: '' @ e @ [CHR 0x0A] @ ''Body: '' @ text))
              | Inr j \<Rightarrow>
                  (case dec j of
                     Some x \<Rightarrow> Done (Inr x)
                   | None \<Rightarrow> Done (Inl (''Failed to parse response JSON: '' @ ce_mismatch ce j @
                       [CHR 0x0A] @ ''Body: '' @ text)))))
      else
        (case ca_text resp of
           Inl e \<Rightarrow> Done (Inl (''Failed to read error response body: '' @ e))
         | Inr text \<Rightarrow> Done (Inl (report_error ce (ca_status resp) text))))"

definition handle_response_raw :: "ctl_env \<Rightarrow> ctl_answer \<Rightarrow> (string + string) session" where
  "handle_response_raw ce resp =
     (case ca_text resp of
        Inl e \<Rightarrow> Done (Inl (''Failed to read response body: '' @ e))
      | Inr text \<Rightarrow>
          if is_success_status (ca_status resp) then Done (Inr text)
          else Done (Inl (report_error ce (ca_status resp) text)))"

text \<open>The methods differ in the HTTP method, the body, and whether the answer is read.\<close>

definition get_as :: "ctl_env \<Rightarrow> api_client \<Rightarrow> (json \<Rightarrow> 'a option) \<Rightarrow> string \<Rightarrow> (string + 'a) session" where
  "get_as ce c dec path = send (call c ''GET'' path None) (handle_response ce dec)"

definition post_as :: "ctl_env \<Rightarrow> api_client \<Rightarrow> (json \<Rightarrow> 'a option) \<Rightarrow> string \<Rightarrow> json \<Rightarrow> (string + 'a) session" where
  "post_as ce c dec path body = send (call c ''POST'' path (Some body)) (handle_response ce dec)"

definition put_as :: "ctl_env \<Rightarrow> api_client \<Rightarrow> (json \<Rightarrow> 'a option) \<Rightarrow> string \<Rightarrow> json \<Rightarrow> (string + 'a) session" where
  "put_as ce c dec path body = send (call c ''PUT'' path (Some body)) (handle_response ce dec)"

definition delete_as :: "ctl_env \<Rightarrow> api_client \<Rightarrow> (json \<Rightarrow> 'a option) \<Rightarrow> string \<Rightarrow> (string + 'a) session" where
  "delete_as ce c dec path = send (call c ''DELETE'' path None) (handle_response ce dec)"

definition post_no_body :: "ctl_env \<Rightarrow> api_client \<Rightarrow> (json \<Rightarrow> 'a option) \<Rightarrow> string \<Rightarrow> (string + 'a) session" where
  "post_no_body ce c dec path = send (call c ''POST'' path None) (handle_response ce dec)"

definition get_raw :: "ctl_env \<Rightarrow> api_client \<Rightarrow> string \<Rightarrow> (string + string) session" where
  "get_raw ce c path = send (call c ''GET'' path None) (handle_response_raw ce)"

definition post_raw :: "ctl_env \<Rightarrow> api_client \<Rightarrow> string \<Rightarrow> json \<Rightarrow> (string + string) session" where
  "post_raw ce c path body = send (call c ''POST'' path (Some body)) (handle_response_raw ce)"

definition put_raw :: "ctl_env \<Rightarrow> api_client \<Rightarrow> string \<Rightarrow> json \<Rightarrow> (string + string) session" where
  "put_raw ce c path body = send (call c ''PUT'' path (Some body)) (handle_response_raw ce)"

definition delete_raw :: "ctl_env \<Rightarrow> api_client \<Rightarrow> string \<Rightarrow> (string + string) session" where
  "delete_raw ce c path = send (call c ''DELETE'' path None) (handle_response_raw ce)"

definition post_raw_no_body :: "ctl_env \<Rightarrow> api_client \<Rightarrow> string \<Rightarrow> (string + string) session" where
  "post_raw_no_body ce c path = send (call c ''POST'' path None) (handle_response_raw ce)"

end
