(* ===== verification/ControlTypes.thy ===== *)
theory ControlTypes
  imports Control
begin

text \<open>
  The types the command line client reads (\<^verbatim>\<open>cmds/mod.rs\<close>, \<^verbatim>\<open>session_event.rs\<close>,
  \<^verbatim>\<open>subscription.rs\<close>), and that it reads whatever the server writes: one interpretation of
  \<open>wire_format\<close> per type.
\<close>

section \<open>The types the client reads\<close>

text \<open>The client declares its own types for the answers, field for field those of the server; unread
  fields of an answer are ignored.\<close>

definition read_pagination :: "json \<Rightarrow> pagination_info option" where
  "read_pagination j = do {
     vs \<leftarrow> fields_of [''page'', ''page_size'', ''total'', ''total_pages''] j;
     page \<leftarrow> req read_i64 (vs ! 0); page_size \<leftarrow> req read_i64 (vs ! 1);
     n \<leftarrow> req read_i64 (vs ! 2); total_pages \<leftarrow> req read_i64 (vs ! 3);
     Some \<lparr>pi_page = page, pi_page_size = page_size, pi_total = n, pi_total_pages = total_pages\<rparr> }"

definition read_paginated :: "(json \<Rightarrow> 'd option) \<Rightarrow> json \<Rightarrow> 'd paginated option" where
  "read_paginated dec j = do {
     vs \<leftarrow> fields_of [''data'', ''pagination''] j;
     rows \<leftarrow> req (read_list dec) (vs ! 0); p \<leftarrow> req read_pagination (vs ! 1);
     Some \<lparr>pr_data = rows, pr_pagination = p\<rparr> }"

definition read_cursor :: "(json \<Rightarrow> 'd option) \<Rightarrow> json \<Rightarrow> 'd cursor_response option" where
  "read_cursor dec j = do {
     vs \<leftarrow> fields_of [''data'', ''next_id'', ''has_more''] j;
     rows \<leftarrow> req (read_list dec) (vs ! 0); next_id \<leftarrow> req read_i64 (vs ! 1);
     has_more \<leftarrow> req read_bool (vs ! 2);
     Some \<lparr>cr_data = rows, cr_next_id = next_id, cr_has_more = has_more\<rparr> }"

definition read_upstream :: "json \<Rightarrow> upstream_response option" where
  "read_upstream j = do {
     vs \<leftarrow> fields_of [''id'', ''name'', ''api_base'', ''provider'', ''tags'', ''proxies'', ''status'',
             ''description'', ''created_at'', ''updated_at''] j;
     i \<leftarrow> req read_i64 (vs ! 0); name \<leftarrow> req as_str (vs ! 1); api_base \<leftarrow> req as_str (vs ! 2);
     provider \<leftarrow> req as_str (vs ! 3); tags \<leftarrow> req (read_list as_str) (vs ! 4);
     proxies \<leftarrow> req (read_list as_str) (vs ! 5); status \<leftarrow> req as_str (vs ! 6);
     description \<leftarrow> req as_str (vs ! 7); created \<leftarrow> req as_str (vs ! 8); updated \<leftarrow> req as_str (vs ! 9);
     Some \<lparr>ur_id = i, ur_name = name, ur_api_base = api_base, ur_provider = provider, ur_tags = tags,
           ur_proxies = proxies, ur_status = status, ur_description = description,
           ur_created_at = created, ur_updated_at = updated\<rparr> }"

definition read_model :: "json \<Rightarrow> model_response option" where
  "read_model j = do {
     vs \<leftarrow> fields_of [''id'', ''upstream_id'', ''fullname'', ''cname'', ''is_active'', ''features'',
             ''input_token_price'', ''output_token_price'', ''batch_input_token_price'',
             ''batch_output_token_price'', ''description'', ''created_at'', ''updated_at''] j;
     i \<leftarrow> req read_i64 (vs ! 0); u \<leftarrow> req read_i64 (vs ! 1); fullname \<leftarrow> req as_str (vs ! 2);
     cname \<leftarrow> req as_str (vs ! 3); is_active \<leftarrow> req read_bool (vs ! 4);
     features \<leftarrow> req (read_list as_str) (vs ! 5); ip \<leftarrow> req as_str (vs ! 6); op \<leftarrow> req as_str (vs ! 7);
     bip \<leftarrow> req as_str (vs ! 8); bop \<leftarrow> req as_str (vs ! 9); description \<leftarrow> req as_str (vs ! 10);
     created \<leftarrow> req as_str (vs ! 11); updated \<leftarrow> req as_str (vs ! 12);
     Some \<lparr>mr_id = i, mr_upstream_id = u, mr_fullname = fullname, mr_cname = cname,
           mr_is_active = is_active, mr_features = features, mr_input_token_price = ip,
           mr_output_token_price = op, mr_batch_input_token_price = bip,
           mr_batch_output_token_price = bop, mr_description = description, mr_created_at = created,
           mr_updated_at = updated\<rparr> }"

definition read_model_test :: "json \<Rightarrow> model_test_result option" where
  "read_model_test j = do {
     vs \<leftarrow> fields_of [''model_id'', ''model'', ''error''] j;
     i \<leftarrow> req read_i64 (vs ! 0); m \<leftarrow> opt read_model (vs ! 1); error \<leftarrow> opt as_str (vs ! 2);
     Some \<lparr>mt_model_id = i, mt_model = m, mt_error = error\<rparr> }"

definition read_account :: "json \<Rightarrow> account_response option" where
  "read_account j = do {
     vs \<leftarrow> fields_of [''id'', ''name'', ''is_active'', ''created_at'', ''updated_at''] j;
     i \<leftarrow> req read_i64 (vs ! 0); name \<leftarrow> req as_str (vs ! 1); is_active \<leftarrow> req read_bool (vs ! 2);
     created \<leftarrow> req as_str (vs ! 3); updated \<leftarrow> req as_str (vs ! 4);
     Some \<lparr>ar_id = i, ar_name = name, ar_is_active = is_active, ar_created_at = created,
           ar_updated_at = updated\<rparr> }"

definition read_wallet :: "json \<Rightarrow> wallet_response option" where
  "read_wallet j = do {
     vs \<leftarrow> fields_of [''id'', ''account_id'', ''balance'', ''created_at'', ''updated_at''] j;
     i \<leftarrow> req read_i64 (vs ! 0); account_id \<leftarrow> req read_i64 (vs ! 1); balance \<leftarrow> req as_str (vs ! 2);
     created \<leftarrow> req as_str (vs ! 3); updated \<leftarrow> req as_str (vs ! 4);
     Some \<lparr>wr_id = i, wr_account_id = account_id, wr_balance = balance, wr_created_at = created,
           wr_updated_at = updated\<rparr> }"

text \<open>A field of type \<^verbatim>\<open>Value\<close> takes any JSON.\<close>

definition read_balance_change :: "json \<Rightarrow> balance_change_response option" where
  "read_balance_change j = do {
     vs \<leftarrow> fields_of [''id'', ''account_id'', ''unique_request_id'', ''content'', ''is_applied'',
             ''created_at''] j;
     i \<leftarrow> req read_i64 (vs ! 0); account_id \<leftarrow> req read_i64 (vs ! 1); rid \<leftarrow> req as_str (vs ! 2);
     content \<leftarrow> req Some (vs ! 3); is_applied \<leftarrow> req read_bool (vs ! 4); created \<leftarrow> req as_str (vs ! 5);
     Some \<lparr>bcr_id = i, bcr_account_id = account_id, bcr_unique_request_id = rid, bcr_content = content,
           bcr_is_applied = is_applied, bcr_created_at = created\<rparr> }"

definition read_upstream_with_models :: "json \<Rightarrow> upstream_with_models_response option" where
  "read_upstream_with_models j = do {
     vs \<leftarrow> fields_of [''upstream'', ''models''] j;
     u \<leftarrow> req read_upstream (vs ! 0); ms \<leftarrow> req (read_list read_model) (vs ! 1);
     Some \<lparr>uwm_upstream = u, uwm_models = ms\<rparr> }"

record model_features_response =
  mfr_fullname :: string
  mfr_owned_by :: string
  mfr_has_chat_completion :: bool
  mfr_has_embedding :: bool
  mfr_has_image_generation :: bool
  mfr_has_speech :: bool

definition read_model_features :: "json \<Rightarrow> model_features_response option" where
  "read_model_features j = do {
     vs \<leftarrow> fields_of [''fullname'', ''owned_by'', ''has_chat_completion'', ''has_embedding'',
             ''has_image_generation'', ''has_speech''] j;
     fullname \<leftarrow> req as_str (vs ! 0); owned_by \<leftarrow> req as_str (vs ! 1); chat \<leftarrow> req read_bool (vs ! 2);
     embedding \<leftarrow> req read_bool (vs ! 3); image \<leftarrow> req read_bool (vs ! 4); speech \<leftarrow> req read_bool (vs ! 5);
     Some \<lparr>mfr_fullname = fullname, mfr_owned_by = owned_by, mfr_has_chat_completion = chat,
           mfr_has_embedding = embedding, mfr_has_image_generation = image, mfr_has_speech = speech\<rparr> }"

definition read_test_upstream :: "json \<Rightarrow> model_features_response list option" where
  "read_test_upstream j = do { vs \<leftarrow> fields_of [''models''] j; req (read_list read_model_features) (vs ! 0) }"

definition read_tags :: "json \<Rightarrow> tags_response option" where
  "read_tags j = do {
     vs \<leftarrow> fields_of [''upstream_id'', ''tags''] j;
     i \<leftarrow> req read_i64 (vs ! 0); tags \<leftarrow> req (read_list as_str) (vs ! 1);
     Some \<lparr>tr_upstream_id = i, tr_tags = tags\<rparr> }"

definition read_credential :: "json \<Rightarrow> credential_response option" where
  "read_credential j = do {
     vs \<leftarrow> fields_of [''id'', ''account_id'', ''apikey'', ''label'', ''is_active'', ''expires_at'',
             ''created_at'', ''updated_at''] j;
     i \<leftarrow> req read_i64 (vs ! 0); account_id \<leftarrow> opt read_i64 (vs ! 1); apikey \<leftarrow> req as_str (vs ! 2);
     label \<leftarrow> req as_str (vs ! 3); is_active \<leftarrow> req read_bool (vs ! 4); expires \<leftarrow> opt as_str (vs ! 5);
     created \<leftarrow> req as_str (vs ! 6); updated \<leftarrow> req as_str (vs ! 7);
     Some \<lparr>kr_id = i, kr_account_id = account_id, kr_apikey = apikey, kr_label = label,
           kr_is_active = is_active, kr_expires_at = expires, kr_created_at = created,
           kr_updated_at = updated\<rparr> }"

definition read_session_event :: "json \<Rightarrow> session_event_response option" where
  "read_session_event j = do {
     vs \<leftarrow> fields_of [''id'', ''session_id'', ''session_index'', ''account_id'', ''model_id'',
             ''api_key_id'', ''input_token_price'', ''input_tokens'', ''output_token_price'',
             ''output_tokens'', ''event_data'', ''created_at''] j;
     i \<leftarrow> req read_i64 (vs ! 0); sid \<leftarrow> req as_str (vs ! 1); index \<leftarrow> req read_i32 (vs ! 2);
     account_id \<leftarrow> req read_i64 (vs ! 3); model_id \<leftarrow> req read_i64 (vs ! 4);
     api_key_id \<leftarrow> req read_i64 (vs ! 5); ip \<leftarrow> req as_str (vs ! 6); it \<leftarrow> req read_i64 (vs ! 7);
     op \<leftarrow> req as_str (vs ! 8); ot \<leftarrow> req read_i64 (vs ! 9); event_data \<leftarrow> req Some (vs ! 10);
     created \<leftarrow> req as_str (vs ! 11);
     Some \<lparr>ser_id = i, ser_session_id = sid, ser_session_index = index, ser_account_id = account_id,
           ser_model_id = model_id, ser_api_key_id = api_key_id, ser_input_token_price = ip,
           ser_input_tokens = it, ser_output_token_price = op, ser_output_tokens = ot,
           ser_event_data = event_data, ser_created_at = created\<rparr> }"

definition read_plan :: "json \<Rightarrow> subscription_plan_response option" where
  "read_plan j = do {
     vs \<leftarrow> fields_of [''id'', ''status'', ''description'', ''total_token_limit'', ''time_span'',
             ''money_limit'', ''sort_order'', ''created_at'', ''updated_at''] j;
     i \<leftarrow> req read_i64 (vs ! 0); status \<leftarrow> req as_str (vs ! 1); description \<leftarrow> req as_str (vs ! 2);
     total_token_limit \<leftarrow> req read_i64 (vs ! 3); time_span \<leftarrow> req read_i64 (vs ! 4);
     money_limit \<leftarrow> req as_str (vs ! 5); sort_order \<leftarrow> req read_i64 (vs ! 6);
     created \<leftarrow> req as_str (vs ! 7); updated \<leftarrow> req as_str (vs ! 8);
     Some \<lparr>spr_id = i, spr_status = status, spr_description = description,
           spr_total_token_limit = total_token_limit, spr_time_span = time_span,
           spr_money_limit = money_limit, spr_sort_order = sort_order, spr_created_at = created,
           spr_updated_at = updated\<rparr> }"

definition read_subscription :: "json \<Rightarrow> subscription_response option" where
  "read_subscription j = do {
     vs \<leftarrow> fields_of [''id'', ''account_id'', ''plan_id'', ''status'', ''start_at'', ''end_at'',
             ''used_total_tokens'', ''total_token_limit'', ''sort_order'', ''used_money'', ''created_at'',
             ''updated_at''] j;
     i \<leftarrow> req read_i64 (vs ! 0); account_id \<leftarrow> req read_i64 (vs ! 1); p \<leftarrow> req read_i64 (vs ! 2);
     status \<leftarrow> req as_str (vs ! 3); start_at \<leftarrow> opt as_str (vs ! 4); end_at \<leftarrow> opt as_str (vs ! 5);
     used \<leftarrow> req read_i64 (vs ! 6); limit \<leftarrow> req read_i64 (vs ! 7); sort_order \<leftarrow> req read_i64 (vs ! 8);
     used_money \<leftarrow> req as_str (vs ! 9); created \<leftarrow> req as_str (vs ! 10); updated \<leftarrow> req as_str (vs ! 11);
     Some \<lparr>sbr_id = i, sbr_account_id = account_id, sbr_plan_id = p, sbr_status = status,
           sbr_start_at = start_at, sbr_end_at = end_at, sbr_used_total_tokens = used,
           sbr_total_token_limit = limit, sbr_sort_order = sort_order, sbr_used_money = used_money,
           sbr_created_at = created, sbr_updated_at = updated\<rparr> }"

section \<open>The client reads what the server writes\<close>

text \<open>Identifiers and counts are columns of type \<^verbatim>\<open>BIGINT\<close>, the session index of type
  \<^verbatim>\<open>INTEGER\<close>.\<close>

definition fits_upstream :: "upstream_response \<Rightarrow> bool" where
  "fits_upstream u \<longleftrightarrow> in_i64 (ur_id u)"

definition fits_model :: "model_response \<Rightarrow> bool" where
  "fits_model m \<longleftrightarrow> in_i64 (mr_id m) \<and> in_i64 (mr_upstream_id m)"

definition fits_model_test :: "model_test_result \<Rightarrow> bool" where
  "fits_model_test t \<longleftrightarrow> in_i64 (mt_model_id t) \<and> pred_option fits_model (mt_model t)"

definition fits_account :: "account_response \<Rightarrow> bool" where
  "fits_account a \<longleftrightarrow> in_i64 (ar_id a)"

definition fits_wallet :: "wallet_response \<Rightarrow> bool" where
  "fits_wallet w \<longleftrightarrow> in_i64 (wr_id w) \<and> in_i64 (wr_account_id w)"

definition fits_balance_change :: "balance_change_response \<Rightarrow> bool" where
  "fits_balance_change b \<longleftrightarrow> in_i64 (bcr_id b) \<and> in_i64 (bcr_account_id b)"

definition fits_upstream_with_models :: "upstream_with_models_response \<Rightarrow> bool" where
  "fits_upstream_with_models r \<longleftrightarrow> fits_upstream (uwm_upstream r) \<and> list_all fits_model (uwm_models r)"

definition fits_tags :: "tags_response \<Rightarrow> bool" where
  "fits_tags t \<longleftrightarrow> in_i64 (tr_upstream_id t)"

definition fits_credential :: "credential_response \<Rightarrow> bool" where
  "fits_credential c \<longleftrightarrow> in_i64 (kr_id c) \<and> pred_option in_i64 (kr_account_id c)"

definition fits_session_event :: "session_event_response \<Rightarrow> bool" where
  "fits_session_event e \<longleftrightarrow>
     in_i64 (ser_id e) \<and> in_i32 (ser_session_index e) \<and> in_i64 (ser_account_id e) \<and>
     in_i64 (ser_model_id e) \<and> in_i64 (ser_api_key_id e) \<and> in_i64 (ser_input_tokens e) \<and>
     in_i64 (ser_output_tokens e)"

definition fits_plan :: "subscription_plan_response \<Rightarrow> bool" where
  "fits_plan p \<longleftrightarrow>
     in_i64 (spr_id p) \<and> in_i64 (spr_total_token_limit p) \<and> in_i64 (spr_time_span p) \<and>
     in_i64 (spr_sort_order p)"

definition fits_subscription :: "subscription_response \<Rightarrow> bool" where
  "fits_subscription s \<longleftrightarrow>
     in_i64 (sbr_id s) \<and> in_i64 (sbr_account_id s) \<and> in_i64 (sbr_plan_id s) \<and>
     in_i64 (sbr_used_total_tokens s) \<and> in_i64 (sbr_total_token_limit s) \<and> in_i64 (sbr_sort_order s)"

definition fits_pagination :: "pagination_info \<Rightarrow> bool" where
  "fits_pagination p \<longleftrightarrow>
     in_i64 (pi_page p) \<and> in_i64 (pi_page_size p) \<and> in_i64 (pi_total p) \<and> in_i64 (pi_total_pages p)"

lemma opt_str_json [simp]: "opt as_str (Some (opt_json JStr x)) = Some x"
  by (cases x) simp_all

lemma opt_i64_json [simp]: "pred_option in_i64 x \<Longrightarrow> opt read_i64 (Some (opt_json JInt x)) = Some x"
  by (cases x) simp_all

interpretation upstream_wire: wire_format upstream_json read_upstream fits_upstream
  by unfold_locales (simp add: upstream_json_def read_upstream_def fits_upstream_def)

interpretation model_wire: wire_format model_json read_model fits_model
  by unfold_locales (simp add: model_json_def read_model_def fits_model_def)

interpretation account_wire: wire_format account_json read_account fits_account
  by unfold_locales (simp add: account_json_def read_account_def fits_account_def)

interpretation wallet_wire: wire_format wallet_json read_wallet fits_wallet
  by unfold_locales (simp add: wallet_json_def read_wallet_def fits_wallet_def)

interpretation change_wire: wire_format balance_change_json read_balance_change fits_balance_change
  by unfold_locales
    (simp add: balance_change_json_def read_balance_change_def fits_balance_change_def)

interpretation tags_wire: wire_format tags_json read_tags fits_tags
  by unfold_locales (simp add: tags_json_def read_tags_def fits_tags_def)

interpretation credential_wire: wire_format credential_json read_credential fits_credential
  by unfold_locales
    (simp add: credential_json_def read_credential_def fits_credential_def)

interpretation event_wire: wire_format session_event_json read_session_event fits_session_event
  by unfold_locales
    (simp add: session_event_json_def read_session_event_def fits_session_event_def)

interpretation plan_wire: wire_format subscription_plan_json read_plan fits_plan
  by unfold_locales
    (simp add: subscription_plan_json_def read_plan_def fits_plan_def)

interpretation subscription_wire: wire_format subscription_json read_subscription fits_subscription
  by unfold_locales
    (simp add: subscription_json_def read_subscription_def fits_subscription_def)

interpretation pagination_wire: wire_format pagination_json read_pagination fits_pagination
  by unfold_locales
    (simp add: pagination_json_def read_pagination_def fits_pagination_def)

text \<open>The created credential carries one field more, which the client does not read.\<close>

lemma read_credential_created:
  assumes "in_i64 (kr_id c)" and "pred_option in_i64 (kr_account_id c)"
  shows "read_credential (credential_created_json c) = Some (credential_response.truncate c)"
  using assms
  by (simp add: credential_created_json_def read_credential_def credential_response.truncate_def)

interpretation upstream_models_wire:
    wire_format upstream_with_models_json read_upstream_with_models fits_upstream_with_models
  by unfold_locales
    (simp add: upstream_with_models_json_def read_upstream_with_models_def
      fits_upstream_with_models_def upstream_wire.dec_enc model_wire.dec_enc_list)

lemma opt_model [simp]: "fits_model m \<Longrightarrow> opt read_model (Some (model_json m)) = Some (Some m)"
  by (simp add: model_wire.dec_enc opt_def) (simp add: model_json_def)

interpretation model_test_wire: wire_format model_test_json read_model_test fits_model_test
proof unfold_locales
  fix t
  assume "fits_model_test t"
  then show "read_model_test (model_test_json t) = Some t"
    by (cases "mt_model t"; cases "mt_error t")
      (simp_all add: model_test_json_def read_model_test_def fits_model_test_def some_field_def)
qed

definition fits_page :: "('d \<Rightarrow> bool) \<Rightarrow> 'd paginated \<Rightarrow> bool" where
  "fits_page ok p \<longleftrightarrow> list_all ok (pr_data p) \<and> fits_pagination (pr_pagination p)"

definition fits_cursor :: "('d \<Rightarrow> bool) \<Rightarrow> 'd cursor_response \<Rightarrow> bool" where
  "fits_cursor ok p \<longleftrightarrow> list_all ok (cr_data p) \<and> in_i64 (cr_next_id p)"

context wire_format begin

lemma dec_enc_page: "fits_page fits p \<Longrightarrow> read_paginated dec (paginated_json enc p) = Some p"
  by (simp add: paginated_json_def read_paginated_def fits_page_def dec_enc_list pagination_wire.dec_enc)

lemma dec_enc_cursor: "fits_cursor fits p \<Longrightarrow> read_cursor dec (cursor_json enc p) = Some p"
  by (simp add: cursor_json_def read_cursor_def fits_cursor_def dec_enc_list)

end

text \<open>An error answer of a handler is read as one; an error of \<^verbatim>\<open>auth_jwt\<close> is not, its field
  \<^verbatim>\<open>error\<close> being an object.\<close>

lemma read_error_json: "read_error (error_json error message) = Some (error, message)"
  by (simp add: read_error_def error_json_def)

end
