(* ===== verification/ControlPrint.thy ===== *)
theory ControlPrint
  imports ControlTypes
begin

text \<open>
  What the command line client prints: tables with fixed columns, cut-off cells, the common listings
  (\<^verbatim>\<open>cmds/mod.rs\<close>), and the resolution of names to identifiers.
\<close>

section \<open>Columns\<close>

text \<open>\<^verbatim>\<open>{:<n}\<close> fills up to \<open>n\<close> characters, not bytes.\<close>

definition is_continuation :: "char \<Rightarrow> bool" where
  "is_continuation c \<longleftrightarrow> (let b = of_char c :: nat in 128 \<le> b \<and> b < 192)"

definition char_count :: "string \<Rightarrow> nat" where
  "char_count s = length (filter (\<lambda>c. \<not> is_continuation c) s)"

definition pad :: "nat \<Rightarrow> string \<Rightarrow> string" where
  "pad n s = s @ replicate (n - char_count s) (CHR '' '')"

definition newline :: string where
  "newline = [CHR 0x0A]"

text \<open>\<^verbatim>\<open>U+2026\<close>, \<^verbatim>\<open>U+2713\<close> and \<^verbatim>\<open>U+2717\<close> in UTF-8.\<close>

definition ellipsis :: string where
  "ellipsis = [CHR 0xE2, CHR 0x80, CHR 0xA6]"

definition bool_mark :: "bool \<Rightarrow> string" where
  "bool_mark v = (if v then [CHR 0xE2, CHR 0x9C, CHR 0x93] else [CHR 0xE2, CHR 0x9C, CHR 0x97])"

definition yes_no :: "bool \<Rightarrow> string" where
  "yes_no v = (if v then ''yes'' else ''no'')"

text \<open>\<^verbatim>\<open>&s[..max_len - 1]\<close> panics inside a character: \<open>None\<close>.\<close>

definition truncate_text :: "string \<Rightarrow> nat \<Rightarrow> string option" where
  "truncate_text s max_len =
     (if length s > max_len then
        if is_char_boundary s (max_len - 1) then Some (take (max_len - 1) s @ ellipsis) else None
      else Some s)"

definition table_row :: "(nat \<times> string option) list \<Rightarrow> string option" where
  "table_row cells = map_option (join '' '') (those (map (\<lambda>(n, c). map_option (pad n) c) cells))"

definition title_row :: "(nat \<times> string) list \<Rightarrow> string" where
  "title_row cells = join '' '' (map (\<lambda>(n, c). pad n c) cells)"

definition panic_message :: string where
  "panic_message = ''byte index is not a char boundary''"

fun print_rows :: "('d \<Rightarrow> string option) \<Rightarrow> 'd list \<Rightarrow> 'a session \<Rightarrow> 'a session" where
  "print_rows row [] m = m"
| "print_rows row (x # xs) m =
     (case row x of None \<Rightarrow> Abort panic_message | Some line \<Rightarrow> Print line (print_rows row xs m))"

text \<open>A listing: a message when there is nothing, else a title, a rule and the rows.\<close>

definition print_table ::
    "string \<Rightarrow> (nat \<times> string) list \<Rightarrow> nat \<Rightarrow> ('d \<Rightarrow> (nat \<times> string option) list) \<Rightarrow> 'd list \<Rightarrow>
     'a session \<Rightarrow> 'a session" where
  "print_table nothing titles rule cells xs m =
     (if xs = [] then Print nothing m
      else Print (title_row titles) (Print (replicate rule (CHR ''-''))
        (print_rows (\<lambda>x. table_row (cells x)) xs m)))"

section \<open>Common listings\<close>

fun parse_comma_list_acc :: "string \<Rightarrow> string \<Rightarrow> string list" where
  "parse_comma_list_acc word [] = [rev word]"
| "parse_comma_list_acc word (c # cs) =
     (if c = CHR '','' then rev word # parse_comma_list_acc '''' cs else parse_comma_list_acc (c # word) cs)"

definition parse_comma_list :: "string \<Rightarrow> string list" where
  "parse_comma_list s = filter (\<lambda>t. t \<noteq> '''') (map trim (parse_comma_list_acc '''' s))"

definition print_pagination :: "pagination_info \<Rightarrow> 'a session \<Rightarrow> 'a session" where
  "print_pagination p m =
     (if pi_total_pages p > 1 then
        Print (newline @ ''Page '' @ show_int (pi_page p) @ ''/'' @ show_int (pi_total_pages p) @
               '' (total: '' @ show_int (pi_total p) @ '', page_size: '' @ show_int (pi_page_size p) @ '')'') m
      else Print (newline @ ''Total: '' @ show_int (pi_total p)) m)"

definition print_models :: "model_response list \<Rightarrow> 'a session \<Rightarrow> 'a session" where
  "print_models = print_table ''No models found.''
     [(5, ''ID''), (10, ''EP ID''), (35, ''Model ID''), (30, ''Features''), (14, ''Input Price''),
      (14, ''Output Price''), (20, ''Description'')] 128
     (\<lambda>m. [(5, Some (show_int (mr_id m))), (10, Some (show_int (mr_upstream_id m))),
           (35, truncate_text (mr_fullname m) 33), (30, truncate_text (join '','' (mr_features m)) 28),
           (14, truncate_text (mr_input_token_price m) 12),
           (14, truncate_text (mr_output_token_price m) 12), (20, truncate_text (mr_description m) 18)])"

section \<open>Resolving names\<close>

text \<open>A text that is a number is taken for an identifier, whatever it names.\<close>

definition resolve_upstream_id :: "ctl_env \<Rightarrow> string \<Rightarrow> api_client \<Rightarrow> (string + int) session" where
  "resolve_upstream_id ce upstream c =
     (case parse_i64 upstream of
        Some i \<Rightarrow> Done (Inr i)
      | None \<Rightarrow> ask (get_as ce c read_upstream (''/upstream_by_name/'' @ upstream)) (\<lambda>resp. Done (Inr (ur_id resp))))"

definition resolve_account_id :: "ctl_env \<Rightarrow> string \<Rightarrow> api_client \<Rightarrow> (string + int) session" where
  "resolve_account_id ce account c =
     (case parse_i64 account of
        Some i \<Rightarrow> Done (Inr i)
      | None \<Rightarrow> ask (get_as ce c read_account (''/accounts_by_name/'' @ account)) (\<lambda>resp. Done (Inr (ar_id resp))))"

definition resolve_model_id :: "ctl_env \<Rightarrow> string \<Rightarrow> api_client \<Rightarrow> (string + int) session" where
  "resolve_model_id ce model c =
     (case parse_i64 model of
        Some i \<Rightarrow> Done (Inr i)
      | None \<Rightarrow>
          if CHR ''/'' \<notin> set model then
            Done (Inl ([CHR 0x27] @ model @ [CHR 0x27] @
              '' is not a valid model ID or path (expected integer or upstream_name/model_name)''))
          else
            let upstream_name = takeWhile (\<lambda>d. d \<noteq> CHR ''/'') model;
                model_name = tl (dropWhile (\<lambda>d. d \<noteq> CHR ''/'') model)
            in if upstream_name = [] \<or> model_name = [] then
                 Done (Inl ([CHR 0x27] @ model @ [CHR 0x27] @
                   '' is not a valid model path (expected upstream_name/model_name)''))
               else
                 ask (get_as ce c read_model (''/models/path/'' @ upstream_name @ ''/'' @ model_name))
                   (\<lambda>resp. Done (Inr (mr_id resp))))"

end
