(* ===== verification/ControlAccounts.thy ===== *)
theory ControlAccounts
  imports ControlPrint
begin

text \<open>
  The commands of \<^verbatim>\<open>llmpool-ctl\<close> on accounts, API keys, wallets and session events
  (\<^verbatim>\<open>cmds/account.rs\<close>, \<^verbatim>\<open>apikey.rs\<close>, \<^verbatim>\<open>wallet.rs\<close>,
  \<^verbatim>\<open>session_event.rs\<close>).
\<close>

type_synonym command = "(string + unit) session"

abbreviation finished :: command where
  "finished \<equiv> Done (Inr ())"

text \<open>With \<^verbatim>\<open>--format json\<close> the body is printed as it came.\<close>

definition print_raw :: "(string + string) session \<Rightarrow> command" where
  "print_raw m = ask m (\<lambda>raw. Print raw finished)"

section \<open>Accounts\<close>

datatype account_action =
    AccountList
  | AccountShow string
  | AccountAdd string
  | AccountUpdate string "string option" "bool option"

definition create_account_body :: "string \<Rightarrow> json" where
  "create_account_body name = JObj [(''name'', JStr name)]"

definition update_account_body :: "string option \<Rightarrow> bool option \<Rightarrow> json" where
  "update_account_body name is_active =
     JObj (some_field ''name'' JStr name @ some_field ''is_active'' JBool is_active)"

definition print_accounts :: "account_response list \<Rightarrow> 'a session \<Rightarrow> 'a session" where
  "print_accounts = print_table ''No accounts found.''
     [(5, ''ID''), (20, ''Name''), (8, ''Active''), (22, ''Created At''), (22, ''Updated At'')] 80
     (\<lambda>u. [(5, Some (show_int (ar_id u))), (20, truncate_text (ar_name u) 18),
           (8, Some (yes_no (ar_is_active u))), (22, Some (ar_created_at u)),
           (22, Some (ar_updated_at u))])"

definition account_lines :: "account_response \<Rightarrow> string list" where
  "account_lines u =
     [''  ID:         '' @ show_int (ar_id u), ''  Name:       '' @ ar_name u,
      ''  Active:     '' @ yes_no (ar_is_active u), ''  Created At: '' @ ar_created_at u,
      ''  Updated At: '' @ ar_updated_at u]"

definition account_detail_lines :: "account_response \<Rightarrow> string list" where
  "account_detail_lines u = [''Account created successfully!'', ''''] @ account_lines u"

definition account_path :: "int \<Rightarrow> string" where
  "account_path i = ''/accounts/'' @ show_int i"

definition handle_account :: "ctl_env \<Rightarrow> account_action \<Rightarrow> api_client \<Rightarrow> bool \<Rightarrow> command" where
  "handle_account ce action c json_output =
     (case action of
        AccountList \<Rightarrow>
          if json_output then print_raw (get_raw ce c ''/accounts'')
          else ask (get_as ce c (read_paginated read_account) ''/accounts'') (\<lambda>resp.
            print_accounts (pr_data resp) (print_pagination (pr_pagination resp) finished))
      | AccountShow account \<Rightarrow>
          let path = (case parse_i64 account of
                        Some i \<Rightarrow> account_path i | None \<Rightarrow> ''/accounts_by_name/'' @ account) in
          if json_output then print_raw (get_raw ce c path)
          else ask (get_as ce c read_account path) (\<lambda>resp. print_lines (account_lines resp) finished)
      | AccountAdd name \<Rightarrow>
          if json_output then print_raw (post_raw ce c ''/accounts'' (create_account_body name))
          else ask (post_as ce c read_account ''/accounts'' (create_account_body name)) (\<lambda>resp.
            print_lines (account_detail_lines resp) finished)
      | AccountUpdate account name is_active \<Rightarrow>
          ask (resolve_account_id ce account c) (\<lambda>account_id.
            if json_output then
              print_raw (put_raw ce c (account_path account_id) (update_account_body name is_active))
            else ask (put_as ce c read_account (account_path account_id)
                        (update_account_body name is_active)) (\<lambda>resp.
              print_lines ([''Account updated successfully!'', ''''] @ account_lines resp) finished)))"

section \<open>API keys\<close>

datatype apikey_action =
    ApiKeyList string
  | ApiKeyAdd string string
  | ApiKeyShow string
  | ApiKeyDelete string

definition create_apikey_body :: "string \<Rightarrow> json" where
  "create_apikey_body label = JObj [(''label'', JStr label)]"

definition print_apikeys :: "credential_response list \<Rightarrow> 'a session \<Rightarrow> 'a session" where
  "print_apikeys = print_table ''No API keys found.''
     [(5, ''ID''), (38, ''API Key''), (20, ''Label''), (8, ''Active''), (22, ''Created At'')] 95
     (\<lambda>ak. [(5, Some (show_int (kr_id ak))), (38, truncate_text (kr_apikey ak) 36),
            (20, truncate_text (kr_label ak) 18), (8, Some (yes_no (kr_is_active ak))),
            (22, Some (kr_created_at ak))])"

definition apikey_lines :: "credential_response \<Rightarrow> string list" where
  "apikey_lines ak =
     [''  ID:         '' @ show_int (kr_id ak)] @
     (case kr_account_id ak of None \<Rightarrow> [] | Some i \<Rightarrow> [''  Account ID: '' @ show_int i]) @
     [''  API Key:    '' @ kr_apikey ak, ''  Label:      '' @ kr_label ak,
      ''  Active:     '' @ yes_no (kr_is_active ak)] @
     (case kr_expires_at ak of None \<Rightarrow> [] | Some e \<Rightarrow> [''  Expires At: '' @ e]) @
     [''  Created At: '' @ kr_created_at ak, ''  Updated At: '' @ kr_updated_at ak]"

definition account_apikeys_path :: "int \<Rightarrow> string" where
  "account_apikeys_path i = ''/accounts/'' @ show_int i @ ''/apikeys''"

definition handle_apikey :: "ctl_env \<Rightarrow> apikey_action \<Rightarrow> api_client \<Rightarrow> bool \<Rightarrow> command" where
  "handle_apikey ce action c json_output =
     (case action of
        ApiKeyList account \<Rightarrow>
          ask (resolve_account_id ce account c) (\<lambda>account_id.
            if json_output then print_raw (get_raw ce c (account_apikeys_path account_id))
            else ask (get_as ce c (read_paginated read_credential) (account_apikeys_path account_id))
              (\<lambda>resp. print_apikeys (pr_data resp) (print_pagination (pr_pagination resp) finished)))
      | ApiKeyAdd account label \<Rightarrow>
          ask (resolve_account_id ce account c) (\<lambda>account_id.
            if json_output then
              print_raw (post_raw ce c (account_apikeys_path account_id) (create_apikey_body label))
            else ask (post_as ce c read_credential (account_apikeys_path account_id)
                        (create_apikey_body label)) (\<lambda>resp.
              print_lines ([''API key created successfully!'', ''''] @ apikey_lines resp) finished))
      | ApiKeyShow apikey \<Rightarrow>
          if json_output then print_raw (get_raw ce c (''/apikeys/'' @ apikey))
          else ask (get_as ce c read_credential (''/apikeys/'' @ apikey)) (\<lambda>resp.
            print_lines (apikey_lines resp) finished)
      | ApiKeyDelete apikey \<Rightarrow>
          if json_output then print_raw (delete_raw ce c (''/apikeys/'' @ apikey))
          else ask (delete_as ce c read_credential (''/apikeys/'' @ apikey)) (\<lambda>resp.
            print_lines ([''API key deactivated successfully!'', ''''] @ apikey_lines resp) finished))"

section \<open>Wallets\<close>

text \<open>An amount is passed on as the text it was given.\<close>

datatype wallet_action =
    WalletShow string
  | WalletDeposit string string string
  | WalletWithdraw string string string
  | WalletCredit string string string

definition change_body :: "int \<Rightarrow> string \<Rightarrow> string \<Rightarrow> json" where
  "change_body account_id request_id amount = JObj
     [(''account_id'', JInt account_id), (''unique_request_id'', JStr request_id), (''amount'', JStr amount)]"

definition wallet_lines :: "wallet_response \<Rightarrow> string list" where
  "wallet_lines f =
     [''Wallet for account ID '' @ show_int (wr_account_id f) @ '':'', '''',
      ''  Balance:    '' @ wr_balance f] @
     (if wr_created_at f \<noteq> '''' then
        [''  Created At: '' @ wr_created_at f, ''  Updated At: '' @ wr_updated_at f] else [])"

definition balance_change_lines :: "ctl_env \<Rightarrow> balance_change_response \<Rightarrow> string \<Rightarrow> string list" where
  "balance_change_lines ce bc action =
     [action @ '' created successfully!'', '''',
      ''  ID:                '' @ show_int (bcr_id bc),
      ''  Account ID:        '' @ show_int (bcr_account_id bc),
      ''  Request ID:        '' @ bcr_unique_request_id bc,
      ''  Content:           '' @ ce_show ce (bcr_content bc),
      ''  Applied:           '' @ yes_no (bcr_is_applied bc),
      ''  Created At:        '' @ bcr_created_at bc]"

text \<open>The three commands differ in path and title.\<close>

definition submit_command ::
    "ctl_env \<Rightarrow> api_client \<Rightarrow> bool \<Rightarrow> string \<Rightarrow> string \<Rightarrow> string \<Rightarrow> string \<Rightarrow> string \<Rightarrow> command" where
  "submit_command ce c json_output path title account amount request_id =
     ask (resolve_account_id ce account c) (\<lambda>account_id.
       if json_output then print_raw (post_raw ce c path (change_body account_id request_id amount))
       else ask (post_as ce c read_balance_change path (change_body account_id request_id amount)) (\<lambda>resp.
         print_lines (balance_change_lines ce resp title) finished))"

definition handle_wallet :: "ctl_env \<Rightarrow> wallet_action \<Rightarrow> api_client \<Rightarrow> bool \<Rightarrow> command" where
  "handle_wallet ce action c json_output =
     (case action of
        WalletShow account \<Rightarrow>
          ask (resolve_account_id ce account c) (\<lambda>account_id.
            let path = ''/accounts/'' @ show_int account_id @ ''/wallet'' in
            if json_output then print_raw (get_raw ce c path)
            else ask (get_as ce c read_wallet path) (\<lambda>resp. print_lines (wallet_lines resp) finished))
      | WalletDeposit account amount request_id \<Rightarrow>
          submit_command ce c json_output ''/deposits'' ''Deposit'' account amount request_id
      | WalletWithdraw account amount request_id \<Rightarrow>
          submit_command ce c json_output ''/withdrawals'' ''Withdrawal'' account amount request_id
      | WalletCredit account amount request_id \<Rightarrow>
          submit_command ce c json_output ''/credits'' ''Credit'' account amount request_id)"

section \<open>Session events\<close>

datatype session_event_action =
    SessionEventList "string option" int int
  | SessionEventGet int

definition print_session_events :: "session_event_response list \<Rightarrow> 'a session \<Rightarrow> 'a session" where
  "print_session_events = print_table ''No session events found.''
     [(8, ''ID''), (38, ''Session ID''), (6, ''Index''), (10, ''Account''), (8, ''Model''), (8, ''APIKey''),
      (12, ''InTokens''), (12, ''OutTokens''), (22, ''Created At'')] 124
     (\<lambda>e. [(8, Some (show_int (ser_id e))), (38, truncate_text (ser_session_id e) 36),
           (6, Some (show_int (ser_session_index e))), (10, Some (show_int (ser_account_id e))),
           (8, Some (show_int (ser_model_id e))), (8, Some (show_int (ser_api_key_id e))),
           (12, Some (show_int (ser_input_tokens e))), (12, Some (show_int (ser_output_tokens e))),
           (22, Some (ser_created_at e))])"

definition session_event_lines :: "ctl_env \<Rightarrow> session_event_response \<Rightarrow> string list" where
  "session_event_lines ce e =
     [''ID:                '' @ show_int (ser_id e),
      ''Session ID:        '' @ ser_session_id e,
      ''Session Index:     '' @ show_int (ser_session_index e),
      ''Account ID:        '' @ show_int (ser_account_id e),
      ''Model ID:          '' @ show_int (ser_model_id e),
      ''API Key ID:        '' @ show_int (ser_api_key_id e),
      ''Input Token Price: '' @ ser_input_token_price e,
      ''Input Tokens:      '' @ show_int (ser_input_tokens e),
      ''Output Token Price:'' @ ser_output_token_price e,
      ''Output Tokens:     '' @ show_int (ser_output_tokens e),
      ''Created At:        '' @ ser_created_at e,
      ''Event Data:        '' @ ce_pretty ce (ser_event_data e)]"

definition session_events_path :: "string option \<Rightarrow> int \<Rightarrow> int \<Rightarrow> string" where
  "session_events_path session start cnt =
     ''/session-events?start='' @ show_int start @ ''&count='' @ show_int cnt @
     (case session of None \<Rightarrow> '''' | Some sid \<Rightarrow> ''&session='' @ sid)"

definition handle_session_event :: "ctl_env \<Rightarrow> session_event_action \<Rightarrow> api_client \<Rightarrow> bool \<Rightarrow> command" where
  "handle_session_event ce action c json_output =
     (case action of
        SessionEventList session start cnt \<Rightarrow>
          let path = session_events_path session start cnt in
          if json_output then print_raw (get_raw ce c path)
          else ask (get_as ce c (read_cursor read_session_event) path) (\<lambda>resp.
            print_session_events (cr_data resp)
              (if cr_has_more resp then
                 Print (newline @ ''has_more: true, next_id: '' @ show_int (cr_next_id resp)) finished
               else finished))
      | SessionEventGet event_id \<Rightarrow>
          let path = ''/session-events/'' @ show_int event_id in
          if json_output then print_raw (get_raw ce c path)
          else ask (get_as ce c read_session_event path) (\<lambda>event.
            print_lines (session_event_lines ce event) finished))"

end
