(* ===== verification/ControlCatalog.thy ===== *)
theory ControlCatalog
  imports ControlAccounts
begin

text \<open>
  The commands of \<^verbatim>\<open>llmpool-ctl\<close> on upstreams, models, plans and subscriptions
  (\<^verbatim>\<open>cmds/upstream.rs\<close>, \<^verbatim>\<open>model.rs\<close>, \<^verbatim>\<open>subscription.rs\<close>), and its
  main function (\<^verbatim>\<open>main.rs\<close>).
\<close>

section \<open>Upstreams\<close>

datatype upstream_action =
    UpstreamList
  | UpstreamTest string string
  | UpstreamAdd string string string string "string option" "string option" "string option"
  | UpstreamUpdate string "string option" "string option" "string option" "string option"
      "string option" "string option"
  | UpstreamListtags string
  | UpstreamAddtag string string
  | UpstreamDeltag string string

text \<open>\<^verbatim>\<open>skip_serializing_if = "Vec::is_empty"\<close>.\<close>

definition list_field :: "string \<Rightarrow> string list \<Rightarrow> (string \<times> json) list" where
  "list_field k xs = (if xs = [] then [] else [(k, strings_json xs)])"

definition create_upstream_body ::
    "string \<Rightarrow> string \<Rightarrow> string \<Rightarrow> string \<Rightarrow> string list \<Rightarrow> string list \<Rightarrow> json" where
  "create_upstream_body name api_key api_base provider tags proxies = JObj
     ([(''name'', JStr name), (''api_key'', JStr api_key), (''api_base'', JStr api_base),
       (''provider'', JStr provider)] @ list_field ''tags'' tags @ list_field ''proxies'' proxies)"

definition test_upstream_body :: "string \<Rightarrow> string \<Rightarrow> json" where
  "test_upstream_body api_key api_base = JObj [(''api_key'', JStr api_key), (''api_base'', JStr api_base)]"

definition update_upstream_body :: "update_upstream_request \<Rightarrow> json" where
  "update_upstream_body b = JObj
     (some_field ''name'' JStr (uur_name b) @ some_field ''provider'' JStr (uur_provider b) @
      some_field ''tags'' strings_json (uur_tags b) @
      some_field ''proxies'' strings_json (uur_proxies b) @
      some_field ''description'' JStr (uur_description b) @ some_field ''status'' JStr (uur_status b))"

definition add_tag_body :: "string \<Rightarrow> json" where
  "add_tag_body tag = JObj [(''tag'', JStr tag)]"

definition print_upstreams :: "upstream_response list \<Rightarrow> 'a session \<Rightarrow> 'a session" where
  "print_upstreams = print_table ''No upstreams found.''
     [(5, ''ID''), (20, ''Name''), (40, ''API Base''), (12, ''Status''), (20, ''Tags''), (20, ''Proxies'')] 117
     (\<lambda>ep. [(5, Some (show_int (ur_id ep))), (20, truncate_text (ur_name ep) 18),
            (40, truncate_text (ur_api_base ep) 38), (12, Some (ur_status ep)),
            (20, truncate_text (join '','' (ur_tags ep)) 18),
            (20, truncate_text (join '','' (ur_proxies ep)) 18)])"

definition print_test_result :: "model_features_response list \<Rightarrow> 'a session \<Rightarrow> 'a session" where
  "print_test_result = print_table ''No models detected.''
     [(35, ''Model ID''), (15, ''Owned By''), (6, ''Chat''), (6, ''Embed''), (6, ''Image''), (6, ''Speech'')] 80
     (\<lambda>m. [(35, truncate_text (mfr_fullname m) 33), (15, truncate_text (mfr_owned_by m) 13),
           (6, Some (bool_mark (mfr_has_chat_completion m))), (6, Some (bool_mark (mfr_has_embedding m))),
           (6, Some (bool_mark (mfr_has_image_generation m))), (6, Some (bool_mark (mfr_has_speech m)))])"

definition upstream_lines :: "upstream_response \<Rightarrow> string list" where
  "upstream_lines ep =
     [''  ID:             '' @ show_int (ur_id ep), ''  Name:           '' @ ur_name ep,
      ''  API Base:       '' @ ur_api_base ep, ''  Provider:       '' @ ur_provider ep,
      ''  Status:         '' @ ur_status ep, ''  Tags:           '' @ join '', '' (ur_tags ep),
      ''  Proxies:        '' @ join '', '' (ur_proxies ep), ''  Description:    '' @ ur_description ep]"

definition print_upstream_with_models :: "upstream_with_models_response \<Rightarrow> 'a session \<Rightarrow> 'a session" where
  "print_upstream_with_models resp m =
     print_lines ([''Upstream created successfully!'', ''''] @ upstream_lines (uwm_upstream resp) @ [''''])
       (if uwm_models resp = [] then m
        else Print (''Models ('' @ show_nat (length (uwm_models resp)) @ ''):'')
               (print_models (uwm_models resp) m))"

definition upstream_detail_lines :: "upstream_response \<Rightarrow> string list" where
  "upstream_detail_lines ep =
     [''Upstream updated successfully!'', ''''] @ upstream_lines ep @
     [''  Created At:     '' @ ur_created_at ep, ''  Updated At:     '' @ ur_updated_at ep]"

definition upstream_path :: "int \<Rightarrow> string" where
  "upstream_path i = ''/upstreams/'' @ show_int i"

definition tag_lines :: "string list \<Rightarrow> string list" where
  "tag_lines tags = map (\<lambda>t. ''  - '' @ t) tags"

definition tag_lines_or_none :: "string list \<Rightarrow> string list" where
  "tag_lines_or_none tags = (if tags = [] then [''  (no tags)''] else tag_lines tags)"

definition tag_change_line :: "string \<Rightarrow> string \<Rightarrow> string \<Rightarrow> int \<Rightarrow> string" where
  "tag_change_line tag what upstream i =
     ''Tag '' @ [CHR 0x27] @ tag @ [CHR 0x27] @ what @ upstream @ '' (ID: '' @ show_int i @ '').''"

text \<open>\<^verbatim>\<open>description: _description\<close>: the description given to \<^verbatim>\<open>upstream add\<close> is not
  sent.\<close>

definition handle_upstream :: "ctl_env \<Rightarrow> upstream_action \<Rightarrow> api_client \<Rightarrow> bool \<Rightarrow> command" where
  "handle_upstream ce action c json_output =
     (case action of
        UpstreamList \<Rightarrow>
          if json_output then print_raw (get_raw ce c ''/upstreams'')
          else ask (get_as ce c (read_paginated read_upstream) ''/upstreams'') (\<lambda>resp.
            print_upstreams (pr_data resp) (print_pagination (pr_pagination resp) finished))
      | UpstreamTest api_key api_base \<Rightarrow>
          let body = test_upstream_body api_key api_base in
          if json_output then print_raw (post_raw ce c ''/upstream-tests'' body)
          else Print (''Testing upstream '' @ api_base @ ''...'')
            (ask (post_as ce c read_test_upstream ''/upstream-tests'' body) (\<lambda>resp.
              Print '''' (print_test_result resp finished)))
      | UpstreamAdd name api_key api_base provider description tags proxies \<Rightarrow>
          let body = create_upstream_body name api_key api_base provider
                (unwrap_or (map_option parse_comma_list tags) [])
                (unwrap_or (map_option parse_comma_list proxies) []) in
          if json_output then print_raw (post_raw ce c ''/upstreams'' body)
          else Print (''Adding upstream '' @ api_base @ ''...'')
            (ask (post_as ce c read_upstream_with_models ''/upstreams'' body) (\<lambda>resp.
              Print '''' (print_upstream_with_models resp finished)))
      | UpstreamUpdate upstream name provider description tags proxies status \<Rightarrow>
          ask (resolve_upstream_id ce upstream c) (\<lambda>i.
            let body = update_upstream_body
                  \<lparr>uur_name = name, uur_provider = provider, uur_tags = map_option parse_comma_list tags,
                   uur_proxies = map_option parse_comma_list proxies, uur_description = description,
                   uur_status = status\<rparr> in
            if json_output then print_raw (put_raw ce c (upstream_path i) body)
            else ask (put_as ce c read_upstream (upstream_path i) body) (\<lambda>resp.
              print_lines (upstream_detail_lines resp) finished))
      | UpstreamListtags upstream \<Rightarrow>
          ask (resolve_upstream_id ce upstream c) (\<lambda>i.
            if json_output then print_raw (get_raw ce c (upstream_path i @ ''/tags''))
            else ask (get_as ce c read_tags (upstream_path i @ ''/tags'')) (\<lambda>resp.
              print_lines ((''Tags for upstream '' @ upstream @ '' (ID: '' @ show_int (tr_upstream_id resp) @ ''):'')
                # tag_lines_or_none (tr_tags resp)) finished))
      | UpstreamAddtag upstream tag \<Rightarrow>
          ask (resolve_upstream_id ce upstream c) (\<lambda>i.
            if json_output then print_raw (post_raw ce c (upstream_path i @ ''/tags'') (add_tag_body tag))
            else ask (post_as ce c read_tags (upstream_path i @ ''/tags'') (add_tag_body tag)) (\<lambda>resp.
              print_lines ([tag_change_line tag '' added to upstream '' upstream (tr_upstream_id resp),
                ''Current tags:''] @ tag_lines (tr_tags resp)) finished))
      | UpstreamDeltag upstream tag \<Rightarrow>
          ask (resolve_upstream_id ce upstream c) (\<lambda>i.
            if json_output then print_raw (delete_raw ce c (upstream_path i @ ''/tags/'' @ tag))
            else ask (delete_as ce c read_tags (upstream_path i @ ''/tags/'' @ tag)) (\<lambda>resp.
              print_lines ([tag_change_line tag '' removed from upstream '' upstream (tr_upstream_id resp),
                ''Current tags:''] @ tag_lines_or_none (tr_tags resp)) finished)))"

section \<open>Models\<close>

datatype model_action =
    ModelList "bool option"
  | ModelShow string
  | ModelUpdate int "bool option" "string option" "string option" "string option" "string option"
      "string option"
  | ModelDetect string

text \<open>Prices are passed on as the texts they were given.\<close>

definition update_model_body ::
    "bool option \<Rightarrow> string option \<Rightarrow> string option \<Rightarrow> string option \<Rightarrow> string option \<Rightarrow> string option \<Rightarrow> json"
  where "update_model_body is_active description input_price output_price batch_input batch_output = JObj
     (some_field ''is_active'' JBool is_active @ some_field ''description'' JStr description @
      some_field ''input_token_price'' JStr input_price @
      some_field ''output_token_price'' JStr output_price @
      some_field ''batch_input_token_price'' JStr batch_input @
      some_field ''batch_output_token_price'' JStr batch_output)"

definition model_full_lines :: "model_response \<Rightarrow> string \<Rightarrow> string list" where
  "model_full_lines m title =
     [title, '''', ''  ID:                       '' @ show_int (mr_id m),
      ''  Upstream ID:              '' @ show_int (mr_upstream_id m),
      ''  Fullname:                 '' @ mr_fullname m,
      ''  Cname:                    '' @ mr_cname m,
      ''  Active:                   '' @ bool_mark (mr_is_active m),
      ''  Features:                 '' @ join '', '' (mr_features m),
      ''  Input Token Price:        '' @ mr_input_token_price m,
      ''  Output Token Price:       '' @ mr_output_token_price m,
      ''  Batch Input Token Price:  '' @ mr_batch_input_token_price m,
      ''  Batch Output Token Price: '' @ mr_batch_output_token_price m,
      ''  Description:              '' @ mr_description m,
      ''  Created At:               '' @ mr_created_at m,
      ''  Updated At:               '' @ mr_updated_at m]"

definition detect_lines :: "model_test_result \<Rightarrow> string list" where
  "detect_lines result =
     (case mt_model result of
        Some m \<Rightarrow> model_full_lines m ''Model detection completed successfully!''
      | None \<Rightarrow> [''Model detection failed for model ID '' @ show_int (mt_model_id result) @ '': '' @
                 unwrap_or (mt_error result) ''unknown error''])"

text \<open>The first price that is no number, with its error.  Negative numbers pass, as do infinities.\<close>

definition f64_error :: "string \<Rightarrow> string" where
  "f64_error s = (if s = '''' then ''cannot parse float from empty string'' else ''invalid float literal'')"

fun bad_price :: "(string \<times> string option) list \<Rightarrow> string option" where
  "bad_price [] = None"
| "bad_price ((name, price) # rest) =
     (case price of
        Some p \<Rightarrow>
          if parses_as_f64 p then bad_price rest
          else Some (''Invalid '' @ name @ '': '' @ f64_error p)
      | None \<Rightarrow> bad_price rest)"

definition model_path :: "int \<Rightarrow> string" where
  "model_path i = ''/models/'' @ show_int i"

definition models_path :: "bool option \<Rightarrow> string" where
  "models_path is_active =
     (case is_active of
        Some v \<Rightarrow> ''/models?is_active='' @ (if v then ''true'' else ''false'')
      | None \<Rightarrow> ''/models'')"

definition handle_model :: "ctl_env \<Rightarrow> model_action \<Rightarrow> api_client \<Rightarrow> bool \<Rightarrow> command" where
  "handle_model ce action c json_output =
     (case action of
        ModelList is_active \<Rightarrow>
          if json_output then print_raw (get_raw ce c (models_path is_active))
          else ask (get_as ce c (read_paginated read_model) (models_path is_active)) (\<lambda>resp.
            print_models (pr_data resp) (print_pagination (pr_pagination resp) finished))
      | ModelShow model \<Rightarrow>
          ask (resolve_model_id ce model c) (\<lambda>i.
            if json_output then print_raw (get_raw ce c (model_path i))
            else ask (get_as ce c read_model (model_path i)) (\<lambda>resp.
              print_lines (model_full_lines resp ''Model details:'') finished))
      | ModelUpdate i is_active description ip op bip bop \<Rightarrow>
          (case bad_price [(''input_token_price'', ip), (''output_token_price'', op),
                  (''batch_input_token_price'', bip), (''batch_output_token_price'', bop)] of
             Some e \<Rightarrow> Done (Inl e)
           | None \<Rightarrow>
               let body = update_model_body is_active description ip op bip bop in
               if json_output then print_raw (put_raw ce c (model_path i) body)
               else ask (put_as ce c read_model (model_path i) body) (\<lambda>resp.
                 print_lines (model_full_lines resp ''Model updated successfully!'') finished))
      | ModelDetect model \<Rightarrow>
          ask (resolve_model_id ce model c) (\<lambda>i.
            let path = model_path i @ ''/tests'' in
            if json_output then print_raw (post_raw_no_body ce c path)
            else Print (''Detecting features for model '' @ model @ ''...'')
              (ask (post_no_body ce c read_model_test path) (\<lambda>result.
                print_lines ('''' # detect_lines result) finished))))"

section \<open>Plans and subscriptions\<close>

datatype plan_action =
    PlanList
  | PlanShow int
  | PlanAdd string int int string int
  | PlanUpdate int "string option" "int option" "int option" "string option" "int option" "string option"
  | PlanCancel int

datatype subscription_action =
    SubscriptionList "string option" "string option"
  | SubscriptionShow int
  | SubscriptionAdd string int
  | SubscriptionUpdate int string
  | SubscriptionCancel int

definition create_plan_body :: "string \<Rightarrow> int \<Rightarrow> int \<Rightarrow> string \<Rightarrow> int \<Rightarrow> json" where
  "create_plan_body description total_token_limit time_span money_limit sort_order = JObj
     [(''description'', JStr description), (''total_token_limit'', JInt total_token_limit),
      (''time_span'', JInt time_span), (''money_limit'', JStr money_limit),
      (''sort_order'', JInt sort_order)]"

definition update_plan_body ::
    "string option \<Rightarrow> int option \<Rightarrow> int option \<Rightarrow> string option \<Rightarrow> int option \<Rightarrow> string option \<Rightarrow> json" where
  "update_plan_body description total_token_limit time_span money_limit sort_order status = JObj
     (some_field ''description'' JStr description @
      some_field ''total_token_limit'' JInt total_token_limit @ some_field ''time_span'' JInt time_span @
      some_field ''money_limit'' JStr money_limit @ some_field ''sort_order'' JInt sort_order @
      some_field ''status'' JStr status)"

definition create_subscription_body :: "int \<Rightarrow> int \<Rightarrow> json" where
  "create_subscription_body account_id i = JObj [(''account_id'', JInt account_id), (''plan_id'', JInt i)]"

definition status_body :: "string \<Rightarrow> json" where
  "status_body status = JObj [(''status'', JStr status)]"

definition print_plans :: "subscription_plan_response list \<Rightarrow> 'a session \<Rightarrow> 'a session" where
  "print_plans = print_table ''No subscription plans found.''
     [(5, ''ID''), (10, ''Status''), (25, ''Description''), (15, ''Token Limit''), (12, ''Time Span''),
      (12, ''Money Limit''), (5, ''Order'')] 90
     (\<lambda>p. [(5, Some (show_int (spr_id p))), (10, Some (spr_status p)),
           (25, truncate_text (spr_description p) 23), (15, Some (show_int (spr_total_token_limit p))),
           (12, Some (show_int (spr_time_span p))), (12, truncate_text (spr_money_limit p) 10),
           (5, Some (show_int (spr_sort_order p)))])"

definition plan_lines :: "subscription_plan_response \<Rightarrow> string list" where
  "plan_lines p =
     [''  ID:                  '' @ show_int (spr_id p), ''  Status:              '' @ spr_status p,
      ''  Description:         '' @ spr_description p,
      ''  Total Token Limit:   '' @ show_int (spr_total_token_limit p),
      ''  Time Span:           '' @ show_int (spr_time_span p),
      ''  Money Limit:         '' @ spr_money_limit p,
      ''  Sort Order:          '' @ show_int (spr_sort_order p),
      ''  Created At:          '' @ spr_created_at p, ''  Updated At:          '' @ spr_updated_at p]"

definition print_subscriptions :: "subscription_response list \<Rightarrow> 'a session \<Rightarrow> 'a session" where
  "print_subscriptions = print_table ''No subscriptions found.''
     [(5, ''ID''), (10, ''Status''), (8, ''Acct ID''), (10, ''Plan ID''), (15, ''Used Tokens''),
      (15, ''Token Limit''), (12, ''Used Money''), (22, ''Created At'')] 110
     (\<lambda>s. [(5, Some (show_int (sbr_id s))), (10, Some (sbr_status s)),
           (8, Some (show_int (sbr_account_id s))), (10, Some (show_int (sbr_plan_id s))),
           (15, Some (show_int (sbr_used_total_tokens s))),
           (15, Some (show_int (sbr_total_token_limit s))), (12, truncate_text (sbr_used_money s) 10),
           (22, Some (sbr_created_at s))])"

definition subscription_lines :: "subscription_response \<Rightarrow> string list" where
  "subscription_lines s =
     [''  ID:                  '' @ show_int (sbr_id s),
      ''  Account ID:          '' @ show_int (sbr_account_id s),
      ''  Plan ID:             '' @ show_int (sbr_plan_id s),
      ''  Status:              '' @ sbr_status s,
      ''  Start At:            '' @ unwrap_or (sbr_start_at s) ''(none)'',
      ''  End At:              '' @ unwrap_or (sbr_end_at s) ''(none)'',
      ''  Used Total Tokens:   '' @ show_int (sbr_used_total_tokens s),
      ''  Total Token Limit:   '' @ show_int (sbr_total_token_limit s),
      ''  Sort Order:          '' @ show_int (sbr_sort_order s),
      ''  Used Money:          '' @ sbr_used_money s,
      ''  Created At:          '' @ sbr_created_at s, ''  Updated At:          '' @ sbr_updated_at s]"

definition plan_path :: "int \<Rightarrow> string" where
  "plan_path i = ''/subscription-plans/'' @ show_int i"

definition handle_subscription_plan :: "ctl_env \<Rightarrow> plan_action \<Rightarrow> api_client \<Rightarrow> bool \<Rightarrow> command" where
  "handle_subscription_plan ce action c json_output =
     (case action of
        PlanList \<Rightarrow>
          if json_output then print_raw (get_raw ce c ''/subscription-plans'')
          else ask (get_as ce c (read_paginated read_plan) ''/subscription-plans'') (\<lambda>resp.
            print_plans (pr_data resp) (print_pagination (pr_pagination resp) finished))
      | PlanShow i \<Rightarrow>
          if json_output then print_raw (get_raw ce c (plan_path i))
          else ask (get_as ce c read_plan (plan_path i)) (\<lambda>resp. print_lines (plan_lines resp) finished)
      | PlanAdd description total_token_limit time_span money_limit sort_order \<Rightarrow>
          let body = create_plan_body description total_token_limit time_span money_limit sort_order in
          if json_output then print_raw (post_raw ce c ''/subscription-plans'' body)
          else ask (post_as ce c read_plan ''/subscription-plans'' body) (\<lambda>resp.
            print_lines ([''Subscription plan created successfully!'', ''''] @ plan_lines resp) finished)
      | PlanUpdate i description total_token_limit time_span money_limit sort_order status \<Rightarrow>
          let body = update_plan_body description total_token_limit time_span money_limit sort_order status in
          if json_output then print_raw (put_raw ce c (plan_path i) body)
          else ask (put_as ce c read_plan (plan_path i) body) (\<lambda>resp.
            print_lines ([''Subscription plan updated successfully!'', ''''] @ plan_lines resp) finished)
      | PlanCancel i \<Rightarrow>
          if json_output then print_raw (delete_raw ce c (plan_path i))
          else ask (delete_as ce c read_plan (plan_path i)) (\<lambda>resp.
            print_lines ([''Subscription plan deactivated.'', ''''] @ plan_lines resp) finished))"

definition subscription_path :: "int \<Rightarrow> string" where
  "subscription_path i = ''/subscriptions/'' @ show_int i"

definition subscriptions_path :: "int option \<Rightarrow> string option \<Rightarrow> string" where
  "subscriptions_path account_id status =
     (let parts = (case account_id of None \<Rightarrow> [] | Some i \<Rightarrow> [''account_id='' @ show_int i]) @
                  (case status of None \<Rightarrow> [] | Some s \<Rightarrow> [''status='' @ s])
      in if parts = [] then ''/subscriptions'' else ''/subscriptions?'' @ join ''&'' parts)"

definition list_subscriptions_command ::
    "ctl_env \<Rightarrow> api_client \<Rightarrow> bool \<Rightarrow> int option \<Rightarrow> string option \<Rightarrow> command" where
  "list_subscriptions_command ce c json_output account_id status =
     (let path = subscriptions_path account_id status in
      if json_output then print_raw (get_raw ce c path)
      else ask (get_as ce c (read_paginated read_subscription) path) (\<lambda>resp.
        print_subscriptions (pr_data resp) (print_pagination (pr_pagination resp) finished)))"

definition handle_subscription :: "ctl_env \<Rightarrow> subscription_action \<Rightarrow> api_client \<Rightarrow> bool \<Rightarrow> command" where
  "handle_subscription ce action c json_output =
     (case action of
        SubscriptionList account status \<Rightarrow>
          (case account of
             None \<Rightarrow> list_subscriptions_command ce c json_output None status
           | Some acct \<Rightarrow> ask (resolve_account_id ce acct c) (\<lambda>account_id.
               list_subscriptions_command ce c json_output (Some account_id) status))
      | SubscriptionShow i \<Rightarrow>
          if json_output then print_raw (get_raw ce c (subscription_path i))
          else ask (get_as ce c read_subscription (subscription_path i)) (\<lambda>resp.
            print_lines (subscription_lines resp) finished)
      | SubscriptionAdd account i \<Rightarrow>
          ask (resolve_account_id ce account c) (\<lambda>account_id.
            let body = create_subscription_body account_id i in
            if json_output then print_raw (post_raw ce c ''/subscriptions'' body)
            else ask (post_as ce c read_subscription ''/subscriptions'' body) (\<lambda>resp.
              print_lines ([''Subscription created successfully!'', ''''] @ subscription_lines resp) finished))
      | SubscriptionUpdate i status \<Rightarrow>
          if json_output then print_raw (put_raw ce c (subscription_path i) (status_body status))
          else ask (put_as ce c read_subscription (subscription_path i) (status_body status)) (\<lambda>resp.
            print_lines ([''Subscription updated successfully!'', ''''] @ subscription_lines resp) finished)
      | SubscriptionCancel i \<Rightarrow>
          if json_output then print_raw (delete_raw ce c (subscription_path i))
          else ask (delete_as ce c read_subscription (subscription_path i)) (\<lambda>resp.
            print_lines ([''Subscription deactivated.'', ''''] @ subscription_lines resp) finished))"

section \<open>The main function\<close>

datatype cli_command =
    CliUpstream upstream_action
  | CliModel model_action
  | CliAccount account_action
  | CliApikey apikey_action
  | CliWallet wallet_action
  | CliSessionevents session_event_action
  | CliSubscriptionPlan plan_action
  | CliSubscription subscription_action

definition handle_command :: "ctl_env \<Rightarrow> cli_command \<Rightarrow> api_client \<Rightarrow> bool \<Rightarrow> command" where
  "handle_command ce cmd c json_output =
     (case cmd of
        CliUpstream a \<Rightarrow> handle_upstream ce a c json_output
      | CliModel a \<Rightarrow> handle_model ce a c json_output
      | CliAccount a \<Rightarrow> handle_account ce a c json_output
      | CliApikey a \<Rightarrow> handle_apikey ce a c json_output
      | CliWallet a \<Rightarrow> handle_wallet ce a c json_output
      | CliSessionevents a \<Rightarrow> handle_session_event ce a c json_output
      | CliSubscriptionPlan a \<Rightarrow> handle_subscription_plan ce a c json_output
      | CliSubscription a \<Rightarrow> handle_subscription ce a c json_output)"

text \<open>The result is the exit code and what goes to the error stream.  Parsing the arguments (crate
  \<^verbatim>\<open>clap\<close>) comes before.\<close>

definition ctl_main ::
    "ctl_env \<Rightarrow> string option \<Rightarrow> string option \<Rightarrow> string \<Rightarrow> cli_command \<Rightarrow> (int \<times> string list) session" where
  "ctl_main ce admin_url admin_token format cmd =
     (case admin_url of
        None \<Rightarrow> Done (1, [''Error: LLMPOOL_ADMIN_URL environment variable is not set.'',
          ''Set it directly or add it to a .env file in the current directory.''])
      | Some url \<Rightarrow>
          (case admin_token of
             None \<Rightarrow> Done (1, [''Error: LLMPOOL_ADMIN_TOKEN environment variable is not set.'',
               ''Set it directly or add it to a .env file in the current directory.''])
           | Some token \<Rightarrow>
               and_then (handle_command ce cmd (new_client url token) (format = ''json'')) (\<lambda>r.
                 case r of Inl e \<Rightarrow> Done (1, [''Error: '' @ e]) | Inr _ \<Rightarrow> Done (0, []))))"

end
