(* ===== verification/ControlRoutes.thy ===== *)
theory ControlRoutes
  imports ControlCatalog AdminServer
begin

text \<open>
  What each command asks of the server: its request, and the handler and arguments that request is meant
  for.  The lemmas show that the commands send these requests and that the routes of \<open>AdminServer\<close> take
  them there.
\<close>

section \<open>Bodies the client writes and the server reads\<close>

lemma fst_some_field [simp]:
  "k' \<in> fst ` set (some_field k f x) \<longleftrightarrow> x \<noteq> None \<and> k' = k"
  by (cases x) (auto simp: some_field_def)

lemma disjoint_some_field [simp]:
  "fst ` set (some_field k f x) \<inter> B = {} \<longleftrightarrow> x = None \<or> k \<notin> B"
  by (cases x) (auto simp: some_field_def)

lemma distinct_some_field [simp]: "distinct (map fst (some_field k f x))"
  by (cases x) (simp_all add: some_field_def)

lemma map_of_some_field [simp]:
  "map_of (some_field k f x) k' = (if k' = k then map_option f x else None)"
  by (cases x) (auto simp: some_field_def)

lemma add_some_field [simp]:
  "(m ++ map_of (some_field k f x)) k' =
     (if k' = k then case x of None \<Rightarrow> m k' | Some v \<Rightarrow> Some (f v) else m k')"
  by (cases x) (auto simp: map_add_def)

lemma given_or_absent [simp]: "(case x of None \<Rightarrow> None | Some v \<Rightarrow> Some (f v)) = map_option f x"
  by (cases x) simp_all

lemma map_of_list_field [simp]:
  "map_of (list_field k xs) k' = (if k' = k \<and> xs \<noteq> [] then Some (strings_json xs) else None)"
  by (simp add: list_field_def)

lemma distinct_list_field [simp]:
  "distinct (map fst (list_field k xs))" "k' \<in> fst ` set (list_field k xs) \<longleftrightarrow> xs \<noteq> [] \<and> k' = k"
  "fst ` set (list_field k xs) \<inter> B = {} \<longleftrightarrow> xs = [] \<or> k \<notin> B"
  by (simp_all add: list_field_def)

lemma opt_map_option [simp]:
  "opt as_str (map_option JStr x) = Some x"
  "opt read_bool (map_option JBool b) = Some b"
  "opt (read_list as_str) (map_option strings_json ts) = Some ts"
  "pred_option in_i64 i \<Longrightarrow> opt read_i64 (map_option JInt i) = Some i"
  by (cases x; cases b; cases ts; cases i; simp add: strings_json_def opt_def)+


lemma read_account_bodies [simp]:
  "read_create_account (create_account_body n) = Some n"
  "read_update_account (update_account_body name a) = Some (name, a)"
  "read_create_apikey (create_apikey_body l) = Some l"
  "read_tag (add_tag_body t) = Some t"
  "read_status (status_body s) = Some s"
  by (simp_all add: read_create_account_def create_account_body_def read_update_account_def
      update_account_body_def read_create_apikey_def create_apikey_body_def read_tag_def add_tag_body_def
      read_status_def status_body_def cong: option.case_cong)

lemma read_upstream_bodies [simp]:
  "read_create_upstream (create_upstream_body n k b p ts ps) =
     Some \<lparr>cur_name = n, cur_api_key = k, cur_api_base = b, cur_provider = p, cur_tags = ts, cur_proxies = ps\<rparr>"
  "read_update_upstream (update_upstream_body u) = Some u"
  by (cases ts; cases ps; simp add: read_create_upstream_def create_upstream_body_def list_field_def)
    (simp add: read_update_upstream_def update_upstream_body_def cong: option.case_cong)

lemma read_change_body [simp]:
  "in_i64 i \<Longrightarrow> read_change dec (change_body i rid amount) =
     map_option (\<lambda>d. \<lparr>cq_account_id = i, cq_unique_request_id = rid, cq_amount = d\<rparr>) (dec (JStr amount))"
  by (cases "dec (JStr amount)") (simp_all add: read_change_def change_body_def)

lemma read_create_plan_body [simp]:
  "in_i64 n \<Longrightarrow> in_i64 t \<Longrightarrow> in_i64 o' \<Longrightarrow> read_create_plan dec (create_plan_body d n t m o') =
     map_option (\<lambda>x. \<lparr>cpr_description = d, cpr_total_token_limit = n, cpr_time_span = t,
       cpr_money_limit = x, cpr_sort_order = o'\<rparr>) (dec (JStr m))"
  by (cases "dec (JStr m)") (simp_all add: read_create_plan_def create_plan_body_def)

lemma read_subscription_body [simp]:
  "in_i64 a \<Longrightarrow> in_i64 i \<Longrightarrow> read_create_subscription (create_subscription_body a i) = Some (a, i)"
  by (simp add: read_create_subscription_def create_subscription_body_def)

text \<open>An optional amount that is given must be read; \<open>None\<close> is a refusal.\<close>

definition read_amount :: "(json \<Rightarrow> decimal option) \<Rightarrow> string option \<Rightarrow> decimal option option" where
  "read_amount dec x = (case x of None \<Rightarrow> Some None | Some s \<Rightarrow> map_option Some (dec (JStr s)))"

lemma opt_amount [simp]: "opt dec (map_option JStr x) = read_amount dec x"
  by (cases x) (simp_all add: read_amount_def)

lemma read_update_plan_body [simp]:
  assumes "pred_option in_i64 n" and "pred_option in_i64 t" and "pred_option in_i64 k"
  shows "read_update_plan dec (update_plan_body d n t m k s) =
     map_option (\<lambda>x. \<lparr>upr_description = d, upr_total_token_limit = n, upr_time_span = t,
       upr_money_limit = x, upr_sort_order = k, upr_status = s\<rparr>) (read_amount dec m)"
  using assms by (cases "read_amount dec m") (simp_all add: read_update_plan_def update_plan_body_def
      cong: option.case_cong)

lemma read_update_model_body [simp]:
  "read_update_model dec (update_model_body a d ip op' bip bop) = do {
     ip \<leftarrow> read_amount dec ip; op' \<leftarrow> read_amount dec op'; bip \<leftarrow> read_amount dec bip; bop \<leftarrow> read_amount dec bop;
     Some \<lparr>umr_is_active = a, umr_description = d, umr_input_token_price = ip,
           umr_output_token_price = op', umr_batch_input_token_price = bip,
           umr_batch_output_token_price = bop\<rparr> }"
  by (simp add: read_update_model_def update_model_body_def cong: option.case_cong)

section \<open>The request of a command\<close>

text \<open>
  \<open>numeric s k\<close>: the name of an account, upstream or model that a command resolves first, when it is a
  number and no lookup is needed.
\<close>

definition numeric :: "string \<Rightarrow> (int \<Rightarrow> 'a option) \<Rightarrow> 'a option" where
  "numeric s k = Option.bind (parse_i64 s) k"

text \<open>Method, path segments, query and body.\<close>

type_synonym request_parts = "string \<times> string list \<times> query \<times> json option"

definition account_request :: "account_action \<Rightarrow> request_parts option" where
  "account_request a =
     (case a of
        AccountList \<Rightarrow> Some (''GET'', [''accounts''], [], None)
      | AccountShow s \<Rightarrow> Some (case parse_i64 s of
            Some i \<Rightarrow> (''GET'', [''accounts'', show_int i], [], None)
          | None \<Rightarrow> (''GET'', [''accounts_by_name'', s], [], None))
      | AccountAdd n \<Rightarrow> Some (''POST'', [''accounts''], [], Some (create_account_body n))
      | AccountUpdate s n act \<Rightarrow> numeric s (\<lambda>i.
          Some (''PUT'', [''accounts'', show_int i], [], Some (update_account_body n act))))"

definition apikey_request :: "apikey_action \<Rightarrow> request_parts option" where
  "apikey_request a =
     (case a of
        ApiKeyList s \<Rightarrow> numeric s (\<lambda>i. Some (''GET'', [''accounts'', show_int i, ''apikeys''], [], None))
      | ApiKeyAdd s l \<Rightarrow> numeric s (\<lambda>i.
          Some (''POST'', [''accounts'', show_int i, ''apikeys''], [], Some (create_apikey_body l)))
      | ApiKeyShow k \<Rightarrow> Some (''GET'', [''apikeys'', k], [], None)
      | ApiKeyDelete k \<Rightarrow> Some (''DELETE'', [''apikeys'', k], [], None))"

definition wallet_request :: "wallet_action \<Rightarrow> request_parts option" where
  "wallet_request a =
     (case a of
        WalletShow s \<Rightarrow> numeric s (\<lambda>i. Some (''GET'', [''accounts'', show_int i, ''wallet''], [], None))
      | WalletDeposit s amount rid \<Rightarrow> numeric s (\<lambda>i.
          Some (''POST'', [''deposits''], [], Some (change_body i rid amount)))
      | WalletWithdraw s amount rid \<Rightarrow> numeric s (\<lambda>i.
          Some (''POST'', [''withdrawals''], [], Some (change_body i rid amount)))
      | WalletCredit s amount rid \<Rightarrow> numeric s (\<lambda>i.
          Some (''POST'', [''credits''], [], Some (change_body i rid amount))))"

definition session_event_request :: "session_event_action \<Rightarrow> request_parts option" where
  "session_event_request a =
     (case a of
        SessionEventList session start cnt \<Rightarrow> Some (''GET'', [''session-events''],
          [(''start'', show_int start), (''count'', show_int cnt)] @
          (case session of None \<Rightarrow> [] | Some sid \<Rightarrow> [(''session'', sid)]), None)
      | SessionEventGet i \<Rightarrow> Some (''GET'', [''session-events'', show_int i], [], None))"

definition upstream_request :: "upstream_action \<Rightarrow> request_parts option" where
  "upstream_request a =
     (case a of
        UpstreamList \<Rightarrow> Some (''GET'', [''upstreams''], [], None)
      | UpstreamTest k b \<Rightarrow> Some (''POST'', [''upstream-tests''], [], Some (test_upstream_body k b))
      | UpstreamAdd n k b p d ts ps \<Rightarrow> Some (''POST'', [''upstreams''], [],
          Some (create_upstream_body n k b p (unwrap_or (map_option parse_comma_list ts) [])
            (unwrap_or (map_option parse_comma_list ps) [])))
      | UpstreamUpdate u n p d ts ps st \<Rightarrow> numeric u (\<lambda>i.
          Some (''PUT'', [''upstreams'', show_int i], [], Some (update_upstream_body
            \<lparr>uur_name = n, uur_provider = p, uur_tags = map_option parse_comma_list ts,
             uur_proxies = map_option parse_comma_list ps, uur_description = d, uur_status = st\<rparr>)))
      | UpstreamListtags u \<Rightarrow> numeric u (\<lambda>i. Some (''GET'', [''upstreams'', show_int i, ''tags''], [], None))
      | UpstreamAddtag u t \<Rightarrow> numeric u (\<lambda>i.
          Some (''POST'', [''upstreams'', show_int i, ''tags''], [], Some (add_tag_body t)))
      | UpstreamDeltag u t \<Rightarrow> numeric u (\<lambda>i.
          Some (''DELETE'', [''upstreams'', show_int i, ''tags'', t], [], None)))"

definition model_request :: "model_action \<Rightarrow> request_parts option" where
  "model_request a =
     (case a of
        ModelList act \<Rightarrow> Some (''GET'', [''models''],
          (case act of None \<Rightarrow> [] | Some v \<Rightarrow> [(''is_active'', if v then ''true'' else ''false'')]), None)
      | ModelShow m \<Rightarrow> numeric m (\<lambda>i. Some (''GET'', [''models'', show_int i], [], None))
      | ModelUpdate i act d ip op' bip bop \<Rightarrow>
          if bad_price [(''input_token_price'', ip), (''output_token_price'', op'),
               (''batch_input_token_price'', bip), (''batch_output_token_price'', bop)] = None
          then Some (''PUT'', [''models'', show_int i], [], Some (update_model_body act d ip op' bip bop))
          else None
      | ModelDetect m \<Rightarrow> numeric m (\<lambda>i. Some (''POST'', [''models'', show_int i, ''tests''], [], None)))"

definition plan_request :: "plan_action \<Rightarrow> request_parts option" where
  "plan_request a =
     (case a of
        PlanList \<Rightarrow> Some (''GET'', [''subscription-plans''], [], None)
      | PlanShow i \<Rightarrow> Some (''GET'', [''subscription-plans'', show_int i], [], None)
      | PlanAdd d n t m o' \<Rightarrow>
          Some (''POST'', [''subscription-plans''], [], Some (create_plan_body d n t m o'))
      | PlanUpdate i d n t m o' s \<Rightarrow>
          Some (''PUT'', [''subscription-plans'', show_int i], [], Some (update_plan_body d n t m o' s))
      | PlanCancel i \<Rightarrow> Some (''DELETE'', [''subscription-plans'', show_int i], [], None))"

definition subscription_request :: "subscription_action \<Rightarrow> request_parts option" where
  "subscription_request a =
     (case a of
        SubscriptionList acct st \<Rightarrow>
          (case acct of
             None \<Rightarrow> Some (''GET'', [''subscriptions''],
               (case st of None \<Rightarrow> [] | Some s \<Rightarrow> [(''status'', s)]), None)
           | Some name \<Rightarrow> numeric name (\<lambda>i. Some (''GET'', [''subscriptions''],
               (''account_id'', show_int i) # (case st of None \<Rightarrow> [] | Some s \<Rightarrow> [(''status'', s)]), None)))
      | SubscriptionShow i \<Rightarrow> Some (''GET'', [''subscriptions'', show_int i], [], None)
      | SubscriptionAdd acct p \<Rightarrow> numeric acct (\<lambda>i.
          Some (''POST'', [''subscriptions''], [], Some (create_subscription_body i p)))
      | SubscriptionUpdate i s \<Rightarrow> Some (''PUT'', [''subscriptions'', show_int i], [], Some (status_body s))
      | SubscriptionCancel i \<Rightarrow> Some (''DELETE'', [''subscriptions'', show_int i], [], None))"

definition command_request :: "cli_command \<Rightarrow> request_parts option" where
  "command_request cmd =
     (case cmd of
        CliUpstream a \<Rightarrow> upstream_request a
      | CliModel a \<Rightarrow> model_request a
      | CliAccount a \<Rightarrow> account_request a
      | CliApikey a \<Rightarrow> apikey_request a
      | CliWallet a \<Rightarrow> wallet_request a
      | CliSessionevents a \<Rightarrow> session_event_request a
      | CliSubscriptionPlan a \<Rightarrow> plan_request a
      | CliSubscription a \<Rightarrow> subscription_request a)"

text \<open>The text of a path with its query.\<close>

definition path_text :: "string list \<Rightarrow> query \<Rightarrow> string" where
  "path_text segs q =
     concat (map (\<lambda>s. ''/'' @ s) segs) @
     (if q = [] then '''' else ''?'' @ join ''&'' (map (\<lambda>(k, v). k @ ''='' @ v) q))"

lemmas command_request_defs = command_request_def account_request_def apikey_request_def
  wallet_request_def session_event_request_def upstream_request_def model_request_def plan_request_def
  subscription_request_def numeric_def

lemmas raw_calls = get_raw_def post_raw_def put_raw_def delete_raw_def post_raw_no_body_def

lemma handle_json:
  assumes "command_request cmd = Some (m, segs, q, body)"
  shows "handle_command ce cmd c True =
    print_raw (send (call c m (path_text segs q) body) (handle_response_raw ce))"
proof (cases cmd)
  case (CliUpstream a)
  then show ?thesis
    using assms
    by (cases a) (auto simp: handle_command_def handle_upstream_def command_request_defs raw_calls
        path_text_def resolve_upstream_id_def upstream_path_def Let_def bind_eq_Some_conv)
next
  case (CliModel a)
  then show ?thesis
    using assms
    by (cases a) (auto simp: handle_command_def handle_model_def command_request_defs raw_calls
        path_text_def resolve_model_id_def model_path_def models_path_def join_def Let_def
        bind_eq_Some_conv split: option.splits if_splits)
next
  case (CliAccount a)
  then show ?thesis
    using assms
    by (cases a) (auto simp: handle_command_def handle_account_def command_request_defs raw_calls
        path_text_def resolve_account_id_def account_path_def Let_def bind_eq_Some_conv
        split: option.splits)
next
  case (CliApikey a)
  then show ?thesis
    using assms
    by (cases a) (auto simp: handle_command_def handle_apikey_def command_request_defs raw_calls
        path_text_def resolve_account_id_def account_apikeys_path_def bind_eq_Some_conv)
next
  case (CliWallet a)
  then show ?thesis
    using assms
    by (cases a) (auto simp: handle_command_def handle_wallet_def submit_command_def
        command_request_defs raw_calls path_text_def resolve_account_id_def Let_def bind_eq_Some_conv)
next
  case (CliSessionevents a)
  then show ?thesis
    using assms
    by (cases a) (auto simp: handle_command_def handle_session_event_def command_request_defs raw_calls
        path_text_def session_events_path_def join_def Let_def split: option.splits)
next
  case (CliSubscriptionPlan a)
  then show ?thesis
    using assms
    by (cases a) (auto simp: handle_command_def handle_subscription_plan_def command_request_defs
        raw_calls path_text_def plan_path_def Let_def)
next
  case (CliSubscription a)
  then show ?thesis
    using assms
    by (cases a) (auto simp: handle_command_def handle_subscription_def list_subscriptions_command_def
        command_request_defs raw_calls path_text_def subscription_path_def subscriptions_path_def
        resolve_account_id_def join_def Let_def bind_eq_Some_conv split: option.splits)
qed

section \<open>The handler a command is meant for\<close>

definition first_page :: pagination_params where
  "first_page = \<lparr>pp_page = 1, pp_page_size = DEFAULT_PAGE_SIZE\<rparr>"

definition accepted :: "'a option \<Rightarrow> rejection + 'a" where
  "accepted x = (case x of None \<Rightarrow> Inl BadBody | Some v \<Rightarrow> Inr v)"

text \<open>An empty parameter is no segment of a path.\<close>

definition named :: "string \<Rightarrow> admin_call \<Rightarrow> rejection + admin_call" where
  "named s k = (if s = '''' then Inl NoRoute else Inr k)"

definition by_id :: "string \<Rightarrow> (int \<Rightarrow> rejection + admin_call) \<Rightarrow> rejection + admin_call" where
  "by_id s k = (case parse_i64 s of None \<Rightarrow> Inl BadPath | Some i \<Rightarrow> k i)"

definition change_call ::
    "(json \<Rightarrow> decimal option) \<Rightarrow> (change_request \<Rightarrow> admin_call) \<Rightarrow> string \<Rightarrow> string \<Rightarrow> string \<Rightarrow> rejection + admin_call"
  where "change_call dec k s amount rid = by_id s (\<lambda>i.
     accepted (map_option (\<lambda>d. k \<lparr>cq_account_id = i, cq_unique_request_id = rid, cq_amount = d\<rparr>)
       (dec (JStr amount))))"

definition account_call :: "account_action \<Rightarrow> rejection + admin_call" where
  "account_call a =
     (case a of
        AccountList \<Rightarrow> Inr (ListAccounts first_page)
      | AccountShow s \<Rightarrow> (case parse_i64 s of Some i \<Rightarrow> Inr (GetAccount i) | None \<Rightarrow> named s (GetAccountByName s))
      | AccountAdd n \<Rightarrow> Inr (CreateAccount n)
      | AccountUpdate s n act \<Rightarrow> by_id s (\<lambda>i. Inr (UpdateAccount i n act)))"

definition apikey_call :: "apikey_action \<Rightarrow> rejection + admin_call" where
  "apikey_call a =
     (case a of
        ApiKeyList s \<Rightarrow> by_id s (\<lambda>i. Inr (ListApiKeys i first_page))
      | ApiKeyAdd s l \<Rightarrow> by_id s (\<lambda>i. Inr (CreateApiKey i l))
      | ApiKeyShow k \<Rightarrow> named k (GetApiKey k)
      | ApiKeyDelete k \<Rightarrow> named k (DeleteApiKey k))"

definition wallet_call :: "(json \<Rightarrow> decimal option) \<Rightarrow> wallet_action \<Rightarrow> rejection + admin_call" where
  "wallet_call dec a =
     (case a of
        WalletShow s \<Rightarrow> by_id s (\<lambda>i. Inr (GetWallet i))
      | WalletDeposit s amount rid \<Rightarrow> change_call dec CreateDeposit s amount rid
      | WalletWithdraw s amount rid \<Rightarrow> change_call dec CreateWithdraw s amount rid
      | WalletCredit s amount rid \<Rightarrow> change_call dec CreateCredit s amount rid)"

definition session_event_call :: "session_event_action \<Rightarrow> rejection + admin_call" where
  "session_event_call a =
     (case a of
        SessionEventList session start cnt \<Rightarrow>
          Inr (ListSessionEvents \<lparr>lse_session = session, lse_start = start, lse_count = cnt\<rparr>)
      | SessionEventGet i \<Rightarrow> Inr (GetSessionEvent i))"

text \<open>The server has no route for \<^verbatim>\<open>upstream test\<close>.\<close>

definition upstream_call :: "upstream_action \<Rightarrow> rejection + admin_call" where
  "upstream_call a =
     (case a of
        UpstreamList \<Rightarrow> Inr (ListUpstreams first_page)
      | UpstreamTest k b \<Rightarrow> Inl NoRoute
      | UpstreamAdd n k b p d ts ps \<Rightarrow> Inr (CreateUpstream
          \<lparr>cur_name = n, cur_api_key = k, cur_api_base = b, cur_provider = p,
           cur_tags = unwrap_or (map_option parse_comma_list ts) [],
           cur_proxies = unwrap_or (map_option parse_comma_list ps) []\<rparr>)
      | UpstreamUpdate u n p d ts ps st \<Rightarrow> by_id u (\<lambda>i. Inr (UpdateUpstream i
          \<lparr>uur_name = n, uur_provider = p, uur_tags = map_option parse_comma_list ts,
           uur_proxies = map_option parse_comma_list ps, uur_description = d, uur_status = st\<rparr>))
      | UpstreamListtags u \<Rightarrow> by_id u (\<lambda>i. Inr (ListTags i))
      | UpstreamAddtag u t \<Rightarrow> by_id u (\<lambda>i. Inr (AddTag i t))
      | UpstreamDeltag u t \<Rightarrow> by_id u (\<lambda>i. named t (RemoveTag i t)))"

definition model_call :: "(json \<Rightarrow> decimal option) \<Rightarrow> model_action \<Rightarrow> rejection + admin_call" where
  "model_call dec a =
     (case a of
        ModelList act \<Rightarrow> Inr (ListModels
          \<lparr>lmf_upstream_id = None, lmf_upstream_name = None, lmf_name = None, lmf_is_active = act\<rparr> first_page)
      | ModelShow m \<Rightarrow> by_id m (\<lambda>i. Inr (GetModel i))
      | ModelUpdate i act d ip op' bip bop \<Rightarrow>
          accepted (do {
            ip \<leftarrow> read_amount dec ip; op' \<leftarrow> read_amount dec op'; bip \<leftarrow> read_amount dec bip;
            bop \<leftarrow> read_amount dec bop;
            Some (UpdateModel i
              \<lparr>umr_is_active = act, umr_description = d, umr_input_token_price = ip,
               umr_output_token_price = op', umr_batch_input_token_price = bip,
               umr_batch_output_token_price = bop\<rparr>) })
      | ModelDetect m \<Rightarrow> by_id m (\<lambda>i. Inr (TestModel i)))"

definition plan_call :: "(json \<Rightarrow> decimal option) \<Rightarrow> plan_action \<Rightarrow> rejection + admin_call" where
  "plan_call dec a =
     (case a of
        PlanList \<Rightarrow> Inr (ListPlans first_page)
      | PlanShow i \<Rightarrow> Inr (GetPlan i)
      | PlanAdd d n t m o' \<Rightarrow> accepted (map_option (\<lambda>x. CreatePlan
          \<lparr>cpr_description = d, cpr_total_token_limit = n, cpr_time_span = t, cpr_money_limit = x,
           cpr_sort_order = o'\<rparr>) (dec (JStr m)))
      | PlanUpdate i d n t m o' s \<Rightarrow> accepted (map_option (\<lambda>x. UpdatePlan i
          \<lparr>upr_description = d, upr_total_token_limit = n, upr_time_span = t, upr_money_limit = x,
           upr_sort_order = o', upr_status = s\<rparr>) (read_amount dec m))
      | PlanCancel i \<Rightarrow> Inr (CancelPlan i))"

definition subscription_call :: "subscription_action \<Rightarrow> rejection + admin_call" where
  "subscription_call a =
     (case a of
        SubscriptionList acct st \<Rightarrow>
          (case acct of
             None \<Rightarrow> Inr (ListSubscriptions None st first_page)
           | Some name \<Rightarrow> by_id name (\<lambda>i. Inr (ListSubscriptions (Some i) st first_page)))
      | SubscriptionShow i \<Rightarrow> Inr (GetSubscription i)
      | SubscriptionAdd acct p \<Rightarrow> by_id acct (\<lambda>i. Inr (CreateSubscription i p))
      | SubscriptionUpdate i s \<Rightarrow> Inr (UpdateSubscription i s)
      | SubscriptionCancel i \<Rightarrow> Inr (CancelSubscription i))"

definition command_call :: "(json \<Rightarrow> decimal option) \<Rightarrow> cli_command \<Rightarrow> rejection + admin_call" where
  "command_call dec cmd =
     (case cmd of
        CliUpstream a \<Rightarrow> upstream_call a
      | CliModel a \<Rightarrow> model_call dec a
      | CliAccount a \<Rightarrow> account_call a
      | CliApikey a \<Rightarrow> apikey_call a
      | CliWallet a \<Rightarrow> wallet_call dec a
      | CliSessionevents a \<Rightarrow> session_event_call a
      | CliSubscriptionPlan a \<Rightarrow> plan_call dec a
      | CliSubscription a \<Rightarrow> subscription_call a)"

text \<open>The integers of a command line are of type \<^verbatim>\<open>i64\<close>.\<close>

definition i64_args :: "cli_command \<Rightarrow> int list" where
  "i64_args cmd =
     (case cmd of
        CliModel (ModelUpdate i act d ip op' bip bop) \<Rightarrow> [i]
      | CliSessionevents (SessionEventList session start cnt) \<Rightarrow> [start, cnt]
      | CliSessionevents (SessionEventGet i) \<Rightarrow> [i]
      | CliSubscriptionPlan (PlanShow i) \<Rightarrow> [i]
      | CliSubscriptionPlan (PlanAdd d n t m o') \<Rightarrow> [n, t, o']
      | CliSubscriptionPlan (PlanUpdate i d n t m o' s) \<Rightarrow>
          i # concat (map (\<lambda>x. case x of None \<Rightarrow> [] | Some v \<Rightarrow> [v]) [n, t, o'])
      | CliSubscriptionPlan (PlanCancel i) \<Rightarrow> [i]
      | CliSubscription (SubscriptionShow i) \<Rightarrow> [i]
      | CliSubscription (SubscriptionAdd acct p) \<Rightarrow> [p]
      | CliSubscription (SubscriptionUpdate i s) \<Rightarrow> [i]
      | CliSubscription (SubscriptionCancel i) \<Rightarrow> [i]
      | _ \<Rightarrow> [])"

lemma parse_i64_in_range: "parse_i64 s = Some i \<Longrightarrow> in_i64 i"
  by (auto simp: parse_i64_def Let_def split: prod.splits if_splits)

lemma show_int_not_empty [simp]: "show_int i \<noteq> []"
  using show_nat_all_digits by (auto simp: show_int_def)

lemma with_i64_show [simp]: "in_i64 i \<Longrightarrow> with_i64 (show_int i) k = k i"
  by (simp add: with_i64_def)

lemma with_body_some [simp]: "with_body p (Some j) k = accepted (map_option k (p j))"
  by (simp add: with_body_def accepted_def split: option.splits)

lemma accepted_some [simp]: "accepted (Some x) = Inr x"
  by (simp add: accepted_def)

lemmas command_call_defs = command_call_def account_call_def apikey_call_def wallet_call_def
  session_event_call_def upstream_call_def model_call_def plan_call_def subscription_call_def by_id_def
  named_def change_call_def

lemmas routes = route_admin_def route1_def route2_def route3_def by_method_def

lemma read_first_page [simp]: "read_page [] = Some first_page"
  by (simp add: read_page_def query_field_def pagination_params_of_def first_page_def)

lemma pred_option_listed:
  "list_all in_i64 (case x of None \<Rightarrow> [] | Some v \<Rightarrow> [v]) \<longleftrightarrow> pred_option in_i64 x"
  by (cases x) simp_all

lemma account_routed:
  assumes "account_request a = Some (m, segs, q, body)"
  shows "route_admin dec m segs q body = account_call a"
  using assms
  by (cases a) (auto simp: command_request_defs command_call_defs routes with_query_def
      bind_eq_Some_conv parse_i64_in_range split: option.splits)

lemma apikey_routed:
  assumes "apikey_request a = Some (m, segs, q, body)"
  shows "route_admin dec m segs q body = apikey_call a"
  using assms
  by (cases a) (auto simp: command_request_defs command_call_defs routes with_query_def
      bind_eq_Some_conv parse_i64_in_range)

lemma wallet_routed:
  assumes "wallet_request a = Some (m, segs, q, body)"
  shows "route_admin dec m segs q body = wallet_call dec a"
  using assms
  by (cases a) (auto simp: command_request_defs command_call_defs routes bind_eq_Some_conv
      parse_i64_in_range option.map_comp comp_def)

lemma session_event_routed:
  assumes "session_event_request a = Some (m, segs, q, body)"
    and "list_all in_i64 (i64_args (CliSessionevents a))"
  shows "route_admin dec m segs q body = session_event_call a"
  using assms
  by (cases a) (auto simp: command_request_defs command_call_defs routes with_query_def i64_args_def
      read_events_query_def query_field_def split: option.splits)

lemma upstream_routed:
  assumes "upstream_request a = Some (m, segs, q, body)"
  shows "route_admin dec m segs q body = upstream_call a"
  using assms
  by (cases a) (auto simp: command_request_defs command_call_defs routes with_query_def
      bind_eq_Some_conv parse_i64_in_range)

lemma model_routed:
  assumes "model_request a = Some (m, segs, q, body)" and "list_all in_i64 (i64_args (CliModel a))"
  shows "route_admin dec m segs q body = model_call dec a"
  using assms
  by (cases a) (auto simp: command_request_defs command_call_defs routes with_query_def i64_args_def
      bind_eq_Some_conv parse_i64_in_range read_model_filter_def query_field_def parse_bool_def
      read_page_def pagination_params_of_def first_page_def accepted_def
      split: option.splits if_splits Option.bind_splits)

lemma plan_routed:
  assumes "plan_request a = Some (m, segs, q, body)"
    and "list_all in_i64 (i64_args (CliSubscriptionPlan a))"
  shows "route_admin dec m segs q body = plan_call dec a"
  using assms
  by (cases a) (auto simp: command_request_defs command_call_defs routes with_query_def i64_args_def
      option.map_comp comp_def pred_option_listed)

lemma subscription_routed:
  assumes "subscription_request a = Some (m, segs, q, body)"
    and "list_all in_i64 (i64_args (CliSubscription a))"
  shows "route_admin dec m segs q body = subscription_call a"
  using assms
  by (cases a) (auto simp: command_request_defs command_call_defs routes with_query_def i64_args_def
      bind_eq_Some_conv parse_i64_in_range read_subscriptions_query_def query_field_def read_page_def
      pagination_params_of_def first_page_def split: option.splits)

lemma command_routed:
  assumes "command_request cmd = Some (m, segs, q, body)" and "list_all in_i64 (i64_args cmd)"
  shows "route_admin dec m segs q body = command_call dec cmd"
  using assms
  by (cases cmd) (auto simp: command_request_def command_call_def account_routed apikey_routed
      wallet_routed session_event_routed upstream_routed model_routed plan_routed subscription_routed)

end
