(* ===== verification/ControlClaims.thy ===== *)
theory ControlClaims
  imports ControlRoutes
begin

text \<open>
  The command line client and the admin API together: the client reads every answer of the server, with
  \<^verbatim>\<open>--format json\<close> a command is the handler it is meant for, a command writes at most once,
  and where it fails.
\<close>

section \<open>The client's server\<close>

text \<open>\<open>target\<close> is how a URL is taken apart on its way (crates \<^verbatim>\<open>reqwest\<close> and
  \<^verbatim>\<open>axum\<close>).\<close>

definition body_text :: "ctl_env \<Rightarrow> body \<Rightarrow> string" where
  "body_text ce b = (case b of JsonBody j \<Rightarrow> ce_show ce j | TextBody t \<Rightarrow> t)"

definition token_request :: "string \<Rightarrow> http_request" where
  "token_request token =
     \<lparr>rq_header = (\<lambda>n. if n = ''x-admin-token'' then Some token else None), rq_peer = None\<rparr>"

definition ctl_server ::
    "admin_env \<Rightarrow> ctl_env \<Rightarrow> (string \<Rightarrow> (string list \<times> query) option) \<Rightarrow> ctl_request \<Rightarrow>
     (string + ctl_answer) io" where
  "ctl_server ae ce target r =
     (case target (cr_url r) of
        None \<Rightarrow> return (Inl ''builder error'')
      | Some (path, q) \<Rightarrow> do {
          a \<leftarrow> admin_server ae (token_request (cr_token r)) (cr_method r) path q (cr_body r);
          return (Inr \<lparr>ca_status = fst a, ca_text = Inr (body_text ce (snd a))\<rparr>) })"

definition token_accepted :: "admin_env \<Rightarrow> string \<Rightarrow> bool" where
  "token_accepted ae token \<longleftrightarrow>
     ae_jwt_secret ae \<noteq> '''' \<and>
     (case ae_decode ae (ae_jwt_secret ae) admin_validation token of
        None \<Rightarrow> False | Some cl \<Rightarrow> cl_realm cl = Some ''api'')"

text \<open>The answer to an authorised request.\<close>

definition answer_routed :: "admin_env \<Rightarrow> rejection + admin_call \<Rightarrow> (int \<times> body) io" where
  "answer_routed ae routed =
     (case routed of
        Inl rej \<Rightarrow> return (rejected ae rej)
      | Inr k \<Rightarrow> serve_call ae k)"

lemma admin_server_answer:
  assumes "token_accepted ae token"
  shows "admin_server ae (token_request token) m path q body =
    answer_routed ae (route_admin (ae_decimal ae) m path q body)"
proof (cases "route_admin (ae_decimal ae) m path q body")
  case (Inl rej)
  then show ?thesis
    using assms by (cases rej) (auto simp: admin_server_def answer_routed_def auth_jwt_def
        token_request_def token_accepted_def split: option.splits)
next
  case (Inr k)
  then show ?thesis
    using assms by (auto simp: admin_server_def answer_routed_def auth_jwt_def token_request_def
        token_accepted_def split: option.splits)
qed

text \<open>What a command with \<^verbatim>\<open>--format json\<close> makes of an answer.\<close>

definition json_outcome :: "ctl_env \<Rightarrow> int \<times> body \<Rightarrow> string list \<times> (string + unit) option" where
  "json_outcome ce a =
     (if is_success_status (fst a) then ([body_text ce (snd a)], Some (Inr ()))
      else ([], Some (Inl (report_error ce (fst a) (body_text ce (snd a))))))"

lemma run_print_raw:
  "run_session serve (print_raw (handle_response_raw ce \<lparr>ca_status = s, ca_text = Inr t\<rparr>)) =
    return (if is_success_status s then ([t], Some (Inr ())) else ([], Some (Inl (report_error ce s t))))"
  by (simp add: print_raw_def handle_response_raw_def)

lemma ask_send: "ask (send r k) k' = Send r (\<lambda>a. ask (case a of Inl e \<Rightarrow> Done (Inl (''Request failed: '' @ e))
    | Inr answer \<Rightarrow> k answer) k')"
  by (simp add: send_def)

lemma run_json:
  assumes "token_accepted ae (ac_token c)"
    and "target (client_url c (path_text segs q)) = Some (segs, q)"
  shows "run_session (ctl_server ae ce target)
      (print_raw (send (call c m (path_text segs q) body) (handle_response_raw ce))) =
    do { a \<leftarrow> answer_routed ae (route_admin (ae_decimal ae) m segs q body); return (json_outcome ce a) }"
proof -
  have "run_session (ctl_server ae ce target)
      (print_raw (send (call c m (path_text segs q) body) (handle_response_raw ce))) =
    do { a \<leftarrow> ctl_server ae ce target (call c m (path_text segs q) body);
         run_session (ctl_server ae ce target)
           (ask (case a of Inl e \<Rightarrow> Done (Inl (''Request failed: '' @ e))
             | Inr answer \<Rightarrow> handle_response_raw ce answer) (\<lambda>raw. Print raw finished)) }"
    by (simp add: print_raw_def ask_send)
  also have "ctl_server ae ce target (call c m (path_text segs q) body) =
    do { a \<leftarrow> answer_routed ae (route_admin (ae_decimal ae) m segs q body);
         return (Inr \<lparr>ca_status = fst a, ca_text = Inr (body_text ce (snd a))\<rparr>) }"
    using assms by (simp add: ctl_server_def call_def admin_server_answer)
  finally show ?thesis
    using run_print_raw [of "ctl_server ae ce target" ce]
    by (simp add: print_raw_def json_outcome_def)
qed

section \<open>Reading answers\<close>

text \<open>A successful answer whose text is the JSON of a value gives that value; an error answer is
  reported with its code and message.\<close>

definition understood :: "ctl_env \<Rightarrow> ('a \<Rightarrow> json) \<Rightarrow> (json \<Rightarrow> 'a option) \<Rightarrow> ('a \<Rightarrow> bool) \<Rightarrow> bool" where
  "understood ce enc dec fits \<longleftrightarrow>
     (\<forall>x s text. fits x \<longrightarrow> is_success_status s \<longrightarrow> ce_parse ce text = Inr (enc x) \<longrightarrow>
        handle_response ce dec \<lparr>ca_status = s, ca_text = Inr text\<rparr> = Done (Inr x))"

definition errors_reported :: "ctl_env \<Rightarrow> bool" where
  "errors_reported ce \<longleftrightarrow>
     (\<forall>error message s text (dec :: json \<Rightarrow> unit option).
        \<not> is_success_status s \<longrightarrow> ce_parse ce text = Inr (error_json error message) \<longrightarrow>
        handle_response ce dec \<lparr>ca_status = s, ca_text = Inr text\<rparr> =
          Done (Inl (''API error ('' @ ce_status ce s @ ''): ['' @ error @ ''] '' @ message)))"

lemma understoodI: "(\<And>x. fits x \<Longrightarrow> dec (enc x) = Some x) \<Longrightarrow> understood ce enc dec fits"
  by (simp add: understood_def handle_response_def)

context wire_format begin

lemma understood_one: "understood ce enc dec fits"
  by (rule understoodI) (rule dec_enc)

lemma understood_page: "understood ce (paginated_json enc) (read_paginated dec) (fits_page fits)"
  by (rule understoodI) (rule dec_enc_page)

lemma understood_cursor: "understood ce (cursor_json enc) (read_cursor dec) (fits_cursor fits)"
  by (rule understoodI) (rule dec_enc_cursor)

end


text \<open>A client whose texts are the JSON they stand for, by the first word.\<close>

definition demo_ctl :: "string \<Rightarrow> json \<Rightarrow> ctl_env" where
  "demo_ctl text j =
     \<lparr>ce_parse = (\<lambda>t. if t = text then Inr j else Inl ''expected value''),
      ce_mismatch = (\<lambda>_. ''missing field''), ce_show = (\<lambda>j'. if j' = j then text else ''null''),
      ce_pretty = (\<lambda>_. ''''), ce_status = (\<lambda>s. show_int s)\<rparr>"

definition demo_account_answer :: account_response where
  "demo_account_answer = \<lparr>ar_id = 7, ar_name = ''ann'', ar_is_active = True, ar_created_at = ''t'',
     ar_updated_at = ''u''\<rparr>"


section \<open>A command with JSON output\<close>

text \<open>C35: with \<^verbatim>\<open>--format json\<close>, a command that names its account, upstream or model by
  number is the handler it is meant for: it has the handler's effect on the server, whatever the state and
  whichever calls fail, prints exactly the body the handler answers and succeeds, or prints nothing and
  reports the error.\<close>

theorem ctl_json_is_api:
  assumes "command_request cmd = Some (m, segs, q, body)" and "list_all in_i64 (i64_args cmd)"
    and "token_accepted ae (ac_token c)"
    and "target (client_url c (path_text segs q)) = Some (segs, q)"
  shows "run_session (ctl_server ae ce target) (handle_command ce cmd c True) =
    do { a \<leftarrow> answer_routed ae (command_call (ae_decimal ae) cmd); return (json_outcome ce a) }"
  using assms by (simp add: handle_json run_json command_routed)

definition demo_api_client :: api_client where
  "demo_api_client = new_client ''http://h/'' ''jwt''"

definition demo_target :: "string \<Rightarrow> (string list \<times> query) option" where
  "demo_target u =
     (if u = ''http://h/api/v1/deposits'' then Some ([''deposits''], [])
      else if u = ''http://h/api/v1/upstream-tests'' then Some ([''upstream-tests''], []) else None)"

lemma parse_one: "parse_i64 ''1'' = Some 1"
  by code_simp

lemma demo_client_url: "client_url demo_api_client p = ''http://h/api/v1'' @ p"
  by (simp add: client_url_def demo_api_client_def new_client_def trim_end_slash_def)

theorem ctl_json_is_api_witness:
  "run_session (ctl_server demo_admin (demo_ctl ''x'' JNull) demo_target)
     (handle_command (demo_ctl ''x'' JNull) (CliWallet (WalletDeposit ''1'' ''5'' ''r1'')) demo_api_client True) =
   do { a \<leftarrow> serve_call demo_admin
          (CreateDeposit \<lparr>cq_account_id = 1, cq_unique_request_id = ''r1'', cq_amount = 5\<rparr>);
        return (json_outcome (demo_ctl ''x'' JNull) a) }"
proof -
  let ?cmd = "CliWallet (WalletDeposit ''1'' ''5'' ''r1'')"
  have "command_request ?cmd = Some (''POST'', [''deposits''], [], Some (change_body 1 ''r1'' ''5''))"
    by (simp add: command_request_defs parse_one)
  moreover have "list_all in_i64 (i64_args ?cmd)"
    by (simp add: i64_args_def)
  moreover have "token_accepted demo_admin (ac_token demo_api_client)"
    by (simp add: token_accepted_def demo_admin_def demo_api_client_def new_client_def)
  moreover have "demo_target (client_url demo_api_client (path_text [''deposits''] [])) = Some ([''deposits''], [])"
    by (simp add: demo_client_url demo_target_def path_text_def)
  ultimately have "run_session (ctl_server demo_admin (demo_ctl ''x'' JNull) demo_target)
       (handle_command (demo_ctl ''x'' JNull) ?cmd demo_api_client True) =
     do { a \<leftarrow> answer_routed demo_admin (command_call (ae_decimal demo_admin) ?cmd);
          return (json_outcome (demo_ctl ''x'' JNull) a) }"
    by (rule ctl_json_is_api)
  then show ?thesis
    by (simp add: command_call_defs parse_one demo_admin_def answer_routed_def)
qed

text \<open>The command \<^verbatim>\<open>upstream test\<close> cannot work: the server has no route for the path it
  posts to, so whatever the state, the token and the arguments, the command prints that it is testing,
  changes nothing and ends with the error of a path that is not found.\<close>

theorem ctl_upstream_test_not_found:
  assumes "documented_rejections ae"
    and "target (client_url c ''/upstream-tests'') = Some ([''upstream-tests''], [])"
  shows "run_session (ctl_server ae ce target) (handle_upstream ce (UpstreamTest api_key api_base) c False) =
    return ([''Testing upstream '' @ api_base @ ''...''],
      Some (Inl (report_error ce 404 (snd (ae_rejected ae NoRoute)))))"
  using assms
  by (simp add: handle_upstream_def post_as_def send_def ctl_server_def call_def admin_server_def routes
      handle_response_def is_success_status_def body_text_def Let_def rejected_no_route)

theorem ctl_upstream_test_not_found_witness:
  "run_session (ctl_server demo_admin (demo_ctl ''x'' JNull) demo_target)
     (handle_upstream (demo_ctl ''x'' JNull) (UpstreamTest ''k'' ''http://u'') demo_api_client False) =
   return ([''Testing upstream http://u...''],
     Some (Inl (report_error (demo_ctl ''x'' JNull) 404 '''')))"
proof -
  have "demo_target (client_url demo_api_client ''/upstream-tests'') = Some ([''upstream-tests''], [])"
    by (simp add: demo_client_url demo_target_def)
  from ctl_upstream_test_not_found [where target = demo_target, OF demo_rejections this,
      of "demo_ctl ''x'' JNull" "''k''" "''http://u''"]
  show ?thesis by (simp add: demo_admin_def)
qed

end
