(* ===== verification/ControlWrites.thy ===== *)
theory ControlWrites
  imports ControlCatalog
begin

text \<open>
  What a command of \<^verbatim>\<open>llmpool-ctl\<close> may do, over all servers: how often it writes, and when it
  does not come to an end of its own.
\<close>

section \<open>Requests of a session\<close>

primrec sends_nothing :: "'a session \<Rightarrow> bool" where
  "sends_nothing (Done x) = True"
| "sends_nothing (Print s m) = sends_nothing m"
| "sends_nothing (Send q f) = False"
| "sends_nothing (Abort msg) = True"

text \<open>After a request that is not a \<^verbatim>\<open>GET\<close>, nothing more is sent, whatever the answer.\<close>

primrec single_write :: "'a session \<Rightarrow> bool" where
  "single_write (Done x) = True"
| "single_write (Print s m) = single_write m"
| "single_write (Send q f) =
     (if cr_method q = ''GET'' then \<forall>a. single_write (f a) else \<forall>a. sends_nothing (f a))"
| "single_write (Abort msg) = True"

primrec sends_at_most :: "'a session \<Rightarrow> nat \<Rightarrow> bool" where
  "sends_at_most (Done x) n = True"
| "sends_at_most (Print s m) n = sends_at_most m n"
| "sends_at_most (Send q f) n = (0 < n \<and> (\<forall>a. sends_at_most (f a) (n - 1)))"
| "sends_at_most (Abort msg) n = True"

lemma sends_nothing_single: "sends_nothing m \<Longrightarrow> single_write m"
  by (induction m) auto

lemma sends_nothing_at_most: "sends_nothing m \<Longrightarrow> sends_at_most m n"
  by (induction m) auto

lemma sends_nothing_print_lines [simp]: "sends_nothing (print_lines ss m) \<longleftrightarrow> sends_nothing m"
  by (induction ss) auto

lemma sends_nothing_rows [simp]: "sends_nothing m \<Longrightarrow> sends_nothing (print_rows row xs m)"
  by (induction xs) (auto split: option.splits)

lemma sends_nothing_table [simp]: "sends_nothing m \<Longrightarrow> sends_nothing (print_table n ts r cells xs m)"
  by (simp add: print_table_def)

lemma sends_nothing_pagination [simp]: "sends_nothing (print_pagination p m) \<longleftrightarrow> sends_nothing m"
  by (simp add: print_pagination_def)

lemma sends_nothing_ask: "sends_nothing m \<Longrightarrow> (\<And>x. sends_nothing (k x)) \<Longrightarrow> sends_nothing (ask m k)"
  by (induction m) (auto simp: ask_def split: sum.splits)

lemma sends_nothing_response [simp]:
  "sends_nothing (handle_response ce dec a)" "sends_nothing (handle_response_raw ce a)"
  by (auto simp: handle_response_def handle_response_raw_def split: sum.splits option.splits)

text \<open>A session is well behaved with a budget: one write at the end, and so many requests.\<close>

definition behaved :: "nat \<Rightarrow> 'a session \<Rightarrow> bool" where
  "behaved n m \<longleftrightarrow> single_write m \<and> sends_at_most m n"

lemma behaved_quiet [simp]: "sends_nothing m \<Longrightarrow> behaved n m"
  by (simp add: behaved_def sends_nothing_single sends_nothing_at_most)

lemma behaved_Print [simp]: "behaved n (Print s m) \<longleftrightarrow> behaved n m"
  by (simp add: behaved_def)

lemma single_write_quiet_ask:
  "sends_nothing m \<Longrightarrow> (\<And>x. single_write (k x)) \<Longrightarrow> single_write (ask m k)"
  by (induction m) (auto simp: ask_def split: sum.splits)

lemma sends_at_most_quiet_ask:
  "sends_nothing m \<Longrightarrow> (\<And>x. sends_at_most (k x) n) \<Longrightarrow> sends_at_most (ask m k) n"
  by (induction m) (auto simp: ask_def split: sum.splits)

lemma behaved_quiet_ask: "sends_nothing m \<Longrightarrow> (\<And>x. behaved n (k x)) \<Longrightarrow> behaved n (ask m k)"
  by (simp add: behaved_def single_write_quiet_ask sends_at_most_quiet_ask)

lemma behaved_Send:
  assumes "0 < n" and "\<And>a. behaved (n - 1) (f a)" and "\<And>a. cr_method q \<noteq> ''GET'' \<Longrightarrow> sends_nothing (f a)"
  shows "behaved n (Send q f)"
  using assms by (simp add: behaved_def)

lemma behaved_ask_send:
  assumes "0 < n" and "\<And>a. sends_nothing (h a)" and "\<And>x. behaved (n - 1) (k x)"
    and "\<And>x. cr_method q \<noteq> ''GET'' \<Longrightarrow> sends_nothing (k x)"
  shows "behaved n (ask (send q h) k)"
  using assms
  by (auto simp: send_def intro!: behaved_Send behaved_quiet_ask sends_nothing_ask split: sum.splits)

lemmas calls = get_as_def post_as_def put_as_def delete_as_def post_no_body_def get_raw_def post_raw_def
  put_raw_def delete_raw_def post_raw_no_body_def call_def

lemma behaved_get [intro!]:
  assumes "\<And>x. behaved n (k x)"
  shows "behaved (Suc n) (ask (get_as ce c dec path) k)"
  using assms by (auto simp: calls intro: behaved_ask_send)

lemma behaved_write [intro!]:
  assumes "\<And>x. sends_nothing (k x)"
  shows "behaved (Suc n) (ask (post_as ce c dec path body) k)"
    and "behaved (Suc n) (ask (put_as ce c dec path body) k)"
    and "behaved (Suc n) (ask (delete_as ce c dec path) k)"
    and "behaved (Suc n) (ask (post_no_body ce c dec path) k)"
  using assms by (auto simp: calls intro!: behaved_ask_send)

lemma behaved_raw [intro!]:
  "behaved (Suc n) (print_raw (get_raw ce c path))"
  "behaved (Suc n) (print_raw (post_raw ce c path body))"
  "behaved (Suc n) (print_raw (put_raw ce c path body))"
  "behaved (Suc n) (print_raw (delete_raw ce c path))"
  "behaved (Suc n) (print_raw (post_raw_no_body ce c path))"
  by (auto simp: print_raw_def calls intro!: behaved_ask_send)

lemma behaved_ask_of:
  assumes "\<And>i. behaved n (k i)"
  shows "behaved (Suc n) (ask (ask (get_as ce c dec path) (\<lambda>resp. Done (Inr (g resp)))) k)"
proof -
  have "ask (ask m (\<lambda>resp. Done (Inr (g resp)))) k = ask m (\<lambda>resp. k (g resp))" for m
    by (simp add: ask_def) (intro arg_cong [where f = "and_then m"] ext; simp split: sum.splits)
  then show ?thesis using assms by auto
qed

lemma behaved_mono: "behaved n m \<Longrightarrow> behaved (Suc n) m"
proof -
  have "sends_at_most m n \<Longrightarrow> sends_at_most m (Suc n)" for n
  proof (induction m arbitrary: n)
    case (Send q f)
    then show ?case by (cases n) auto
  qed auto
  then show "behaved n m \<Longrightarrow> behaved (Suc n) m" by (simp add: behaved_def)
qed

lemma behaved_resolve [intro!]:
  assumes "\<And>i. behaved n (k i)"
  shows "behaved (Suc n) (ask (resolve_account_id ce s c) k)"
    and "behaved (Suc n) (ask (resolve_upstream_id ce s c) k)"
    and "behaved (Suc n) (ask (resolve_model_id ce s c) k)"
  using assms behaved_mono [OF assms]
  by (auto simp: resolve_account_id_def resolve_upstream_id_def resolve_model_id_def Let_def
      intro: behaved_ask_of split: option.splits)

lemmas printers = print_accounts_def print_apikeys_def print_session_events_def print_upstreams_def
  print_test_result_def print_upstream_with_models_def print_models_def print_plans_def
  print_subscriptions_def

lemma behaved_account: "behaved 2 (handle_account ce a c json_output)"
  by (cases a; cases json_output; auto simp: handle_account_def Let_def numeral_2_eq_2 printers)

lemma behaved_apikey: "behaved 2 (handle_apikey ce a c json_output)"
  by (cases a; cases json_output; auto simp: handle_apikey_def Let_def numeral_2_eq_2 printers)

lemma behaved_wallet: "behaved 2 (handle_wallet ce a c json_output)"
  by (cases a; cases json_output; auto simp: handle_wallet_def submit_command_def Let_def numeral_2_eq_2)

lemma behaved_session_event: "behaved 2 (handle_session_event ce a c json_output)"
  by (cases a; cases json_output; auto simp: handle_session_event_def Let_def numeral_2_eq_2 printers)

lemma behaved_upstream: "behaved 2 (handle_upstream ce a c json_output)"
  by (cases a; cases json_output; auto simp: handle_upstream_def Let_def numeral_2_eq_2 printers)

lemma behaved_model: "behaved 2 (handle_model ce a c json_output)"
  by (cases a; cases json_output; auto simp: handle_model_def Let_def numeral_2_eq_2 printers split: option.splits)

lemma behaved_plan: "behaved 2 (handle_subscription_plan ce a c json_output)"
  by (cases a; cases json_output; auto simp: handle_subscription_plan_def Let_def numeral_2_eq_2 printers)

lemma behaved_subscription: "behaved 2 (handle_subscription ce a c json_output)"
  by (cases a; cases json_output; auto simp: handle_subscription_def list_subscriptions_command_def Let_def
      numeral_2_eq_2 printers split: option.splits)

text \<open>C37: whatever the server answers, a command sends at most two requests, and at most one of them is
  not a \<^verbatim>\<open>GET\<close>: that one is the last.  So a command that stops early has written nothing, and
  none leaves a change half done.\<close>

theorem ctl_single_write:
  "single_write (handle_command ce cmd c json_output) \<and>
   sends_at_most (handle_command ce cmd c json_output) 2"
  using behaved_account behaved_apikey behaved_wallet behaved_session_event behaved_upstream
    behaved_model behaved_plan behaved_subscription
  by (cases cmd) (auto simp: handle_command_def behaved_def)

section \<open>Commands that panic\<close>

text \<open>A session that neither sends nor aborts prints its lines and is done.\<close>

primrec completes :: "'a session \<Rightarrow> bool" where
  "completes (Done x) = True"
| "completes (Print s m) = completes m"
| "completes (Send q f) = (\<forall>a. completes (f a))"
| "completes (Abort msg) = False"

lemma completes_rows:
  "completes (print_rows row xs m) \<longleftrightarrow> list_all (\<lambda>x. row x \<noteq> None) xs \<and> (completes m \<or> \<not> list_all (\<lambda>x. row x \<noteq> None) xs)"
  by (induction xs) (auto split: option.splits)

lemma those_None: "those xs \<noteq> None \<longleftrightarrow> list_all (\<lambda>x. x \<noteq> None) xs"
  by (induction xs) (auto split: option.splits)

lemma table_row_None: "table_row cells \<noteq> None \<longleftrightarrow> list_all (\<lambda>(n, c). c \<noteq> None) cells"
  using those_None [of "map (\<lambda>(n, c). map_option (pad n) c) cells"]
  by (auto simp: table_row_def list_all_iff)

text \<open>The character \<^verbatim>\<open>U+4E2D\<close>, three bytes in UTF-8.\<close>

definition wide_name :: "nat \<Rightarrow> string" where
  "wide_name n = concat (replicate n [CHR 0xE4, CHR 0xB8, CHR 0xAD])"

lemma length_wide_name [simp]: "length (wide_name n) = 3 * n"
  by (induction n) (simp_all add: wide_name_def)

lemma wide_name_nth: "i < 3 * n \<Longrightarrow> wide_name n ! i = [CHR 0xE4, CHR 0xB8, CHR 0xAD] ! (i mod 3)"
proof (induction n arbitrary: i)
  case 0
  then show ?case by simp
next
  case (Suc n)
  show ?case
  proof (cases "i < 3")
    case True
    then have "i = 0 \<or> i = 1 \<or> i = 2" by auto
    then show ?thesis by (auto simp: wide_name_def)
  next
    case False
    then have "wide_name (Suc n) ! i = wide_name n ! (i - 3)"
      by (simp add: wide_name_def nth_Cons' numeral_3_eq_3)
    moreover have "(i - 3) mod 3 = i mod 3"
      using False by (simp add: le_mod_geq)
    ultimately show ?thesis using Suc False by simp
  qed
qed

lemma truncate_wide_name: "truncate_text (wide_name n) 18 = None \<longleftrightarrow> 7 \<le> n"
  by (auto simp: truncate_text_def is_char_boundary_def wide_name_nth Let_def)

lemma completes_table:
  "completes m \<Longrightarrow> completes (print_table nothing titles rule cells xs m) \<longleftrightarrow>
     list_all (\<lambda>x. list_all (\<lambda>(n, c). c \<noteq> None) (cells x)) xs"
  by (auto simp: print_table_def completes_rows table_row_None list_all_iff simp del: not_None_eq)

lemma completes_raw: "completes (print_raw (send q (handle_response_raw ce)))"
  by (auto simp: print_raw_def send_def handle_response_raw_def split: sum.splits)

text \<open>The listing of accounts ends exactly when every name has at most 18 bytes or is cut between
  two characters: a name of Chinese characters makes it panic as soon as it has seven of them, after the
  answer has arrived and however many other accounts there are.  With \<^verbatim>\<open>--format json\<close> it
  always ends.\<close>

theorem ctl_list_panics:
  "(completes (print_accounts us (print_pagination p finished)) \<longleftrightarrow>
      list_all (\<lambda>u. length (ar_name u) \<le> 18 \<or> is_char_boundary (ar_name u) 17) us) \<and>
   (completes (print_accounts [u\<lparr>ar_name := wide_name n\<rparr>] (print_pagination p finished)) \<longleftrightarrow> n < 7) \<and>
   completes (handle_account ce AccountList c True)"
proof -
  have cells: "completes (print_accounts us (print_pagination p finished)) \<longleftrightarrow>
      list_all (\<lambda>u. truncate_text (ar_name u) 18 \<noteq> None) us" for us
    by (simp add: print_accounts_def completes_table print_pagination_def del: not_None_eq)
  have cut: "truncate_text s 18 \<noteq> None \<longleftrightarrow> length s \<le> 18 \<or> is_char_boundary s 17" for s
    by (simp add: truncate_text_def)
  have wide: "truncate_text (wide_name n) 18 \<noteq> None \<longleftrightarrow> n < 7"
    using truncate_wide_name [of n] by (simp add: not_le del: not_None_eq)
  show ?thesis
  proof (intro conjI)
    show "completes (handle_account ce AccountList c True)"
      by (simp add: handle_account_def get_raw_def completes_raw)
  qed (unfold cells cut, simp_all add: cut [symmetric] wide del: not_None_eq)
qed

end
