(* ===== verification/Setup.thy ===== *)
theory Setup
  imports Wire RateLimit Auth
begin

text \<open>
  The start of the program: its configuration (\<^verbatim>\<open>config.rs\<close>, \<^verbatim>\<open>db/core.rs\<close>), the
  commands of the administrator (\<^verbatim>\<open>main.rs\<close>), and what a worker does before it takes tasks
  (\<^verbatim>\<open>defer/mod.rs\<close>).
\<close>

section \<open>Configuration\<close>

text \<open>A table of the configuration file is an object, as the crate \<^verbatim>\<open>toml\<close> hands it on.\<close>

record app_config =
  cf_database_url :: string
  cf_jwt_secret :: string
  cf_redis_url :: string
  cf_encryption_key :: string
  cf_rate_limit :: rate_limit_config

definition read_u64 :: "json \<Rightarrow> int option" where
  "read_u64 j = (case j of JInt i \<Rightarrow> if 0 \<le> i \<and> i < 2 ^ 64 then Some i else None | _ \<Rightarrow> None)"

definition read_rate_limit :: "json \<Rightarrow> rate_limit_config option" where
  "read_rate_limit j = do {
     vs \<leftarrow> fields_of [''enabled'', ''ip_requests'', ''ip_window_secs'', ''token_requests'',
             ''token_window_secs''] j;
     enabled \<leftarrow> dflt False read_bool (vs ! 0); ip_requests \<leftarrow> dflt 100 read_u64 (vs ! 1);
     ip_window \<leftarrow> dflt 60 read_u64 (vs ! 2); token_requests \<leftarrow> dflt 200 read_u64 (vs ! 3);
     token_window \<leftarrow> dflt 60 read_u64 (vs ! 4);
     Some \<lparr>rl_enabled = enabled, rl_ip_requests = ip_requests, rl_ip_window_secs = ip_window,
           rl_token_requests = token_requests, rl_token_window_secs = token_window\<rparr> }"

definition read_database :: "json \<Rightarrow> string option" where
  "read_database j = do { vs \<leftarrow> fields_of [''url''] j; req as_str (vs ! 0) }"

text \<open>The sections of one optional text: \<^verbatim>\<open>admin\<close>, \<^verbatim>\<open>redis\<close> and \<^verbatim>\<open>security\<close>.\<close>

definition read_section :: "string \<Rightarrow> json \<Rightarrow> string option" where
  "read_section name j = do { vs \<leftarrow> fields_of [name] j; dflt '''' as_str (vs ! 0) }"

definition read_app_config :: "json \<Rightarrow> app_config option" where
  "read_app_config j = do {
     vs \<leftarrow> fields_of [''database'', ''admin'', ''redis'', ''security'', ''rate_limit''] j;
     url \<leftarrow> req read_database (vs ! 0);
     jwt_secret \<leftarrow> dflt '''' (read_section ''jwt_secret'') (vs ! 1);
     redis_url \<leftarrow> dflt '''' (read_section ''url'') (vs ! 2);
     encryption_key \<leftarrow> dflt '''' (read_section ''encryption_key'') (vs ! 3);
     rate_limit \<leftarrow> dflt default_rate_limit_config read_rate_limit (vs ! 4);
     Some \<lparr>cf_database_url = url, cf_jwt_secret = jwt_secret, cf_redis_url = redis_url,
           cf_encryption_key = encryption_key, cf_rate_limit = rate_limit\<rparr> }"

text \<open>Environment variables, files, the parser of the file, and how a path is quoted.\<close>

record os_env =
  os_var :: "string \<Rightarrow> string option"
  os_read :: "string \<Rightarrow> string + string"
  os_toml :: "string \<Rightarrow> string + json"
  os_mismatch :: "json \<Rightarrow> string"
  os_quote :: "string \<Rightarrow> string"

definition resolve_config_path :: "os_env \<Rightarrow> string option \<Rightarrow> string" where
  "resolve_config_path os cli_path =
     (case cli_path of
        Some p \<Rightarrow> p
      | None \<Rightarrow> (case os_var os ''LLMPOOL_CONFIG'' of Some p \<Rightarrow> p | None \<Rightarrow> ''llmpool.toml''))"

text \<open>The left summand is the message of a panic.\<close>

definition load_config :: "os_env \<Rightarrow> string \<Rightarrow> string + app_config" where
  "load_config os path =
     (let unparsed = (\<lambda>e. Inl (''Failed to parse config file '' @ os_quote os path @ '': '' @ e)) in
      case os_read os path of
        Inl e \<Rightarrow> Inl (''Failed to read config file '' @ os_quote os path @ '': '' @ e)
      | Inr content \<Rightarrow>
          (case os_toml os content of
             Inl e \<Rightarrow> unparsed e
           | Inr j \<Rightarrow>
               (case read_app_config j of None \<Rightarrow> unparsed (os_mismatch os j) | Some cfg \<Rightarrow> Inr cfg)))"

definition get_redis_url :: "os_env \<Rightarrow> app_config \<Rightarrow> string + string" where
  "get_redis_url os cfg =
     (case os_var os ''REDIS_URL'' of
        Some url \<Rightarrow> Inr url
      | None \<Rightarrow>
          if cf_redis_url cfg = '''' then
            Inl ''Redis URL not configured. Set REDIS_URL env var or [redis] url in config file.''
          else Inr (cf_redis_url cfg))"

definition database_url :: "os_env \<Rightarrow> app_config \<Rightarrow> string" where
  "database_url os cfg = unwrap_or (os_var os ''DATABASE_URL'') (cf_database_url cfg)"

text \<open>A file that names only the database leaves the limits off and the admin API closed.\<close>

lemma minimal_config:
  "read_app_config (JObj [(''database'', JObj [(''url'', JStr u)])]) =
     Some \<lparr>cf_database_url = u, cf_jwt_secret = '''', cf_redis_url = '''', cf_encryption_key = '''',
           cf_rate_limit = default_rate_limit_config\<rparr>"
  by (simp add: read_app_config_def read_database_def)

section \<open>Commands of the administrator\<close>

record command_output =
  co_exit :: int
  co_out :: "string list"
  co_err :: "string list"

definition exits :: "string \<Rightarrow> command_output" where
  "exits message = \<lparr>co_exit = 1, co_out = [], co_err = [message]\<rparr>"

record admin_claims =
  ad_sub :: string
  ad_realm :: string
  ad_iat :: int
  ad_exp :: "int option"

text \<open>\<open>encode\<close> is the crate \<^verbatim>\<open>jsonwebtoken\<close>; the sum is a \<^verbatim>\<open>u64\<close>.\<close>

definition create_jwt_token ::
    "(string \<Rightarrow> admin_claims \<Rightarrow> string + string) \<Rightarrow> app_config \<Rightarrow> timestamp \<Rightarrow> int \<Rightarrow> string \<Rightarrow>
     command_output" where
  "create_jwt_token encode cfg clock expire subject =
     (if cf_jwt_secret cfg = '''' then
        exits ''Error: admin.jwt_secret is not configured in the config file''
      else
        let now = clock div 1000000;
            claims = \<lparr>ad_sub = subject, ad_realm = ''api'', ad_iat = now,
                      ad_exp = Some (wrap_u64 (now + expire))\<rparr> in
        case encode (cf_jwt_secret cfg) claims of
          Inl e \<Rightarrow> exits (''Error generating JWT token: '' @ e)
        | Inr token \<Rightarrow>
            \<lparr>co_exit = 0, co_out = [token],
             co_err = [''Token expires in '' @ show_int expire @ '' seconds'']\<rparr>)"

definition quote1 :: "string \<Rightarrow> string" where
  "quote1 s = [CHR 0x27] @ s @ [CHR 0x27]"

definition create_api_key_command ::
    "crypto_env \<Rightarrow> bytes \<Rightarrow> string \<Rightarrow> (sqlx_error \<Rightarrow> string) \<Rightarrow> string \<Rightarrow> command_output io" where
  "create_api_key_command cy nonce uuid_hex show_error name = do {
     found \<leftarrow> get_account_by_name name;
     (case found of
        Inl e \<Rightarrow> return (exits (''Error looking up account '' @ quote1 name @ '': '' @ show_error e))
      | Inr None \<Rightarrow> return (exits (''Error: account '' @ quote1 name @ '' not found''))
      | Inr (Some acc) \<Rightarrow> do {
          created \<leftarrow> create_api_credential_for_account cy nonce uuid_hex (acc_id acc) '''';
          return (case created of
             Inl e \<Rightarrow> exits (''Error creating API key for account '' @ quote1 name @ '': '' @ show_error e)
           | Inr key \<Rightarrow>
               \<lparr>co_exit = 0,
                co_out = [''API key created for account '' @ quote1 (acc_name acc) @ '' (id='' @
                            show_int (acc_id acc) @ '')'', ''Key: '' @ cred_apikey key],
                co_err = []\<rparr>) }) }"

text \<open>\<^verbatim>\<open>prompt_input\<close> prints the prompt and trims the line that was typed.\<close>

definition create_user_command :: "(sqlx_error \<Rightarrow> string) \<Rightarrow> string \<Rightarrow> command_output io" where
  "create_user_command show_error line =
     (let name = trim line in
      if name = '''' then
        return \<lparr>co_exit = 1, co_out = [''Name: ''], co_err = [''Error: name cannot be empty'']\<rparr>
      else do {
        created \<leftarrow> create_account \<lparr>na_name = name\<rparr>;
        return (case created of
           Inl e \<Rightarrow> \<lparr>co_exit = 1, co_out = [''Name: ''],
              co_err = [''Error creating account '' @ quote1 name @ '': '' @ show_error e]\<rparr>
         | Inr acc \<Rightarrow> \<lparr>co_exit = 0, co_out = [''Name: '', ''Successfully created account '' @
              quote1 (acc_name acc) @ '' (id='' @ show_int (acc_id acc) @ '')''], co_err = []\<rparr>) })"

section \<open>Stale workers\<close>

text \<open>\<^verbatim>\<open>ZREM key member\<close> answers how many members it removed.  A configuration of the crate
  \<^verbatim>\<open>apalis-redis\<close> names the set of workers and the prefix of their entries.\<close>

definition redis_zrem :: "string \<Rightarrow> string \<Rightarrow> int option io" where
  "redis_zrem k m = redis_cmd (\<lambda>now r.
     map_option (\<lambda>z. (int (length (filter (\<lambda>(m', _). m' = m) z)),
       put_zset now r k (filter (\<lambda>(m', _). m' \<noteq> m) z))) (zset_at now r k))"

fun remove_stale :: "(string \<times> string) list \<Rightarrow> unit io" where
  "remove_stale [] = return ()"
| "remove_stale ((workers_set, inflight_key) # rest) = do {
     _ \<leftarrow> redis_zrem workers_set inflight_key;
     remove_stale rest }"

definition stale_entries :: "(string \<times> string) list \<Rightarrow> string list \<Rightarrow> (string \<times> string) list" where
  "stale_entries configs worker_names =
     concat (map (\<lambda>(workers_set, inflight).
       map (\<lambda>name. (workers_set, inflight @ '':'' @ name)) worker_names) configs)"

definition cleanup_stale_workers :: "(string \<times> string) list \<Rightarrow> string list \<Rightarrow> (string + unit) io" where
  "cleanup_stale_workers configs worker_names = do {
     ok \<leftarrow> redis_conn;
     if \<not> ok then return (Inl ''Failed to connect to Redis for worker cleanup'')
     else do { _ \<leftarrow> remove_stale (stale_entries configs worker_names); return (Inr ()) } }"

end
