(* ===== verification/Server.thy ===== *)
theory Server
  imports Setup AdminServer Passthrough
begin

text \<open>
  The HTTP server as \<^verbatim>\<open>serve\<close> puts it together (\<^verbatim>\<open>server.rs\<close>): the tables of
  routes of the two proxies (\<^verbatim>\<open>proxy_views/mod.rs\<close>) and of the passthrough, the layers
  around their handlers, and the start itself.
\<close>

section \<open>Tables of routes\<close>

text \<open>A route is a path with the handler of each method.  A segment \<^verbatim>\<open>{x}\<close> takes one segment,
  \<^verbatim>\<open>{*x}\<close> the rest of the path.\<close>

type_synonym 'h routes = "(string \<times> (string \<times> 'h) list) list"

fun split_slash :: "string \<Rightarrow> string \<Rightarrow> string list" where
  "split_slash word [] = [rev word]"
| "split_slash word (c # cs) =
     (if c = CHR ''/'' then rev word # split_slash '''' cs else split_slash (c # word) cs)"

definition segments :: "string \<Rightarrow> string list" where
  "segments path = split_slash '''' (drop 1 path)"

fun match_path :: "string list \<Rightarrow> string list \<Rightarrow> string list option" where
  "match_path [] [] = Some []"
| "match_path (p # ps) (s # ss) =
     (if starts_with ''{*'' p then (let rest = join ''/'' (s # ss) in if rest = '''' then None else Some [rest])
      else if starts_with ''{'' p then (if s = '''' then None else map_option ((#) s) (match_path ps ss))
      else if p = s then match_path ps ss
      else None)"
| "match_path _ _ = None"

fun find_route :: "'h routes \<Rightarrow> string \<Rightarrow> string list \<Rightarrow> (rejection + 'h \<times> string list) option" where
  "find_route [] m path = None"
| "find_route ((pattern, handlers) # routes) m path =
     (case match_path (segments pattern) path of
        None \<Rightarrow> find_route routes m path
      | Some args \<Rightarrow> Some (by_method m (map (\<lambda>(m', h). (m', Inr (h, args))) handlers)))"

datatype openai_endpoint =
    ListMergedModels | ChatCompletions | CreateEmbeddings | GenerateImages | CreateSpeech | CreateFile
  | RetrieveFile | DeleteFile | FileContent | CreateBatch | BatchById | BatchCancel | CreateResponse
  | RetrieveResponse | DeleteResponse

definition openai_routes :: "openai_endpoint routes" where
  "openai_routes =
     [(''/models'', [(''GET'', ListMergedModels)]),
      (''/chat/completions'', [(''POST'', ChatCompletions)]),
      (''/embeddings'', [(''POST'', CreateEmbeddings)]),
      (''/images/generations'', [(''POST'', GenerateImages)]),
      (''/audio/speech'', [(''POST'', CreateSpeech)]),
      (''/files'', [(''POST'', CreateFile)]),
      (''/files/{file_id}'', [(''GET'', RetrieveFile), (''DELETE'', DeleteFile)]),
      (''/files/{file_id}/content'', [(''GET'', FileContent)]),
      (''/batches'', [(''POST'', CreateBatch)]),
      (''/batches/{batch_id}'', [(''GET'', BatchById)]),
      (''/batches/{batch_id}/cancel'', [(''POST'', BatchCancel)]),
      (''/responses'', [(''POST'', CreateResponse)]),
      (''/responses/{response_id}'', [(''GET'', RetrieveResponse), (''DELETE'', DeleteResponse)])]"

datatype anthropic_endpoint =
    ListAnthropicModels | CreateMessage | CountMessageTokens | CreateMessageBatch | ListMessageBatches
  | RetrieveMessageBatch | CancelMessageBatch | MessageBatchResults | UploadFile | ListFiles
  | RetrieveAnthropicFile | DeleteAnthropicFile | AnthropicFileContent

definition anthropic_routes :: "anthropic_endpoint routes" where
  "anthropic_routes =
     [(''/models'', [(''GET'', ListAnthropicModels)]),
      (''/messages'', [(''POST'', CreateMessage)]),
      (''/messages/count_tokens'', [(''POST'', CountMessageTokens)]),
      (''/messages/batches'', [(''POST'', CreateMessageBatch), (''GET'', ListMessageBatches)]),
      (''/messages/batches/:message_batch_id'', [(''GET'', RetrieveMessageBatch)]),
      (''/messages/batches/:message_batch_id/cancel'', [(''POST'', CancelMessageBatch)]),
      (''/messages/batches/:message_batch_id/results'', [(''GET'', MessageBatchResults)]),
      (''/files'', [(''POST'', UploadFile), (''GET'', ListFiles)]),
      (''/files/:file_id'', [(''GET'', RetrieveAnthropicFile), (''DELETE'', DeleteAnthropicFile)]),
      (''/files/:file_id/content'', [(''GET'', AnthropicFileContent)])]"

definition admin_paths :: "string list" where
  "admin_paths =
     [''/upstreams'', ''/upstreams/{upstream_id}'', ''/models'', ''/models/{model_id}'',
      ''/models/{model_id}/tests'', ''/models/path/{upstream_name}/{*model_name}'', ''/accounts'',
      ''/accounts/{account_id}'', ''/accounts/{account_id}/wallet'', ''/accounts/{account_id}/apikeys'',
      ''/accounts_by_name/{name}'', ''/upstream_by_name/{name}'', ''/upstreams/{upstream_id}/tags'',
      ''/upstreams/{upstream_id}/tags/{tag}'', ''/session-events'', ''/session-events/{event_id}'',
      ''/deposits'', ''/withdrawals'', ''/credits'', ''/apikeys/{apikey}'', ''/subscription-plans'',
      ''/subscription-plans/{plan_id}'', ''/subscriptions'', ''/subscriptions/{subscription_id}'']"

definition passthrough_paths :: "string list" where
  "passthrough_paths = [''/tag/{tag}/{*rest}'', ''/{upstream_id}/{*rest}'']"

section \<open>Requests\<close>

text \<open>
  The layers of a proxy: the rate limit is outside, the authentication inside, the choice of the method
  innermost; a path without a route is outside all of them.  \<open>handler\<close> runs an endpoint on the segments
  its path captures.
\<close>

definition layered ::
    "(http_request \<Rightarrow> (api_credential \<Rightarrow> account \<Rightarrow> (rejection + 'b) response_io) \<Rightarrow>
       (rejection + 'b) response_io) \<Rightarrow>
     rate_limit_config \<Rightarrow> (bytes \<Rightarrow> string) \<Rightarrow> int \<Rightarrow> int \<Rightarrow> 'h routes \<Rightarrow>
     ('h \<Rightarrow> string list \<Rightarrow> api_credential \<Rightarrow> account \<Rightarrow> (rejection + 'b) response_io) \<Rightarrow>
     http_request \<Rightarrow> string \<Rightarrow> string list \<Rightarrow> (rejection + 'b) response_io" where
  "layered auth cfg sha256_hex ip_rand token_rand routes handler request m path =
     (case find_route routes m path of
        None \<Rightarrow> return (Inr (Inl NoRoute))
      | Some routed \<Rightarrow>
          rate_limit_middleware cfg sha256_hex ip_rand token_rand request
            (auth request (\<lambda>key acc.
               case routed of
                 Inl rej \<Rightarrow> return (Inr (Inl rej))
               | Inr (h, args) \<Rightarrow> handler h args key acc)))"

definition openai_server ::
    "crypto_env \<Rightarrow> rate_limit_config \<Rightarrow> int \<Rightarrow> int \<Rightarrow>
     (openai_endpoint \<Rightarrow> string list \<Rightarrow> api_credential \<Rightarrow> account \<Rightarrow> (rejection + 'b) response_io) \<Rightarrow>
     http_request \<Rightarrow> string \<Rightarrow> string list \<Rightarrow> (rejection + 'b) response_io" where
  "openai_server cy cfg ip_rand token_rand =
     layered (auth_openai_api cy) cfg (cy_sha256_hex cy) ip_rand token_rand openai_routes"

definition anthropic_server ::
    "crypto_env \<Rightarrow> rate_limit_config \<Rightarrow> int \<Rightarrow> int \<Rightarrow>
     (anthropic_endpoint \<Rightarrow> string list \<Rightarrow> api_credential \<Rightarrow> account \<Rightarrow> (rejection + 'b) response_io) \<Rightarrow>
     http_request \<Rightarrow> string \<Rightarrow> string list \<Rightarrow> (rejection + 'b) response_io" where
  "anthropic_server cy cfg ip_rand token_rand =
     layered (auth_anthropic_api cy) cfg (cy_sha256_hex cy) ip_rand token_rand anthropic_routes"

text \<open>The passthrough: any method, under the layer of the admin API.\<close>

definition passthrough_server ::
    "passthrough_env \<Rightarrow> string \<Rightarrow> (string \<Rightarrow> validation \<Rightarrow> string \<Rightarrow> claims option) \<Rightarrow> http_request \<Rightarrow>
     string list \<Rightarrow> passthrough_request \<Rightarrow> (rejection + upstream_answer) response_io" where
  "passthrough_server pt jwt_secret decode request path preq =
     (let answered = (\<lambda>m. do { r \<leftarrow> m; return (case r of Inl e \<Rightarrow> Inl e | Inr a \<Rightarrow> Inr (Inr a)) }) in
      case match_path (segments (passthrough_paths ! 0)) path of
        Some [tag, rest] \<Rightarrow>
          auth_jwt jwt_secret decode request (answered (passthrough_by_tag_handler pt tag rest preq))
      | _ \<Rightarrow>
          (case match_path (segments (passthrough_paths ! 1)) path of
             Some [upstream_id, rest] \<Rightarrow>
               auth_jwt jwt_secret decode request
                 (case parse_i64 upstream_id of
                    None \<Rightarrow> return (Inr (Inl BadPath))
                  | Some i \<Rightarrow> answered (passthrough_by_upstream_id_handler pt i rest preq))
           | _ \<Rightarrow> return (Inr (Inl NoRoute))))"

section \<open>The start\<close>

text \<open>What the start needs of its surroundings: each part connects or panics, and \<open>sv_route\<close> is the panic
  of the crate \<^verbatim>\<open>axum\<close> at a path it does not take.\<close>

record server_env =
  sv_telemetry :: bool
  sv_database :: "string \<Rightarrow> bool"
  sv_redis_url :: "string \<Rightarrow> bool"
  sv_redis :: "string \<Rightarrow> bool"
  sv_queue :: "string \<Rightarrow> string \<Rightarrow> bool"
  sv_route :: "string \<Rightarrow> string option"
  sv_address_ok :: "string \<Rightarrow> bool"
  sv_bind :: "string \<Rightarrow> bool"

definition expect_ok :: "bool \<Rightarrow> string \<Rightarrow> string + 'a \<Rightarrow> string + 'a" where
  "expect_ok ok message k = (if ok then k else Inl message)"

text \<open>A router with its prefix.\<close>

record mounted =
  mt_prefix :: string
  mt_paths :: "string list"

fun build_routers :: "(string \<Rightarrow> string option) \<Rightarrow> mounted list \<Rightarrow> string + mounted list" where
  "build_routers refused [] = Inr []"
| "build_routers refused (r # rs) =
     (case filter (\<lambda>p. refused p \<noteq> None) (mt_paths r) of
        p # _ \<Rightarrow> Inl (the (refused p))
      | [] \<Rightarrow> (case build_routers refused rs of Inl e \<Rightarrow> Inl e | Inr app \<Rightarrow> Inr (r # app)))"

record provider =
  pv_name :: string
  pv_prefix :: string
  pv_paths :: "string list"

definition openai_provider :: provider where
  "openai_provider = \<lparr>pv_name = ''openai'', pv_prefix = ''/openai/v1'', pv_paths = map fst openai_routes\<rparr>"

definition anthropic_provider :: provider where
  "anthropic_provider =
     \<lparr>pv_name = ''anthropic'', pv_prefix = ''/anthropic/v1'', pv_paths = map fst anthropic_routes\<rparr>"

definition get_all_providers :: "provider list" where
  "get_all_providers = [openai_provider, anthropic_provider]"

lemma provider_names_registered: "provider_names = map pv_name get_all_providers"
  by (simp add: provider_names_def get_all_providers_def openai_provider_def anthropic_provider_def)

definition server_routers :: "mounted list" where
  "server_routers =
     [\<lparr>mt_prefix = ''/api/v1'', mt_paths = admin_paths\<rparr>,
      \<lparr>mt_prefix = ''/passthrough'', mt_paths = passthrough_paths\<rparr>] @
     map (\<lambda>p. \<lparr>mt_prefix = pv_prefix p, mt_paths = pv_paths p\<rparr>) get_all_providers"

text \<open>The connections of both processes, one after the other; the three queues connect to the same
  address, each for itself.\<close>

definition then_ok :: "string + 'a \<Rightarrow> string + 'b \<Rightarrow> string + 'b" where
  "then_ok r k = (case r of Inl e \<Rightarrow> Inl e | Inr _ \<Rightarrow> k)"

definition create_pool_from_config :: "server_env \<Rightarrow> os_env \<Rightarrow> app_config \<Rightarrow> string + unit" where
  "create_pool_from_config se os cfg =
     expect_ok (sv_database se (database_url os cfg)) ''Failed to create database connection pool'' (Inr ())"

definition create_redis_pool_from_config :: "server_env \<Rightarrow> os_env \<Rightarrow> app_config \<Rightarrow> string + unit" where
  "create_redis_pool_from_config se os cfg =
     (case get_redis_url os cfg of
        Inl e \<Rightarrow> Inl e
      | Inr url \<Rightarrow>
          expect_ok (sv_redis_url se url) ''Failed to create Redis connection manager''
          (expect_ok (sv_redis se url) ''Failed to create Redis connection pool'' (Inr ())))"

definition create_event_storage :: "server_env \<Rightarrow> os_env \<Rightarrow> app_config \<Rightarrow> string + unit" where
  "create_event_storage se os cfg =
     (case get_redis_url os cfg of
        Inl e \<Rightarrow> Inl e
      | Inr url \<Rightarrow>
          expect_ok (sv_queue se ''openai'' url) ''Failed to connect to Redis for task queue'' (Inr ()))"

definition create_anthropic_event_storage :: "server_env \<Rightarrow> os_env \<Rightarrow> app_config \<Rightarrow> string + unit" where
  "create_anthropic_event_storage se os cfg =
     (case get_redis_url os cfg of
        Inl e \<Rightarrow> Inl e
      | Inr url \<Rightarrow>
          expect_ok (sv_queue se ''anthropic'' url)
            ''Failed to connect to Redis for anthropic event task queue'' (Inr ()))"

definition create_balance_change_storage :: "server_env \<Rightarrow> os_env \<Rightarrow> app_config \<Rightarrow> string + unit" where
  "create_balance_change_storage se os cfg =
     (case get_redis_url os cfg of
        Inl e \<Rightarrow> Inl e
      | Inr url \<Rightarrow>
          expect_ok (sv_queue se ''balance'' url)
            ''Failed to connect to Redis for balance change task queue'' (Inr ()))"

definition connected :: "server_env \<Rightarrow> os_env \<Rightarrow> app_config \<Rightarrow> string + unit" where
  "connected se os cfg =
     expect_ok (sv_telemetry se) ''Failed to create OTLP span exporter''
     (then_ok (create_pool_from_config se os cfg)
     (then_ok (create_redis_pool_from_config se os cfg)
     (then_ok (create_event_storage se os cfg)
     (then_ok (create_anthropic_event_storage se os cfg) (create_balance_change_storage se os cfg)))))"

definition serve :: "server_env \<Rightarrow> os_env \<Rightarrow> app_config \<Rightarrow> string \<Rightarrow> string + mounted list" where
  "serve se os cfg address =
     (case connected se os cfg of
        Inl e \<Rightarrow> Inl e
      | Inr _ \<Rightarrow>
          (case build_routers (sv_route se) server_routers of
             Inl e \<Rightarrow> Inl e
           | Inr app \<Rightarrow>
               expect_ok (sv_address_ok se address) ''Invalid bind address, expected format: HOST:PORT''
               (expect_ok (sv_bind se address) ''called Result::unwrap() on an Err value'' (Inr app))))"

end
