(* ===== verification/SetupClaims.thy ===== *)
theory SetupClaims
  imports Server AuthClaims StoredKeys
begin

text \<open>
  What the commands of the program come to: the server does not start, the tokens of the administrator do
  not expire, and the keys created at the command line authenticate their account.
\<close>

section \<open>The start of the server\<close>

definition colon_segment :: "string \<Rightarrow> bool" where
  "colon_segment path \<longleftrightarrow> list_ex (starts_with '':'') (segments path)"

definition refused_path :: string where
  "refused_path = ''/messages/batches/:message_batch_id''"

lemma colon_paths:
  "\<not> list_ex colon_segment (admin_paths @ passthrough_paths @ map fst openai_routes)"
  by (simp add: colon_segment_def segments_def starts_with_def admin_paths_def passthrough_paths_def
      openai_routes_def)

lemma colon_anthropic:
  "map fst anthropic_routes =
     [''/models'', ''/messages'', ''/messages/count_tokens'', ''/messages/batches''] @ refused_path #
     [''/messages/batches/:message_batch_id/cancel'', ''/messages/batches/:message_batch_id/results'',
      ''/files'', ''/files/:file_id'', ''/files/:file_id/content'']"
  "\<not> list_ex colon_segment [''/models'', ''/messages'', ''/messages/count_tokens'', ''/messages/batches'']"
  "colon_segment refused_path"
  by (simp_all add: anthropic_routes_def refused_path_def colon_segment_def segments_def starts_with_def)

lemma build_routers_refuses:
  assumes "r \<in> set rs" and "p \<in> set (mt_paths r)" and "refused p \<noteq> None"
  shows "\<exists>message. build_routers refused rs = Inl message"
  using assms(1)
proof (induction rs)
  case Nil
  then show ?case by simp
next
  case (Cons r' rs)
  show ?case
  proof (cases "filter (\<lambda>p. refused p \<noteq> None) (mt_paths r')")
    case (Cons q qs)
    then show ?thesis by simp
  next
    case Nil
    then have "r \<noteq> r'"
      using assms(2,3) by (auto simp: filter_empty_conv)
    then show ?thesis
      using Cons.IH Cons.prems Nil by auto
  qed
qed

lemma anthropic_mounted:
  "\<lparr>mt_prefix = ''/anthropic/v1'', mt_paths = map fst anthropic_routes\<rparr> \<in> set server_routers"
  by (simp add: server_routers_def get_all_providers_def anthropic_provider_def)

text \<open>The panic is the one of the first such path, when nothing else fails before.\<close>

lemma routers_panic:
  assumes "\<And>p. refused p \<noteq> None \<longleftrightarrow> colon_segment p"
  shows "build_routers refused server_routers = Inl (the (refused refused_path))"
proof -
  have none: "filter (\<lambda>p. refused p \<noteq> None) admin_paths = []"
    "filter (\<lambda>p. refused p \<noteq> None) passthrough_paths = []"
    "filter (\<lambda>p. refused p \<noteq> None) (map fst openai_routes) = []"
    using colon_paths unfolding assms by (auto simp: filter_empty_conv list_ex_iff)
  have "filter (\<lambda>p. refused p \<noteq> None) (map fst anthropic_routes) =
      refused_path # filter colon_segment
        [''/messages/batches/:message_batch_id/cancel'', ''/messages/batches/:message_batch_id/results'',
         ''/files'', ''/files/:file_id'', ''/files/:file_id/content'']"
    using colon_anthropic(2,3) unfolding colon_anthropic(1) assms filter_append
    by (simp del: filter.simps add: filter_empty_conv list_ex_iff) simp
  with none show ?thesis
    by (simp add: server_routers_def get_all_providers_def openai_provider_def anthropic_provider_def
        del: filter.simps not_None_eq)
qed

text \<open>C36: \<^verbatim>\<open>llmpool serve\<close> never listens: whatever the configuration, the environment and the
  address, it panics, since the routes of the Anthropic proxy name their parameters in the form
  \<^verbatim>\<open>:name\<close>, which the HTTP crate refuses.  When everything else is in order and the crate takes
  all other paths, the panic is the one of the first such route.\<close>

theorem serve_never_listens:
  assumes "\<And>p. colon_segment p \<Longrightarrow> sv_route se p \<noteq> None"
  shows "(\<exists>message. serve se os cfg address = Inl message) \<and>
    (connected se os cfg = Inr () \<and> (\<forall>p. \<not> colon_segment p \<longrightarrow> sv_route se p = None) \<longrightarrow>
     serve se os cfg address = Inl (the (sv_route se refused_path)))"
proof -
  obtain message where message: "build_routers (sv_route se) server_routers = Inl message"
    using build_routers_refuses [OF anthropic_mounted, of refused_path "sv_route se"] assms
      colon_anthropic by auto
  have "message = the (sv_route se refused_path)" if "\<forall>p. \<not> colon_segment p \<longrightarrow> sv_route se p = None"
    using routers_panic [of "sv_route se"] assms that message by (metis sum.inject(1))
  moreover have "\<exists>e. serve se os cfg address = Inl e"
    unfolding serve_def expect_ok_def message by (simp split: sum.split)
  ultimately show ?thesis
    unfolding serve_def expect_ok_def message by (auto simp del: not_None_eq)
qed

definition demo_server :: server_env where
  "demo_server =
     \<lparr>sv_telemetry = True, sv_database = (\<lambda>_. True), sv_redis_url = (\<lambda>_. True),
      sv_redis = (\<lambda>_. True), sv_queue = (\<lambda>_ _. True),
      sv_route = (\<lambda>p. if colon_segment p then Some p else None), sv_address_ok = (\<lambda>_. True),
      sv_bind = (\<lambda>_. True)\<rparr>"

definition demo_os :: os_env where
  "demo_os = \<lparr>os_var = (\<lambda>_. None), os_read = Inl, os_toml = Inl, os_mismatch = (\<lambda>_. ''''), os_quote = id\<rparr>"

definition demo_config :: app_config where
  "demo_config = \<lparr>cf_database_url = ''postgres://h'', cf_jwt_secret = ''s'', cf_redis_url = ''redis://h'',
     cf_encryption_key = '''', cf_rate_limit = default_rate_limit_config\<rparr>"

theorem serve_never_listens_witness:
  "serve demo_server demo_os demo_config ''127.0.0.1:19324'' = Inl ''/messages/batches/:message_batch_id''"
proof -
  have refuses: "colon_segment p \<Longrightarrow> sv_route demo_server p \<noteq> None" for p
    by (simp add: demo_server_def)
  have "connected demo_server demo_os demo_config = Inr ()"
    by (simp add: connected_def create_pool_from_config_def create_redis_pool_from_config_def
        create_event_storage_def create_anthropic_event_storage_def create_balance_change_storage_def
        expect_ok_def then_ok_def get_redis_url_def demo_os_def demo_config_def demo_server_def)
  moreover have "sv_route demo_server refused_path = Some refused_path"
    using colon_anthropic(3) by (simp add: demo_server_def)
  ultimately show ?thesis
    using serve_never_listens [where se = demo_server and os = demo_os and cfg = demo_config, OF refuses]
    by (simp add: demo_server_def refused_path_def)
qed

section \<open>Tokens\<close>

definition claims_of :: "admin_claims \<Rightarrow> claims" where
  "claims_of c = \<lparr>cl_sub = Some (ad_sub c), cl_exp = ad_exp c, cl_realm = Some (ad_realm c)\<rparr>"

text \<open>What the crate documents of encoding: the token is signed with the secret and carries the claims.\<close>

definition encodes_tokens ::
    "(string \<Rightarrow> admin_claims \<Rightarrow> string + string) \<Rightarrow> (string \<Rightarrow> string \<Rightarrow> bool) \<Rightarrow> (string \<Rightarrow> claims) \<Rightarrow> bool" where
  "encodes_tokens encode signed payload \<longleftrightarrow>
     (\<forall>s c t. encode s c = Inr t \<longrightarrow> signed s t \<and> payload t = claims_of c)"

text \<open>C38: a token that \<^verbatim>\<open>llmpool admin create-jwt-token\<close> prints opens the admin API for ever:
  the command says when it expires, and after that moment the options of the crate would refuse it, but
  the middleware accepts it at any time.\<close>

theorem cli_token_never_expires:
  assumes "encodes_tokens encode signed payload" and "decodes_tokens decode signed payload now"
    and "create_jwt_token encode cfg clock expire subject = \<lparr>co_exit = 0, co_out = [token], co_err = messages\<rparr>"
    and "rq_header request ''x-admin-token'' = Some token"
  shows "auth_jwt (cf_jwt_secret cfg) decode request inner = inner \<and>
    messages = [''Token expires in '' @ show_int expire @ '' seconds''] \<and>
    (wrap_u64 (clock div 1000000 + expire) < now \<longrightarrow>
       decode (cf_jwt_secret cfg) default_validation token = None)"
  using assms
  by (auto simp: create_jwt_token_def exits_def encodes_tokens_def decodes_tokens_def claims_of_def Let_def
      auth_jwt_def admin_validation_def default_validation_def split: if_splits sum.splits)

text \<open>A token that spells out its secret and its claims, each character marked.\<close>

fun spell :: "string \<Rightarrow> string" where
  "spell [] = [CHR ''!'']"
| "spell (c # cs) = CHR ''.'' # c # spell cs"

fun unspell :: "string \<Rightarrow> string \<times> string" where
  "unspell (m # c # cs) =
     (if m = CHR ''.'' then (let (s, rest) = unspell cs in (c # s, rest)) else ('''', c # cs))"
| "unspell [m] = ('''', '''')"
| "unspell [] = ('''', '''')"

lemma unspell_spell [simp]: "unspell (spell s @ rest) = (s, rest)"
proof (induction s)
  case Nil
  then show ?case by (cases rest) auto
next
  case (Cons c s)
  then show ?case by simp
qed

definition plain_encode :: "string \<Rightarrow> admin_claims \<Rightarrow> string + string" where
  "plain_encode s c =
     (case ad_exp c of
        Some e \<Rightarrow>
          if in_i64 e then Inr (spell s @ spell (ad_sub c) @ spell (ad_realm c) @ show_int e)
          else Inl ''range''
      | None \<Rightarrow> Inl ''no expiry'')"

definition plain_payload :: "string \<Rightarrow> claims" where
  "plain_payload t =
     (let (s, t1) = unspell t; (sub, t2) = unspell t1; (realm, t3) = unspell t2
      in \<lparr>cl_sub = Some sub, cl_exp = parse_i64 t3, cl_realm = Some realm\<rparr>)"

definition plain_signed :: "string \<Rightarrow> string \<Rightarrow> bool" where
  "plain_signed s t \<longleftrightarrow> fst (unspell t) = s"

definition plain_decode :: "int \<Rightarrow> string \<Rightarrow> validation \<Rightarrow> string \<Rightarrow> claims option" where
  "plain_decode now s v t =
     (if plain_signed s t \<and>
         (''exp'' \<in> set (va_required_spec_claims v) \<longrightarrow> cl_exp (plain_payload t) \<noteq> None) \<and>
         (va_validate_exp v \<longrightarrow> (case cl_exp (plain_payload t) of None \<Rightarrow> True | Some e \<Rightarrow> now \<le> e))
      then Some (plain_payload t) else None)"

lemma plain_tokens:
  "encodes_tokens plain_encode plain_signed plain_payload"
  "decodes_tokens (plain_decode now) plain_signed plain_payload now"
  by (auto simp: encodes_tokens_def plain_encode_def plain_signed_def plain_payload_def claims_of_def
      decodes_tokens_def plain_decode_def split: option.splits if_splits)

theorem cli_token_never_expires_witness:
  "\<exists>token. create_jwt_token plain_encode demo_config 5000000 3600 ''admin'' =
       \<lparr>co_exit = 0, co_out = [token], co_err = [''Token expires in 3600 seconds'']\<rparr> \<and>
     auth_jwt ''s'' (plain_decode 999999)
       \<lparr>rq_header = (\<lambda>n. if n = ''x-admin-token'' then Some token else None), rq_peer = None\<rparr>
       (return (Inr ())) = return (Inr ()) \<and>
     plain_decode 999999 ''s'' default_validation token = None"
proof -
  have shown: "show_int 3600 = ''3600''"
    by code_simp
  obtain token where token: "create_jwt_token plain_encode demo_config 5000000 3600 ''admin'' =
       \<lparr>co_exit = 0, co_out = [token], co_err = [''Token expires in 3600 seconds'']\<rparr>"
    by (simp add: create_jwt_token_def demo_config_def plain_encode_def wrap_u64_def in_i64_def Let_def shown)
  have "wrap_u64 (5000000 div 1000000 + 3600) < (999999 :: int)"
    by (simp add: wrap_u64_def)
  then show ?thesis
    using cli_token_never_expires [OF plain_tokens(1) plain_tokens(2) [of 999999] token,
        where inner = "return (Inr ()) :: unit response_io" and
        request = "\<lparr>rq_header = (\<lambda>n. if n = ''x-admin-token'' then Some token else None), rq_peer = None\<rparr>"]
      token
    by (auto simp: demo_config_def)
qed

section \<open>Keys created at the command line\<close>

text \<open>A key is new when nothing in the database or the cache goes by its hash.\<close>

definition unused_key :: "crypto_env \<Rightarrow> string \<Rightarrow> world \<Rightarrow> bool" where
  "unused_key cy key w \<longleftrightarrow>
     list_all (\<lambda>c. cred_api_key_hash c \<noteq> hash_api_key cy key) (t_rows (api_credentials (w_db w))) \<and>
     lookup_live (w_now w) (w_redis w) (apikey_cache_key (hash_token cy key)) = None"

definition key_row :: "crypto_env \<Rightarrow> string \<Rightarrow> string \<Rightarrow> account \<Rightarrow> world \<Rightarrow> api_credential" where
  "key_row cy key c acc w =
     fresh_credential \<lparr>nc_account_id = Some (acc_id acc), nc_apikey = key, nc_label = '''', nc_expires_at = None\<rparr>
       c (hash_api_key cy key) (w_now w) (t_seq (api_credentials (w_db w)) + 1)"

lemma account_by_name:
  assumes "w_faults w = []" and "distinct (map acc_name (t_rows (accounts (w_db w))))"
    and "acc \<in> set (t_rows (accounts (w_db w)))"
  shows "wp (get_account_by_name (acc_name acc)) Q w = Q (Inr (Some acc)) w"
  using assms filter_key [of acc_name "t_rows (accounts (w_db w))" acc]
  by (simp add: get_account_by_name_def select_accounts_def no_fault_calls sql_defs select_rows_def)

lemma account_by_id:
  assumes "w_faults w = []" and "ids_ok acc_id (accounts (w_db w))"
    and "acc \<in> set (t_rows (accounts (w_db w)))"
  shows "wp (get_account_by_id (acc_id acc)) Q w = Q (Inr (Some acc)) w"
  using assms by (simp add: get_account_by_id_def select_accounts_def no_fault_calls sql_defs select_rows_def
      ids_ok_filter_pk)

lemma key_decrypts:
  assumes "crates_ok cy" and "length nonce = NONCE_SIZE" and "cy_utf8 cy key"
    and "encrypt_apikey cy nonce key = Inr c" and "ellipse_api_key key = Some e"
    and "cred_encrypted_api_key k = c"
  shows "decrypt_credential cy k = Inr (k\<lparr>cred_ellipsed_api_key := e, cred_apikey := key\<rparr>)"
  using assms decrypt_encrypt_if_configured [OF assms(1-3)]
  by (auto simp: decrypt_credential_def decrypt_api_key_def encrypt_apikey_def split: sum.splits)

lemma key_created:
  assumes "w_faults w = []" and "crates_ok cy" and "length nonce = NONCE_SIZE" and "cy_utf8 cy key"
    and "key = generate_api_credential uuid" and "encrypt_apikey cy nonce key = Inr c"
    and "ellipse_api_key key = Some e" and "unused_key cy key w"
    and "acc \<in> set (t_rows (accounts (w_db w)))"
  shows "wp (create_api_credential_for_account cy nonce uuid (acc_id acc) '''') Q w =
    Q (Inr ((key_row cy key c acc w)\<lparr>cred_ellipsed_api_key := e, cred_apikey := key\<rparr>))
      (w\<lparr>w_db := w_db w\<lparr>api_credentials := (api_credentials (w_db w))
        \<lparr>t_rows := t_rows (api_credentials (w_db w)) @ [key_row cy key c acc w],
         t_seq := t_seq (api_credentials (w_db w)) + 1\<rparr>\<rparr>\<rparr>)"
proof -
  have free: "violates (\<exists>c \<in> set (t_rows (api_credentials (w_db w))). cred_api_key_hash c = hash_api_key cy key) i = None" for i
    using assms(8) by (auto simp: unused_key_def list_all_iff violates_def)
  have owner: "violates (\<forall>a \<in> set (t_rows (accounts (w_db w))). acc_id a \<noteq> acc_id acc) i = None" for i
    using assms(9) by (auto simp: violates_def)
  have "cred_encrypted_api_key (key_row cy key c acc w) = c"
    by (simp add: key_row_def fresh_credential_def)
  note dec = key_decrypts [OF assms(2-4,6,7) this]
  show ?thesis
    using assms(1,6) dec
    by (simp add: create_api_credential_for_account_def Let_def no_fault_calls sql_defs insert_row_def
        key_row_def free owner flip: assms(5))
qed

lemma key_authenticates:
  assumes "w_faults w = []" and "ids_ok acc_id (accounts (w_db w))"
    and "acc \<in> set (t_rows (accounts (w_db w)))" and "acc_is_active acc"
    and "filter (\<lambda>c. cred_api_key_hash c = hash_api_key cy key \<and> cred_is_active c)
           (t_rows (api_credentials (w_db w))) = [k]"
    and "cred_account_id k = Some (acc_id acc)" and "decrypt_credential cy k = Inr k'"
    and "cred_account_id k' = cred_account_id k"
    and "lookup_live (w_now w) (w_redis w) (apikey_cache_key (hash_token cy key)) = None"
  shows "wp (authenticate cy key) (\<lambda>r _. r = Inr (k', acc)) w"
proof -
  have h: "hash_token cy key = hash_api_key cy key"
    by (simp add: hash_token_def hash_api_key_def)
  show ?thesis
    using assms(1,4-9) account_by_id [OF assms(1-3)]
    by (simp add: authenticate_def Let_def get_apikey_info_def cache_get_def redis_get_def no_fault_calls
        authenticate_from_db_def find_active_api_credential_by_api_key_hash_def select_credentials_def
        sql_defs select_rows_def decrypt_optional_def h set_apikey_info_def cache_set_def redis_set_ex_def)
qed

text \<open>C31: on a healthy system \<^verbatim>\<open>llmpool admin create-api-key\<close> prints a new key for the account it
  names, and whoever sends this key is authenticated as that account: the key survives encryption in
  the database, and its hash finds it again.\<close>

theorem cli_key_authenticates:
  assumes "w_faults w = []" and "crates_ok cy" and "length nonce = NONCE_SIZE" and "cy_utf8 cy key"
    and "key = generate_api_credential uuid" and "encrypt_apikey cy nonce key = Inr c"
    and "ellipse_api_key key = Some e" and "unused_key cy key w"
    and "acc \<in> set (t_rows (accounts (w_db w)))" and "acc_is_active acc"
    and "ids_ok acc_id (accounts (w_db w))" and "distinct (map acc_name (t_rows (accounts (w_db w))))"
    and "run_state (create_api_key_command cy nonce uuid show_error (acc_name acc)) w = (out, w')"
  shows "co_exit out = 0 \<and> last (co_out out) = ''Key: '' @ key \<and>
    (\<exists>k. fst (run_state (authenticate cy key) w') = Inr (k, acc) \<and> cred_account_id k = Some (acc_id acc) \<and>
       cred_apikey k = key)"
proof -
  define k where "k = (key_row cy key c acc w)\<lparr>cred_ellipsed_api_key := e, cred_apikey := key\<rparr>"
  define t where "t = w\<lparr>w_db := w_db w\<lparr>api_credentials := (api_credentials (w_db w))
        \<lparr>t_rows := t_rows (api_credentials (w_db w)) @ [key_row cy key c acc w],
         t_seq := t_seq (api_credentials (w_db w)) + 1\<rparr>\<rparr>\<rparr>"
  have "wp (create_api_key_command cy nonce uuid show_error (acc_name acc))
      (\<lambda>r s. co_exit r = 0 \<and> last (co_out r) = ''Key: '' @ key \<and> s = t) w"
    using account_by_name [OF assms(1,12,9)] key_created [OF assms(1-9)]
    by (simp add: create_api_key_command_def k_def t_def)
  from wp_run [OF this assms(13)]
  have out: "co_exit out = 0" "last (co_out out) = ''Key: '' @ key" "w' = t"
    by simp_all
  have "filter (\<lambda>c. cred_api_key_hash c = hash_api_key cy key \<and> cred_is_active c)
      (t_rows (api_credentials (w_db w))) = []"
    using assms(8) by (auto simp: unused_key_def list_all_iff filter_empty_conv)
  then have row: "filter (\<lambda>c. cred_api_key_hash c = hash_api_key cy key \<and> cred_is_active c)
      (t_rows (api_credentials (w_db t))) = [key_row cy key c acc w]"
    by (simp add: t_def key_row_def fresh_credential_def)
  have row_of: "cred_encrypted_api_key (key_row cy key c acc w) = c"
      "cred_account_id (key_row cy key c acc w) = Some (acc_id acc)"
    by (simp_all add: key_row_def fresh_credential_def)
  have w_t: "w_faults t = []" "accounts (w_db t) = accounts (w_db w)"
      "lookup_live (w_now t) (w_redis t) (apikey_cache_key (hash_token cy key)) = None"
    using assms(1,8) by (simp_all add: t_def unused_key_def)
  have "wp (authenticate cy key) (\<lambda>r _. r = Inr (k, acc)) t"
    by (rule key_authenticates [OF w_t(1) _ _ assms(10) row row_of(2) _ _ w_t(3)])
      (simp_all add: w_t(2) assms(9,11) k_def key_decrypts [OF assms(2-4,6,7) row_of(1)] row_of(2))
  then have "fst (run_state (authenticate cy key) t) = Inr (k, acc)"
    by (simp add: wp_run_state)
  moreover have "cred_account_id k = Some (acc_id acc)" "cred_apikey k = key"
    by (simp_all add: k_def key_row_def fresh_credential_def)
  ultimately show ?thesis using out by blast
qed

theorem cli_key_authenticates_witness:
  "\<exists>k. fst (run_state (authenticate demo_crates ''lpx-0123456789'')
      (final (create_api_key_command demo_crates (replicate 12 CHR 0x00) ''0123456789'' (\<lambda>_. '''') ''acme'')
        (world_of empty_db))) = Inr (k, demo_account)"
proof -
  let ?key = "''lpx-0123456789''" and ?nonce = "replicate 12 CHR 0x00" and ?w = "world_of empty_db"
  let ?cmd = "create_api_key_command demo_crates ?nonce ''0123456789'' (\<lambda>_. '''') ''acme''"
  have crates: "crates_ok demo_crates"
    by (simp add: crates_ok_def demo_crates_def)
  have shown: "ellipse_api_key ?key = Some ''lpx-01...456789''"
    by code_simp
  have stored: "encrypt_apikey demo_crates ?nonce ?key = Inr (?nonce @ ''T'' @ ?key)" "cy_utf8 demo_crates ?key"
    by (simp_all add: encrypt_apikey_def encrypt_if_configured_def is_encryption_configured_def encrypt_def
        get_encryption_key_def demo_crates_def Let_def)
  have new: "unused_key demo_crates ?key ?w" "length ?nonce = NONCE_SIZE"
    "?key = generate_api_credential ''0123456789''"
    by (simp_all add: unused_key_def lookup_live_def demo_defs NONCE_SIZE_def generate_api_credential_def)
  have owner: "demo_account \<in> set (t_rows (accounts (w_db ?w)))" "acc_is_active demo_account"
    "ids_ok acc_id (accounts (w_db ?w))" "distinct (map acc_name (t_rows (accounts (w_db ?w))))"
    by (simp_all add: demo_defs ids_ok_def)
  obtain out where run: "run_state ?cmd ?w = (out, final ?cmd ?w)"
    by (metis prod.collapse)
  have name: "acc_name demo_account = ''acme''" and calm: "w_faults ?w = []"
    by (simp_all add: demo_account_def)
  from cli_key_authenticates [OF calm crates new(2) stored(2) new(3) stored(1) shown new(1) owner,
      unfolded name, OF run]
  show ?thesis by blast
qed

end
