(* ===== verification/Process.thy ===== *)
theory Process
  imports Server BillingSystem
begin

text \<open>
  The processes of the program: a worker (\<^verbatim>\<open>defer/worker.rs\<close>) and the choice among the commands
  (\<^verbatim>\<open>main.rs\<close>).  What a worker does with one task is a step of \<open>BillingSystem\<close>.
\<close>

section \<open>Workers\<close>

text \<open>A worker takes what its source delivers: the three queues, and the clock of the health check.\<close>

datatype job = HandleOpenAIEvent | HandleAnthropicEvent | SettleBalanceChange | CheckOfflineUpstreams

record worker =
  wk_name :: string
  wk_job :: job
  wk_concurrency :: "nat option"

definition registered_workers :: "nat \<Rightarrow> worker list" where
  "registered_workers concurrency =
     [\<lparr>wk_name = ''event-worker'', wk_job = HandleOpenAIEvent, wk_concurrency = Some concurrency\<rparr>,
      \<lparr>wk_name = ''anthropic-event-worker'', wk_job = HandleAnthropicEvent, wk_concurrency = Some concurrency\<rparr>,
      \<lparr>wk_name = ''balance-change-worker'', wk_job = SettleBalanceChange, wk_concurrency = Some concurrency\<rparr>,
      \<lparr>wk_name = ''upstream-health-worker'', wk_job = CheckOfflineUpstreams, wk_concurrency = None\<rparr>]"

definition UPSTREAM_HEALTH_CHECK_CRON :: string where
  "UPSTREAM_HEALTH_CHECK_CRON = ''0 */5 * * * *''"

definition run_worker ::
    "server_env \<Rightarrow> os_env \<Rightarrow> app_config \<Rightarrow> (string \<Rightarrow> bool) \<Rightarrow> (string \<times> string) list \<Rightarrow> nat \<Rightarrow>
     (string + worker list) io" where
  "run_worker se os cfg schedule_ok configs concurrency =
     (case connected se os cfg of
        Inl e \<Rightarrow> return (Inl e)
      | Inr _ \<Rightarrow> do {
          cleaned \<leftarrow> cleanup_stale_workers configs
            [''event-worker'', ''anthropic-event-worker'', ''balance-change-worker''];
          return (case cleaned of
             Inl e \<Rightarrow> Inl e
           | Inr _ \<Rightarrow>
               expect_ok (schedule_ok UPSTREAM_HEALTH_CHECK_CRON)
                 ''Invalid cron expression for upstream health check''
                 (Inr (registered_workers concurrency))) })"

text \<open>One delivery.\<close>

datatype delivery =
    OpenAIDelivery openai_event_task
  | AnthropicDelivery anthropic_event_task
  | SettlementDelivery balance_change_task
  | HealthTick

record worker_env =
  we_hour :: "timestamp \<Rightarrow> string"
  we_openai_json :: "openai_event_data \<Rightarrow> json option"
  we_anthropic_json :: "anthropic_event_data \<Rightarrow> json option"
  we_crypto :: crypto_env
  we_probe :: "string \<Rightarrow> string \<Rightarrow> int option"

definition job_of :: "delivery \<Rightarrow> job" where
  "job_of d =
     (case d of
        OpenAIDelivery _ \<Rightarrow> HandleOpenAIEvent
      | AnthropicDelivery _ \<Rightarrow> HandleAnthropicEvent
      | SettlementDelivery _ \<Rightarrow> SettleBalanceChange
      | HealthTick \<Rightarrow> CheckOfflineUpstreams)"

definition work :: "worker_env \<Rightarrow> delivery \<Rightarrow> unit io" where
  "work we d =
     (case d of
        OpenAIDelivery t \<Rightarrow> handle_openai_event (we_hour we) (we_openai_json we) t
      | AnthropicDelivery t \<Rightarrow> handle_anthropic_event (we_hour we) (we_anthropic_json we) t
      | SettlementDelivery t \<Rightarrow> settle_balance_change t
      | HealthTick \<Rightarrow> check_offline_upstreams (we_crypto we) (we_probe we))"

text \<open>Every delivery has exactly one worker.\<close>

lemma one_worker_per_delivery:
  "length (filter (\<lambda>wk. wk_job wk = job_of d) (registered_workers concurrency)) = 1"
  by (cases d) (simp_all add: job_of_def registered_workers_def)

section \<open>The main function\<close>

datatype llmpool_command =
    ServeCommand string
  | CreateJwtToken int string
  | CreateApiKeyFor string
  | CreateUser
  | WorkerCommand nat
  | Migrate
  | Dbshell

text \<open>A process panics, exits with its output, or goes on running.\<close>

datatype outcome =
    Crashed string
  | Exited command_output
  | Serving "mounted list"
  | Working "worker list"

record main_env =
  me_os :: os_env
  me_server :: server_env
  me_schedule_ok :: "string \<Rightarrow> bool"
  me_configs :: "(string \<times> string) list"
  me_migrate :: "string \<Rightarrow> bool"
  me_psql :: "string \<Rightarrow> string + int option"
  me_encode :: "string \<Rightarrow> admin_claims \<Rightarrow> string + string"
  me_crypto :: crypto_env
  me_nonce :: bytes
  me_uuid :: string
  me_show_error :: "sqlx_error \<Rightarrow> string"
  me_line :: string

text \<open>\<^verbatim>\<open>create_pool_from_config\<close> before the body of a command.\<close>

definition with_pool :: "main_env \<Rightarrow> app_config \<Rightarrow> outcome io \<Rightarrow> outcome io" where
  "with_pool me cfg body =
     (case create_pool_from_config (me_server me) (me_os me) cfg of
        Inl e \<Rightarrow> return (Crashed e)
      | Inr _ \<Rightarrow> body)"

definition dbshell :: "(string \<Rightarrow> string + int option) \<Rightarrow> string \<Rightarrow> command_output" where
  "dbshell psql url =
     (case psql url of
        Inl e \<Rightarrow> \<lparr>co_exit = 1, co_out = [],
          co_err = [''Failed to launch psql: '' @ e, ''Make sure psql is installed and available in your PATH.'']\<rparr>
      | Inr code \<Rightarrow> \<lparr>co_exit = (case code of Some n \<Rightarrow> n | None \<Rightarrow> 1), co_out = [], co_err = []\<rparr>)"

definition llmpool_main :: "main_env \<Rightarrow> string option \<Rightarrow> llmpool_command \<Rightarrow> outcome io" where
  "llmpool_main me config_path cmd =
     (let os = me_os me in
      case load_config os (resolve_config_path os config_path) of
        Inl e \<Rightarrow> return (Crashed e)
      | Inr cfg \<Rightarrow>
          (case cmd of
             ServeCommand address \<Rightarrow>
               return (case serve (me_server me) os cfg address of Inl e \<Rightarrow> Crashed e | Inr app \<Rightarrow> Serving app)
           | CreateJwtToken expire subject \<Rightarrow> do {
               w \<leftarrow> State_Monad.get;
               return (Exited (create_jwt_token (me_encode me) cfg (w_now w) expire subject)) }
           | CreateApiKeyFor name \<Rightarrow> with_pool me cfg (do {
               out \<leftarrow> create_api_key_command (me_crypto me) (me_nonce me) (me_uuid me) (me_show_error me) name;
               return (Exited out) })
           | CreateUser \<Rightarrow> with_pool me cfg (do {
               out \<leftarrow> create_user_command (me_show_error me) (me_line me);
               return (Exited out) })
           | WorkerCommand concurrency \<Rightarrow> do {
               r \<leftarrow> run_worker (me_server me) os cfg (me_schedule_ok me) (me_configs me) concurrency;
               return (case r of Inl e \<Rightarrow> Crashed e | Inr ws \<Rightarrow> Working ws) }
           | Migrate \<Rightarrow> with_pool me cfg (return
               (if me_migrate me (database_url os cfg) then
                  Exited \<lparr>co_exit = 0, co_out = [''Database migrations completed successfully.''], co_err = []\<rparr>
                else Crashed ''Failed to run database migrations''))
           | Dbshell \<Rightarrow> return (Exited (dbshell (me_psql me) (database_url os cfg)))))"

end
