(* ===== verification/ProxyServers.thy ===== *)
theory ProxyServers
  imports Server OpenAIFiles OpenAIResponses AnthropicStored
begin

text \<open>
  The two proxies as servers: which handler an endpoint runs, on which part of the request
  (\<^verbatim>\<open>openai/proxy_views/mod.rs\<close>, \<^verbatim>\<open>anthropic/proxy_views/mod.rs\<close>).  The
  extractors of a handler (\<^verbatim>\<open>Path\<close>, \<^verbatim>\<open>Json\<close>, \<^verbatim>\<open>Multipart\<close>) run before it; what the crates read
  in a body is an argument, \<open>None\<close> when they reject it.
\<close>

section \<open>Extractors and answers\<close>

definition answer_as :: "('a \<Rightarrow> 'b) \<Rightarrow> 'a response_io \<Rightarrow> (rejection + 'b) response_io" where
  "answer_as f m = do {
     r \<leftarrow> m;
     return (case r of Inl e \<Rightarrow> Inl e | Inr x \<Rightarrow> Inr (Inr (f x))) }"

definition with_payload :: "'p option \<Rightarrow> ('p \<Rightarrow> (rejection + 'b) response_io) \<Rightarrow> (rejection + 'b) response_io" where
  "with_payload payload k = (case payload of None \<Rightarrow> return (Inr (Inl BadBody)) | Some p \<Rightarrow> k p)"

section \<open>OpenAI\<close>

text \<open>What the extractors read in a body, and what the upstream answers to each call.\<close>

record openai_env =
  oe_px :: proxy_env
  oe_read_chat :: "bytes \<Rightarrow> chat_request option"
  oe_read_embedding :: "bytes \<Rightarrow> embedding_request option"
  oe_read_image :: "bytes \<Rightarrow> image_request option"
  oe_read_speech :: "bytes \<Rightarrow> speech_request option"
  oe_read_batch :: "bytes \<Rightarrow> batch_request option"
  oe_read_response :: "bytes \<Rightarrow> create_response option"
  oe_read_form :: "bytes \<Rightarrow> multipart_item list option"
  oe_chat :: chat_upstream
  oe_embedding :: "upstream_client \<Rightarrow> embedding_request \<Rightarrow> openai_error + embedding_response"
  oe_image :: "upstream_client \<Rightarrow> image_request \<Rightarrow> openai_error + images_response"
  oe_speech :: "upstream_client \<Rightarrow> speech_request \<Rightarrow> openai_error + bytes"
  oe_upload :: "sdk_client \<Rightarrow> create_file_request \<Rightarrow> openai_error + file_object"
  oe_file :: "sdk_client \<Rightarrow> string \<Rightarrow> openai_error + file_object"
  oe_file_delete :: "sdk_client \<Rightarrow> string \<Rightarrow> openai_error + file_object"
  oe_file_content :: "sdk_client \<Rightarrow> string \<Rightarrow> openai_error + bytes"
  oe_batch_create :: "sdk_client \<Rightarrow> batch_request \<Rightarrow> openai_error + batch"
  oe_batch :: "sdk_client \<Rightarrow> string \<Rightarrow> openai_error + batch"
  oe_batch_cancel :: "sdk_client \<Rightarrow> string \<Rightarrow> openai_error + batch"
  oe_response :: responses_upstream
  oe_response_get :: "sdk_client \<Rightarrow> string \<Rightarrow> openai_error + response"
  oe_response_delete :: "sdk_client \<Rightarrow> string \<Rightarrow> openai_error + json"

datatype openai_reply =
    OpenAIModels "openai_model list"
  | ChatAnswer chat_reply
  | EmbeddingAnswer embedding_response
  | ImagesAnswer images_response
  | BytesAnswer bytes
  | FileAnswer file_object
  | BatchAnswer batch
  | ResponseAnswer response
  | ValueAnswer json

definition run_openai ::
    "openai_env \<Rightarrow> bytes \<Rightarrow> openai_endpoint \<Rightarrow> string list \<Rightarrow> api_credential \<Rightarrow> account \<Rightarrow>
     (rejection + openai_reply) response_io" where
  "run_openai oe body endpoint args key acc =
     (let px = oe_px oe; i = hd args in
      case endpoint of
        ListMergedModels \<Rightarrow> answer_as OpenAIModels list_merged_models
      | ChatCompletions \<Rightarrow> with_payload (oe_read_chat oe body) (\<lambda>payload.
          answer_as ChatAnswer (chat_completions px (oe_chat oe) key acc payload))
      | CreateEmbeddings \<Rightarrow> with_payload (oe_read_embedding oe body) (\<lambda>payload.
          answer_as EmbeddingAnswer (create_embeddings px (oe_embedding oe) key acc payload))
      | GenerateImages \<Rightarrow> with_payload (oe_read_image oe body) (\<lambda>payload.
          answer_as ImagesAnswer (generate_images px (oe_image oe) key acc payload))
      | CreateSpeech \<Rightarrow> with_payload (oe_read_speech oe body) (\<lambda>payload.
          answer_as BytesAnswer (create_speech px (oe_speech oe) acc payload))
      | CreateFile \<Rightarrow> with_payload (oe_read_form oe body) (\<lambda>items.
          answer_as FileAnswer (create_file_handler px (oe_upload oe) acc items))
      | RetrieveFile \<Rightarrow> answer_as FileAnswer (retrieve_file_handler px (oe_file oe) acc i)
      | DeleteFile \<Rightarrow> answer_as FileAnswer (delete_file_handler px (oe_file_delete oe) acc i)
      | FileContent \<Rightarrow> answer_as BytesAnswer (file_content_handler px (oe_file_content oe) acc i)
      | CreateBatch \<Rightarrow> with_payload (oe_read_batch oe body) (\<lambda>payload.
          answer_as BatchAnswer (create_batch_handler px (oe_batch_create oe) key acc payload))
      | BatchById \<Rightarrow> answer_as BatchAnswer (batch_by_id_handler px (oe_batch oe) key acc i)
      | BatchCancel \<Rightarrow> answer_as BatchAnswer (batch_cancel_handler px (oe_batch_cancel oe) key acc i)
      | CreateResponse \<Rightarrow> with_payload (oe_read_response oe body) (\<lambda>payload.
          answer_as ValueAnswer (create_response px (oe_response oe) key acc payload))
      | RetrieveResponse \<Rightarrow> answer_as ResponseAnswer (retrieve_response px (oe_response_get oe) key acc i)
      | DeleteResponse \<Rightarrow> answer_as ValueAnswer (delete_response px (oe_response_delete oe) i))"

definition serve_openai ::
    "openai_env \<Rightarrow> rate_limit_config \<Rightarrow> int \<Rightarrow> int \<Rightarrow> http_request \<Rightarrow> string \<Rightarrow> string list \<Rightarrow> bytes \<Rightarrow>
     (rejection + openai_reply) response_io" where
  "serve_openai oe cfg ip_rand token_rand request m path body =
     openai_server (px_crypto (oe_px oe)) cfg ip_rand token_rand (run_openai oe body) request m path"

section \<open>Anthropic\<close>

record anthropic_env =
  ne_px :: proxy_env
  ne_show_error :: "sdk_error \<Rightarrow> string"
  ne_rfc3339 :: "timestamp \<Rightarrow> string"
  ne_mime_ok :: "string \<Rightarrow> bool"
  ne_read_message :: "bytes \<Rightarrow> create_message_params option"
  ne_read_count :: "bytes \<Rightarrow> count_message_tokens_params option"
  ne_read_batch :: "bytes \<Rightarrow> create_message_batch_params option"
  ne_read_form :: "bytes \<Rightarrow> multipart_item list option"
  ne_message :: message_upstream
  ne_count :: "(count_message_tokens_params, count_message_tokens_response) transport"
  ne_batch_create :: "(create_message_batch_params, message_batch) transport"
  ne_batch_list :: "(unit, list_message_batches_response) transport"
  ne_batch :: "(unit, message_batch) transport"
  ne_batch_cancel :: "(json, message_batch) transport"
  ne_results :: "(unit, unit) transport"
  ne_upload :: "(file_part, json) transport"
  ne_file :: "(unit, json) transport"

datatype anthropic_reply =
    AnthropicModels list_models_response
  | MessageAnswer message_reply
  | CountAnswer count_message_tokens_response
  | MessageBatchAnswer message_batch
  | MessageBatches list_message_batches_response
  | ResultsAnswer "unit http_answer"
  | AnthropicFileAnswer file_reply
  | AnthropicContentAnswer "file_reply + json http_answer"

definition run_anthropic ::
    "anthropic_env \<Rightarrow> bytes \<Rightarrow> anthropic_endpoint \<Rightarrow> string list \<Rightarrow> api_credential \<Rightarrow> account \<Rightarrow>
     (rejection + anthropic_reply) response_io" where
  "run_anthropic ne body endpoint args key acc =
     (let px = ne_px ne; show = ne_show_error ne; i = hd args in
      case endpoint of
        ListAnthropicModels \<Rightarrow> answer_as AnthropicModels (anthropic_list_models (ne_rfc3339 ne))
      | CreateMessage \<Rightarrow> with_payload (ne_read_message ne body) (\<lambda>payload.
          answer_as MessageAnswer (create_message px (ne_message ne) key acc payload))
      | CountMessageTokens \<Rightarrow> with_payload (ne_read_count ne body) (\<lambda>payload.
          answer_as CountAnswer (count_message_tokens px (ne_count ne) acc payload))
      | CreateMessageBatch \<Rightarrow> with_payload (ne_read_batch ne body) (\<lambda>payload.
          answer_as MessageBatchAnswer (create_message_batch px (ne_batch_create ne) show acc payload))
      | ListMessageBatches \<Rightarrow> answer_as MessageBatches (list_message_batches px (ne_batch_list ne) show acc)
      | RetrieveMessageBatch \<Rightarrow>
          answer_as MessageBatchAnswer (retrieve_message_batch px (ne_batch ne) show acc i)
      | CancelMessageBatch \<Rightarrow>
          answer_as MessageBatchAnswer (cancel_message_batch px (ne_batch_cancel ne) show acc i)
      | MessageBatchResults \<Rightarrow>
          answer_as ResultsAnswer (retrieve_message_batch_results px (ne_results ne) show acc i)
      | UploadFile \<Rightarrow> with_payload (ne_read_form ne body) (\<lambda>items.
          answer_as AnthropicFileAnswer (upload_file px (ne_upload ne) show (ne_mime_ok ne) acc items))
      | ListFiles \<Rightarrow> answer_as AnthropicFileAnswer (list_files px (ne_file ne) show acc)
      | RetrieveAnthropicFile \<Rightarrow> answer_as AnthropicFileAnswer (retrieve_file px (ne_file ne) show acc i)
      | DeleteAnthropicFile \<Rightarrow> answer_as AnthropicFileAnswer (delete_file px (ne_file ne) show acc i)
      | AnthropicFileContent \<Rightarrow> answer_as AnthropicContentAnswer (file_content px (ne_file ne) show acc i))"

definition serve_anthropic ::
    "anthropic_env \<Rightarrow> rate_limit_config \<Rightarrow> int \<Rightarrow> int \<Rightarrow> http_request \<Rightarrow> string \<Rightarrow> string list \<Rightarrow> bytes \<Rightarrow>
     (rejection + anthropic_reply) response_io" where
  "serve_anthropic ne cfg ip_rand token_rand request m path body =
     anthropic_server (px_crypto (ne_px ne)) cfg ip_rand token_rand (run_anthropic ne body) request m path"

end
