(* ===== verification/Operations.thy ===== *)
theory Operations
  imports Process ProxyServers
begin

text \<open>
  What the requests, commands and tasks outside billing keep.  The locale \<open>database\<close> states the contract of
  the functions of \<^verbatim>\<open>db/\<close> that write: they keep a property \<open>P\<close> of the database.  Its lemmas carry
  the contract through every handler, middleware and server; its interpretations are in \<open>EntryPoints\<close> and
  \<open>KeyStore\<close>.
\<close>

section \<open>Operations that keep a property of the database\<close>

abbreviation keeps_outside :: "(db \<Rightarrow> bool) \<Rightarrow> world \<Rightarrow> world \<Rightarrow> bool" where
  "keeps_outside P s t \<equiv> w_tx s = None \<longrightarrow> w_tx t = None \<and> (P (w_db s) \<longrightarrow> P (w_db t))"

interpretation outside: effect_order "keeps_outside P" for P
  by unfold_locales auto

abbreviation safe :: "(db \<Rightarrow> bool) \<Rightarrow> 'a io \<Rightarrow> bool" where
  "safe P m \<equiv> state_io_rel (keeps_outside P) m"

named_theorems safe_intros \<open>operations that keep a property of the database\<close>

lemmas [safe_intros] = outside.eff_return outside.eff_get outside.eff_bind outside.eff_case_option
  outside.eff_case_sum outside.eff_case_prod outside.eff_let outside.eff_if

lemma safe_cases [safe_intros]:
  "(b \<Longrightarrow> safe P m) \<Longrightarrow> (\<not> b \<Longrightarrow> safe P n) \<Longrightarrow> safe P (case b of True \<Rightarrow> m | False \<Rightarrow> n)"
  "(xs = [] \<Longrightarrow> safe P m) \<Longrightarrow> (\<And>y ys. xs = y # ys \<Longrightarrow> safe P (f y ys)) \<Longrightarrow>
   safe P (case xs of [] \<Rightarrow> m | y # ys \<Rightarrow> f y ys)"
  by (cases b; simp) (cases xs; simp)

lemma safe_calls [safe_intros]:
  "safe P next_ok" "safe P redis_conn" "safe P (redis_cmd f)"
  "safe P (push_openai t)" "safe P (push_anthropic a)" "safe P (push_balance b)"
  by (auto simp: wp_eff push_openai_def push_anthropic_def push_balance_def
      intro!: wp_next_ok wp_redis_conn wp_redis_cmd wp_push_queue)

lemma safe_stmt [safe_intros]: "stmt_keeps P f \<Longrightarrow> safe P (db_stmt f)"
  by (auto simp: wp_eff intro!: wp_db_stmt dest: stmt_keepsD)

lemma safe_fetch [safe_intros]:
  "stmt_keeps P f \<Longrightarrow> safe P (fetch_one f)"
  "stmt_keeps P g \<Longrightarrow> safe P (fetch_optional g)"
  unfolding fetch_one_def fetch_optional_def by (intro safe_intros; assumption)+

lemma safe_bind_ok [safe_intros]:
  "safe P m \<Longrightarrow> (\<And>x. safe P (f x)) \<Longrightarrow> safe P (bind_ok m f)"
  unfolding bind_ok_def by (intro safe_intros)

lemma safe_redis [safe_intros]:
  "safe P (redis_get k)" "safe P (redis_set_ex k v ttl)" "safe P (redis_del k)"
  "safe P (redis_incr k n)" "safe P (redis_expire k ttl)" "safe P (redis_mget ks)"
  unfolding redis_get_def redis_set_ex_def redis_del_def redis_incr_def redis_expire_def redis_mget_def
  by (intro safe_intros; assumption?)+

lemma stmt_keeps_range: "stmt_keeps P f \<Longrightarrow> stmt_keeps P (range_stmt ok f)"
  by (auto simp: stmt_keeps_def range_stmt_def)

lemmas [safe_intros] = stmt_keeps_read stmt_keeps_guard stmt_keeps_range

lemma safe_spawn [safe_intros]: "safe P (spawn_mark_offline i)"
  by (auto simp: wp_eff spawn_mark_offline_def State_Monad.update_def)

lemma safe_caches [safe_intros]:
  "safe P (cache_get f k)" "safe P (cache_set k v ttl)" "safe P (cache_delete k)"
  "safe P (get_apikey_info k)" "safe P (set_apikey_info k ai)" "safe P (delete_apikey k)"
  "safe P (delete_account k)"
  unfolding get_apikey_info_def set_apikey_info_def delete_apikey_def delete_account_def
    cache_get_def cache_set_def cache_delete_def
  by (intro safe_intros; assumption?)+

section \<open>Reading\<close>

text \<open>A query keeps any property.\<close>

lemma safe_reads [safe_intros]:
  "safe P (get_account_by_id i)" "safe P (get_account_by_name s)" "safe P count_accounts"
  "safe P (list_accounts_paginated off l)" "safe P (count_api_credentials_by_account i)"
  "safe P (list_api_credentials_by_account_paginated cy i off l)"
  "safe P (find_active_api_credential_by_api_key_hash cy k)" "safe P (find_api_credential_by_apikey cy k)"
  "safe P (find_account_wallet i)" "safe P (get_session_event_by_id i)"
  "safe P (list_session_events_cursor p st n)" "safe P (get_subscription_by_id i)"
  "safe P (count_subscriptions ap vp)" "safe P (list_subscriptions_paginated ap vp off l)"
  "safe P (get_subscription_plan_by_id i)" "safe P count_subscription_plans"
  "safe P (list_subscription_plans_paginated off l)"
  unfolding get_account_by_id_def get_account_by_name_def count_accounts_def list_accounts_paginated_def
    select_accounts_def count_api_credentials_by_account_def list_api_credentials_by_account_paginated_def
    find_active_api_credential_by_api_key_hash_def find_api_credential_by_apikey_def select_credentials_def
    find_account_wallet_def find_wallet_sql_def get_session_event_by_id_def
    list_session_events_cursor_def get_subscription_by_id_def count_subscriptions_def
    list_subscriptions_paginated_def get_subscription_plan_by_id_def count_subscription_plans_def
    list_subscription_plans_paginated_def
  by (intro safe_intros; assumption?)+

lemma safe_catalog_reads [safe_intros]:
  "safe P (list_upstreams cy)" "safe P count_upstreams"
  "safe P (list_upstreams_paginated cy off l)" "safe P (get_upstream cy i)" "safe P (get_upstream_by_name cy s)"
  "safe P (get_upstream_by_api_base cy s)" "safe P (list_offline_upstreams cy)" "safe P (get_upstream_tags i)"
  "safe P (find_upstreams_by_tag cy s)"
  unfolding list_upstreams_def count_upstreams_def list_upstreams_paginated_def
    get_upstream_def get_upstream_by_name_def get_upstream_by_api_base_def list_offline_upstreams_def
    get_upstream_tags_def find_upstreams_by_tag_def query_upstreams_def query_upstream_def select_upstreams_def
  by (intro safe_intros; assumption?)+

lemma safe_model_reads [safe_intros]:
  "safe P (list_models s sp)" "safe P (list_models_by_upstream i)" "safe P (get_model i)"
  "safe P (find_model_by_upstream_and_model_id i s)" "safe P (find_model_by_upstream_name_and_model_id s s')"
  "safe P (count_models_filtered f)" "safe P (list_models_filtered_paginated f off l)"
  "safe P (find_models_by_name_and_capacity cy s s' s'')"
  unfolding list_models_def list_models_by_upstream_def get_model_def
    find_model_by_upstream_and_model_id_def find_model_by_upstream_name_and_model_id_def
    count_models_filtered_def list_models_filtered_paginated_def find_models_by_name_and_capacity_def
    select_models_def select_joined_def
  by (intro safe_intros; assumption?)+

lemma safe_meta_reads [safe_intros]:
  "safe P (get_file_meta_by_file_id s)" "safe P (get_file_meta_by_original_file_id s i)"
  "safe P (get_response_meta_by_response_id s)" "safe P (get_original_response_id s)"
  "safe P (get_response_id_from_original_response_id s)" "safe P (get_batch_meta_by_batch_id s)"
  unfolding get_file_meta_by_file_id_def get_file_meta_by_original_file_id_def
    get_response_meta_by_response_id_def get_original_response_id_def
    get_response_id_from_original_response_id_def get_batch_meta_by_batch_id_def select_files_def
    select_responses_def
  by (intro safe_intros; assumption?)+

section \<open>The contract of the writing functions\<close>

text \<open>\<open>trusted cy nonce\<close>: the surroundings a key may be encrypted in.\<close>

locale database =
  fixes P :: "db \<Rightarrow> bool"
    and trusted :: "crypto_env \<Rightarrow> bytes \<Rightarrow> bool"
  assumes writes_accounts [safe_intros]:
      "safe P (create_account na)" "safe P (update_account i ua)"
      "trusted cy nonce \<Longrightarrow> safe P (create_api_credential_for_account cy nonce u i s)"
      "safe P (deactivate_api_credential cy s)"
    and writes_upstreams [safe_intros]:
      "trusted cy nonce \<Longrightarrow> safe P (create_upstream cy nonce nu)"
      "trusted cy nonce \<Longrightarrow> safe P (update_upstream cy nonce i uu)"
      "safe P (mark_upstream_offline i)" "safe P (mark_upstream_online i)"
      "safe P (add_upstream_tag cy i s)" "safe P (remove_upstream_tag cy i s)"
    and writes_models [safe_intros]:
      "safe P (create_model nm)" "safe P (update_model i um)" "safe P (update_model_features i fs)"
    and writes_plans [safe_intros]:
      "safe P (create_subscription_plan s i j x k)" "safe P (update_subscription_plan i sp tp up xp op vp)"
      "safe P (cancel_subscription_plan i)"
    and writes_metas [safe_intros]:
      "safe P (create_file_meta s s' s'' i)" "safe P (mark_file_meta_deleted s)"
      "safe P (create_response_meta s s' i)" "safe P (mark_response_meta_deleted s)"
      "safe P (create_batch_meta_with_provider s s' i s'')" "safe P (update_batch_meta_status s s')"
begin

section \<open>The handlers of the admin API\<close>

lemma safe_list_page [safe_intros]:
  "safe P cnt \<Longrightarrow> (\<And>i n. safe P (rows i n)) \<Longrightarrow> safe P (list_page cnt rows dto msg ps)"
  unfolding list_page_def by (intro safe_intros)

lemma safe_with_account [safe_intros]: "(\<And>a. safe P (k a)) \<Longrightarrow> safe P (with_account i k)"
  unfolding with_account_def by (intro safe_intros)

lemma safe_save_models [safe_intros]: "safe P (save_models i ms)"
  by (induction ms) (auto intro!: safe_intros)

lemma safe_account_handlers [safe_intros]:
  "safe P (list_accounts_handler rn ps)" "safe P (create_account_handler rn s)"
  "safe P (get_account_by_id_handler rn i)" "safe P (update_account_by_id_handler rn i sp bp)"
  "safe P (get_account_by_name_handler rn s)" "safe P (get_account_wallet_handler rn i)"
  "safe P (list_account_apikeys_handler cy rn i ps)"
  "trusted cy nonce \<Longrightarrow> safe P (create_account_apikey_handler cy nonce u rn i s)"
  "safe P (get_apikey_handler cy rn s)" "safe P (delete_apikey_handler cy rn s)"
  unfolding list_accounts_handler_def create_account_handler_def get_account_by_id_handler_def
    update_account_by_id_handler_def get_account_by_name_handler_def get_account_wallet_handler_def
    list_account_apikeys_handler_def create_account_apikey_handler_def get_apikey_handler_def
    delete_apikey_handler_def
  by (intro safe_intros; assumption?)+

lemma safe_upstream_handlers [safe_intros]:
  "safe P (list_upstreams_handler cy rn ps)"
  "trusted cy nonce \<Longrightarrow> trusted cy nonce' \<Longrightarrow> safe P (create_upstream_handler cy nonce nonce' lp f rn q)"
  "safe P (get_upstream_by_name_handler cy rn s)" "safe P (get_upstream_by_id_handler cy rn i)"
  "trusted cy nonce \<Longrightarrow> safe P (update_upstream_by_id_handler cy nonce rn i u)" "safe P (list_upstream_tags_handler i)"
  "safe P (add_upstream_tag_handler cy i s)" "safe P (remove_upstream_tag_handler cy i s)"
  unfolding list_upstreams_handler_def create_upstream_handler_def finish_create_upstream_def
    list_and_save_without_detect_def save_upstream_def get_upstream_by_name_handler_def
    get_upstream_by_id_handler_def update_upstream_by_id_handler_def list_upstream_tags_handler_def
    add_upstream_tag_handler_def remove_upstream_tag_handler_def
  by (intro safe_intros; assumption?)+

lemma safe_model_handlers [safe_intros]:
  "safe P (list_models_handler rn f ps)" "safe P (get_model_by_upstream_and_name_handler rn s s')"
  "safe P (get_model_by_id_handler rn i)" "safe P (update_model_by_id_handler rn i um)"
  "safe P (test_model_handler cy detect g rn i)"
  unfolding list_models_handler_def get_model_by_upstream_and_name_handler_def get_model_by_id_handler_def
    update_model_by_id_handler_def test_model_handler_def
  by (intro safe_intros; assumption?)+

lemma safe_plan_handlers [safe_intros]:
  "safe P (get_session_event_by_id_handler rn i)" "safe P (list_session_events_handler rn es)"
  "safe P (list_subscription_plans_handler rn ps)" "safe P (get_subscription_plan_handler rn i)"
  "safe P (create_subscription_plan_handler rn cp)" "safe P (update_subscription_plan_handler rn i up)"
  "safe P (cancel_subscription_plan_handler rn i)" "safe P (list_subscriptions_handler rn ap vp ps)"
  "safe P (get_subscription_handler rn i)"
  unfolding get_session_event_by_id_handler_def list_session_events_handler_def
    list_subscription_plans_handler_def get_subscription_plan_handler_def
    create_subscription_plan_handler_def update_subscription_plan_handler_def
    cancel_subscription_plan_handler_def list_subscriptions_handler_def get_subscription_handler_def
  by (intro safe_intros; assumption?)+

section \<open>The middlewares and the proxies\<close>

lemma safe_next [safe_intros]:
  "\<lbrakk>\<And>key acc. safe P (k key acc)\<rbrakk> \<Longrightarrow> safe P (run_next r k)"
  unfolding run_next_def by (intro safe_intros; assumption)

lemma safe_authenticate [safe_intros]: "safe P (authenticate cy tok)"
  unfolding authenticate_def authenticate_from_db_def by (intro safe_intros)

lemma safe_auth [safe_intros]:
  "(\<And>key acc. safe P (k key acc)) \<Longrightarrow> safe P (auth_openai_api cy request k)"
  "(\<And>key acc. safe P (k key acc)) \<Longrightarrow> safe P (auth_anthropic_api cy request k)"
  "safe P m \<Longrightarrow> safe P (auth_jwt secret decode request m)"
  unfolding auth_openai_api_def auth_anthropic_api_def auth_jwt_def by (intro safe_intros; assumption)+

lemma safe_rate_limit [safe_intros]:
  "safe P (check_rate_limit rand kind i n secs)"
  "safe P m \<Longrightarrow> safe P (rate_limit_middleware cfg sha ip_rand token_rand request m)"
  unfolding rate_limit_middleware_def check_rate_limit_def redis_zremrangebyscore_def redis_zadd_def
    redis_zcard_def
  by (intro safe_intros; assumption?)+

lemma safe_wallet [safe_intros]:
  "safe P (check_wallet_balance i)" "safe P (anthropic_check_wallet_balance i)"
  unfolding check_wallet_balance_def anthropic_check_wallet_balance_def check_wallet_def get_wallet_info_def
  by (intro safe_intros; assumption?)+

lemma safe_selection [safe_intros]:
  "safe P (select_model_clients px s s' s'' n)" "safe P (select_anthropic_clients px s n)"
  "safe P (select_first_upstream px)" "safe P (get_upstream_by_id px i)"
  unfolding select_model_clients_def
    select_anthropic_clients_def select_candidates_def
    get_output_token_usage_batch_def select_first_upstream_def get_upstream_by_id_def
  by (intro safe_intros; assumption?)+

lemma safe_try [safe_intros]: "(\<And>c. safe P (attempt c)) \<Longrightarrow> safe P (try_clients e network attempt cs)"
  by (induction cs) (auto intro!: safe_intros)

lemma safe_tracer [safe_intros]: "safe P (openai_add t od)" "safe P (anthropic_add t ad)"
  unfolding openai_add_def anthropic_add_def by (intro safe_intros; assumption?)+

lemma safe_streams [safe_intros]:
  "safe P (transform_stream ser hangup t items)"
  "safe P (transform_sdk_stream ser' hangup t i j items')"
proof -
  show "safe P (transform_stream ser hangup t items)"
    by (induction ser hangup t items rule: transform_stream.induct)
      (auto simp: stream_end_def intro!: safe_intros)
  show "safe P (transform_sdk_stream ser' hangup t i j items')"
    by (induction ser' hangup t i j items' rule: transform_sdk_stream.induct)
      (auto intro!: safe_intros)
qed

lemma safe_with [safe_intros]:
  "(\<And>cs. safe P (k cs)) \<Longrightarrow> safe P (with_clients px s s' n k)"
  "(\<And>cs. safe P (k cs)) \<Longrightarrow> safe P (with_anthropic_clients px s n s' k)"
  "(\<And>c. safe P (f c)) \<Longrightarrow> safe P (with_client px u f)"
  "(\<And>c. safe P (g c)) \<Longrightarrow> safe P (get_upstream_client px g)"
  unfolding with_clients_def with_anthropic_clients_def with_client_def get_upstream_client_def
  by (intro safe_intros; assumption)+

lemma safe_generating [safe_intros]:
  "safe P list_merged_models" "safe P (chat_completions px cup key acc p)"
  "safe P (create_embeddings px es key acc ep)" "safe P (generate_images px gi key acc ip)"
  "safe P (create_speech px ss acc sp)" "safe P (create_response px rup key acc rp)"
  unfolding list_merged_models_def chat_completions_def chat_completions_with_client_def
    create_embeddings_def create_embeddings_with_client_def generate_images_def
    generate_images_with_client_def create_speech_def create_response_def create_response_with_client_def
    store_response_def translate_previous_def
  by (intro safe_intros; assumption?)+

lemma safe_responses [safe_intros]:
  "safe P (retrieve_response px rs key acc i)" "safe P (delete_response px ds i)"
  unfolding retrieve_response_def delete_response_def resolve_response_meta_def
  by (intro safe_intros; assumption?)+

lemma safe_openai_files [safe_intros]:
  "safe P (create_file_handler px us acc items)" "safe P (retrieve_file_handler px fs acc i)"
  "safe P (delete_file_handler px fs acc i)" "safe P (file_content_handler px cs acc i)"
  unfolding create_file_handler_def retrieve_file_handler_def delete_file_handler_def
    file_content_handler_def with_file_def resolve_file_meta_def
  by (intro safe_intros; assumption?)+

lemma safe_openai_batches [safe_intros]:
  "safe P (create_batch_handler px bc key acc p)" "safe P (batch_by_id_handler px bg key acc i)"
  "safe P (batch_cancel_handler px bg key acc i)"
  unfolding create_batch_handler_def batch_by_id_handler_def batch_cancel_handler_def answer_batch_def
    sync_batch_status_def resolve_batch_meta_def wrap_file_def resolve_file_meta_def
  by (intro safe_intros; assumption?)+

lemma safe_messages [safe_intros]:
  "safe P (anthropic_list_models t)" "safe P (create_message px mup key acc p)"
  "safe P (count_message_tokens px tp acc q)"
  unfolding anthropic_list_models_def create_message_def attempt_message_def count_message_tokens_def
  by (intro safe_intros; assumption?)+

lemma safe_call_failed [safe_intros]: "safe P (call_failed show c e)"
  unfolding call_failed_def maybe_mark_offline_def by (intro safe_intros)

lemma safe_message_batches [safe_intros]:
  "safe P (create_message_batch px tp show acc p)" "safe P (list_message_batches px tp' show acc)"
  "safe P (retrieve_message_batch px tp2 show acc i)" "safe P (cancel_message_batch px tp3 show acc i)"
  "safe P (retrieve_message_batch_results px tp4 show acc i)"
  unfolding create_message_batch_def list_message_batches_def retrieve_message_batch_def
    cancel_message_batch_def retrieve_message_batch_results_def with_msgbatch_def answer_msgbatch_def
    sync_msgbatch_status_def resolve_msgbatch_meta_def
  by (intro safe_intros; assumption?)+

lemma safe_anthropic_files [safe_intros]:
  "safe P (upload_file px tp show mime acc items)" "safe P (list_files px tp1 show acc)"
  "safe P (retrieve_file px tp1 show acc i)" "safe P (delete_file px tp1 show acc i)"
  "safe P (file_content px tp1 show acc i)"
  unfolding upload_file_def list_files_def retrieve_file_def delete_file_def file_content_def
    store_upload_def file_call_def with_anthropic_file_def resolve_anthropic_file_def
  by (intro safe_intros; assumption?)+

lemma safe_passthrough [safe_intros]:
  "safe P (passthrough_by_tag_handler pt s s' q)" "safe P (passthrough_by_upstream_id_handler pt i s' q)"
  unfolding passthrough_by_tag_handler_def passthrough_by_upstream_id_handler_def
  by (intro safe_intros; assumption?)+

section \<open>The servers\<close>

lemma safe_layered [safe_intros]:
  assumes "\<And>k. (\<And>key acc. safe P (k key acc)) \<Longrightarrow> safe P (auth request k)"
    and "\<And>h args key acc. safe P (handler h args key acc)"
  shows "safe P (layered auth cfg sha ip_rand token_rand rts handler request m path)"
  unfolding layered_def by (intro safe_intros assms)

lemma safe_extract [safe_intros]:
  "safe P m \<Longrightarrow> safe P (answer_as f m)"
  "(\<And>p. safe P (k p)) \<Longrightarrow> safe P (with_payload payload k)"
  unfolding answer_as_def with_payload_def by (intro safe_intros; assumption)+

lemma safe_run_openai [safe_intros]: "safe P (run_openai oe body endpoint args key acc)"
  unfolding run_openai_def Let_def by (cases endpoint) (simp_all, (intro safe_intros)+)

lemma safe_run_anthropic [safe_intros]: "safe P (run_anthropic ne body endpoint args key acc)"
  unfolding run_anthropic_def Let_def by (cases endpoint) (simp_all, (intro safe_intros)+)

lemma safe_servers [safe_intros]:
  "safe P (serve_openai oe cfg ip_rand token_rand request m path body)"
  "safe P (serve_anthropic ne cfg ip_rand token_rand request m path body)"
  "safe P (passthrough_server pt secret decode request path preq)"
  unfolding serve_openai_def serve_anthropic_def openai_server_def anthropic_server_def
    passthrough_server_def Let_def
  by (intro safe_intros; assumption)+

section \<open>The processes\<close>

lemma safe_health [safe_intros]: "safe P (check_offline_upstreams cy probe)"
proof -
  have "safe P (check_each probe us)" for us
    by (induction us) (auto intro!: safe_intros)
  then show ?thesis unfolding check_offline_upstreams_def by (intro safe_intros)
qed

lemma safe_stale [safe_intros]: "safe P (remove_stale es)"
  by (induction es rule: remove_stale.induct) (auto simp: redis_zrem_def intro!: safe_intros)

lemma safe_commands [safe_intros]:
  "trusted cy nonce \<Longrightarrow> safe P (create_api_key_command cy nonce u show s)"
  "safe P (create_user_command show s)"
  "safe P (cleanup_stale_workers es ns)"
  unfolding create_api_key_command_def create_user_command_def cleanup_stale_workers_def Let_def
  by (intro safe_intros; assumption?)+

lemma safe_run_worker [safe_intros]: "safe P (run_worker se os cfg schedule_ok es n)"
  unfolding run_worker_def by (intro safe_intros)

lemma safe_pool [safe_intros]: "safe P m \<Longrightarrow> safe P (with_pool me cfg m)"
  unfolding with_pool_def by (intro safe_intros)

lemma safe_main [safe_intros]:
  "trusted (me_crypto me) (me_nonce me) \<Longrightarrow> safe P (llmpool_main me config_path cmd)"
  unfolding llmpool_main_def Let_def
  by (cases cmd; simp only: llmpool_command.case; intro safe_intros; assumption?)

lemma safe_spawned [safe_intros]: "safe P run_spawned"
proof -
  have "wp (mark_upstream_offline i) (\<lambda>_. keeps_outside P s) (s\<lparr>w_spawned := rest\<rparr>)" for s i rest
    using writes_upstreams(3) [of i] by (simp add: state_io_rel_def wp_run_state)
  then show ?thesis
    by (simp add: wp_eff run_spawned_def split: list.split)
qed

end

end
