(* ===== verification/EntryPoints.thy ===== *)
theory EntryPoints
  imports Operations
begin

text \<open>
  The program as its entry points: every request to a server, every delivery to a worker and every
  command of the administrator is a step of \<open>BillingSystem\<close>, so its invariants hold of the program.  The
  locale \<open>whole_database\<close> carries any other property of the database through the same steps.
\<close>

section \<open>The program as a transition relation\<close>

text \<open>
  A step is one request to a server, one delivery to a worker, one command of the administrator, one
  spawned task, or anything the surroundings do outside the database: time passes, caches expire, tasks
  are taken from a queue or delivered again, calls fail.  All processes have the same encryption key, and
  the crate makes nonces of 12 bytes.
\<close>

inductive program_step :: "crypto_env \<Rightarrow> world \<Rightarrow> world \<Rightarrow> bool" for cy where
  admin: "run_state (admin_server ae request m path q json) w = (a, w') \<Longrightarrow> ae_crypto ae = cy \<Longrightarrow>
    length (ae_nonce ae) = NONCE_SIZE \<Longrightarrow> length (ae_nonce' ae) = NONCE_SIZE \<Longrightarrow> program_step cy w w'"
| passthrough: "run_state (passthrough_server pt secret decode request path preq) w = (a, w') \<Longrightarrow>
    px_crypto (pt_proxy pt) = cy \<Longrightarrow> program_step cy w w'"
| openai: "run_state (serve_openai oe cfg i j request m path body) w = (a, w') \<Longrightarrow>
    px_crypto (oe_px oe) = cy \<Longrightarrow> program_step cy w w'"
| anthropic: "run_state (serve_anthropic ne cfg i j request m path body) w = (a, w') \<Longrightarrow>
    px_crypto (ne_px ne) = cy \<Longrightarrow> program_step cy w w'"
| worker: "run_state (work we d) w = (a, w') \<Longrightarrow> we_crypto we = cy \<Longrightarrow> program_step cy w w'"
| command: "run_state (llmpool_main me config_path cmd) w = (a, w') \<Longrightarrow> me_crypto me = cy \<Longrightarrow>
    length (me_nonce me) = NONCE_SIZE \<Longrightarrow> program_step cy w w'"
| spawned: "run_state run_spawned w = (a, w') \<Longrightarrow> program_step cy w w'"
| surroundings: "w_db w' = w_db w \<Longrightarrow> w_tx w' = w_tx w \<Longrightarrow> program_step cy w w'"

inductive program_reach :: "crypto_env \<Rightarrow> world \<Rightarrow> world \<Rightarrow> bool" for cy w0 where
  start: "program_reach cy w0 w0"
| step: "program_reach cy w0 w \<Longrightarrow> program_step cy w w' \<Longrightarrow> program_reach cy w0 w'"

section \<open>What is no billing leaves the billing tables alone\<close>

lemma other_tables:
  "stmt_keeps (\<lambda>d. billing_tables d = T) (insert_stmt accounts accounts_update mk1)"
  "stmt_keeps (\<lambda>d. billing_tables d = T) (update_stmt accounts accounts_update R1 g1)"
  "stmt_keeps (\<lambda>d. billing_tables d = T) (insert_stmt api_credentials api_credentials_update mk2)"
  "stmt_keeps (\<lambda>d. billing_tables d = T) (update_stmt api_credentials api_credentials_update R2 g2)"
  "stmt_keeps (\<lambda>d. billing_tables d = T) (insert_stmt llm_upstreams llm_upstreams_update mk3)"
  "stmt_keeps (\<lambda>d. billing_tables d = T) (update_stmt llm_upstreams llm_upstreams_update R3 g3)"
  "stmt_keeps (\<lambda>d. billing_tables d = T) (insert_stmt llm_models llm_models_update mk4)"
  "stmt_keeps (\<lambda>d. billing_tables d = T) (update_stmt llm_models llm_models_update R4 g4)"
  "stmt_keeps (\<lambda>d. billing_tables d = T) (insert_stmt subscription_plans subscription_plans_update mk5)"
  "stmt_keeps (\<lambda>d. billing_tables d = T) (update_stmt subscription_plans subscription_plans_update R5 g5)"
  "stmt_keeps (\<lambda>d. billing_tables d = T) (insert_stmt file_metas file_metas_update mk6)"
  "stmt_keeps (\<lambda>d. billing_tables d = T) (update_stmt file_metas file_metas_update R6 g6)"
  "stmt_keeps (\<lambda>d. billing_tables d = T) (insert_stmt response_metas response_metas_update mk7)"
  "stmt_keeps (\<lambda>d. billing_tables d = T) (update_stmt response_metas response_metas_update R7 g7)"
  "stmt_keeps (\<lambda>d. billing_tables d = T) (insert_stmt batch_metas batch_metas_update mk8)"
  "stmt_keeps (\<lambda>d. billing_tables d = T) (update_stmt batch_metas batch_metas_update R8 g8)"
  by (rule stmt_keeps_write; simp add: billing_tables_def)+

interpretation quiet: database "\<lambda>d. billing_tables d = T" "\<lambda>_ _. True" for T
  by unfold_locales
    (unfold create_account_def update_account_def create_api_credential_for_account_def Let_def
      deactivate_api_credential_def create_upstream_def update_upstream_def query_upstream_def
      mark_upstream_offline_def mark_upstream_online_def set_status_sql_def add_upstream_tag_def
      remove_upstream_tag_def create_model_def update_model_def update_model_features_def
      create_subscription_plan_def update_subscription_plan_def cancel_subscription_plan_def
      create_file_meta_def mark_file_meta_deleted_def create_response_meta_def
      mark_response_meta_deleted_def create_batch_meta_with_provider_def update_batch_meta_status_def,
     (intro safe_intros other_tables)+)

section \<open>Every step is a step of the billing system\<close>

abbreviation bills :: "'a io \<Rightarrow> bool" where
  "bills m \<equiv> state_io_rel (\<lambda>s t. w_tx s = None \<longrightarrow> w_tx t = None \<and> billing_step s t) m"

lemma billsI:
  "(\<And>w r w'. run_state m w = (r, w') \<Longrightarrow> w_tx w = None \<Longrightarrow> w_tx w' = None \<and> billing_step w w') \<Longrightarrow> bills m"
  by (auto simp: state_io_rel_def) (metis prod.collapse)+

lemma bills_quiet:
  assumes "\<And>T. safe (\<lambda>d. billing_tables d = T) m"
  shows "bills m"
proof (rule billsI)
  fix w r w'
  assume run: "run_state m w = (r, w')" and w: "w_tx w = None"
  from outside.eff_run [OF assms [of "billing_tables (w_db w)"] run] w
  show "w_tx w' = None \<and> billing_step w w'" by (auto intro: billing_step.background)
qed

lemma bills_then: "bills m \<Longrightarrow> bills (do { r \<leftarrow> m; return (f r) })"
  unfolding wp_eff by simp

lemma bills_answered: "bills m \<Longrightarrow> bills (answered f m)"
  unfolding answered_def by (rule bills_then)

lemma bills_keeps:
  assumes "keeps_tx m" and "\<And>w r w'. run_state m w = (r, w') \<Longrightarrow> billing_step w w'"
  shows "bills m"
  by (rule billsI) (use assms frames.eff_run [OF assms(1)] in \<open>simp add: assms(2)\<close>)

lemma bills_handlers:
  "bills (create_deposit_handler rn cq)" "bills (create_withdraw_handler rn cq)"
  "bills (create_credit_handler rn cq)" "bills (create_subscription_handler rn i j)"
  "bills (update_subscription_handler rn i status)" "bills (cancel_subscription_handler rn i)"
  by (intro bills_keeps keeps_tx_handlers; erule billing_step.intros)+

lemma bills_call: "bills (serve_call ae call)"
  unfolding serve_call_def Let_def
  by (cases call) (simp_all, (intro bills_answered bills_handlers bills_quiet safe_intros TrueI)+)

lemma bills_admin: "bills (admin_server ae request m path q json)"
proof -
  have call: "bills (do { a \<leftarrow> serve_call ae call; return (Inr a) } :: (int \<times> body) response_io)" for call
    by (intro bills_then bills_call)
  have layer: "bills m \<Longrightarrow> bills (auth_jwt secret decode request m)" for secret decode and m :: "(int \<times> body) response_io"
    unfolding auth_jwt_def by (auto intro: bills_quiet safe_intros split: option.split)
  show ?thesis
    unfolding admin_server_def
    by (auto intro!: bills_then layer call intro: bills_quiet safe_intros split: sum.split rejection.split)
qed

lemma bills_event: "bills (handle_openai_event hour ser t)" "bills (handle_anthropic_event hour ser' t')"
  by (rule billsI, rule conjI; (erule billing_step.intros)?;
      use wp_run [OF handle_event_outcome] in \<open>force simp: handle_openai_event_def handle_anthropic_event_def\<close>)+

lemma scope_closed: "run_state (tx_scope m) w = (r, w') \<Longrightarrow> w_tx w' = None"
  by (auto simp: tx_scope_def tx_rollback_def State_Monad.update_def split: option.splits prod.splits)

lemma bills_settle: "bills (settle_balance_change task)"
proof (rule billsI)
  fix w r w'
  assume run: "run_state (settle_balance_change task) w = (r, w')"
  from scope_closed [OF run [unfolded settle_balance_change_def]] billing_step.settle [OF run]
  show "w_tx w' = None \<and> billing_step w w'" ..
qed

lemma bills_work: "bills (work we d)"
  unfolding work_def by (cases d) (simp_all add: bills_event bills_settle bills_quiet quiet.safe_health)

lemma bills_run: "bills m \<Longrightarrow> run_state m w = (r, w') \<Longrightarrow> w_tx w = None \<Longrightarrow> w_tx w' = None \<and> billing_step w w'"
  by (auto simp: state_io_rel_def) (metis snd_conv)+

text \<open>The simulation.\<close>

lemma program_simulates:
  assumes "program_step cy w w'" and "w_tx w = None"
  shows "w_tx w' = None \<and> billing_step w w'"
  using assms
proof (cases rule: program_step.cases)
  case (admin ae request m path q json a)
  show ?thesis by (rule bills_run [OF bills_admin admin(1) assms(2)])
next
  case (passthrough pt secret decode request path preq a)
  show ?thesis by (rule bills_run [OF bills_quiet [OF quiet.safe_servers(3)] passthrough(1) assms(2)])
next
  case (openai oe cfg i j request m path body a)
  show ?thesis by (rule bills_run [OF bills_quiet [OF quiet.safe_servers(1)] openai(1) assms(2)])
next
  case (anthropic ne cfg i j request m path body a)
  show ?thesis by (rule bills_run [OF bills_quiet [OF quiet.safe_servers(2)] anthropic(1) assms(2)])
next
  case (worker we d a)
  show ?thesis by (rule bills_run [OF bills_work worker(1) assms(2)])
next
  case (command me config_path cmd a)
  show ?thesis by (rule bills_run [OF bills_quiet [OF quiet.safe_main, OF TrueI] command(1) assms(2)])
next
  case (spawned a)
  show ?thesis by (rule bills_run [OF bills_quiet [OF quiet.safe_spawned] spawned assms(2)])
next
  case surroundings
  with assms(2) show ?thesis by (simp add: billing_step.background)
qed

lemma program_reach_billing:
  "program_reach cy w0 w \<Longrightarrow> w_tx w0 = None \<Longrightarrow> w_tx w = None \<and> billing_reach w0 w"
  by (induction rule: program_reach.induct)
    (auto intro: billing_reach.intros dest: program_simulates)

section \<open>A property of the database through every step\<close>

text \<open>
  A property that the writing functions of \<^verbatim>\<open>db/\<close> keep under the key \<open>cy\<close> and that does not look at the
  tables of billing is kept by the program.
\<close>

locale whole_database = database P "\<lambda>cy' nonce. cy' = cy \<and> length nonce = NONCE_SIZE"
  for P :: "db \<Rightarrow> bool" and cy :: crypto_env +
  assumes apart: "P d \<Longrightarrow> P (wallets_update W d)" "P d \<Longrightarrow> P (balance_changes_update B d)"
    "P d \<Longrightarrow> P (subscriptions_update S d)" "P d \<Longrightarrow> P (session_events_update E d)"
begin

lemma keeps_apart [effect_intros]:
  "stmt_keeps P (insert_stmt wallets wallets_update mk1)"
  "stmt_keeps P (update_stmt wallets wallets_update R1 g1)"
  "stmt_keeps P (insert_stmt subscriptions subscriptions_update mk2)"
  "stmt_keeps P (update_stmt subscriptions subscriptions_update R2 g2)"
  "stmt_keeps P (update_stmt balance_changes balance_changes_update R3 g3)"
  by (rule stmt_keeps_write; simp add: apart)+

lemma keeps_change [effect_intros]: "stmt_keeps P (insert_change_sql n)"
  by (rule stmt_keepsI)
    (auto simp: insert_change_sql_def sql_defs violates_def Let_def apart split: if_splits)

lemma keeps_upsert [effect_intros]: "stmt_keeps P (upsert_event_sql n)"
  by (rule stmt_keepsI) (auto simp: upsert_event_sql_def sql_defs Let_def apart split: if_splits)

lemma safe_bills: "keeps_db P m \<Longrightarrow> bills m \<Longrightarrow> safe P m"
  by (simp add: state_io_rel_def) (metis db_inv_no_tx)

lemma keeps_submit: "keeps_db P (submit_change rn what What payload c)"
  unfolding submit_change_def create_balance_change_def by (intro effect_intros)

lemma keeps_account: "(\<And>x. keeps_db P (k x)) \<Longrightarrow> keeps_db P (with_account a k)"
  unfolding with_account_def get_account_by_id_def select_accounts_def by (intro effect_intros)

lemma keeps_handlers:
  "keeps_db P (create_deposit_handler rn payload)" "keeps_db P (create_withdraw_handler rn payload)"
  "keeps_db P (create_credit_handler rn payload)" "keeps_db P (create_subscription_handler rn a i)"
  "keeps_db P (update_subscription_handler rn i status)" "keeps_db P (cancel_subscription_handler rn i)"
  unfolding create_deposit_handler_def create_withdraw_handler_def create_credit_handler_def
    create_subscription_handler_def update_subscription_handler_def cancel_subscription_handler_def
    find_account_wallet_def find_wallet_sql_def get_subscription_plan_by_id_def create_subscription_def
    update_subscription_status_def cancel_subscription_def
  by (intro effect_intros keeps_account keeps_submit)+

lemma keeps_tasks:
  "keeps_db P (handle_openai_event hour ser t)" "keeps_db P (handle_anthropic_event hour ser' t')"
  unfolding handle_openai_event_def handle_anthropic_event_def handle_event_def record_event_def
    get_model_with_tx_def select_models_def create_session_event_with_tx_def
    create_balance_change_with_tx_def
  by (intro effect_intros)+

lemma keeps_settle: "keeps_db P (settle_balance_change task)"
proof -
  have "stmt_keeps P (current_subscription_sql a n)" for a n
    by (rule stmt_keepsI) (auto simp: current_subscription_sql_def Let_def split: if_splits)
  then have "keeps_db P (new_balance_of a b c)" for a b c
    unfolding new_balance_of_def Let_def get_current_subscription_with_tx_def
      increment_subscription_usage_with_tx_def charge_subscription_sql_def
    by (cases c) (simp_all add: Let_def, (intro effect_intros; assumption?)+)
  then show ?thesis
    unfolding settle_balance_change_def find_balance_change_by_id_with_tx_def find_change_sql_def
      apply_balance_change_with_tx_def find_or_create_wallet_def find_wallet_sql_def insert_wallet_sql_def
      set_balance_sql_def mark_balance_change_applied_with_tx_def mark_applied_sql_def set_wallet_info_def
      cache_set_def Let_def
    by (intro effect_intros; assumption?)
qed

lemma safe_billing [safe_intros]:
  "safe P (create_deposit_handler rn cq)" "safe P (create_withdraw_handler rn cq)"
  "safe P (create_credit_handler rn cq)" "safe P (create_subscription_handler rn i j)"
  "safe P (update_subscription_handler rn i status)" "safe P (cancel_subscription_handler rn i)"
  "safe P (handle_openai_event hour ser t)" "safe P (handle_anthropic_event hour ser' t')"
  "safe P (settle_balance_change task)"
  by (intro safe_bills keeps_handlers keeps_tasks keeps_settle bills_handlers bills_event bills_settle)+

lemma safe_call:
  assumes "ae_crypto ae = cy" and "length (ae_nonce ae) = NONCE_SIZE" and "length (ae_nonce' ae) = NONCE_SIZE"
  shows "safe P (serve_call ae call)"
  unfolding serve_call_def Let_def answered_def
  by (cases call) (simp_all add: assms, (intro safe_intros conjI refl assms)+)

lemma safe_admin:
  assumes "ae_crypto ae = cy" and "length (ae_nonce ae) = NONCE_SIZE" and "length (ae_nonce' ae) = NONCE_SIZE"
  shows "safe P (admin_server ae request m path q json)"
  unfolding admin_server_def by (auto intro!: safe_intros safe_call assms split: sum.split rejection.split)

lemma safe_work: "we_crypto we = cy \<Longrightarrow> safe P (work we d)"
  unfolding work_def by (cases d) (simp_all, (intro safe_intros)+)

lemma safe_run:
  "safe P m \<Longrightarrow> run_state m w = (a, w') \<Longrightarrow> w_tx w = None \<and> P (w_db w) \<Longrightarrow> w_tx w' = None \<and> P (w_db w')"
  by (drule (1) outside.eff_run) simp

lemma step_keeps:
  assumes "program_step cy w w'" and w: "w_tx w = None \<and> P (w_db w)"
  shows "w_tx w' = None \<and> P (w_db w')"
  using assms(1)
proof cases
  case (admin ae request m path q json a)
  then show ?thesis by (intro safe_run [OF safe_admin admin(1) w])
next
  case (passthrough pt secret decode request path preq a)
  then show ?thesis by (intro safe_run [OF safe_servers(3) passthrough(1) w])
next
  case (openai oe cfg i j request m path body a)
  then show ?thesis by (intro safe_run [OF safe_servers(1) openai(1) w])
next
  case (anthropic ne cfg i j request m path body a)
  then show ?thesis by (intro safe_run [OF safe_servers(2) anthropic(1) w])
next
  case (worker we d a)
  then show ?thesis by (intro safe_run [OF safe_work worker(1) w])
next
  case (command me config_path cmd a)
  then show ?thesis by (intro safe_run [OF safe_main command(1) w] conjI)
next
  case (spawned a)
  then show ?thesis by (intro safe_run [OF safe_spawned spawned w])
next
  case surroundings
  with w show ?thesis by simp
qed

lemma reach_keeps:
  "program_reach cy w0 w \<Longrightarrow> w_tx w0 = None \<Longrightarrow> P (w_db w0) \<Longrightarrow> w_tx w = None \<and> P (w_db w)"
  by (induction rule: program_reach.induct) (auto dest: step_keeps)

end

end
