(* ===== verification/KeyStore.thy ===== *)
theory KeyStore
  imports EntryPoints StoredKeys
begin

text \<open>
  The keys at rest over the whole program: what the tables \<^verbatim>\<open>api_credentials\<close> and \<^verbatim>\<open>llm_upstreams\<close> hold of
  a key is its encryption and its hash, in every state the entry points lead to (\<^verbatim>\<open>db/api.rs\<close>,
  \<^verbatim>\<open>db/llm.rs\<close>, \<^verbatim>\<open>crypto.rs\<close>).
\<close>

section \<open>What a table may hold of a key\<close>

definition seals :: "crypto_env \<Rightarrow> string \<Rightarrow> string \<Rightarrow> bool" where
  "seals cy stored key \<longleftrightarrow>
     (\<exists>nonce. length nonce = NONCE_SIZE \<and> encrypt_if_configured cy nonce key = Inr stored)"

definition credential_sealed :: "crypto_env \<Rightarrow> api_credential \<Rightarrow> bool" where
  "credential_sealed cy c \<longleftrightarrow> cred_apikey c = '''' \<and>
     (\<exists>key. seals cy (cred_encrypted_api_key c) key \<and> cred_api_key_hash c = hash_api_key cy key)"

definition upstream_sealed :: "crypto_env \<Rightarrow> llm_upstream \<Rightarrow> bool" where
  "upstream_sealed cy u \<longleftrightarrow> up_api_key u = '''' \<and> (\<exists>key. seals cy (up_encrypted_api_key u) key)"

definition keys_sealed :: "crypto_env \<Rightarrow> db \<Rightarrow> bool" where
  "keys_sealed cy d \<longleftrightarrow>
     list_all (credential_sealed cy) (t_rows (api_credentials d)) \<and>
     distinct (map cred_api_key_hash (t_rows (api_credentials d))) \<and>
     list_all (upstream_sealed cy) (t_rows (llm_upstreams d))"

lemma sealed_opens:
  assumes "seals cy stored key" and "crates_ok cy" and "cy_utf8 cy key"
  shows "decrypt_if_configured cy stored = Inr key"
  using assms decrypt_encrypt_if_configured unfolding seals_def by blast

section \<open>The functions that write keys\<close>

lemma keeps_upstream_insert:
  assumes "encrypt_api_key cy nonce (nu_api_key n) = Inr c" and "length nonce = NONCE_SIZE"
  shows "stmt_keeps (keys_sealed cy) (insert_stmt llm_upstreams llm_upstreams_update (fresh_upstream n c))"
  using assms
  by (intro stmt_keeps_write)
    (auto simp: keys_sealed_def t_rows_insert insert_row_def Let_def upstream_sealed_def fresh_upstream_def
      seals_def dest: encrypt_api_key_InrD)

lemma keeps_upstream_update:
  assumes "\<And>now u. upstream_sealed cy u \<Longrightarrow> upstream_sealed cy (g now u)"
  shows "stmt_keeps (keys_sealed cy) (update_stmt llm_upstreams llm_upstreams_update R g)"
  by (rule stmt_keeps_write) (auto simp: keys_sealed_def t_rows_update list_all_iff assms)

lemma keeps_credential_insert:
  assumes "seals cy c key" and "h = hash_api_key cy key"
  shows "stmt_keeps (keys_sealed cy)
    (guard_stmt (\<lambda>d. violates (\<exists>c \<in> set (t_rows (api_credentials d)). cred_api_key_hash c = h) name)
      (guard_stmt chk (insert_stmt api_credentials api_credentials_update (fresh_credential n c h))))"
  using assms
  by (intro stmt_keepsI)
    (auto simp: sql_defs violates_def keys_sealed_def insert_row_def Let_def credential_sealed_def
      fresh_credential_def split: if_splits option.splits)

lemma keeps_credential_update:
  assumes "\<And>now c. credential_sealed cy c \<Longrightarrow> credential_sealed cy (g now c)"
    and "\<And>now c. cred_api_key_hash (g now c) = cred_api_key_hash c"
  shows "stmt_keeps (keys_sealed cy) (update_stmt api_credentials api_credentials_update R g)"
  by (rule stmt_keeps_write)
    (auto simp: keys_sealed_def t_rows_update list_all_iff assms comp_def if_distrib [of cred_api_key_hash]
      cong: if_cong)

lemma keeps_other_tables:
  "stmt_keeps (keys_sealed cy) (insert_stmt accounts accounts_update mk1)"
  "stmt_keeps (keys_sealed cy) (update_stmt accounts accounts_update R1 g1)"
  "stmt_keeps (keys_sealed cy) (insert_stmt llm_models llm_models_update mk2)"
  "stmt_keeps (keys_sealed cy) (update_stmt llm_models llm_models_update R2 g2)"
  "stmt_keeps (keys_sealed cy) (insert_stmt subscription_plans subscription_plans_update mk3)"
  "stmt_keeps (keys_sealed cy) (update_stmt subscription_plans subscription_plans_update R3 g3)"
  "stmt_keeps (keys_sealed cy) (insert_stmt file_metas file_metas_update mk4)"
  "stmt_keeps (keys_sealed cy) (update_stmt file_metas file_metas_update R4 g4)"
  "stmt_keeps (keys_sealed cy) (insert_stmt response_metas response_metas_update mk5)"
  "stmt_keeps (keys_sealed cy) (update_stmt response_metas response_metas_update R5 g5)"
  "stmt_keeps (keys_sealed cy) (insert_stmt batch_metas batch_metas_update mk6)"
  "stmt_keeps (keys_sealed cy) (update_stmt batch_metas batch_metas_update R6 g6)"
  by (rule stmt_keeps_write; simp add: keys_sealed_def)+

lemma keeps_creation:
  "length nonce = NONCE_SIZE \<Longrightarrow> safe (keys_sealed cy) (create_upstream cy nonce n)"
  "length nonce = NONCE_SIZE \<Longrightarrow> safe (keys_sealed cy) (create_api_credential_for_account cy nonce u i s)"
proof -
  assume nonce: "length nonce = NONCE_SIZE"
  show "safe (keys_sealed cy) (create_upstream cy nonce n)"
    unfolding create_upstream_def by (intro safe_intros keeps_upstream_insert [OF _ nonce])
  have "seals cy c k" if "encrypt_apikey cy nonce k = Inr c" for c k
    using that nonce by (auto simp: seals_def encrypt_apikey_def split: sum.splits)
  then show "safe (keys_sealed cy) (create_api_credential_for_account cy nonce u i s)"
    unfolding create_api_credential_for_account_def Let_def
    by (intro safe_intros keeps_credential_insert [OF _ refl])
qed

lemma keeps_upstream_key:
  assumes "length nonce = NONCE_SIZE"
  shows "safe (keys_sealed cy) (update_upstream cy nonce i uu)"
proof -
  have "upstream_sealed cy (u\<lparr>up_name := a, up_api_base := b, up_encrypted_api_key := c, up_provider := d,
      up_tags := e, up_proxies := f, up_status := g, up_description := h, up_updated_at := k\<rparr>)"
    if "encrypt_api_key cy nonce p = Inr c" and "upstream_sealed cy u" for a b c d e f g h k p u
    using that assms by (auto simp: upstream_sealed_def seals_def dest: encrypt_api_key_InrD)
  then show ?thesis
    unfolding update_upstream_def Let_def get_upstream_def query_upstream_def select_upstreams_def
    by (intro safe_intros keeps_upstream_update; assumption?)
qed

interpretation keys: whole_database "keys_sealed cy" cy for cy
proof unfold_locales
  show "cy' = cy \<and> length nonce = NONCE_SIZE \<Longrightarrow> safe (keys_sealed cy) (create_upstream cy' nonce n)"
    "cy' = cy \<and> length nonce = NONCE_SIZE \<Longrightarrow> safe (keys_sealed cy) (update_upstream cy' nonce i uu)"
    "cy' = cy \<and> length nonce = NONCE_SIZE \<Longrightarrow>
      safe (keys_sealed cy) (create_api_credential_for_account cy' nonce u i s)"
    for cy' nonce n i uu u s
    by (auto intro: keeps_creation keeps_upstream_key)
qed (unfold create_account_def update_account_def deactivate_api_credential_def mark_upstream_offline_def
    mark_upstream_online_def set_status_sql_def add_upstream_tag_def remove_upstream_tag_def
    query_upstream_def create_model_def update_model_def update_model_features_def
    create_subscription_plan_def update_subscription_plan_def cancel_subscription_plan_def
    create_file_meta_def mark_file_meta_deleted_def create_response_meta_def
    mark_response_meta_deleted_def create_batch_meta_with_provider_def update_batch_meta_status_def,
    (intro safe_intros keeps_other_tables keeps_upstream_update keeps_credential_update;
      simp add: keys_sealed_def upstream_sealed_def credential_sealed_def)+,
    (simp add: keys_sealed_def)+)

end
