(* ===== verification/ProgramClaims.thy ===== *)
theory ProgramClaims
  imports KeyStore BillingClaims SetupClaims
begin

text \<open>
  The books and the keys of the whole program: what \<open>BillingSystem\<close> and \<open>KeyStore\<close> promise holds in every
  state the entry points of \<open>EntryPoints\<close> lead to.
\<close>

text \<open>C33: from a state without billing data, whatever requests, deliveries, commands and spawned tasks
  come, in whatever order and whatever fails, the program does what the billing system does: no
  transaction stays open, every balance is what the account's applied changes add up to plus what its
  subscriptions paid, no subscription is used beyond its limit, and none has ever started.\<close>

theorem program_refines_billing:
  assumes "no_billing w0" and "program_reach cy w0 w"
  shows "billing_reach w0 w \<and> w_tx w = None \<and>
    balance_of (w_db w) a = applied_total (w_db w) a + used_money_of (w_db w) a \<and>
    list_all (\<lambda>s. sub_used_total_tokens s \<le> sub_total_token_limit s \<and> sub_start_at s = None)
      (t_rows (subscriptions (w_db w)))"
proof -
  from no_billing_wf [OF assms(1)] have w0: "w_tx w0 = None" "bill_wf (w_db w0)" by auto
  from program_reach_billing [OF assms(2) w0(1)] have reach: "w_tx w = None" "billing_reach w0 w" by auto
  from assms(1) have "ledger_ok (w_db w0)" "quota_ok (w_db w0)" "no_start (w_db w0)"
    by (simp_all add: no_billing_def ledger_ok_def balance_of_def used_money_of_def applied_total_def
        quota_ok_def no_start_def)
  with books.reach_keeps [OF reach(2) w0(1)] limits.reach_keeps [OF reach(2) w0(1)]
    starts.reach_keeps [OF reach(2) w0(1)] w0(2)
  have "ledger_ok (w_db w)" "quota_ok (w_db w)" "no_start (w_db w)" by auto
  then show ?thesis
    using reach by (auto simp: ledger_ok_def quota_ok_def no_start_def list_all_iff algebra_simps)
qed

text \<open>A deposit through the admin API and its settlement by the worker.\<close>

definition deposit_body :: json where
  "deposit_body = JObj [(''account_id'', JInt 1), (''unique_request_id'', JStr ''d1''), (''amount'', JStr ''5'')]"

definition demo_worker :: worker_env where
  "demo_worker = \<lparr>we_hour = (\<lambda>_. ''h''), we_openai_json = (\<lambda>_. None), we_anthropic_json = (\<lambda>_. None),
     we_crypto = ae_crypto demo_admin, we_probe = (\<lambda>_ _. None)\<rparr>"

abbreviation deposited :: world where
  "deposited \<equiv> final (admin_server demo_admin \<lparr>rq_header = (\<lambda>_. Some ''jwt''), rq_peer = None\<rparr> ''POST''
     [''deposits''] [] (Some deposit_body)) (world_of empty_db)"

abbreviation paid :: world where
  "paid \<equiv> final (work demo_worker (SettlementDelivery \<lparr>bct_balance_change_id = 1\<rparr>)) deposited"

lemma paid_reached: "program_reach (ae_crypto demo_admin) (world_of empty_db) paid"
proof -
  have "program_reach (ae_crypto demo_admin) (world_of empty_db) deposited"
    by (rule program_reach.step [OF program_reach.start], rule program_step.admin, rule surjective_pairing)
      (simp_all add: demo_admin_def NONCE_SIZE_def)
  then show ?thesis
    by (rule program_reach.step) (rule program_step.worker, rule surjective_pairing, simp add: demo_worker_def)
qed

definition deposit_of_5 :: change_request where
  "deposit_of_5 = \<lparr>cq_account_id = 1, cq_unique_request_id = ''d1'', cq_amount = 5\<rparr>"

lemma deposit_routed: "route_admin (ae_decimal demo_admin) ''POST'' [''deposits''] [] (Some deposit_body) = Inr (CreateDeposit deposit_of_5)"
  by (simp add: route_admin_def route1_def by_method_def with_body_def read_change_def
      deposit_body_def deposit_of_5_def demo_admin_def req_def read_i64_def in_i64_def)

lemma deposited_run: "deposited = final (create_deposit_handler (ae_rn demo_admin) deposit_of_5) (world_of empty_db)"
proof -
  have "admin_server demo_admin \<lparr>rq_header = (\<lambda>_. Some ''jwt''), rq_peer = None\<rparr> ''POST''
      [''deposits''] [] (Some deposit_body) = serve_call demo_admin (CreateDeposit deposit_of_5)"
    by (rule admin_server_authorized [OF deposit_routed, where token = "''jwt''"
          and cl = "\<lparr>cl_sub = None, cl_exp = None, cl_realm = Some ''api''\<rparr>"])
      (simp_all add: demo_admin_def)
  then show ?thesis
    by (simp add: serve_call_def Let_def answered_def split: prod.split)
qed

lemma deposited_db:
  "\<exists>bc. w_db deposited = empty_db\<lparr>balance_changes := \<lparr>t_rows = [bc], t_seq = 1\<rparr>\<rparr> \<and> bc_id bc = 1 \<and>
     bc_account_id bc = 1 \<and> \<not> bc_is_applied bc \<and> content_of_json (bc_content bc) = Some (Deposit 5) \<and>
     w_now deposited = 0 \<and> w_faults deposited = [] \<and> w_tx deposited = None"
proof -
  have "wp (create_deposit_handler (ae_rn demo_admin) deposit_of_5) (\<lambda>_ t. \<exists>bc.
      w_db t = empty_db\<lparr>balance_changes := \<lparr>t_rows = [bc], t_seq = 1\<rparr>\<rparr> \<and> bc_id bc = 1 \<and>
      bc_account_id bc = 1 \<and> \<not> bc_is_applied bc \<and> content_of_json (bc_content bc) = Some (Deposit 5) \<and>
      w_now t = 0 \<and> w_faults t = [] \<and> w_tx t = None) (world_of empty_db)"
    by (simp add: create_deposit_handler_def with_account_def get_account_by_id_def deposit_of_5_def
        select_accounts_def submit_change_def create_balance_change_def insert_change_sql_def push_balance_def
        no_fault_calls sql_defs violates_def insert_row_def select_rows_def Let_def demo_defs
        from_content_def fresh_change_def content_of_to_json)
  then show ?thesis unfolding deposited_run by (simp add: wp_run_state)
qed

lemma settled_deposit:
  assumes "w_db u = empty_db\<lparr>balance_changes := \<lparr>t_rows = [bc], t_seq = 1\<rparr>\<rparr>" and "bc_id bc = 1"
    and "bc_account_id bc = 1" and "\<not> bc_is_applied bc" and "content_of_json (bc_content bc) = Some (Deposit 5)"
    and "w_now u = 0" and "w_faults u = []" and "w_tx u = None"
  shows "applied_total (w_db (final (work demo_worker (SettlementDelivery \<lparr>bct_balance_change_id = 1\<rparr>)) u)) 1 = 5"
proof -
  have mem: "bc \<in> set (t_rows (balance_changes (w_db u)))" by (simp add: assms)
  have wf: "bill_wf (w_db u)"
    by (simp add: assms bill_wf_def ids_ok_def demo_defs)
  have "w_db (final (settle_balance_change \<lparr>bct_balance_change_id = 1\<rparr>) u) = settled_db 0 bc (Deposit 5) (w_db u)"
    using settle_billed [OF wf mem assms(4,5,8,7)] assms
    by (simp add: settle_error_def demo_defs)
  then show ?thesis
    using settled_applied_total [OF wf mem assms(4,5), of 0 1] assms
    by (simp add: work_def applied_total_def)
qed

theorem program_refines_billing_witness:
  "balance_of (w_db paid) 1 = 5 + used_money_of (w_db paid) 1"
proof -
  have "applied_total (w_db paid) 1 = 5"
    using deposited_db by (elim exE conjE) (rule settled_deposit)
  with program_refines_billing [OF demo_start paid_reached, of 1] show ?thesis by simp
qed

text \<open>C4: from tables without keys, whatever requests, deliveries, commands and spawned tasks come, under
  every schedule of failures, what the tables hold of a key is what encrypting it gives (under a nonce of
  12 bytes when an encryption key is configured, the key itself when none is), and no row has a plain
  text beside it.  It decrypts to that key as long as the crates do what they promise; every credential
  carries the hash of the key it encrypts, and no two credentials have the same hash.\<close>

theorem keys_at_rest:
  assumes "w_tx w0 = None" and "t_rows (api_credentials (w_db w0)) = []"
    and "t_rows (llm_upstreams (w_db w0)) = []" and "program_reach cy w0 w"
  shows "(\<forall>c \<in> set (t_rows (api_credentials (w_db w))). cred_apikey c = '''' \<and>
      (\<exists>key nonce. length nonce = NONCE_SIZE \<and>
         encrypt_if_configured cy nonce key = Inr (cred_encrypted_api_key c) \<and>
         cred_api_key_hash c = hash_api_key cy key \<and>
         (crates_ok cy \<longrightarrow> cy_utf8 cy key \<longrightarrow> decrypt_if_configured cy (cred_encrypted_api_key c) = Inr key))) \<and>
    distinct (map cred_api_key_hash (t_rows (api_credentials (w_db w)))) \<and>
    (\<forall>u \<in> set (t_rows (llm_upstreams (w_db w))). up_api_key u = '''' \<and>
      (\<exists>key nonce. length nonce = NONCE_SIZE \<and>
         encrypt_if_configured cy nonce key = Inr (up_encrypted_api_key u) \<and>
         (crates_ok cy \<longrightarrow> cy_utf8 cy key \<longrightarrow> decrypt_if_configured cy (up_encrypted_api_key u) = Inr key)))"
proof -
  have "keys_sealed cy (w_db w0)" by (simp add: keys_sealed_def assms(2,3))
  with keys.reach_keeps [OF assms(4,1)] have "keys_sealed cy (w_db w)" by blast
  then show ?thesis
    unfolding keys_sealed_def credential_sealed_def upstream_sealed_def list_all_iff seals_def
    by (blast intro: decrypt_encrypt_if_configured)
qed

text \<open>A key created through the admin API.\<close>

definition sealing_admin :: admin_env where
  "sealing_admin = demo_admin\<lparr>ae_crypto := demo_crates, ae_uuid := ''0123456789''\<rparr>"

abbreviation keyed :: world where
  "keyed \<equiv> final (admin_server sealing_admin \<lparr>rq_header = (\<lambda>_. Some ''jwt''), rq_peer = None\<rparr> ''POST''
     [''accounts'', ''1'', ''apikeys''] [] (Some (JObj [(''label'', JStr '''')]))) (world_of empty_db)"

lemma keyed_reached: "program_reach demo_crates (world_of empty_db) keyed"
  by (rule program_reach.step [OF program_reach.start], rule program_step.admin, rule surjective_pairing)
    (simp_all add: sealing_admin_def demo_admin_def NONCE_SIZE_def)

lemma key_routed:
  "route_admin (ae_decimal sealing_admin) ''POST'' [''accounts'', ''1'', ''apikeys''] []
     (Some (JObj [(''label'', JStr '''')])) = Inr (CreateApiKey 1 '''')"
  by code_simp

lemma keyed_run:
  "keyed = final (create_account_apikey_handler demo_crates ''aaaaaaaaaaaa'' ''0123456789'' (ae_rn sealing_admin)
     (acc_id demo_account) '''') (world_of empty_db)"
proof -
  have "admin_server sealing_admin \<lparr>rq_header = (\<lambda>_. Some ''jwt''), rq_peer = None\<rparr> ''POST''
      [''accounts'', ''1'', ''apikeys''] [] (Some (JObj [(''label'', JStr '''')]))
    = serve_call sealing_admin (CreateApiKey 1 '''')"
    by (rule admin_server_authorized [OF key_routed, where token = "''jwt''"
          and cl = "\<lparr>cl_sub = None, cl_exp = None, cl_realm = Some ''api''\<rparr>"])
      (simp_all add: sealing_admin_def demo_admin_def)
  then show ?thesis
    by (simp add: serve_call_def Let_def answered_def sealing_admin_def demo_admin_def demo_account_def
        split: prod.split)
qed

lemma keyed_rows: "\<exists>c. t_rows (api_credentials (w_db keyed)) = [c]"
proof -
  let ?key = "''lpx-0123456789''" and ?nonce = "''aaaaaaaaaaaa''" and ?w = "world_of empty_db"
  have crates: "crates_ok demo_crates" "cy_utf8 demo_crates ?key"
    by (simp_all add: crates_ok_def demo_crates_def)
  have stored: "encrypt_apikey demo_crates ?nonce ?key = Inr (?nonce @ ''T'' @ ?key)"
    by (simp add: encrypt_apikey_def encrypt_if_configured_def is_encryption_configured_def encrypt_def
        get_encryption_key_def demo_crates_def Let_def)
  have shown: "ellipse_api_key ?key = Some ''lpx-01...456789''" by code_simp
  have new: "unused_key demo_crates ?key ?w" "length ?nonce = NONCE_SIZE"
    "?key = generate_api_credential ''0123456789''"
    by (simp_all add: unused_key_def lookup_live_def demo_defs NONCE_SIZE_def generate_api_credential_def)
  have owner: "demo_account \<in> set (t_rows (accounts (w_db ?w)))" "ids_ok acc_id (accounts (w_db ?w))"
    "w_faults ?w = []" "t_rows (api_credentials (w_db ?w)) = []"
    by (simp_all add: demo_defs ids_ok_def)
  note created = key_created [OF owner(3) crates(1) new(2) crates(2) new(3) stored shown new(1) owner(1)]
  have "wp (create_account_apikey_handler demo_crates ?nonce ''0123456789'' (ae_rn sealing_admin)
      (acc_id demo_account) '''') (\<lambda>_ t. \<exists>c. t_rows (api_credentials (w_db t)) = [c]) ?w"
    unfolding create_account_apikey_handler_def with_account_def wp_bind account_by_id [OF owner(3,2,1)]
    using owner(3,4)
    by (simp add: created set_apikey_info_def cache_set_def redis_set_ex_def no_fault_calls)
  then show ?thesis unfolding keyed_run by (simp add: wp_run_state)
qed

theorem keys_at_rest_witness:
  "\<exists>c key. t_rows (api_credentials (w_db keyed)) = [c] \<and> cred_apikey c = '''' \<and>
     cred_api_key_hash c = hash_api_key demo_crates key \<and>
     decrypt_if_configured demo_crates (cred_encrypted_api_key c) = Inr key"
proof -
  have "crates_ok demo_crates" and "\<And>key. cy_utf8 demo_crates key"
    by (simp_all add: crates_ok_def demo_crates_def)
  then show ?thesis
    using keys_at_rest [OF _ _ _ keyed_reached] keyed_rows by (fastforce simp: demo_defs)
qed

end
