(* ===== verification/Spec2Isabelle.thy ===== *)
theory Spec2Isabelle
  imports BillingClaims RateLimitClaims AuthClaims Listings StoredKeys RoutingClaims ChatClaims GateClaims
    StoredClaims Features PassthroughClaims AdminTypes ControlClaims ControlWrites
    SetupClaims ProgramClaims
begin

text \<open>
  A model of \<^verbatim>\<open>llmpool\<close> (\<^verbatim>\<open>src/crates/llmpool\<close>), a proxy in front of LLM
  upstreams that authenticates clients, limits their rate, routes their requests to an upstream that
  offers the model, records what was used, and bills it; and of its properties.

  \<^bold>\<open>The program.\<close>  Two HTTP servers share a PostgreSQL database and a Redis server.  The
  proxies (\<^verbatim>\<open>openai/\<close>, \<^verbatim>\<open>anthropic/\<close>) answer API clients: the middlewares limit
  the rate and authenticate, the handlers check the wallet, choose upstreams, call them, and push the
  events of the exchange to a queue.  Workers (\<^verbatim>\<open>defer/tasks/\<close>) take events from the queue,
  write them and a balance change, and queue the settlement, which charges a subscription or the wallet;
  a periodic task probes offline upstreams.  The admin server (\<^verbatim>\<open>views/\<close>) manages accounts,
  keys, upstreams, models, plans, subscriptions and balances, and passes requests through to an upstream;
  \<^verbatim>\<open>llmpool-ctl\<close> (\<^verbatim>\<open>src/crates/llmpool-ctl\<close>) is its command line client.

  \<^bold>\<open>State and effects.\<close>  \<open>World\<close> is the database (a record of tables, each the
  list of its rows with its sequence), \<open>Effects\<close> the whole state \<open>world\<close>: database, Redis, queues,
  clock, the upstreams spawned tasks are about to mark offline, the open transaction, and \<open>w_faults\<close>,
  which says of every external call to come whether it fails.  A function of the source is a definition
  in the state monad \<open>io\<close>; a \<^verbatim>\<open>Result\<close> is a sum, its \<^verbatim>\<open>?\<close> is \<open>bind_ok\<close>.  A property
  that quantifies over the world quantifies over all schedules of failures.  \<open>Prelude\<close> holds the
  weakest-precondition calculus, \<open>Transactions\<close> the triples for the body of a transaction.
  64-bit integers that can wrap are written out (\<open>wrap_i64\<close>, \<open>wrap_i32\<close>, \<open>wrap_u64\<close>).

  \<^bold>\<open>Theories and sources.\<close>
  \<^item> \<open>Models\<close>, \<open>Events\<close>: \<^verbatim>\<open>models/*.rs\<close>, \<^verbatim>\<open>defer/mod.rs\<close>, payload types.
  \<^item> \<open>Sql\<close>: the shapes of the SQL statements and the \<^verbatim>\<open>sqlx\<close> calls that run them.
  \<^item> \<open>Subscriptions\<close>, \<open>Wallets\<close>, \<open>Catalog\<close>, \<open>Accounts\<close>, \<open>MetaTables\<close>: \<^verbatim>\<open>db/*.rs\<close>;
    \<open>Crypto\<close>: \<^verbatim>\<open>crypto.rs\<close>; \<open>Caches\<close>, \<open>Counters\<close>: \<^verbatim>\<open>redis_utils/\<close>.
  \<^item> \<open>Billing\<close>: \<^verbatim>\<open>defer/tasks/*_event.rs\<close> and \<^verbatim>\<open>balance_change.rs\<close>; \<open>Ledger\<close> is
    what a settlement promises, \<open>BillingSystem\<close> the transition system of all billing operations.
  \<^item> \<open>Pagination\<close>, \<open>AdminApi\<close>: \<^verbatim>\<open>views/admin_rest_api.rs\<close>; \<open>Passthrough\<close>:
    \<^verbatim>\<open>views/passthrough.rs\<close>.
  \<^item> \<open>Wire\<close>: the JSON objects of requests and answers; \<open>AdminServer\<close>: the routes of the admin API
    (\<^verbatim>\<open>get_router\<close>), the extraction of paths, queries and bodies, the admin middleware in front.
  \<^item> \<open>Control\<close>: \<^verbatim>\<open>llmpool-ctl/src/client.rs\<close>, a command as a tree of requests and printed lines;
    \<open>ControlTypes\<close>: what the client reads back; \<open>ControlPrint\<close>, \<open>ControlAccounts\<close>, \<open>ControlCatalog\<close>:
    \<^verbatim>\<open>cmds/*.rs\<close> and \<^verbatim>\<open>main.rs\<close>.  \<open>ControlRoutes\<close> leads each command to its handler.
  \<^item> \<open>Http\<close>, \<open>RateLimit\<close>, \<open>Auth\<close>: \<^verbatim>\<open>config.rs\<close> and \<^verbatim>\<open>middlewares/\<close>.
  \<^item> \<open>Routing\<close>: the two \<^verbatim>\<open>proxy_views/helpers.rs\<close>, \<^verbatim>\<open>defer/tasks/upstream_health.rs\<close>;
    \<open>Tracer\<close>: the session tracers; \<open>OpenAIProxy\<close>, \<open>OpenAIResponses\<close>, \<open>OpenAIFiles\<close>, \<open>Uploads\<close>,
    \<open>AnthropicProxy\<close>, \<open>AnthropicStored\<close>: the other files of \<^verbatim>\<open>proxy_views/\<close>; \<open>Features\<close>:
    the probes of \<^verbatim>\<open>features.rs\<close>.
  \<^item> \<open>Setup\<close>: \<^verbatim>\<open>config.rs\<close>, \<^verbatim>\<open>db/core.rs\<close>, the commands of \<^verbatim>\<open>main.rs\<close>; \<open>Server\<close>:
    the routes of both proxies and of the passthrough, the layers around them, and \<^verbatim>\<open>server.rs\<close>;
    \<open>ProxyServers\<close>: which handler an endpoint runs; \<open>Process\<close>: \<^verbatim>\<open>defer/worker.rs\<close> and \<^verbatim>\<open>main\<close>.
    \<open>Operations\<close> shows what every operation outside billing keeps of the database; \<open>EntryPoints\<close> makes
    the whole one transition relation, \<open>program_step\<close>: a request, a delivery, a command, a spawned
    task, or a change of the surroundings.
  \<^item> \<open>Demo\<close>, \<open>ProxyDemo\<close>: the concrete systems the witnesses run on.

  \<^bold>\<open>Properties.\<close>  \<open>BillingClaims\<close> (C1-C3, C5-C11): each change is applied once, books balance,
  charges, batch prices, quota, lost updates.  \<open>AuthClaims\<close> (C12-C15): who gets through, how fast a
  revocation acts.  \<open>RateLimitClaims\<close> (C16, C17): the sorted set is a sliding window, and bounds the
  requests it admits.  \<open>Listings\<close> (C18, C19): pages partition a list, the cursor ends.
  \<open>StoredKeys\<close> (C20): keys survive the way into the database and back.  \<open>RoutingClaims\<close>,
  \<open>ChatClaims\<close>, \<open>GateClaims\<close> (C21-C29): least-used routing, failover, which events an exchange
  records and which usage is billed, session numbering, the wallet gate, leaving and rejoining the rotation;
  they rest on \<open>Selection\<close> (locale \<open>retry\<close>, the loop over candidates) and \<open>Serving\<close> (its
  interpretations).  \<open>StoredClaims\<close> (C30, C32): files, batches and responses under the
  program's own identifiers.  \<open>SetupClaims\<close> (C31, C36, C38): a key made at the command line
  authenticates its account, the server cannot start with the routes it has, a token never expires.
  \<open>ProgramClaims\<close> (C33, C4): every run of the whole program is a run of \<open>BillingSystem\<close>, so its invariants are
  those of the program; what it stores of a key is its encryption and hash (\<open>KeyStore\<close>).  \<open>ControlClaims\<close> (C34, C35): the client reads back what the server writes, a
  \<^verbatim>\<open>--json\<close> command is the call of the handler it names.  \<open>ControlWrites\<close> (C37): a command writes at
  most once.
  \<open>PassthroughClaims\<close> (C39): what the passthrough hides.  \<open>AdminTypes\<close> (C40): which statuses and
  bodies the admin API answers.

  \<^bold>\<open>Locales.\<close>  Each is a contract with interpretations on the model: \<open>id_map\<close> (the three
  identifier tables), \<open>paged_list\<close> (every listing of the admin API), \<open>retry\<close> (every endpoint that
  tries several upstreams), \<open>wire_format\<close> (the types both programs exchange as JSON), and those of the caches and
  the billing steps; \<open>effect_order\<close> is the calculus of what a handler leaves alone, used for frames and for
  invariants of the database.  \<open>database\<close> is the contract of the functions of \<^verbatim>\<open>db/\<close> that write, with the
  lemmas of every handler, server and process above them; \<open>whole_database\<close> extends it to every step of the
  program.  The first is interpreted for the tables of billing (no other operation writes them), the second
  for the keys at rest.

  \<^bold>\<open>Bounds.\<close>  No fuel is used: every loop of the modelled code runs over a finite list
  (candidates, events of a stream, fields of a form, offline upstreams, pages of a finite table), and the
  recursion is structural or on a measure that is proved.  The loops of the servers and workers are the
  steps of \<open>BillingSystem\<close> and of the transition systems of the claims.

  \<^bold>\<open>Arguments of the model.\<close>  Code outside \<^verbatim>\<open>src/\<close> is an argument: the cryptographic
  crates (\<open>crypto_env\<close>), JWT decoding, the SDK and HTTP exchanges with an upstream (\<open>send\<close>,
  \<open>transport\<close>, \<open>pt_send\<close>), UUIDs, printing of times and decimals (\<open>renderers\<close>), the conversion of
  Redis replies (\<open>px_conv\<close>), JSON serialisation of SDK types (\<open>ser\<close>),
  URL parsing and terminal facts of the client (\<open>ctl_env\<close>), the exchange of its HTTP library, what the extractors read in a
  body and the upstream answers (\<open>openai_env\<close>, \<open>anthropic_env\<close>), files, variables, connections and sockets
  of the processes (\<open>os_env\<close>, \<open>server_env\<close>, \<open>worker_env\<close>, \<open>main_env\<close>).  Laws assumed of them are
  named hypotheses (such as \<open>crates_ok\<close>), each with a witness.

  \<^bold>\<open>Not modelled.\<close>  Telemetry (\<^verbatim>\<open>telemetry.rs\<close>) but for the panic of its start: calls of
  libraries only.  The SQL of the migrations (their constraints are in the statements of \<open>db/\<close>), CORS headers,
  \<^verbatim>\<open>HEAD\<close> and \<^verbatim>\<open>OPTIONS\<close> requests of the framework, dead code (the streaming of responses).
  Interleaving inside one
  handler: a handler is one step, only spawned tasks run later.  Lost acknowledgements of a commit, gaps a
  rolled back insert leaves in a sequence, and time passing inside a handler.
\<close>

end
